(* ===== verification/Prelude.thy ===== *)
theory Prelude
  imports Main "HOL-Library.Char_ord" "HOL-Library.List_Lexorder"
begin

text \<open>
  Shared vocabulary of the development: the collections its automation is built on, the
  64-bit arithmetic of Go's \<^verbatim>\<open>int64\<close>, and the list lemmas that several
  components use (updating the rows of a table that satisfy a condition, counting rows,
  sums over rows, looking a row up by key).
\<close>

named_theorems keeps_intros \<open>introduction rules: an operation keeps a predicate of the database\<close>
named_theorems run_simps \<open>equations that run an operation on a state\<close>
named_theorems wf_simps \<open>well-formedness of the tables\<close>

subsection \<open>Go's int64 and truncating division\<close>

definition int64 :: "int \<Rightarrow> int" where
  "int64 x = (x + 2 ^ 63) mod 2 ^ 64 - 2 ^ 63"

definition in_int64 :: "int \<Rightarrow> bool" where
  "in_int64 x \<longleftrightarrow> - (2 ^ 63) \<le> x \<and> x < 2 ^ 63"

definition quot :: "int \<Rightarrow> int \<Rightarrow> int" where
  "quot a b = sgn a * sgn b * (\<bar>a\<bar> div \<bar>b\<bar>)"

lemma int64_id [simp]: "in_int64 x \<Longrightarrow> int64 x = x"
  by (simp add: int64_def in_int64_def)

lemma int64_range: "in_int64 (int64 x)"
  by (simp add: int64_def in_int64_def)

lemma quot_nonneg [simp]: "0 \<le> a \<Longrightarrow> 0 \<le> b \<Longrightarrow> quot a b = a div b"
  by (cases "a = 0"; cases "b = 0") (auto simp: quot_def sgn_if)

subsection \<open>Rows of a table\<close>

text \<open>\<open>update_where p f\<close> is the effect of an UPDATE statement: \<open>f\<close> on every row with \<open>p\<close>.\<close>

definition update_where :: "('r \<Rightarrow> bool) \<Rightarrow> ('r \<Rightarrow> 'r) \<Rightarrow> 'r list \<Rightarrow> 'r list" where
  "update_where p f rs = map (\<lambda>r. if p r then f r else r) rs"

definition count_where :: "('r \<Rightarrow> bool) \<Rightarrow> 'r list \<Rightarrow> nat" where
  "count_where p rs = length (filter p rs)"

definition delete_where :: "('r \<Rightarrow> bool) \<Rightarrow> 'r list \<Rightarrow> 'r list" where
  "delete_where p rs = filter (\<lambda>r. \<not> p r) rs"

definition sum_where :: "('r \<Rightarrow> bool) \<Rightarrow> ('r \<Rightarrow> int) \<Rightarrow> 'r list \<Rightarrow> int" where
  "sum_where p f rs = sum_list (map f (filter p rs))"

lemma update_where_Nil [simp]: "update_where p f [] = []"
  and update_where_Cons [simp]:
    "update_where p f (r # rs) = (if p r then f r else r) # update_where p f rs"
  by (simp_all add: update_where_def)

lemma count_where_Nil [simp]: "count_where p [] = 0"
  and count_where_Cons [simp]:
    "count_where p (r # rs) = (if p r then Suc (count_where p rs) else count_where p rs)"
  and count_where_append [simp]:
    "count_where p (rs @ ss) = count_where p rs + count_where p ss"
  by (simp_all add: count_where_def)

lemma delete_where_Nil [simp]: "delete_where p [] = []"
  and delete_where_Cons [simp]:
    "delete_where p (r # rs) = (if p r then delete_where p rs else r # delete_where p rs)"
  and set_delete_where [simp]: "set (delete_where p rs) = {r \<in> set rs. \<not> p r}"
  by (auto simp add: delete_where_def)

lemma sum_where_Nil [simp]: "sum_where p f [] = 0"
  and sum_where_Cons [simp]:
    "sum_where p f (r # rs) = (if p r then f r + sum_where p f rs else sum_where p f rs)"
  and sum_where_append [simp]:
    "sum_where p f (rs @ ss) = sum_where p f rs + sum_where p f ss"
  by (simp_all add: sum_where_def)

lemma length_update_where [simp]: "length (update_where p f rs) = length rs"
  by (simp add: update_where_def)

lemma set_update_where: "set (update_where p f rs) = (\<lambda>r. if p r then f r else r) ` set rs"
  by (simp add: update_where_def)

lemma map_update_where_same:
  "(\<And>r. r \<in> set rs \<Longrightarrow> p r \<Longrightarrow> g (f r) = g r) \<Longrightarrow> map g (update_where p f rs) = map g rs"
  by (induction rs) auto

lemma update_where_cong:
  "(\<And>r. r \<in> set rs \<Longrightarrow> p r \<Longrightarrow> f r = g r) \<Longrightarrow> update_where p f rs = update_where p g rs"
  by (induction rs) auto

lemma update_where_twice:
  "(\<And>r. p (f r) = p r) \<Longrightarrow> update_where p g (update_where p f rs) = update_where p (\<lambda>r. g (f r)) rs"
  by (induction rs) auto

lemma update_where_id: "(\<And>r. r \<in> set rs \<Longrightarrow> p r \<Longrightarrow> f r = r) \<Longrightarrow> update_where p f rs = rs"
  by (induction rs) auto

lemma update_where_none: "count_where p rs = 0 \<Longrightarrow> update_where p f rs = rs"
  by (induction rs) (auto split: if_splits)

lemma count_where_cong:
  "(\<And>r. r \<in> set rs \<Longrightarrow> p r = q r) \<Longrightarrow> count_where p rs = count_where q rs"
  by (induction rs) auto

lemma count_where_mono:
  "(\<And>r. r \<in> set rs \<Longrightarrow> p r \<Longrightarrow> q r) \<Longrightarrow> count_where p rs \<le> count_where q rs"
  by (induction rs) (auto intro: le_SucI)

lemma count_where_0_iff: "count_where p rs = 0 \<longleftrightarrow> (\<forall>r \<in> set rs. \<not> p r)"
  by (induction rs) auto

lemma count_where_pos_iff: "0 < count_where p rs \<longleftrightarrow> (\<exists>r \<in> set rs. p r)"
  by (induction rs) auto

lemma count_where_update_same:
  "(\<And>r. r \<in> set rs \<Longrightarrow> p r \<Longrightarrow> q (f r) = q r) \<Longrightarrow>
   count_where q (update_where p f rs) = count_where q rs"
  by (induction rs) auto

lemma count_where_update_drop:
  "(\<And>r. r \<in> set rs \<Longrightarrow> q r \<Longrightarrow> p r \<and> \<not> p (f r)) \<Longrightarrow>
   count_where p (update_where q f rs) + count_where q rs = count_where p rs"
  by (induction rs) auto

lemma count_where_conj_le: "count_where (\<lambda>r. p r \<and> q r) rs \<le> count_where p rs"
  by (rule count_where_mono) simp

lemma count_where_le_length: "count_where p rs \<le> length rs"
  by (induction rs) auto

lemma sum_where_update_same:
  "(\<And>r. r \<in> set rs \<Longrightarrow> p r \<Longrightarrow> q (f r) = q r \<and> g (f r) = g r) \<Longrightarrow>
   sum_where q g (update_where p f rs) = sum_where q g rs"
  by (induction rs) auto

lemma map_filter_keys:
  assumes "\<And>u x. f u = Some x \<Longrightarrow> fst x = fst u"
  shows "fst ` set (List.map_filter f us) \<subseteq> fst ` set us"
    and "distinct (map fst us) \<Longrightarrow> distinct (map fst (List.map_filter f us))"
proof -
  show sub: "fst ` set (List.map_filter f us) \<subseteq> fst ` set us" for us
    using assms by (induction us) (auto simp: List.map_filter_simps split: option.splits)
  show "distinct (map fst us) \<Longrightarrow> distinct (map fst (List.map_filter f us))"
  proof (induction us)
    case (Cons u us)
    then show ?case
      using sub [of us] assms [of u] by (auto simp: List.map_filter_simps split: option.splits)
  qed (simp add: List.map_filter_simps)
qed

text \<open>A column with distinct values is a key: at most one row has a given value of it.\<close>

lemma count_where_key_le_1:
  "distinct (map k rs) \<Longrightarrow> count_where (\<lambda>r. k r = x) rs \<le> 1"
proof (induction rs)
  case Nil
  then show ?case by simp
next
  case (Cons r rs)
  show ?case
  proof (cases "k r = x")
    case True
    with Cons.prems have "count_where (\<lambda>r. k r = x) rs = 0"
      by (auto simp: count_where_0_iff rev_image_eqI)
    with True show ?thesis by simp
  next
    case False
    with Cons show ?thesis by simp
  qed
qed

lemma find_key_unique:
  assumes "distinct (map k rs)" "r \<in> set rs" "k r = x"
  shows "find (\<lambda>r. k r = x) rs = Some r"
  using assms by (induction rs) (auto simp: rev_image_eqI)

lemma find_SomeD: "find p rs = Some r \<Longrightarrow> r \<in> set rs \<and> p r"
  by (induction rs) (auto split: if_splits)

lemma find_None_count: "find p rs = None \<longleftrightarrow> count_where p rs = 0"
  by (induction rs) auto

lemma distinct_map_delete_where: "distinct (map k rs) \<Longrightarrow> distinct (map k (delete_where p rs))"
  by (simp add: delete_where_def distinct_map_filter)

lemma find_update_where_other:
  "(\<And>r. r \<in> set rs \<Longrightarrow> p r \<Longrightarrow> q (f r) = q r \<and> \<not> q r) \<Longrightarrow>
   find q (update_where p f rs) = find q rs"
  by (induction rs) auto

lemma find_update_where_hit:
  "(\<And>r. r \<in> set rs \<Longrightarrow> p r \<Longrightarrow> p (f r)) \<Longrightarrow>
   find p (update_where p f rs) = map_option f (find p rs)"
  by (induction rs) auto

end
