(* ===== verification/Go_Strings.thy ===== *)
theory Go_Strings
  imports Prelude
begin

text \<open>
  The part of Go's standard library on strings that the modelled code uses. A Go string is
  a sequence of bytes, which is what \<open>string\<close> (a list of \<open>char\<close>, each a byte) is:
  decoding of runes (\<^verbatim>\<open>unicode/utf8\<close>), \<^verbatim>\<open>strings\<close> (TrimSpace, Split, Join,
  HasPrefix, Index), \<^verbatim>\<open>%d\<close> and \<^verbatim>\<open>%v\<close> of \<^verbatim>\<open>fmt\<close>,
  \<^verbatim>\<open>strconv.Quote\<close> (the verb \<^verbatim>\<open>%q\<close>) and \<^verbatim>\<open>encoding/hex\<close>.
\<close>

subsection \<open>Bytes\<close>

abbreviation byte :: "char \<Rightarrow> nat" where
  "byte c \<equiv> of_char c"

definition chr :: "nat \<Rightarrow> char" where
  "chr n = char_of n"

lemma byte_chr [simp]: "n < 256 \<Longrightarrow> byte (chr n) = n"
  by (simp add: chr_def)

lemma chr_byte [simp]: "chr (byte c) = c"
  by (simp add: chr_def)

lemma byte_less [simp]: "byte c < 256"
proof -
  have "byte c = (of_char (char_of (byte c) :: char) :: nat)" by (simp only: char_of_char)
  then have "byte c = byte c mod 256" by (simp only: of_char_of)
  moreover have "byte c mod 256 < 256" by (rule mod_less_divisor) simp
  ultimately show ?thesis by (simp only:)
qed

lemma byte_inject [simp]: "byte c = byte d \<longleftrightarrow> c = d"
  by simp

definition is_digit :: "char \<Rightarrow> bool" where
  "is_digit c \<longleftrightarrow> 48 \<le> byte c \<and> byte c \<le> 57"

definition is_alpha :: "char \<Rightarrow> bool" where
  "is_alpha c \<longleftrightarrow> 97 \<le> byte c \<and> byte c \<le> 122 \<or> 65 \<le> byte c \<and> byte c \<le> 90"

definition newline :: char where
  "newline = CHR 0x0A"

subsection \<open>UTF-8 (utf8.DecodeRuneInString)\<close>

definition is_cont :: "char \<Rightarrow> bool" where
  "is_cont c \<longleftrightarrow> 128 \<le> byte c \<and> byte c < 192"

definition rune_error :: nat where
  "rune_error = 0xFFFD"

text \<open>
  The rune at the front and its width; \<open>rune_error\<close> with width 1 at a byte that starts no
  valid sequence (overlong forms, surrogates and values above U+10FFFF are not valid), and
  width 0 at the end.
\<close>

definition decode2 :: "nat \<Rightarrow> char \<Rightarrow> nat \<times> nat" where
  "decode2 a b =
     (if is_cont b then ((a - 192) * 64 + (byte b - 128), 2) else (rune_error, 1))"

definition decode3 :: "nat \<Rightarrow> char \<Rightarrow> char \<Rightarrow> nat \<times> nat" where
  "decode3 a b c =
     (let r = (a - 224) * 4096 + (byte b - 128) * 64 + (byte c - 128)
      in if is_cont b \<and> is_cont c \<and> 0x800 \<le> r \<and> \<not> (0xD800 \<le> r \<and> r \<le> 0xDFFF)
         then (r, 3) else (rune_error, 1))"

definition decode4 :: "nat \<Rightarrow> char \<Rightarrow> char \<Rightarrow> char \<Rightarrow> nat \<times> nat" where
  "decode4 a b c d =
     (let r = (a - 240) * 262144 + (byte b - 128) * 4096 + (byte c - 128) * 64 + (byte d - 128)
      in if is_cont b \<and> is_cont c \<and> is_cont d \<and> 0x10000 \<le> r \<and> r \<le> 0x10FFFF
         then (r, 4) else (rune_error, 1))"

definition decode_rune :: "string \<Rightarrow> nat \<times> nat" where
  "decode_rune s =
     (case s of
        [] \<Rightarrow> (rune_error, 0)
      | c0 # t \<Rightarrow>
          (let a = byte c0 in
           if a < 128 then (a, 1)
           else if a < 194 then (rune_error, 1)
           else if a < 224 then (case t of c1 # _ \<Rightarrow> decode2 a c1 | _ \<Rightarrow> (rune_error, 1))
           else if a < 240 then (case t of c1 # c2 # _ \<Rightarrow> decode3 a c1 c2 | _ \<Rightarrow> (rune_error, 1))
           else if a < 245 then (case t of c1 # c2 # c3 # _ \<Rightarrow> decode4 a c1 c2 c3 | _ \<Rightarrow> (rune_error, 1))
           else (rune_error, 1)))"

lemma decode_rune_width: "s \<noteq> [] \<Longrightarrow> 1 \<le> snd (decode_rune s) \<and> snd (decode_rune s) \<le> length s"
  by (auto simp: decode_rune_def decode2_def decode3_def decode4_def Let_def split: list.splits)

lemma decode_rune_ascii: "byte c < 128 \<Longrightarrow> decode_rune (c # s) = (byte c, 1)"
  by (simp add: decode_rune_def)

text \<open>The string cut into the byte sequences of its runes.\<close>

function chunks :: "string \<Rightarrow> string list" where
  "chunks s = (if s = [] then []
     else let n = snd (decode_rune s) in take n s # chunks (drop n s))"
  by pat_completeness auto
termination
proof (relation "measure length")
  fix s :: string and n
  assume "s \<noteq> []" and "n = snd (decode_rune s)"
  then show "(drop n s, s) \<in> measure length"
    using decode_rune_width [of s] by (cases s) auto
qed simp

declare chunks.simps [simp del]

lemma chunks_Nil [simp]: "chunks [] = []"
  by (simp add: chunks.simps)

lemma chunks_nonempty:
  "s \<noteq> [] \<Longrightarrow> chunks s = take (snd (decode_rune s)) s # chunks (drop (snd (decode_rune s)) s)"
  by (subst chunks.simps) (simp add: Let_def)

lemma chunks_ascii: "byte c < 128 \<Longrightarrow> chunks (c # s) = [c] # chunks s"
  by (simp add: chunks_nonempty decode_rune_ascii)

lemma concat_chunks [simp]: "concat (chunks s) = s"
proof (induction s rule: chunks.induct)
  case (1 s)
  show ?case
  proof (cases "s = []")
    case False
    with 1 show ?thesis by (subst chunks.simps) (simp add: Let_def)
  qed simp
qed

lemma chunks_all_ascii: "\<forall>c \<in> set s. byte c < 128 \<Longrightarrow> chunks s = map (\<lambda>c. [c]) s"
  by (induction s) (simp_all add: chunks_ascii)

text \<open>The encoding of a rune (utf8.AppendRune): a surrogate or an out-of-range rune is U+FFFD.\<close>

definition encode_rune :: "nat \<Rightarrow> string" where
  "encode_rune r =
     (let r = (if 0x10FFFF < r \<or> 0xD800 \<le> r \<and> r \<le> 0xDFFF then rune_error else r) in
      if r < 0x80 then [chr r]
      else if r < 0x800 then [chr (192 + r div 64), chr (128 + r mod 64)]
      else if r < 0x10000
        then [chr (224 + r div 4096), chr (128 + (r div 64) mod 64), chr (128 + r mod 64)]
      else [chr (240 + r div 262144), chr (128 + (r div 4096) mod 64),
            chr (128 + (r div 64) mod 64), chr (128 + r mod 64)])"

subsection \<open>strings.TrimSpace, Split, Join, HasPrefix, Index\<close>

definition is_space :: "nat \<Rightarrow> bool" where
  "is_space r \<longleftrightarrow> 9 \<le> r \<and> r \<le> 13 \<or>
     r \<in> {0x20, 0x85, 0xA0, 0x1680, 0x2028, 0x2029, 0x202F, 0x205F, 0x3000} \<or>
     0x2000 \<le> r \<and> r \<le> 0x200A"

definition space_chunk :: "string \<Rightarrow> bool" where
  "space_chunk s \<longleftrightarrow> is_space (fst (decode_rune s))"

definition trim_space :: "string \<Rightarrow> string" where
  "trim_space s =
     concat (rev (dropWhile space_chunk (rev (dropWhile space_chunk (chunks s)))))"

fun split_char :: "char \<Rightarrow> string \<Rightarrow> string list" where
  "split_char d [] = [[]]"
| "split_char d (c # s) =
     (if c = d then [] # split_char d s
      else case split_char d s of [] \<Rightarrow> [[c]] | p # ps \<Rightarrow> (c # p) # ps)"

fun join :: "string \<Rightarrow> string list \<Rightarrow> string" where
  "join sep [] = []"
| "join sep [s] = s"
| "join sep (s # ss) = s @ sep @ join sep ss"

fun has_prefix :: "string \<Rightarrow> string \<Rightarrow> bool" where
  "has_prefix s [] = True"
| "has_prefix [] (p # ps) = False"
| "has_prefix (c # s) (p # ps) = (c = p \<and> has_prefix s ps)"

fun index_char :: "char \<Rightarrow> string \<Rightarrow> nat option" where
  "index_char d [] = None"
| "index_char d (c # s) = (if c = d then Some 0 else map_option Suc (index_char d s))"

fun last_index_char :: "char \<Rightarrow> string \<Rightarrow> nat option" where
  "last_index_char d [] = None"
| "last_index_char d (c # s) =
     (case last_index_char d s of
        Some n \<Rightarrow> Some (Suc n)
      | None \<Rightarrow> if c = d then Some 0 else None)"

lemma trim_space_ascii:
  assumes "list_all (\<lambda>c. byte c < 128) s" "s \<noteq> []"
    and "\<not> is_space (byte (hd s))" "\<not> is_space (byte (last s))"
  shows "trim_space s = s"
proof -
  have s: "chunks s = map (\<lambda>c. [c]) s"
    using assms(1) by (intro chunks_all_ascii) (simp add: list_all_iff)
  have sc: "space_chunk [c] \<longleftrightarrow> is_space (byte c)" if "c \<in> set s" for c
    using assms(1) that by (simp add: list_all_iff space_chunk_def decode_rune_ascii)
  have d: "dropWhile space_chunk xs = xs" if "xs \<noteq> []" "\<not> space_chunk (hd xs)" for xs
    using that by (cases xs) auto
  have "dropWhile space_chunk (chunks s) = chunks s"
    using assms(2,3) by (intro d) (simp_all add: s hd_map sc)
  moreover have "dropWhile space_chunk (rev (chunks s)) = rev (chunks s)"
    using assms(2,4) by (intro d) (simp_all add: s hd_rev last_map sc)
  ultimately show ?thesis by (simp add: trim_space_def)
qed

lemma split_char_nonempty: "split_char d s \<noteq> []"
  by (induction s) (auto split: list.splits)

lemma join_Cons: "ss \<noteq> [] \<Longrightarrow> join sep (s # ss) = s @ sep @ join sep ss"
  by (cases ss) auto

lemma join_split_char [simp]: "join [d] (split_char d s) = s"
proof (induction s)
  case Nil
  then show ?case by simp
next
  case (Cons c s)
  obtain p ps where s: "split_char d s = p # ps"
    using split_char_nonempty by (meson neq_Nil_conv)
  with Cons.IH show ?case
    by (cases ps) (auto simp: join_Cons)
qed

lemma split_char_absent: "d \<notin> set s \<Longrightarrow> split_char d s = [s]"
  by (induction s) auto

lemma split_char_append: "d \<notin> set p \<Longrightarrow> split_char d (p @ d # s) = p # split_char d s"
  by (induction p) auto

lemma split_char_no_sep: "p \<in> set (split_char d s) \<Longrightarrow> d \<notin> set p"
  by (induction s arbitrary: p) (auto split: if_splits list.splits)

lemma split_join:
  "ss \<noteq> [] \<Longrightarrow> \<forall>s \<in> set ss. d \<notin> set s \<Longrightarrow> split_char d (join [d] ss) = ss"
proof (induction ss)
  case (Cons s ss)
  then show ?case
    by (cases ss) (auto simp: split_char_absent split_char_append)
qed simp

lemma has_prefix_iff: "has_prefix s p \<longleftrightarrow> (\<exists>t. s = p @ t)"
  by (induction s p rule: has_prefix.induct) auto

lemma index_char_Some: "index_char d s = Some n \<Longrightarrow> n < length s \<and> s ! n = d \<and> d \<notin> set (take n s)"
  by (induction s arbitrary: n) (auto split: if_splits)

lemma index_char_None: "index_char d s = None \<longleftrightarrow> d \<notin> set s"
  by (induction s) auto

lemma last_index_char_Some:
  "last_index_char d s = Some n \<Longrightarrow> n < length s \<and> s ! n = d \<and> d \<notin> set (drop (Suc n) s)"
proof (induction s arbitrary: n)
  case (Cons c s)
  have "last_index_char d s = None \<Longrightarrow> d \<notin> set s"
    by (induction s) (auto split: option.splits if_splits)
  with Cons show ?case by (auto split: option.splits if_splits)
qed simp

lemma last_index_char_None: "last_index_char d s = None \<longleftrightarrow> d \<notin> set s"
  by (induction s) (auto split: option.splits)

subsection \<open>fmt: the verbs %d and %v of an integer and a bool\<close>

fun show_nat :: "nat \<Rightarrow> string" where
  "show_nat n = (if n < 10 then [chr (48 + n)] else show_nat (n div 10) @ [chr (48 + n mod 10)])"

declare show_nat.simps [simp del]

definition show_int :: "int \<Rightarrow> string" where
  "show_int i = (if i < 0 then ''-'' @ show_nat (nat (- i)) else show_nat (nat i))"

definition show_bool :: "bool \<Rightarrow> string" where
  "show_bool b = (if b then ''true'' else ''false'')"

fun nat_of_digits :: "nat \<Rightarrow> string \<Rightarrow> nat" where
  "nat_of_digits acc [] = acc"
| "nat_of_digits acc (c # s) = nat_of_digits (10 * acc + (byte c - 48)) s"

lemma show_nat_digits: "\<forall>c \<in> set (show_nat n). is_digit c"
proof (induction n rule: show_nat.induct)
  case (1 n)
  show ?case
  proof (cases "n < 10")
    case True
    then show ?thesis by (subst show_nat.simps) (simp add: is_digit_def)
  next
    case False
    have "n mod 10 < 10" by simp
    then have "is_digit (chr (48 + n mod 10))" by (simp add: is_digit_def)
    with False 1 show ?thesis by (subst show_nat.simps) auto
  qed
qed

lemma show_nat_nonempty [simp]: "show_nat n \<noteq> []"
  by (subst show_nat.simps) simp

lemma nat_of_digits_append:
  "nat_of_digits acc (s @ t) = nat_of_digits (nat_of_digits acc s) t"
  by (induction acc s rule: nat_of_digits.induct) auto

lemma nat_of_digits_show_nat [simp]: "nat_of_digits 0 (show_nat n) = n"
proof (induction n rule: show_nat.induct)
  case (1 n)
  show ?case
  proof (cases "n < 10")
    case True
    then show ?thesis by (subst show_nat.simps) simp
  next
    case False
    have "n mod 10 < 10" by simp
    then have "byte (chr (48 + n mod 10)) = 48 + n mod 10" by simp
    with False 1 show ?thesis
      by (subst show_nat.simps) (simp add: nat_of_digits_append)
  qed
qed

lemma show_nat_inject [simp]: "show_nat m = show_nat n \<longleftrightarrow> m = n"
  by (metis nat_of_digits_show_nat)

lemma show_int_inject [simp]: "show_int i = show_int j \<longleftrightarrow> i = j"
proof
  assume eq: "show_int i = show_int j"
  have dash: "CHR ''-'' \<notin> set (show_nat n)" for n
    using show_nat_digits [of n] by (auto simp: is_digit_def)
  have neq: "''-'' @ s \<noteq> show_nat n" for s n
  proof
    assume "''-'' @ s = show_nat n"
    then have "CHR ''-'' \<in> set (show_nat n)"
      by (metis append_Cons list.set_intros(1))
    with dash show False by blast
  qed
  have neq': "show_nat n \<noteq> ''-'' @ s" for s n
    using neq by metis
  from eq show "i = j"
    using neq neq' by (auto simp: show_int_def split: if_splits)
qed simp

subsection \<open>encoding/hex\<close>

definition hex_digit :: "nat \<Rightarrow> char" where
  "hex_digit n = (if n < 10 then chr (48 + n) else chr (87 + n))"

definition hex_encode :: "string \<Rightarrow> string" where
  "hex_encode s = concat (map (\<lambda>c. [hex_digit (byte c div 16), hex_digit (byte c mod 16)]) s)"

definition unhex :: "char \<Rightarrow> nat option" where
  "unhex c =
     (let b = byte c in
      if 48 \<le> b \<and> b \<le> 57 then Some (b - 48)
      else if 97 \<le> b \<and> b \<le> 102 then Some (b - 87)
      else if 65 \<le> b \<and> b \<le> 70 then Some (b - 55)
      else None)"

text \<open>\<open>None\<close> is the error of DecodeString: a byte that is no hex digit, or an odd length.\<close>

fun hex_decode :: "string \<Rightarrow> string option" where
  "hex_decode [] = Some []"
| "hex_decode [c] = None"
| "hex_decode (a # b # s) =
     (case (unhex a, unhex b, hex_decode s) of
        (Some x, Some y, Some t) \<Rightarrow> Some (chr (16 * x + y) # t)
      | _ \<Rightarrow> None)"

lemma unhex_hex_digit [simp]: "n < 16 \<Longrightarrow> unhex (hex_digit n) = Some n"
  by (auto simp: hex_digit_def unhex_def Let_def)

lemma hex_encode_Nil [simp]: "hex_encode [] = []"
  and hex_encode_Cons [simp]:
    "hex_encode (c # s) = hex_digit (byte c div 16) # hex_digit (byte c mod 16) # hex_encode s"
  by (simp_all add: hex_encode_def)

lemma hex_decode_encode [simp]: "hex_decode (hex_encode s) = Some s"
proof (induction s)
  case (Cons c s)
  have "byte c div 16 < 16" using byte_less [of c] by linarith
  moreover have "16 * (byte c div 16) + byte c mod 16 = byte c" by simp
  ultimately show ?case using Cons by simp
qed simp

lemma length_hex_encode [simp]: "length (hex_encode s) = 2 * length s"
  by (induction s) auto

lemma hex_decode_Some_iff:
  "hex_decode s \<noteq> None \<longleftrightarrow> even (length s) \<and> (\<forall>c \<in> set s. unhex c \<noteq> None)"
  by (induction s rule: hex_decode.induct) (auto split: option.splits)

end
