(* ===== verification/Go_Time.thy ===== *)
theory Go_Time
  imports Go_Strings
begin

text \<open>
  The part of Go's \<^verbatim>\<open>time\<close> package that the modelled code uses. An instant is the
  number of nanoseconds since the Unix epoch, an \<open>int\<close>; a location is a fixed offset from UTC
  in seconds. \<open>parse_rfc3339\<close> and \<open>parse_date\<close> follow \<^verbatim>\<open>time.Parse\<close> for the layouts
  \<^verbatim>\<open>time.RFC3339\<close> and \<^verbatim>\<open>2006-01-02\<close>, \<open>format_rfc3339\<close> and
  \<open>format_stamp\<close> follow \<^verbatim>\<open>Time.Format\<close>, \<open>add_days\<close> is \<^verbatim>\<open>AddDate(0, 0, n)\<close>.
\<close>

definition second :: int where
  "second = 1000000000"

definition unix :: "int \<Rightarrow> int" where
  "unix t = t div second"

subsection \<open>The proleptic Gregorian calendar\<close>

definition is_leap :: "int \<Rightarrow> bool" where
  "is_leap y \<longleftrightarrow> y mod 4 = 0 \<and> (y mod 100 \<noteq> 0 \<or> y mod 400 = 0)"

definition days_in :: "int \<Rightarrow> int \<Rightarrow> int" where
  "days_in m y =
     (if m = 2 then (if is_leap y then 29 else 28)
      else if m \<in> {4, 6, 9, 11} then 30 else 31)"

text \<open>Days since 1970-01-01 of a date; the year is counted from March, so that a leap day is last.\<close>

definition days_of_date :: "int \<Rightarrow> int \<Rightarrow> int \<Rightarrow> int" where
  "days_of_date y m d =
     (let y' = (if m \<le> 2 then y - 1 else y);
          mp = (if m \<le> 2 then m + 9 else m - 3);
          doy = (153 * mp + 2) div 5 + d - 1;
          yoe = y' mod 400
      in (y' div 400) * 146097 + yoe * 365 + yoe div 4 - yoe div 100 + doy - 719468)"

definition date_of_days :: "int \<Rightarrow> int \<times> int \<times> int" where
  "date_of_days n =
     (let z = n + 719468;
          doe = z mod 146097;
          yoe = (doe - doe div 1460 + doe div 36524 - doe div 146096) div 365;
          doy = doe - (365 * yoe + yoe div 4 - yoe div 100);
          mp = (5 * doy + 2) div 153;
          d = doy - (153 * mp + 2) div 5 + 1;
          m = (if mp < 10 then mp + 3 else mp - 9);
          y = yoe + (z div 146097) * 400
      in (if m \<le> 2 then y + 1 else y, m, d))"

definition instant :: "int \<Rightarrow> int \<Rightarrow> int \<Rightarrow> int \<Rightarrow> int \<Rightarrow> int \<Rightarrow> int \<Rightarrow> int \<Rightarrow> int" where
  "instant y m d hh mi ss ns zone =
     (days_of_date y m d * 86400 + hh * 3600 + mi * 60 + ss - zone) * second + ns"

subsection \<open>time.Parse\<close>

definition digit_val :: "char \<Rightarrow> int" where
  "digit_val c = int (byte c) - 48"

text \<open>getnum of package time: two digits, or (not fixed) one digit before a non-digit.\<close>

definition getnum :: "bool \<Rightarrow> string \<Rightarrow> (int \<times> string) option" where
  "getnum fixed s =
     (case s of
        a # b # t \<Rightarrow>
          if \<not> is_digit a then None
          else if is_digit b then Some (10 * digit_val a + digit_val b, t)
          else if fixed then None else Some (digit_val a, b # t)
      | [a] \<Rightarrow> if is_digit a \<and> \<not> fixed then Some (digit_val a, []) else None
      | [] \<Rightarrow> None)"

definition expect :: "char \<Rightarrow> string \<Rightarrow> string option" where
  "expect c s = (case s of a # t \<Rightarrow> if a = c then Some t else None | [] \<Rightarrow> None)"

definition getyear :: "string \<Rightarrow> (int \<times> string) option" where
  "getyear s =
     (case s of
        a # b # c # d # t \<Rightarrow>
          if is_digit a \<and> is_digit b \<and> is_digit c \<and> is_digit d
          then Some (1000 * digit_val a + 100 * digit_val b + 10 * digit_val c + digit_val d, t)
          else None
      | _ \<Rightarrow> None)"

text \<open>Year, month and day of \<^verbatim>\<open>2006-01-02\<close>; the day's range is checked at the end.\<close>

definition parse_ymd :: "string \<Rightarrow> ((int \<times> int \<times> int) \<times> string) option" where
  "parse_ymd s =
     Option.bind (getyear s) (\<lambda>(y, s).
     Option.bind (expect CHR ''-'' s) (\<lambda>s.
     Option.bind (getnum True s) (\<lambda>(m, s).
     if m < 1 \<or> 12 < m then None else
     Option.bind (expect CHR ''-'' s) (\<lambda>s.
     Option.bind (getnum True s) (\<lambda>(d, s). Some ((y, m, d), s))))))"

definition day_ok :: "int \<Rightarrow> int \<Rightarrow> int \<Rightarrow> bool" where
  "day_ok y m d \<longleftrightarrow> 1 \<le> d \<and> d \<le> days_in m y"

definition parse_date :: "string \<Rightarrow> int option" where
  "parse_date s =
     (case parse_ymd s of
        Some ((y, m, d), []) \<Rightarrow> if day_ok y m d then Some (instant y m d 0 0 0 0 0) else None
      | _ \<Rightarrow> None)"

text \<open>A fraction after the seconds: the first nine digits count, the rest is dropped.\<close>

definition parse_fraction :: "string \<Rightarrow> int \<times> string" where
  "parse_fraction s =
     (case s of
        c # d # _ \<Rightarrow>
          if (c = CHR ''.'' \<or> c = CHR '','') \<and> is_digit d then
            (let ds = takeWhile is_digit (tl s); k = take 9 ds
             in (int (nat_of_digits 0 k) * 10 ^ (9 - length k), dropWhile is_digit (tl s)))
          else (0, s)
      | _ \<Rightarrow> (0, s))"

text \<open>The zone \<^verbatim>\<open>Z07:00\<close>: \<^verbatim>\<open>Z\<close>, or a sign, hours to 24 and minutes to 60.\<close>

definition parse_zone :: "string \<Rightarrow> (int \<times> string) option" where
  "parse_zone s =
     (if s \<noteq> [] \<and> hd s = CHR ''Z'' then Some (0, tl s)
      else case s of
        sign # a # b # colon # c # d # t \<Rightarrow>
          if colon \<noteq> CHR '':'' then None else
          Option.bind (getnum True [a, b]) (\<lambda>(hr, _).
          Option.bind (getnum True [c, d]) (\<lambda>(mm, _).
          if 24 < hr \<or> 60 < mm then None
          else if sign = CHR ''+'' then Some ((hr * 60 + mm) * 60, t)
          else if sign = CHR ''-'' then Some (- ((hr * 60 + mm) * 60), t)
          else None))
      | _ \<Rightarrow> None)"

text \<open>The layout \<^verbatim>\<open>2006-01-02T15:04:05Z\<close>, whose last character is a literal \<^verbatim>\<open>Z\<close>.\<close>

definition parse_literal_z :: "string \<Rightarrow> (int \<times> string) option" where
  "parse_literal_z s = map_option (Pair 0) (expect CHR ''Z'' s)"

definition parse_clock :: "string \<Rightarrow> ((int \<times> int \<times> int \<times> int) \<times> string) option" where
  "parse_clock s =
     Option.bind (getnum False s) (\<lambda>(hh, s).
     if 24 \<le> hh then None else
     Option.bind (expect CHR '':'' s) (\<lambda>s.
     Option.bind (getnum True s) (\<lambda>(mi, s).
     if 60 \<le> mi then None else
     Option.bind (expect CHR '':'' s) (\<lambda>s.
     Option.bind (getnum True s) (\<lambda>(ss, s).
     if 60 \<le> ss then None
     else (case parse_fraction s of (ns, s) \<Rightarrow> Some ((hh, mi, ss, ns), s)))))))"

definition parse_datetime :: "(string \<Rightarrow> (int \<times> string) option) \<Rightarrow> string \<Rightarrow> int option" where
  "parse_datetime zonep s =
     Option.bind (parse_ymd s) (\<lambda>((y, m, d), s).
     Option.bind (expect CHR ''T'' s) (\<lambda>s.
     Option.bind (parse_clock s) (\<lambda>((hh, mi, ss, ns), s).
     Option.bind (zonep s) (\<lambda>(zone, s).
     if s \<noteq> [] \<or> \<not> day_ok y m d then None
     else Some (instant y m d hh mi ss ns zone)))))"

definition parse_rfc3339 :: "string \<Rightarrow> int option" where
  "parse_rfc3339 = parse_datetime parse_zone"

subsection \<open>Time.Format\<close>

definition pad2 :: "int \<Rightarrow> string" where
  "pad2 n = [chr (48 + nat (n div 10 mod 10)), chr (48 + nat (n mod 10))]"

text \<open>The year with four digits; formatting is used for the years 0 to 9999.\<close>

definition pad4 :: "int \<Rightarrow> string" where
  "pad4 n = pad2 (n div 100) @ pad2 (n mod 100)"

definition format_date :: "int \<Rightarrow> string" where
  "format_date days =
     (case date_of_days days of (y, m, d) \<Rightarrow> pad4 y @ ''-'' @ pad2 m @ ''-'' @ pad2 d)"

definition format_clock :: "int \<Rightarrow> string" where
  "format_clock sec =
     pad2 (sec div 3600) @ '':'' @ pad2 (sec div 60 mod 60) @ '':'' @ pad2 (sec mod 60)"

definition format_zone :: "int \<Rightarrow> string" where
  "format_zone zone =
     (if zone = 0 then ''Z''
      else (let q = quot zone 60
            in (if q < 0 then ''-'' else ''+'') @ pad2 (\<bar>q\<bar> div 60) @ '':'' @ pad2 (\<bar>q\<bar> mod 60)))"

definition format_rfc3339 :: "int \<Rightarrow> int \<Rightarrow> string" where
  "format_rfc3339 zone t =
     (let l = unix t + zone
      in format_date (l div 86400) @ ''T'' @ format_clock (l mod 86400) @ format_zone zone)"

text \<open>The layout \<^verbatim>\<open>2006-01-02 15:04:05 UTC\<close> of a time in UTC.\<close>

definition format_stamp :: "int \<Rightarrow> string" where
  "format_stamp t =
     (let l = unix t in format_date (l div 86400) @ '' '' @ format_clock (l mod 86400) @ '' UTC'')"

definition add_days :: "int \<Rightarrow> int \<Rightarrow> int" where
  "add_days t n = t + n * 86400 * second"

subsection \<open>Facts\<close>

lemma add_days_later: "0 < n \<Longrightarrow> t < add_days t n"
  by (simp add: add_days_def second_def)

lemma byte_digit:
  "0 \<le> k \<Longrightarrow> k < 10 \<Longrightarrow> byte (chr (48 + nat k)) = 48 + nat k"
  by (intro byte_chr) auto

lemma pad2_getnum:
  assumes "0 \<le> n" "n < 100"
  shows "getnum f (pad2 n @ s) = Some (n, s)"
proof -
  have q: "0 \<le> n div 10" "n div 10 < 10" "0 \<le> n mod 10" "n mod 10 < 10" "n div 10 mod 10 = n div 10"
    using assms by auto
  have b: "byte (chr (48 + nat (n div 10))) = 48 + nat (n div 10)"
    "byte (chr (48 + nat (n mod 10))) = 48 + nat (n mod 10)"
    using q by (simp_all only: byte_digit)
  have "10 * (n div 10) + n mod 10 = n" by simp
  then show ?thesis
    using q by (auto simp: getnum_def pad2_def is_digit_def digit_val_def b simp del: byte_chr)
qed

end
