(* ===== verification/Go_Json.thy ===== *)
theory Go_Json
  imports Go_Strings
begin

text \<open>
  \<^verbatim>\<open>encoding/json\<close> as far as the code uses it: \<^verbatim>\<open>json.Unmarshal\<close> into a
  \<^verbatim>\<open>[]string\<close> and into a \<^verbatim>\<open>map[string]string\<close>. A text is cut into tokens
  (strings are unquoted as the package does, invalid UTF-8 and lone surrogates becoming U+FFFD),
  a stack machine reads the tokens one by one, and the decoders turn the value into Go data the
  way Unmarshal does: a syntax error leaves the target alone, an element of the wrong type is
  reported but leaves a zero value in its place, \<^verbatim>\<open>null\<close> is the zero value.
\<close>

datatype json =
    JNull
  | JBool bool
  | JNum string
  | JStr string
  | JArr "json list"
  | JObj "(string \<times> json) list"

datatype token =
    TLBrack | TRBrack | TLBrace | TRBrace | TComma | TColon
  | TStr string | TNum string | TTrue | TFalse | TNull

definition dquote :: char where
  "dquote = CHR 0x22"

definition backslash :: char where
  "backslash = CHR 0x5C"

subsection \<open>Strings\<close>

definition hex4 :: "char \<Rightarrow> char \<Rightarrow> char \<Rightarrow> char \<Rightarrow> nat option" where
  "hex4 a b c d =
     (case (unhex a, unhex b, unhex c, unhex d) of
        (Some w, Some x, Some y, Some z) \<Rightarrow> Some (w * 4096 + x * 256 + y * 16 + z)
      | _ \<Rightarrow> None)"

text \<open>The low half of a surrogate pair: an escape \<^verbatim>\<open>\u\<close> with a value in U+DC00 to U+DFFF.\<close>

definition low_surrogate :: "string \<Rightarrow> (nat \<times> string) option" where
  "low_surrogate s =
     (case s of
        b # u # w # x # y # z # t \<Rightarrow>
          if b = backslash \<and> u = CHR ''u'' then
            (case hex4 w x y z of
               Some r \<Rightarrow> if 0xDC00 \<le> r \<and> r \<le> 0xDFFF then Some (r, t) else None
             | None \<Rightarrow> None)
          else None
      | _ \<Rightarrow> None)"

definition simple_escape :: "char \<Rightarrow> char option" where
  "simple_escape e =
     (if e = dquote \<or> e = backslash \<or> e = CHR ''/'' then Some e
      else if e = CHR ''b'' then Some (CHR 0x08)
      else if e = CHR ''f'' then Some (CHR 0x0C)
      else if e = CHR ''n'' then Some (CHR 0x0A)
      else if e = CHR ''r'' then Some (CHR 0x0D)
      else if e = CHR ''t'' then Some (CHR 0x09)
      else None)"

text \<open>What follows a backslash: the bytes the escape stands for and the rest of the text.\<close>

definition unescape :: "string \<Rightarrow> (string \<times> string) option" where
  "unescape s =
     (case s of
        [] \<Rightarrow> None
      | e # t \<Rightarrow>
          if e = CHR ''u'' then
            (case t of
               w # x # y # z # t' \<Rightarrow>
                 (case hex4 w x y z of
                    None \<Rightarrow> None
                  | Some r \<Rightarrow>
                      if 0xD800 \<le> r \<and> r \<le> 0xDBFF then
                        (case low_surrogate t' of
                           Some (r2, t'') \<Rightarrow>
                             Some (encode_rune (0x10000 + (r - 0xD800) * 1024 + (r2 - 0xDC00)), t'')
                         | None \<Rightarrow> Some (encode_rune rune_error, t'))
                      else Some (encode_rune r, t'))
             | _ \<Rightarrow> None)
          else map_option (\<lambda>c. ([c], t)) (simple_escape e))"

lemma low_surrogate_shorter: "low_surrogate s = Some (r, t) \<Longrightarrow> length t < length s"
  by (auto simp: low_surrogate_def split: list.splits option.splits if_splits)

lemma unescape_shorter: "unescape s = Some (out, t) \<Longrightarrow> length t < length s"
  by (auto simp: unescape_def split: list.splits option.splits if_splits prod.splits
      dest: low_surrogate_shorter)

text \<open>The text after an opening quote: the unquoted bytes and what follows the closing quote.\<close>

function lex_string :: "string \<Rightarrow> (string \<times> string) option" where
  "lex_string [] = None"
| "lex_string (c # s) =
     (if c = dquote then Some ([], s)
      else if c = backslash then
        (case unescape s of
           None \<Rightarrow> None
         | Some (out, t) \<Rightarrow> map_option (\<lambda>(r, u). (out @ r, u)) (lex_string t))
      else if byte c < 32 then None
      else map_option (\<lambda>(r, u). (encode_rune (fst (decode_rune (c # s))) @ r, u))
             (lex_string (drop (snd (decode_rune (c # s))) (c # s))))"
  by pat_completeness auto
termination
proof (relation "measure length")
  fix c :: char and s :: string
  show "(drop (snd (decode_rune (c # s))) (c # s), c # s) \<in> measure length"
    using decode_rune_width [of "c # s"] by (cases "snd (decode_rune (c # s))") auto
qed (auto dest: unescape_shorter simp: less_SucI)

declare lex_string.simps [simp del]

lemma lex_string_shorter: "lex_string s = Some (r, t) \<Longrightarrow> length t < length s"
proof (induction s arbitrary: r t rule: lex_string.induct)
  case (2 c s)
  let ?d = "drop (snd (decode_rune (c # s))) (c # s)"
  have w: "length ?d < length (c # s)"
    using decode_rune_width [of "c # s"] by (cases "snd (decode_rune (c # s))") auto
  consider "c = dquote" | "c \<noteq> dquote" "c = backslash"
    | "c \<noteq> dquote" "c \<noteq> backslash" "\<not> byte c < 32"
    using 2(3) by (auto simp: lex_string.simps(2) split: if_splits)
  then show ?case
  proof cases
    case 1
    with 2(3) show ?thesis by (simp add: lex_string.simps(2))
  next
    case c: 2
    with 2(3) obtain out u r' where u: "unescape s = Some (out, u)" "lex_string u = Some (r', t)"
      by (auto simp: lex_string.simps(2) split: option.splits)
    from 2(1) [OF c u(1) refl u(2)] unescape_shorter [OF u(1)] show ?thesis by simp
  next
    case c: 3
    with 2(3) obtain r' where u: "lex_string ?d = Some (r', t)"
      by (auto simp: lex_string.simps(2))
    from 2(2) [OF c u] w show ?thesis by simp
  qed
qed (simp add: lex_string.simps)

subsection \<open>Numbers\<close>

definition lex_int :: "string \<Rightarrow> (string \<times> string) option" where
  "lex_int s =
     (case s of
        [] \<Rightarrow> None
      | c # t \<Rightarrow>
          if c = CHR ''0'' then Some ([c], t)
          else if is_digit c then Some (takeWhile is_digit s, dropWhile is_digit s)
          else None)"

definition lex_digits1 :: "string \<Rightarrow> (string \<times> string) option" where
  "lex_digits1 s =
     (if takeWhile is_digit s = [] then None else Some (takeWhile is_digit s, dropWhile is_digit s))"

definition lex_frac :: "string \<Rightarrow> (string \<times> string) option" where
  "lex_frac s =
     (case s of
        c # t \<Rightarrow> if c = CHR ''.'' then map_option (\<lambda>(d, u). (c # d, u)) (lex_digits1 t) else Some ([], s)
      | [] \<Rightarrow> Some ([], []))"

definition lex_exp :: "string \<Rightarrow> (string \<times> string) option" where
  "lex_exp s =
     (case s of
        c # t \<Rightarrow>
          if c = CHR ''e'' \<or> c = CHR ''E'' then
            (case t of
               sg # u \<Rightarrow>
                 if sg = CHR ''+'' \<or> sg = CHR ''-''
                 then map_option (\<lambda>(d, v). (c # sg # d, v)) (lex_digits1 u)
                 else map_option (\<lambda>(d, v). (c # d, v)) (lex_digits1 t)
             | [] \<Rightarrow> None)
          else Some ([], s)
      | [] \<Rightarrow> Some ([], []))"

definition lex_number :: "string \<Rightarrow> (string \<times> string) option" where
  "lex_number s =
     (let (sg, s1) = (if s \<noteq> [] \<and> hd s = CHR ''-'' then (''-'', tl s) else ([], s)) in
      Option.bind (lex_int s1) (\<lambda>(i, s2).
      Option.bind (lex_frac s2) (\<lambda>(f, s3).
      Option.bind (lex_exp s3) (\<lambda>(e, s4). Some (sg @ i @ f @ e, s4)))))"

subsection \<open>Tokens\<close>

definition json_space :: "char \<Rightarrow> bool" where
  "json_space c \<longleftrightarrow> byte c \<in> {9, 10, 13, 32}"

definition punct :: "char \<Rightarrow> token option" where
  "punct c =
     (if c = CHR ''['' then Some TLBrack
      else if c = CHR '']'' then Some TRBrack
      else if c = CHR ''{'' then Some TLBrace
      else if c = CHR ''}'' then Some TRBrace
      else if c = CHR '','' then Some TComma
      else if c = CHR '':'' then Some TColon
      else None)"

definition lex_token :: "string \<Rightarrow> (token \<times> string) option" where
  "lex_token s =
     (case s of
        [] \<Rightarrow> None
      | c # t \<Rightarrow>
          (case punct c of
             Some k \<Rightarrow> Some (k, t)
           | None \<Rightarrow>
               if c = dquote then map_option (\<lambda>(r, u). (TStr r, u)) (lex_string t)
               else if has_prefix s ''true'' then Some (TTrue, drop 4 s)
               else if has_prefix s ''false'' then Some (TFalse, drop 5 s)
               else if has_prefix s ''null'' then Some (TNull, drop 4 s)
               else map_option (\<lambda>(n, u). (TNum n, u)) (lex_number s)))"

lemma dropWhile_shorter: "takeWhile p s \<noteq> [] \<Longrightarrow> length (dropWhile p s) < length s"
  by (cases s) (auto simp: less_Suc_eq_le length_dropWhile_le split: if_splits)

lemma lex_int_shorter: "lex_int s = Some (r, t) \<Longrightarrow> length t < length s"
  by (auto simp: lex_int_def less_Suc_eq_le length_dropWhile_le split: list.splits if_splits)

lemma lex_digits1_shorter: "lex_digits1 s = Some (r, t) \<Longrightarrow> length t < length s"
  by (auto simp: lex_digits1_def dropWhile_shorter split: if_splits)

lemma lex_frac_shorter: "lex_frac s = Some (r, t) \<Longrightarrow> length t \<le> length s"
  by (auto simp: lex_frac_def split: list.splits if_splits dest!: lex_digits1_shorter)

lemma lex_exp_shorter: "lex_exp s = Some (r, t) \<Longrightarrow> length t \<le> length s"
  by (auto simp: lex_exp_def split: list.splits if_splits dest!: lex_digits1_shorter)

lemma lex_number_shorter: "lex_number s = Some (r, t) \<Longrightarrow> length t < length s"
  by (cases s) (auto simp: lex_number_def Let_def bind_eq_Some_conv split: if_splits
      dest!: lex_int_shorter lex_frac_shorter lex_exp_shorter)

lemma has_prefix_length: "has_prefix s p \<Longrightarrow> length p \<le> length s"
  by (auto simp: has_prefix_iff)

lemma lex_token_shorter: "lex_token s = Some (k, t) \<Longrightarrow> length t < length s"
  by (auto simp: lex_token_def split: list.splits option.splits if_splits
      dest!: lex_string_shorter lex_number_shorter has_prefix_length)

function tokens :: "string \<Rightarrow> token list option" where
  "tokens s =
     (case s of
        [] \<Rightarrow> Some []
      | c # t \<Rightarrow>
          if json_space c then tokens t
          else (case lex_token s of
                  None \<Rightarrow> None
                | Some (k, u) \<Rightarrow> map_option (Cons k) (tokens u)))"
  by pat_completeness auto
termination
  by (relation "measure length") (auto dest: lex_token_shorter)

declare tokens.simps [simp del]

subsection \<open>Values\<close>

text \<open>
  The reader's mode says what may come next; the stack holds the open arrays and objects, the
  members read so far in reverse.
\<close>

datatype frame = FArr "json list" | FObj "(string \<times> json) list" string

datatype mode =
    MValue | MFirstElem | MFirstKey "(string \<times> json) list" | MKey "(string \<times> json) list"
  | MColon "(string \<times> json) list" string | MNext | MDone json

text \<open>\<open>push_value\<close> puts a finished value into the innermost open array or object.\<close>

definition push_value :: "json \<Rightarrow> frame list \<Rightarrow> mode \<times> frame list" where
  "push_value v st =
     (case st of
        [] \<Rightarrow> (MDone v, [])
      | FArr vs # fs \<Rightarrow> (MNext, FArr (v # vs) # fs)
      | FObj kvs k # fs \<Rightarrow> (MNext, FObj ((k, v) # kvs) k # fs))"

definition start_value :: "token \<Rightarrow> frame list \<Rightarrow> (mode \<times> frame list) option" where
  "start_value k st =
     (case k of
        TStr s \<Rightarrow> Some (push_value (JStr s) st)
      | TNum s \<Rightarrow> Some (push_value (JNum s) st)
      | TTrue \<Rightarrow> Some (push_value (JBool True) st)
      | TFalse \<Rightarrow> Some (push_value (JBool False) st)
      | TNull \<Rightarrow> Some (push_value JNull st)
      | TLBrack \<Rightarrow> Some (MFirstElem, FArr [] # st)
      | TLBrace \<Rightarrow> Some (MFirstKey [], st)
      | _ \<Rightarrow> None)"

definition after_value :: "token \<Rightarrow> frame list \<Rightarrow> (mode \<times> frame list) option" where
  "after_value k st =
     (case st of
        FArr vs # fs \<Rightarrow>
          (case k of
             TComma \<Rightarrow> Some (MValue, st)
           | TRBrack \<Rightarrow> Some (push_value (JArr (rev vs)) fs)
           | _ \<Rightarrow> None)
      | FObj kvs _ # fs \<Rightarrow>
          (case k of
             TComma \<Rightarrow> Some (MKey kvs, fs)
           | TRBrace \<Rightarrow> Some (push_value (JObj (rev kvs)) fs)
           | _ \<Rightarrow> None)
      | [] \<Rightarrow> None)"

definition read_token :: "mode \<times> frame list \<Rightarrow> token \<Rightarrow> (mode \<times> frame list) option" where
  "read_token ms k =
     (case ms of
        (MValue, st) \<Rightarrow> start_value k st
      | (MFirstElem, st) \<Rightarrow>
          (case (k, st) of
             (TRBrack, FArr _ # fs) \<Rightarrow> Some (push_value (JArr []) fs)
           | _ \<Rightarrow> start_value k st)
      | (MFirstKey kvs, st) \<Rightarrow>
          (case k of
             TRBrace \<Rightarrow> Some (push_value (JObj []) st)
           | TStr s \<Rightarrow> Some (MColon kvs s, st)
           | _ \<Rightarrow> None)
      | (MKey kvs, st) \<Rightarrow> (case k of TStr s \<Rightarrow> Some (MColon kvs s, st) | _ \<Rightarrow> None)
      | (MColon kvs s, st) \<Rightarrow> (case k of TColon \<Rightarrow> Some (MValue, FObj kvs s # st) | _ \<Rightarrow> None)
      | (MNext, st) \<Rightarrow> after_value k st
      | (MDone _, _) \<Rightarrow> None)"

fun read_tokens :: "mode \<times> frame list \<Rightarrow> token list \<Rightarrow> json option" where
  "read_tokens ms [] = (case ms of (MDone v, _) \<Rightarrow> Some v | _ \<Rightarrow> None)"
| "read_tokens ms (k # ks) =
     (case read_token ms k of None \<Rightarrow> None | Some ms' \<Rightarrow> read_tokens ms' ks)"

definition json_parse :: "string \<Rightarrow> json option" where
  "json_parse s = Option.bind (tokens s) (read_tokens (MValue, []))"

subsection \<open>json.Unmarshal\<close>

definition string_elem :: "json \<Rightarrow> string" where
  "string_elem v = (case v of JStr s \<Rightarrow> s | _ \<Rightarrow> [])"

definition string_elem_ok :: "json \<Rightarrow> bool" where
  "string_elem_ok v = (case v of JStr _ \<Rightarrow> True | JNull \<Rightarrow> True | _ \<Rightarrow> False)"

text \<open>Into a nil \<^verbatim>\<open>[]string\<close>: whether an error is returned, and the slice afterwards.\<close>

definition unmarshal_strings :: "string \<Rightarrow> bool \<times> string list" where
  "unmarshal_strings s =
     (case json_parse s of
        None \<Rightarrow> (False, [])
      | Some JNull \<Rightarrow> (True, [])
      | Some (JArr vs) \<Rightarrow> (list_all string_elem_ok vs, map string_elem vs)
      | Some _ \<Rightarrow> (False, []))"

text \<open>Into a nil \<^verbatim>\<open>map[string]string\<close>, as the list of its keys and values: a later
  member replaces an earlier one with the same key.\<close>

definition put :: "'k \<Rightarrow> 'v \<Rightarrow> ('k \<times> 'v) list \<Rightarrow> ('k \<times> 'v) list" where
  "put k v m = filter (\<lambda>(k', _). k' \<noteq> k) m @ [(k, v)]"

definition unmarshal_map :: "string \<Rightarrow> bool \<times> (string \<times> string) list" where
  "unmarshal_map s =
     (case json_parse s of
        None \<Rightarrow> (False, [])
      | Some JNull \<Rightarrow> (True, [])
      | Some (JObj kvs) \<Rightarrow>
          (list_all (\<lambda>(_, v). string_elem_ok v) kvs,
           fold (\<lambda>(k, v) m. put k (string_elem v) m) kvs [])
      | Some _ \<Rightarrow> (False, []))"

lemma keys_put: "set (map fst (put k v m)) = insert k (set (map fst m))"
  by (auto simp: put_def rev_image_eqI image_iff)

lemma distinct_put: "distinct (map fst m) \<Longrightarrow> distinct (map fst (put k v m))"
  by (auto simp: put_def distinct_map_filter)

lemma unmarshal_map_distinct: "distinct (map fst (snd (unmarshal_map s)))"
proof -
  have "distinct (map fst m) \<Longrightarrow> distinct (map fst (fold (\<lambda>(k, v) m. put k (string_elem v) m) kvs m))"
    for kvs m
    by (induction kvs arbitrary: m) (auto simp: distinct_put)
  from this [of "[]"] show ?thesis
    by (auto simp: unmarshal_map_def split: option.splits json.splits)
qed

end
