(* ===== verification/Secret_Model.thy ===== *)
theory Secret_Model
  imports Complex_Main Go_Time Go_Json
begin

text \<open>
  \<^verbatim>\<open>internal/model/secret.go\<close>: the secret record with its per-user limits, label and tag
  validation, expiry and quota predicates. Clock readings are arguments (\<open>now\<close>, in
  nanoseconds). The sums of traffic are Go \<^verbatim>\<open>int64\<close> sums and wrap; the percentage is
  the exact quotient, of which the code computes the nearest \<^verbatim>\<open>float64\<close>.
\<close>

record secret =
  sec_ID :: int
  sec_Label :: string
  sec_SecretKey :: string
  sec_CreatedAt :: int
  sec_Enabled :: bool
  sec_MaxConns :: int
  sec_MaxIPs :: int
  sec_QuotaBytes :: int
  sec_RateLimitUpBps :: int
  sec_RateLimitDownBps :: int
  sec_ExpiresAt :: string
  sec_Notes :: string
  sec_Tags :: string
  sec_ArchivedAt :: int
  sec_TrafficIn :: int
  sec_TrafficOut :: int

text \<open>The zero value of the struct, the base of Go's composite literals.\<close>

definition empty_secret :: secret where
  "empty_secret = \<lparr>sec_ID = 0, sec_Label = [], sec_SecretKey = [], sec_CreatedAt = 0,
     sec_Enabled = False, sec_MaxConns = 0, sec_MaxIPs = 0, sec_QuotaBytes = 0,
     sec_RateLimitUpBps = 0, sec_RateLimitDownBps = 0, sec_ExpiresAt = [], sec_Notes = [],
     sec_Tags = [], sec_ArchivedAt = 0, sec_TrafficIn = 0, sec_TrafficOut = 0\<rparr>"

subsection \<open>Labels and tags\<close>

text \<open>The regular expression \<^verbatim>\<open>^[a-zA-Z0-9_-]{1,32}$\<close>.\<close>

definition label_char :: "char \<Rightarrow> bool" where
  "label_char c \<longleftrightarrow> is_alpha c \<or> is_digit c \<or> c = CHR ''_'' \<or> c = CHR ''-''"

definition labelRe :: "string \<Rightarrow> bool" where
  "labelRe s \<longleftrightarrow> 1 \<le> length s \<and> length s \<le> 32 \<and> list_all label_char s"

definition label_error :: string where
  "label_error = ''label must be 1-32 chars, alphanumeric/underscore/hyphen only''"

text \<open>An error is its message.\<close>

definition ValidateLabel :: "string \<Rightarrow> string option" where
  "ValidateLabel label = (if \<not> labelRe label then Some label_error else None)"

definition Secret_GetTags :: "secret \<Rightarrow> string list" where
  "Secret_GetTags s =
     (if sec_Tags s = [] \<or> sec_Tags s = ''[]'' then [] else snd (unmarshal_strings (sec_Tags s)))"

datatype tags_error = TagsNotArray | InvalidTag string

fun first_bad_tag :: "string list \<Rightarrow> tags_error option" where
  "first_bad_tag [] = None"
| "first_bad_tag (t # ts) = (if \<not> labelRe t then Some (InvalidTag t) else first_bad_tag ts)"

definition ValidateTags :: "string \<Rightarrow> tags_error option" where
  "ValidateTags tags =
     (if tags = [] \<or> tags = ''[]'' then None
      else case unmarshal_strings tags of
             (ok, result) \<Rightarrow> if \<not> ok then Some TagsNotArray else first_bad_tag result)"

subsection \<open>Expiry\<close>

definition no_expiry :: "string \<Rightarrow> bool" where
  "no_expiry e \<longleftrightarrow> e = [] \<or> e = ''0''"

definition expiry_time :: "string \<Rightarrow> int option" where
  "expiry_time e = (case parse_rfc3339 e of Some t \<Rightarrow> Some t | None \<Rightarrow> parse_date e)"

definition IsActive :: "int \<Rightarrow> secret \<Rightarrow> bool" where
  "IsActive now s =
     (if \<not> sec_Enabled s then False
      else if sec_ExpiresAt s = [] \<or> sec_ExpiresAt s = ''0'' then True
      else case parse_rfc3339 (sec_ExpiresAt s) of
             Some t \<Rightarrow> now < t
           | None \<Rightarrow>
               (case parse_date (sec_ExpiresAt s) of Some t \<Rightarrow> now < t | None \<Rightarrow> True))"

definition IsExpired :: "int \<Rightarrow> secret \<Rightarrow> bool" where
  "IsExpired now s =
     (if sec_ExpiresAt s = [] \<or> sec_ExpiresAt s = ''0'' then False
      else case parse_rfc3339 (sec_ExpiresAt s) of
             Some t \<Rightarrow> t < now
           | None \<Rightarrow>
               (case parse_date (sec_ExpiresAt s) of Some t \<Rightarrow> t < now | None \<Rightarrow> False))"

definition ExpiryWarning :: "int \<Rightarrow> int \<Rightarrow> secret \<Rightarrow> bool" where
  "ExpiryWarning now dur s =
     (if sec_ExpiresAt s = [] \<or> sec_ExpiresAt s = ''0'' then False
      else case (case parse_rfc3339 (sec_ExpiresAt s) of
                   Some t \<Rightarrow> Some t | None \<Rightarrow> parse_date (sec_ExpiresAt s)) of
             None \<Rightarrow> False
           | Some t \<Rightarrow> (let remaining = t - now in 0 < remaining \<and> remaining \<le> dur))"

subsection \<open>Quota\<close>

definition QuotaPercent :: "secret \<Rightarrow> rat" where
  "QuotaPercent s =
     (if sec_QuotaBytes s \<le> 0 then 0
      else (let total = int64 (sec_TrafficIn s + sec_TrafficOut s)
            in of_int total / of_int (sec_QuotaBytes s) * 100))"

definition QuotaExceeded :: "secret \<Rightarrow> bool" where
  "QuotaExceeded s =
     (if sec_QuotaBytes s \<le> 0 then False
      else sec_QuotaBytes s \<le> int64 (sec_TrafficIn s + sec_TrafficOut s))"

definition QuotaWarning :: "secret \<Rightarrow> bool" where
  "QuotaWarning s \<longleftrightarrow> 80 \<le> QuotaPercent s"

subsection \<open>Facts\<close>

lemma labelRe_nonempty: "labelRe s \<Longrightarrow> s \<noteq> []"
  by (auto simp: labelRe_def)

lemma label_char_bounds: "label_char c \<Longrightarrow> 45 \<le> byte c \<and> byte c \<le> 122"
  by (auto simp: label_char_def is_alpha_def is_digit_def)

lemma first_bad_tag_None: "first_bad_tag ts = None \<longleftrightarrow> list_all labelRe ts"
  by (induction ts) auto

text \<open>A secret is never both active and expired, and an enabled one is one or the other but at
  the very instant of its expiry.\<close>

lemma active_not_expired: "IsActive now s \<Longrightarrow> \<not> IsExpired now s"
  by (auto simp: IsActive_def IsExpired_def split: option.splits if_splits)

lemma active_iff:
  "IsActive now s \<longleftrightarrow>
     sec_Enabled s \<and> (no_expiry (sec_ExpiresAt s) \<or> expiry_time (sec_ExpiresAt s) = None \<or>
       (\<exists>t. expiry_time (sec_ExpiresAt s) = Some t \<and> now < t))"
  by (auto simp: IsActive_def no_expiry_def expiry_time_def split: option.splits)

lemma expired_iff:
  "IsExpired now s \<longleftrightarrow>
     \<not> no_expiry (sec_ExpiresAt s) \<and> (\<exists>t. expiry_time (sec_ExpiresAt s) = Some t \<and> t < now)"
  by (auto simp: IsExpired_def no_expiry_def expiry_time_def split: option.splits)

lemma quota_exceeded_iff:
  "QuotaExceeded s \<longleftrightarrow> 0 < sec_QuotaBytes s \<and> 100 \<le> QuotaPercent s"
proof (cases "0 < sec_QuotaBytes s")
  case True
  let ?q = "sec_QuotaBytes s" and ?t = "int64 (sec_TrafficIn s + sec_TrafficOut s)"
  have scale: "100 \<le> x * 100 \<longleftrightarrow> 1 \<le> x" for x :: rat
    by auto
  have "100 \<le> (of_int ?t :: rat) / of_int ?q * 100 \<longleftrightarrow> (1 :: rat) \<le> of_int ?t / of_int ?q"
    by (rule scale)
  also have "\<dots> \<longleftrightarrow> (of_int ?q :: rat) \<le> of_int ?t"
    using True by (simp add: le_divide_eq)
  finally show ?thesis using True by (simp only: QuotaExceeded_def QuotaPercent_def Let_def) auto
qed (simp add: QuotaExceeded_def)

end
