(* ===== verification/Go_Net.thy ===== *)
theory Go_Net
  imports Go_Strings
begin

text \<open>
  \<^verbatim>\<open>net.SplitHostPort\<close> and \<^verbatim>\<open>strconv.Atoi\<close> / \<^verbatim>\<open>ParseInt\<close> in base 10, as the Go
  standard library documents and implements them. \<open>None\<close> is the error return.
\<close>

definition SplitHostPort :: "string \<Rightarrow> (string \<times> string) option" where
  "SplitHostPort hp =
     (case last_index_char CHR '':'' hp of
        None \<Rightarrow> None
      | Some i \<Rightarrow>
          if hd hp = CHR ''['' then
            (case index_char CHR '']'' hp of
               None \<Rightarrow> None
             | Some end \<Rightarrow>
                 if end + 1 \<noteq> i then None
                 else if CHR ''['' \<in> set (drop 1 hp) then None
                 else if CHR '']'' \<in> set (drop (end + 1) hp) then None
                 else Some (take (end - 1) (drop 1 hp), drop (i + 1) hp))
          else
            (if CHR '':'' \<in> set (take i hp) then None
             else if CHR ''['' \<in> set hp \<or> CHR '']'' \<in> set hp then None
             else Some (take i hp, drop (i + 1) hp)))"

definition atoi :: "string \<Rightarrow> int option" where
  "atoi s =
     (let neg = (s \<noteq> [] \<and> hd s = CHR ''-'');
          ds = (if s \<noteq> [] \<and> (hd s = CHR ''-'' \<or> hd s = CHR ''+'') then tl s else s);
          n = int (nat_of_digits 0 ds);
          v = (if neg then - n else n)
      in if ds = [] \<or> \<not> list_all is_digit ds \<or> \<not> in_int64 v then None else Some v)"

lemma atoi_show_nat: "int n < 2 ^ 63 \<Longrightarrow> atoi (show_nat n) = Some (int n)"
proof -
  assume n: "int n < 2 ^ 63"
  have d: "\<forall>c \<in> set (show_nat n). is_digit c" by (rule show_nat_digits)
  have "hd (show_nat n) \<in> set (show_nat n)" by simp
  with d have "is_digit (hd (show_nat n))" by blast
  then have "hd (show_nat n) \<noteq> CHR ''-''" "hd (show_nat n) \<noteq> CHR ''+''"
    by (auto simp: is_digit_def)
  with d n show ?thesis
    by (simp add: atoi_def list_all_iff in_int64_def)
qed

lemma last_index_char_append:
  "d \<notin> set t \<Longrightarrow> last_index_char d (s @ d # t) = Some (length s)"
proof (induction s)
  case Nil
  then have "last_index_char d t = None" by (simp add: last_index_char_None)
  then show ?case by simp
qed simp

lemma SplitHostPort_plain:
  assumes "CHR '':'' \<notin> set h" "CHR ''['' \<notin> set h" "CHR '']'' \<notin> set h"
    and "CHR '':'' \<notin> set p" "CHR ''['' \<notin> set p" "CHR '']'' \<notin> set p"
  shows "SplitHostPort (h @ '':'' @ p) = Some (h, p)"
proof -
  have l: "last_index_char CHR '':'' (h @ '':'' @ p) = Some (length h)"
    using last_index_char_append [of "CHR '':''" p h] assms(4) by simp
  have l: "last_index_char CHR '':'' (h @ CHR '':'' # p) = Some (length h)"
    using l by simp
  have "hd (h @ '':'' @ p) \<noteq> CHR ''[''"
    using assms(2) by (cases h) auto
  then show ?thesis using assms l by (simp add: SplitHostPort_def)
qed

end
