(* ===== verification/Instance_Model.thy ===== *)
theory Instance_Model
  imports Go_Json Go_Net
begin

text \<open>
  \<^verbatim>\<open>internal/model/instance.go\<close>: a proxy instance, its validation (which fills in
  defaults before it reports an error, so it returns the instance as well), its JSON columns and
  the tag matching that decides which secrets an instance serves.
\<close>

record inst =
  inst_ID :: int
  inst_Port :: int
  inst_MetricsPort :: int
  inst_Enabled :: bool
  inst_Label :: string
  inst_ActivePort :: int
  inst_ActiveMetricsPort :: int
  inst_TLSDomain :: string
  inst_TLSDomains :: string
  inst_FakeTLS :: bool
  inst_MaskHost :: string
  inst_MaskPort :: int
  inst_UnknownSNIAction :: string
  inst_ExclusiveMask :: string
  inst_Tags :: string
  inst_TCPMSSEnabled :: bool
  inst_TCPMSS :: int
  inst_TCPMSSBulk :: int
  inst_TLSFronting :: bool
  inst_APIPort :: int

datatype inst_error =
    BadPort | BadMetricsPort | BadAPIPort | APIPortClash | NoTLSDomain | BadMaskPort
  | BadTCPMSS | BadTCPMSSBulk | FrontingWithoutFakeTLS | BadSNIAction | MaskNotObject
  | MaskEmptySNI | MaskTargetNotHostPort string string | MaskTargetBadPort string

definition port_ok :: "int \<Rightarrow> bool" where
  "port_ok p \<longleftrightarrow> 1 \<le> p \<and> p \<le> 65535"

text \<open>The loop over the parsed exclusive mask; the first bad entry in the map's iteration order.\<close>

fun mask_error :: "(string \<times> string) list \<Rightarrow> inst_error option" where
  "mask_error [] = None"
| "mask_error ((sni, target) # m) =
     (if sni = [] then Some MaskEmptySNI
      else case SplitHostPort target of
             None \<Rightarrow> Some (MaskTargetNotHostPort sni target)
           | Some (_, port) \<Rightarrow>
               (case atoi port of
                  None \<Rightarrow> Some (MaskTargetBadPort sni)
                | Some p \<Rightarrow>
                    if p < 1 \<or> 65535 < p then Some (MaskTargetBadPort sni) else mask_error m))"

definition exclusive_mask_error :: "string \<Rightarrow> inst_error option" where
  "exclusive_mask_error em =
     (if em \<noteq> [] \<and> em \<noteq> ''{}'' then
        (case unmarshal_map em of (ok, m) \<Rightarrow> if \<not> ok then Some MaskNotObject else mask_error m)
      else None)"

definition sni_actions :: "string list" where
  "sni_actions = [''drop'', ''mask'', ''accept'', ''reject_handshake'']"

definition ports_error :: "inst \<Rightarrow> inst_error option" where
  "ports_error i =
     (if inst_Port i < 1 \<or> inst_Port i > 65535 then Some BadPort
      else if inst_MetricsPort i < 1 \<or> inst_MetricsPort i > 65535 then Some BadMetricsPort
      else if inst_APIPort i \<noteq> 0 \<and> (inst_APIPort i < 1 \<or> inst_APIPort i > 65535)
        then Some BadAPIPort
      else if inst_APIPort i \<noteq> 0 \<and>
              (inst_APIPort i = inst_Port i \<or> inst_APIPort i = inst_MetricsPort i)
        then Some APIPortClash
      else if inst_TLSDomain i = [] then Some NoTLSDomain
      else None)"

definition mask_port_error :: "inst \<Rightarrow> inst_error option" where
  "mask_port_error i =
     (if inst_MaskPort i < 1 \<or> inst_MaskPort i > 65535 then Some BadMaskPort else None)"

definition mss_error :: "inst \<Rightarrow> inst_error option" where
  "mss_error i =
     (if inst_TCPMSSEnabled i then
        (if inst_TCPMSS i < 88 \<or> inst_TCPMSS i > 4096 then Some BadTCPMSS
         else if inst_TCPMSSBulk i \<noteq> 0 \<and> (inst_TCPMSSBulk i < 88 \<or> inst_TCPMSSBulk i > 4096)
         then Some BadTCPMSSBulk else None)
      else None)"

definition fronting_error :: "inst \<Rightarrow> inst_error option" where
  "fronting_error i =
     (if inst_TLSFronting i \<and> \<not> inst_FakeTLS i then Some FrontingWithoutFakeTLS else None)"

definition sni_error :: "inst \<Rightarrow> inst_error option" where
  "sni_error i = (if inst_UnknownSNIAction i \<in> set sni_actions then None else Some BadSNIAction)"

definition or_else :: "'e option \<Rightarrow> 'e option \<Rightarrow> 'e option" where
  "or_else a b = (case a of Some e \<Rightarrow> Some e | None \<Rightarrow> b)"

definition default_mask_port :: "inst \<Rightarrow> inst" where
  "default_mask_port i = (if inst_MaskPort i = 0 then i\<lparr>inst_MaskPort := 443\<rparr> else i)"

definition default_mss :: "inst \<Rightarrow> inst" where
  "default_mss i = (if inst_TCPMSS i = 0 then i\<lparr>inst_TCPMSS := 88\<rparr> else i)"

definition default_sni_action :: "inst \<Rightarrow> inst" where
  "default_sni_action i =
     (if inst_UnknownSNIAction i = [] then i\<lparr>inst_UnknownSNIAction := ''mask''\<rparr> else i)"

text \<open>The checks in the order of the code, each followed by the next unless it fails; the three
  defaults are filled in on the way, and are kept even when a later check fails.\<close>

definition Instance_Validate :: "inst \<Rightarrow> inst_error option \<times> inst" where
  "Instance_Validate i =
     (case ports_error i of Some e \<Rightarrow> (Some e, i) | None \<Rightarrow>
      let i = default_mask_port i in
      (case mask_port_error i of Some e \<Rightarrow> (Some e, i) | None \<Rightarrow>
      let i = default_mss i in
      (case or_else (mss_error i) (fronting_error i) of Some e \<Rightarrow> (Some e, i) | None \<Rightarrow>
      let i = default_sni_action i in
      (or_else (sni_error i) (exclusive_mask_error (inst_ExclusiveMask i)), i))))"

definition ContainerName :: "inst \<Rightarrow> string" where
  "ContainerName i = ''popugate-telemt-'' @ show_int (inst_Port i)"

definition GetExclusiveMask :: "inst \<Rightarrow> (string \<times> string) list" where
  "GetExclusiveMask i =
     (if inst_ExclusiveMask i = [] \<or> inst_ExclusiveMask i = ''{}'' then []
      else snd (unmarshal_map (inst_ExclusiveMask i)))"

definition GetTLSDomains :: "inst \<Rightarrow> string list" where
  "GetTLSDomains i =
     (if inst_TLSDomains i = [] \<or> inst_TLSDomains i = ''[]'' then []
      else snd (unmarshal_strings (inst_TLSDomains i)))"

definition AllDomains :: "inst \<Rightarrow> string list" where
  "AllDomains i =
     (let domains = [inst_TLSDomain i]; extra = GetTLSDomains i
      in if extra \<noteq> [] then domains @ extra else domains)"

definition Instance_GetTags :: "inst \<Rightarrow> string list" where
  "Instance_GetTags i =
     (if inst_Tags i = [] \<or> inst_Tags i = ''[]'' then []
      else snd (unmarshal_strings (inst_Tags i)))"

definition GetMaskHost :: "inst \<Rightarrow> string" where
  "GetMaskHost i = (if inst_MaskHost i \<noteq> [] then inst_MaskHost i else inst_TLSDomain i)"

text \<open>The two nested loops of TagsMatch.\<close>

fun tag_in :: "string \<Rightarrow> string list \<Rightarrow> bool" where
  "tag_in t [] = False"
| "tag_in t (s # ss) = (if t = s then True else tag_in t ss)"

fun any_tag_in :: "string list \<Rightarrow> string list \<Rightarrow> bool" where
  "any_tag_in [] ss = False"
| "any_tag_in (t # ts) ss = (if tag_in t ss then True else any_tag_in ts ss)"

definition TagsMatch :: "string list \<Rightarrow> string list \<Rightarrow> bool" where
  "TagsMatch instanceTags secretTags =
     (if instanceTags = [] then True else any_tag_in instanceTags secretTags)"

subsection \<open>Facts\<close>

lemma tag_in_iff [simp]: "tag_in t ss \<longleftrightarrow> t \<in> set ss"
  by (induction ss) auto

lemma any_tag_in_iff [simp]: "any_tag_in ts ss \<longleftrightarrow> set ts \<inter> set ss \<noteq> {}"
  by (induction ts) auto

lemma TagsMatch_iff: "TagsMatch its sts \<longleftrightarrow> its = [] \<or> set its \<inter> set sts \<noteq> {}"
  by (simp add: TagsMatch_def)

lemma mask_error_None:
  "mask_error m = None \<longleftrightarrow>
     (\<forall>(sni, target) \<in> set m. sni \<noteq> [] \<and>
        (\<exists>h p n. SplitHostPort target = Some (h, p) \<and> atoi p = Some n \<and> port_ok n))"
  by (induction m rule: mask_error.induct) (auto simp: port_ok_def split: option.splits)

text \<open>What an accepted instance satisfies.\<close>

definition valid_instance :: "inst \<Rightarrow> bool" where
  "valid_instance i \<longleftrightarrow>
     port_ok (inst_Port i) \<and> port_ok (inst_MetricsPort i) \<and>
     (inst_APIPort i = 0 \<or> port_ok (inst_APIPort i) \<and>
        inst_APIPort i \<noteq> inst_Port i \<and> inst_APIPort i \<noteq> inst_MetricsPort i) \<and>
     inst_TLSDomain i \<noteq> [] \<and> port_ok (inst_MaskPort i) \<and> inst_TCPMSS i \<noteq> 0 \<and>
     (inst_TCPMSSEnabled i \<longrightarrow> 88 \<le> inst_TCPMSS i \<and> inst_TCPMSS i \<le> 4096 \<and>
        (inst_TCPMSSBulk i = 0 \<or> 88 \<le> inst_TCPMSSBulk i \<and> inst_TCPMSSBulk i \<le> 4096)) \<and>
     (inst_TLSFronting i \<longrightarrow> inst_FakeTLS i) \<and>
     inst_UnknownSNIAction i \<in> set sni_actions \<and>
     exclusive_mask_error (inst_ExclusiveMask i) = None"

definition fill_defaults :: "inst \<Rightarrow> inst" where
  "fill_defaults i =
     i\<lparr>inst_MaskPort := (if inst_MaskPort i = 0 then 443 else inst_MaskPort i),
       inst_TCPMSS := (if inst_TCPMSS i = 0 then 88 else inst_TCPMSS i),
       inst_UnknownSNIAction :=
         (if inst_UnknownSNIAction i = [] then ''mask'' else inst_UnknownSNIAction i)\<rparr>"

lemmas default_defs = default_mask_port_def default_mss_def default_sni_action_def

lemma fill_defaults_steps: "default_sni_action (default_mss (default_mask_port i)) = fill_defaults i"
  by (cases i) (simp add: default_defs fill_defaults_def)

lemma or_else_None [simp]: "or_else a b = None \<longleftrightarrow> a = None \<and> b = None"
  and or_else_left [simp]: "or_else None b = b"
  by (simp_all add: or_else_def split: option.splits)

lemma ports_error_None:
  "ports_error i = None \<longleftrightarrow>
     port_ok (inst_Port i) \<and> port_ok (inst_MetricsPort i) \<and>
     (inst_APIPort i = 0 \<or> port_ok (inst_APIPort i) \<and>
        inst_APIPort i \<noteq> inst_Port i \<and> inst_APIPort i \<noteq> inst_MetricsPort i) \<and>
     inst_TLSDomain i \<noteq> []"
  by (auto simp: ports_error_def port_ok_def)

lemma mss_error_None:
  "mss_error i = None \<longleftrightarrow>
     (inst_TCPMSSEnabled i \<longrightarrow> 88 \<le> inst_TCPMSS i \<and> inst_TCPMSS i \<le> 4096 \<and>
        (inst_TCPMSSBulk i = 0 \<or> 88 \<le> inst_TCPMSSBulk i \<and> inst_TCPMSSBulk i \<le> 4096))"
  by (auto simp: mss_error_def)

lemma Validate_checks:
  "Instance_Validate i = (None, j) \<longleftrightarrow>
     ports_error i = None \<and> mask_port_error (default_mask_port i) = None \<and>
     mss_error (default_mss (default_mask_port i)) = None \<and>
     fronting_error (default_mss (default_mask_port i)) = None \<and>
     sni_error (fill_defaults i) = None \<and>
     exclusive_mask_error (inst_ExclusiveMask (fill_defaults i)) = None \<and> j = fill_defaults i"
proof -
  let ?b = "default_mss (default_mask_port i)"
  have [simp]: "default_sni_action ?b = fill_defaults i" by (rule fill_defaults_steps)
  show ?thesis
    unfolding Instance_Validate_def Let_def
    by (cases "ports_error i"; cases "mask_port_error (default_mask_port i)";
        cases "or_else (mss_error ?b) (fronting_error ?b)") auto
qed

lemma Validate_accepts:
  "Instance_Validate i = (None, j) \<longleftrightarrow> valid_instance (fill_defaults i) \<and> j = fill_defaults i"
proof -
  let ?f = "fill_defaults i"
  have "ports_error i = ports_error ?f"
    "mask_port_error (default_mask_port i) = mask_port_error ?f"
    "mss_error (default_mss (default_mask_port i)) = mss_error ?f"
    "fronting_error (default_mss (default_mask_port i)) = fronting_error ?f"
    by (simp_all add: default_defs fill_defaults_def ports_error_def mask_port_error_def
        mss_error_def fronting_error_def)
  moreover have "inst_TCPMSS ?f \<noteq> 0" by (simp add: fill_defaults_def)
  moreover have "mask_port_error ?f = None \<longleftrightarrow> port_ok (inst_MaskPort ?f)"
    by (auto simp: mask_port_error_def port_ok_def)
  ultimately show ?thesis
    by (simp add: Validate_checks valid_instance_def ports_error_None mss_error_None)
      (auto simp: fronting_error_def sni_error_def)
qed

end
