(* ===== verification/Upstream_Model.thy ===== *)
theory Upstream_Model
  imports Go_Net
begin

text \<open>
  \<^verbatim>\<open>internal/model/upstream.go\<close>: an upstream and its validation. The type of an upstream is
  a Go string, so a value outside the four constants is possible; a \<^verbatim>\<open>*bool\<close> is a
  \<open>bool option\<close>.
\<close>

record upstream =
  up_ID :: int
  up_Name :: string
  up_Type :: string
  up_Address :: string
  up_Username :: string
  up_Password :: string
  up_URL :: string
  up_Weight :: int
  up_Iface :: string
  up_Enabled :: bool
  up_IPv4 :: "bool option"
  up_IPv6 :: "bool option"
  up_Prefer :: int
  up_BindToDevice :: string
  up_LastCheckAt :: int
  up_LastCheckOK :: "bool option"
  up_LatencyMs :: int
  up_LastError :: string
  up_FailCount :: int
  up_AutoDisabled :: bool
  up_AutoDisabledAt :: int

definition empty_upstream :: upstream where
  "empty_upstream = \<lparr>up_ID = 0, up_Name = [], up_Type = [], up_Address = [], up_Username = [],
     up_Password = [], up_URL = [], up_Weight = 0, up_Iface = [], up_Enabled = False,
     up_IPv4 = None, up_IPv6 = None, up_Prefer = 0, up_BindToDevice = [], up_LastCheckAt = 0,
     up_LastCheckOK = None, up_LatencyMs = 0, up_LastError = [], up_FailCount = 0,
     up_AutoDisabled = False, up_AutoDisabledAt = 0\<rparr>"

definition UpstreamDirect :: string where "UpstreamDirect = ''direct''"

definition UpstreamSOCKS5 :: string where "UpstreamSOCKS5 = ''socks5''"

definition UpstreamSOCKS4 :: string where "UpstreamSOCKS4 = ''socks4''"

definition UpstreamShadowsocks :: string where "UpstreamShadowsocks = ''shadowsocks''"

lemmas upstream_types =
  UpstreamDirect_def UpstreamSOCKS5_def UpstreamSOCKS4_def UpstreamShadowsocks_def

definition isShadowsocksURL :: "string \<Rightarrow> bool" where
  "isShadowsocksURL s =
     (let s = trim_space s in has_prefix s ''ss://'' \<and> length ''ss://'' < length s)"

text \<open>The error of the \<^verbatim>\<open>switch\<close> on the type.\<close>

definition upstream_type_error :: "upstream \<Rightarrow> string option" where
  "upstream_type_error u =
     (if up_Type u = UpstreamDirect then None
      else if up_Type u = UpstreamSOCKS5 \<or> up_Type u = UpstreamSOCKS4 then
        (if up_Address u = [] then Some (''address is required for '' @ up_Type u @ '' upstream'') else None)
      else if up_Type u = UpstreamShadowsocks then
        (if \<not> isShadowsocksURL (up_URL u)
         then Some ''a valid ss:// URL is required for shadowsocks upstream'' else None)
      else Some (''invalid upstream type: '' @ up_Type u))"

definition Upstream_Validate :: "upstream \<Rightarrow> string option" where
  "Upstream_Validate u =
     (if up_Name u = [] \<or> 32 < length (up_Name u) then Some ''name must be 1-32 characters''
      else case upstream_type_error u of Some e \<Rightarrow> Some e | None \<Rightarrow>
      (if up_Weight u < 1 \<or> 100 < up_Weight u then Some ''weight must be 1-100''
       else if up_IPv4 u = Some False \<and> up_IPv6 u = Some False
       then Some ''ipv4 and ipv6 cannot both be false''
       else if up_Prefer u \<noteq> 0 \<and> up_Prefer u \<noteq> 4 \<and> up_Prefer u \<noteq> 6
       then Some ''prefer must be 0 (auto), 4, or 6''
       else if up_BindToDevice u \<noteq> [] \<and> up_Type u \<noteq> UpstreamDirect
       then Some ''bindtodevice is only supported for direct upstreams''
       else None))"

record test_result =
  tr_OK :: bool
  tr_ExitIP :: string
  tr_LatencyMs :: int
  tr_Error :: string

lemma Upstream_Validate_None:
  "Upstream_Validate u = None \<Longrightarrow>
     1 \<le> length (up_Name u) \<and> length (up_Name u) \<le> 32 \<and> 1 \<le> up_Weight u \<and> up_Weight u \<le> 100 \<and>
     up_Type u \<in> {UpstreamDirect, UpstreamSOCKS5, UpstreamSOCKS4, UpstreamShadowsocks}"
  by (auto simp: Upstream_Validate_def upstream_type_error_def Suc_le_eq split: if_splits option.splits)

end
