(* ===== verification/Admin_Model.thy ===== *)
theory Admin_Model
  imports Go_Json
begin

text \<open>
  The small records of the panel's own administration: the audit log
  (\<^verbatim>\<open>internal/model/audit.go\<close>), templates of secrets
  (\<^verbatim>\<open>internal/model/template.go\<close>), replication slaves
  (\<^verbatim>\<open>internal/model/slave.go\<close>), and what the scheduler stores
  (\<^verbatim>\<open>internal/scheduler/scheduler.go\<close>).
\<close>

record audit_entry =
  ae_ID :: int
  ae_Timestamp :: int
  ae_User :: string
  ae_Action :: string
  ae_Detail :: string

record audit_filter =
  af_Users :: "string list"
  af_Actions :: "string list"
  af_From :: int
  af_To :: int

record secret_template =
  tp_ID :: int
  tp_Name :: string
  tp_MaxConns :: int
  tp_MaxIPs :: int
  tp_QuotaBytes :: int
  tp_ExpiresDays :: int
  tp_Notes :: string
  tp_Tags :: string

definition Template_GetTags :: "secret_template \<Rightarrow> string list" where
  "Template_GetTags t =
     (if tp_Tags t = [] \<or> tp_Tags t = ''[]'' then [] else snd (unmarshal_strings (tp_Tags t)))"

record slave =
  sv_ID :: int
  sv_Host :: string
  sv_Port :: int
  sv_Label :: string
  sv_Enabled :: bool
  sv_LastSync :: int
  sv_Status :: string

text \<open>The error, or the slave with its label filled in.\<close>

definition Slave_Validate :: "slave \<Rightarrow> string + slave" where
  "Slave_Validate s =
     (if sv_Host s = [] then Inl ''host is required''
      else if sv_Port s < 1 \<or> 65535 < sv_Port s then Inl ''port must be 1-65535''
      else if sv_Label s = [] then Inr (s\<lparr>sv_Label := sv_Host s\<rparr>)
      else Inr s)"

record execution =
  ex_ID :: int
  ex_TaskName :: string
  ex_StartedAt :: int
  ex_FinishedAt :: int
  ex_DurationMs :: int
  ex_Status :: string
  ex_Error :: string
  ex_Output :: string

record task_override =
  ov_TaskName :: string
  ov_Enabled :: bool
  ov_CustomSchedule :: string
  ov_UpdatedAt :: int

end
