(* ===== verification/Host.thy ===== *)
theory Host
  imports Go_Strings
begin

text \<open>
  The machine the panel runs on, as far as the panel sees it: the containers of the Docker daemon, the
  rules of the kernel's packet filter, and files. The daemon, the programs
  \<^verbatim>\<open>iptables\<close>, \<^verbatim>\<open>iptables-save\<close> and \<^verbatim>\<open>ipset\<close>, the network and
  the file system's failures are outside the repository: \<open>daemon\<close> is the record of their
  functions, an argument of every definition that uses them. \<open>daemon_ok\<close> states what the code
  relies on, which is their documented behaviour; no other property of them is used. A function
  may let its answer depend on \<open>ho_env\<close>, so the arguments cover every schedule of failures.
\<close>

record container =
  ct_Image :: string
  ct_Binds :: "string list"
  ct_CapAdd :: "string list"
  ct_Running :: bool

text \<open>A rule is a table, a chain and the arguments that describe it.\<close>

type_synonym rule = "string \<times> string \<times> string list"

record host =
  ho_containers :: "(string \<times> container) list"
  ho_rules :: "rule list"
  ho_files :: "(string \<times> string) list"
  ho_env :: nat

text \<open>
  \<open>None\<close> is success of a call that returns an error only. \<open>nf_input\<close> runs a program on a text; its
  error comes with the output. The body of an answer to \<open>http_get\<close> may fail to arrive.
\<close>

record daemon =
  dk_remove :: "string \<Rightarrow> host \<Rightarrow> string option \<times> host"
  dk_create :: "string \<Rightarrow> container \<Rightarrow> host \<Rightarrow> (string + string) \<times> host"
  dk_start :: "string \<Rightarrow> host \<Rightarrow> string option \<times> host"
  dk_stop :: "string \<Rightarrow> host \<Rightarrow> string option \<times> host"
  dk_kill :: "string \<Rightarrow> string \<Rightarrow> host \<Rightarrow> string option \<times> host"
  dk_list :: "host \<Rightarrow> string + (string \<times> bool) list"
  dk_host_path :: "string \<Rightarrow> string"
  nf_run :: "string list \<Rightarrow> host \<Rightarrow> string option \<times> host"
  nf_save :: "string list \<Rightarrow> host \<Rightarrow> string + string"
  fs_error :: "string \<Rightarrow> host \<Rightarrow> (string \<times> nat option) option"
  tcp_free :: "int \<Rightarrow> host \<Rightarrow> bool"
  http_metrics :: "int \<Rightarrow> host \<Rightarrow> string + (int \<times> string)"
  http_page :: "string \<Rightarrow> host \<Rightarrow> string + (int \<times> string)"
  nf_input :: "string list \<Rightarrow> string \<Rightarrow> host \<Rightarrow> (string \<times> string) option \<times> host"
  look_path :: "string \<Rightarrow> host \<Rightarrow> bool"
  http_get :: "string \<Rightarrow> host \<Rightarrow> string + (int \<times> (string + string))"

text \<open>Names and files.\<close>

definition running_names :: "host \<Rightarrow> string list" where
  "running_names h = map fst (filter (\<lambda>(_, c). ct_Running c) (ho_containers h))"

text \<open>
  Creating a container and starting it by the identifier that creation returned makes it run and
  leaves the others alone; stopping touches no other container; a signal stops nothing; the list
  is that of the running containers. Docker does not touch the packet filter nor the panel's files, and
  \<^verbatim>\<open>iptables\<close> does not touch containers.
\<close>

definition docker_ok :: "daemon \<Rightarrow> bool" where
  "docker_ok dk \<longleftrightarrow>
     (\<forall>n h e h'. dk_remove dk n h = (e, h') \<longrightarrow>
        set (running_names h) - {n} \<subseteq> set (running_names h') \<and> set (running_names h') \<subseteq> set (running_names h) \<and> ho_rules h' = ho_rules h \<and> ho_files h' = ho_files h) \<and>
     (\<forall>n c h r h'. dk_create dk n c h = (r, h') \<longrightarrow>
        set (running_names h') = set (running_names h) \<and> ho_rules h' = ho_rules h \<and> ho_files h' = ho_files h) \<and>
     (\<forall>n c h i h1 e h'. dk_create dk n c h = (Inr i, h1) \<longrightarrow> dk_start dk i h1 = (e, h') \<longrightarrow>
        set (running_names h') = set (running_names h1) \<union> (if e = None then {n} else {}) \<and> ho_rules h' = ho_rules h1 \<and> ho_files h' = ho_files h1) \<and>
     (\<forall>n h e h'. dk_stop dk n h = (e, h') \<longrightarrow>
        set (running_names h) - {n} \<subseteq> set (running_names h') \<and> set (running_names h') \<subseteq> set (running_names h) \<and>
        (e = None \<longrightarrow> n \<notin> set (running_names h')) \<and> ho_rules h' = ho_rules h \<and> ho_files h' = ho_files h) \<and>
     (\<forall>n s h e h'. dk_kill dk n s h = (e, h') \<longrightarrow> ho_rules h' = ho_rules h) \<and>
     (\<forall>h l. dk_list dk h = Inr l \<longrightarrow> {n. (n, True) \<in> set l} = set (running_names h))"

text \<open>\<^verbatim>\<open>iptables\<close> with \<^verbatim>\<open>-C\<close> succeeds exactly when the rule is there, and with
  \<^verbatim>\<open>-A\<close>, \<^verbatim>\<open>-I\<close>, \<^verbatim>\<open>-D\<close> it appends, inserts and deletes one.\<close>

definition iptables :: "string \<Rightarrow> string \<Rightarrow> rule \<Rightarrow> string list" where
  "iptables table act r = (case r of (_, chain, args) \<Rightarrow>
     [''iptables''] @ (if table = ''filter'' then [] else [''-t'', table]) @ [act, chain] @ args)"

definition netfilter_ok :: "daemon \<Rightarrow> bool" where
  "netfilter_ok dk \<longleftrightarrow>
     (\<forall>argv h e h'. nf_run dk argv h = (e, h') \<longrightarrow> ho_containers h' = ho_containers h) \<and>
     (\<forall>t c as h e h'. nf_run dk (iptables t ''-C'' (t, c, as)) h = (e, h') \<longrightarrow>
        h' = h \<and> (e = None \<longleftrightarrow> (t, c, as) \<in> set (ho_rules h))) \<and>
     (\<forall>t c as h e h'. nf_run dk (iptables t ''-A'' (t, c, as)) h = (e, h') \<longrightarrow>
        ho_rules h' = (if e = None then ho_rules h @ [(t, c, as)] else ho_rules h)) \<and>
     (\<forall>t c as h e h'. nf_run dk (iptables t ''-I'' (t, c, as)) h = (e, h') \<longrightarrow>
        ho_rules h' = (if e = None then (t, c, as) # ho_rules h else ho_rules h)) \<and>
     (\<forall>t c as h e h'. nf_run dk (iptables t ''-D'' (t, c, as)) h = (e, h') \<longrightarrow>
        ho_rules h' = (if e = None then remove1 (t, c, as) (ho_rules h) else ho_rules h))"

subsection \<open>Files (package os)\<close>

text \<open>
  Whether an operation on a path fails is asked of \<open>fs_error\<close>: its message and, for a write, how
  much was written before it, if the file was created at all.
\<close>

definition tick :: "host \<Rightarrow> host" where
  "tick h = h\<lparr>ho_env := Suc (ho_env h)\<rparr>"

definition file_at :: "string \<Rightarrow> host \<Rightarrow> string option" where
  "file_at path h = map_of (ho_files h) path"

definition drop_file :: "string \<Rightarrow> (string \<times> string) list \<Rightarrow> (string \<times> string) list" where
  "drop_file path fs = filter (\<lambda>(p, _). p \<noteq> path) fs"

definition mkdir_all :: "daemon \<Rightarrow> string \<Rightarrow> host \<Rightarrow> string option \<times> host" where
  "mkdir_all dk path h = (map_option fst (fs_error dk path h), tick h)"

definition write_file :: "daemon \<Rightarrow> string \<Rightarrow> string \<Rightarrow> host \<Rightarrow> string option \<times> host" where
  "write_file dk path content h =
     (let store = (\<lambda>c. (tick h)\<lparr>ho_files := (path, c) # drop_file path (ho_files h)\<rparr>) in
      case fs_error dk path h of
        None \<Rightarrow> (None, store content)
      | Some (m, None) \<Rightarrow> (Some m, tick h)
      | Some (m, Some n) \<Rightarrow> (Some m, store (take n content)))"

definition rename_file :: "daemon \<Rightarrow> string \<Rightarrow> string \<Rightarrow> host \<Rightarrow> string option \<times> host" where
  "rename_file dk src dst h =
     (case (fs_error dk src h, file_at src h) of
        (Some (m, _), _) \<Rightarrow> (Some m, tick h)
      | (None, None) \<Rightarrow> (Some ''no such file or directory'', tick h)
      | (None, Some c) \<Rightarrow>
          (None, (tick h)\<lparr>ho_files := (dst, c) # drop_file dst (drop_file src (ho_files h))\<rparr>))"

definition read_file :: "daemon \<Rightarrow> string \<Rightarrow> host \<Rightarrow> (string + string) \<times> host" where
  "read_file dk path h =
     (case (fs_error dk path h, file_at path h) of
        (Some (m, _), _) \<Rightarrow> (Inl m, tick h)
      | (None, None) \<Rightarrow> (Inl ''no such file or directory'', tick h)
      | (None, Some c) \<Rightarrow> (Inr c, tick h))"

definition remove_file :: "daemon \<Rightarrow> string \<Rightarrow> host \<Rightarrow> string option \<times> host" where
  "remove_file dk path h =
     (case fs_error dk path h of
        Some (m, _) \<Rightarrow> (Some m, tick h)
      | None \<Rightarrow> (None, (tick h)\<lparr>ho_files := drop_file path (ho_files h)\<rparr>))"

lemma file_at_simps [simp]:
  "file_at p (tick h) = file_at p h"
  "file_at p (h'\<lparr>ho_files := (q, c) # fs\<rparr>) = (if p = q then Some c else map_of fs p)"
  "map_of (drop_file q fs) p = (if p = q then None else map_of fs p)"
proof -
  show "map_of (drop_file q fs) p = (if p = q then None else map_of fs p)"
    by (induction fs) (auto simp: drop_file_def)
qed (auto simp: file_at_def tick_def)

end
