(* ===== verification/Database.thy ===== *)
theory Database
  imports Secret_Model Instance_Model Upstream_Model Admin_Model Host
begin

text \<open>
  The state the stores share and the way the code runs statements on it. \<open>db\<close> holds the tables of
  the SQLite schema (\<^verbatim>\<open>internal/database/migrations\<close>) that the modelled components use;
  \<open>world\<close> adds what the environment decides: the clock, the zone, the entropy that
  \<^verbatim>\<open>crypto/rand\<close> delivers, and one entry per statement that says whether the statement
  fails (\<open>w_faults\<close>; no entry means it succeeds), the statuses that HTTP requests
  to the engines get, with the log of the requests made, the host, and the goroutines that
  wait for a container to drain (its name, its port and the port of its metrics). Every theorem quantifies over the world, so it
  holds for every schedule of database failures. A failed statement has no effect, and a
  transaction that is not committed leaves the tables as they were.

  An operation of the code is a function from the world to a result (\<open>Inl\<close> the error, \<open>Inr\<close> the
  value) and the next world: \<open>andthen\<close> is the \<^verbatim>\<open>if err != nil { return err }\<close> of the
  source, \<open>attempt\<close> is a call whose error the code inspects instead of returning it.
\<close>

subsection \<open>Tables\<close>

record secret_row =
  row_id :: int
  row_label :: string
  row_secret_key :: string
  row_created_at :: int
  row_enabled :: bool
  row_max_conns :: int
  row_max_ips :: int
  row_quota_bytes :: int
  row_rate_limit_up_bps :: int
  row_rate_limit_down_bps :: int
  row_expires_at :: string
  row_notes :: string
  row_tags :: string
  row_archived_at :: int

record traffic_row =
  tu_label :: string
  tu_instance_id :: int
  tu_bytes_in :: int
  tu_bytes_out :: int
  tu_snap_in :: int
  tu_snap_out :: int

record history_row =
  th_timestamp :: int
  th_bytes_in :: int
  th_bytes_out :: int
  th_connections :: int
  th_label :: string

text \<open>\<^verbatim>\<open>model.TrafficSnapshot\<close>, also the row of the table \<^verbatim>\<open>traffic_global\<close>.\<close>

record snapshot =
  snap_BytesIn :: int
  snap_BytesOut :: int
  snap_SnapIn :: int
  snap_SnapOut :: int

record db =
  t_secrets :: "secret_row list"
  t_secrets_seq :: int
  t_traffic_user :: "traffic_row list"
  t_traffic_global :: "snapshot option"
  t_traffic_history :: "history_row list"
  t_quota_alerts :: "(string \<times> int) list"
  t_instances :: "inst list"
  t_instances_seq :: int
  t_settings :: "(string \<times> string) list"
  t_upstreams :: "upstream list"
  t_upstreams_seq :: int
  t_task_overrides :: "task_override list"
  t_task_history :: "execution list"
  t_task_history_seq :: int
  t_audit_log :: "audit_entry list"
  t_audit_seq :: int
  t_templates :: "secret_template list"
  t_templates_seq :: int
  t_slaves :: "slave list"
  t_slaves_seq :: int
  t_token_blocklist :: "(string \<times> int) list"
  t_geoblock_cache :: "(string \<times> string \<times> int) list"

text \<open>The tables as the migrations leave them, without the settings they seed.\<close>

definition empty_db :: db where
  "empty_db = \<lparr>t_secrets = [], t_secrets_seq = 0, t_traffic_user = [],
     t_traffic_global = Some \<lparr>snap_BytesIn = 0, snap_BytesOut = 0, snap_SnapIn = 0, snap_SnapOut = 0\<rparr>,
     t_traffic_history = [], t_quota_alerts = [], t_instances = [], t_instances_seq = 0,
     t_settings = [], t_upstreams = [], t_upstreams_seq = 0, t_task_overrides = [], t_task_history = [],
     t_task_history_seq = 0, t_audit_log = [], t_audit_seq = 0, t_templates = [], t_templates_seq = 0,
     t_slaves = [], t_slaves_seq = 0, t_token_blocklist = [], t_geoblock_cache = []\<rparr>"

subsection \<open>Errors and faults\<close>

datatype error =
    ErrNoRows
  | ErrDriver string
  | ErrConstraint string
  | ErrMsg string
  | ErrWrap string error

fun err_text :: "error \<Rightarrow> string" where
  "err_text ErrNoRows = ''sql: no rows in result set''"
| "err_text (ErrDriver m) = m"
| "err_text (ErrConstraint m) = ''UNIQUE constraint failed: '' @ m"
| "err_text (ErrMsg m) = m"
| "err_text (ErrWrap p e) = p @ '': '' @ err_text e"

definition squote :: "string \<Rightarrow> string" where
  "squote s = [CHR 0x27] @ s @ [CHR 0x27]"

text \<open>Where a statement that reads rows can fail: running it, scanning the rows with the given
  numbers, or the check of \<^verbatim>\<open>rows.Err()\<close> after the last row.\<close>

datatype fault = FQuery string | FScan "nat list" string | FIter string

datatype stage = AtQuery | AtScan | AtIter

fun fault_text :: "fault \<Rightarrow> string" where
  "fault_text (FQuery m) = m"
| "fault_text (FScan _ m) = m"
| "fault_text (FIter m) = m"

text \<open>What the code asks of the container service, of Docker and of the notifier, in a log.\<close>

datatype event =
    EvReload string
  | EvRestart
  | EvRun string
  | EvStop string
  | EvSignal string string
  | EvNotify string
  | EvUpstreamDown "string option" string string
  | EvUpstreamUp "string option" string int

record world =
  w_db :: db
  w_faults :: "fault option list"
  w_now :: int
  w_zone :: int
  w_entropy :: string
  w_http :: "int option list"
  w_posts :: "string list"
  w_events :: "event list"
  w_host :: host
  w_drains :: "(string \<times> int \<times> int) list"

type_synonym 'a io = "world \<Rightarrow> (error + 'a) \<times> world"

subsection \<open>Sequencing\<close>

definition ret :: "'a \<Rightarrow> 'a io" where
  "ret x w = (Inr x, w)"

definition throw :: "error \<Rightarrow> 'a io" where
  "throw e w = (Inl e, w)"

definition andthen :: "'a io \<Rightarrow> ('a \<Rightarrow> 'b io) \<Rightarrow> 'b io" where
  "andthen m f w = (case m w of (Inl e, w') \<Rightarrow> (Inl e, w') | (Inr x, w') \<Rightarrow> f x w')"

definition attempt :: "'a io \<Rightarrow> (error + 'a) io" where
  "attempt m w = (case m w of (r, w') \<Rightarrow> (Inr r, w'))"

definition wrap :: "string \<Rightarrow> 'a io \<Rightarrow> 'a io" where
  "wrap p m w = (case m w of (Inl e, w') \<Rightarrow> (Inl (ErrWrap p e), w') | (Inr x, w') \<Rightarrow> (Inr x, w'))"

text \<open>A loop over a list whose body returns the accumulator; \<open>each\<close> stops at the first error.\<close>

fun each :: "('x \<Rightarrow> 'a \<Rightarrow> 'a io) \<Rightarrow> 'x list \<Rightarrow> 'a \<Rightarrow> 'a io" where
  "each f [] a = ret a"
| "each f (x # xs) a = andthen (f x a) (each f xs)"

definition clock :: "int io" where
  "clock w = (Inr (w_now w), w)"

definition zone :: "int io" where
  "zone w = (Inr (w_zone w), w)"

text \<open>A call of Docker, the packet filter or the file system: with an error only, and with a value.\<close>

definition on_host :: "(host \<Rightarrow> string option \<times> host) \<Rightarrow> unit io" where
  "on_host f w =
     (case f (w_host w) of
        (None, h) \<Rightarrow> (Inr (), w\<lparr>w_host := h\<rparr>)
      | (Some m, h) \<Rightarrow> (Inl (ErrDriver m), w\<lparr>w_host := h\<rparr>))"

definition from_host :: "(host \<Rightarrow> (string + 'a) \<times> host) \<Rightarrow> 'a io" where
  "from_host f w =
     (case f (w_host w) of
        (Inr x, h) \<Rightarrow> (Inr x, w\<lparr>w_host := h\<rparr>)
      | (Inl m, h) \<Rightarrow> (Inl (ErrDriver m), w\<lparr>w_host := h\<rparr>))"

definition tell :: "event \<Rightarrow> unit io" where
  "tell e w = (Inr (), w\<lparr>w_events := w_events w @ [e]\<rparr>)"

definition when_do :: "bool \<Rightarrow> unit io \<Rightarrow> unit io" where
  "when_do c m = (if c then m else ret ())"

subsection \<open>Statements\<close>

definition pop_fault :: "world \<Rightarrow> fault option \<times> world" where
  "pop_fault w =
     (case w_faults w of [] \<Rightarrow> (None, w) | f # fs \<Rightarrow> (f, w\<lparr>w_faults := fs\<rparr>))"

text \<open>A statement that writes; the schema's constraints are errors of the effect \<open>f\<close>.\<close>

definition sql_exec :: "(db \<Rightarrow> error + ('a \<times> db)) \<Rightarrow> 'a io" where
  "sql_exec f w =
     (case pop_fault w of
        (Some ft, w') \<Rightarrow> (Inl (ErrDriver (fault_text ft)), w')
      | (None, w') \<Rightarrow>
          (case f (w_db w') of
             Inl e \<Rightarrow> (Inl e, w')
           | Inr (x, d) \<Rightarrow> (Inr x, w'\<lparr>w_db := d\<rparr>)))"

definition drop_indices :: "nat list \<Rightarrow> 'r list \<Rightarrow> 'r list" where
  "drop_indices ns rs = map snd (filter (\<lambda>(i, _). i \<notin> set ns) (zip [0 ..< length rs] rs))"

text \<open>A statement that reads rows, each of which must scan; \<open>wr\<close> wraps the error of each stage.\<close>

definition sql_rows :: "(stage \<Rightarrow> error \<Rightarrow> error) \<Rightarrow> (db \<Rightarrow> error + 'r list) \<Rightarrow> 'r list io" where
  "sql_rows wr f w =
     (case pop_fault w of (ft, w') \<Rightarrow>
        (case ft of
           Some (FQuery m) \<Rightarrow> (Inl (wr AtQuery (ErrDriver m)), w')
         | Some (FIter m) \<Rightarrow> (Inl (wr AtIter (ErrDriver m)), w')
         | Some (FScan ns m) \<Rightarrow>
             (case f (w_db w') of
                Inl e \<Rightarrow> (Inl (wr AtIter e), w')
              | Inr rs \<Rightarrow>
                  if list_ex (\<lambda>n. n < length rs) ns then (Inl (wr AtScan (ErrDriver m)), w')
                  else (Inr rs, w'))
         | None \<Rightarrow> (case f (w_db w') of Inl e \<Rightarrow> (Inl (wr AtIter e), w') | Inr rs \<Rightarrow> (Inr rs, w'))))"

text \<open>A loop that skips the rows that do not scan.\<close>

definition sql_rows_skip :: "(stage \<Rightarrow> error \<Rightarrow> error) \<Rightarrow> (db \<Rightarrow> error + 'r list) \<Rightarrow> 'r list io" where
  "sql_rows_skip wr f w =
     (case pop_fault w of (ft, w') \<Rightarrow>
        (case ft of
           Some (FQuery m) \<Rightarrow> (Inl (wr AtQuery (ErrDriver m)), w')
         | Some (FIter m) \<Rightarrow> (Inl (wr AtIter (ErrDriver m)), w')
         | Some (FScan ns m) \<Rightarrow>
             (case f (w_db w') of
                Inl e \<Rightarrow> (Inl (wr AtIter e), w') | Inr rs \<Rightarrow> (Inr (drop_indices ns rs), w'))
         | None \<Rightarrow> (case f (w_db w') of Inl e \<Rightarrow> (Inl (wr AtIter e), w') | Inr rs \<Rightarrow> (Inr rs, w'))))"

text \<open>QueryRow followed by Scan: \<open>None\<close> is \<^verbatim>\<open>sql.ErrNoRows\<close>.\<close>

definition sql_row :: "(error \<Rightarrow> error) \<Rightarrow> (db \<Rightarrow> 'r option) \<Rightarrow> 'r option io" where
  "sql_row wr f w =
     (case pop_fault w of
        (Some ft, w') \<Rightarrow> (Inl (wr (ErrDriver (fault_text ft))), w')
      | (None, w') \<Rightarrow> (Inr (f (w_db w')), w'))"

definition same_error :: "stage \<Rightarrow> error \<Rightarrow> error" where
  "same_error st e = e"

fun stage_wrap :: "string \<Rightarrow> string \<Rightarrow> string \<Rightarrow> stage \<Rightarrow> error \<Rightarrow> error" where
  "stage_wrap q s i AtQuery e = ErrWrap q e"
| "stage_wrap q s i AtScan e = ErrWrap s e"
| "stage_wrap q s i AtIter e = ErrWrap i e"

subsection \<open>Transactions\<close>

definition tx_step :: "unit io" where
  "tx_step = sql_exec (\<lambda>d. Inr ((), d))"

text \<open>BeginTx and the body, whose last statement is \<open>tx_step\<close> for Commit; the deferred Rollback
  restores the tables on every error return.\<close>

definition transaction :: "string \<Rightarrow> 'a io \<Rightarrow> 'a io" where
  "transaction begin_msg body w =
     (case wrap begin_msg tx_step w of
        (Inl e, w1) \<Rightarrow> (Inl e, w1)
      | (Inr _, w1) \<Rightarrow>
          (case body w1 of
             (Inl e, w2) \<Rightarrow> (Inl e, w2\<lparr>w_db := w_db w1\<rparr>)
           | (Inr x, w2) \<Rightarrow> (Inr x, w2)))"

subsection \<open>Running operations\<close>

lemma run_ret [run_simps, simp]: "ret x w = (Inr x, w)"
  by (simp add: ret_def)

lemma run_throw [run_simps, simp]: "throw e w = (Inl e, w)"
  by (simp add: throw_def)

lemma run_clock [run_simps, simp]: "clock w = (Inr (w_now w), w)"
  by (simp add: clock_def)

lemma run_zone [run_simps, simp]: "zone w = (Inr (w_zone w), w)"
  by (simp add: zone_def)

lemma andthen_Inr: "m w = (Inr x, w') \<Longrightarrow> andthen m f w = f x w'"
  and andthen_Inl: "m w = (Inl e, w') \<Longrightarrow> andthen m f w = (Inl e, w')"
  by (simp_all add: andthen_def)

lemma attempt_run: "attempt m w = (Inr (fst (m w)), snd (m w))"
  by (simp add: attempt_def case_prod_beta)

lemma andthen_cases:
  obtains (err) e w' where "m w = (Inl e, w')" "andthen m f w = (Inl e, w')"
  | (ok) x w' where "m w = (Inr x, w')" "andthen m f w = f x w'"
  by (cases "m w"; cases "fst (m w)") (auto simp: andthen_def)

lemma andthen_InrE:
  assumes "andthen m f w = (Inr y, w')"
  obtains x w1 where "m w = (Inr x, w1)" "f x w1 = (Inr y, w')"
  using assms by (cases rule: andthen_cases [of m w f]) (auto intro: that)

lemma wrap_Inr: "wrap p m w = (Inr x, w') \<longleftrightarrow> m w = (Inr x, w')"
  by (auto simp: wrap_def split: prod.splits sum.splits)

lemma andthen_ret [simp]: "andthen (ret x) f = f x"
  by (rule ext) (simp add: andthen_def)

lemma andthen_assoc: "andthen (andthen m f) g = andthen m (\<lambda>x. andthen (f x) g)"
  by (rule ext) (auto simp: andthen_def split: prod.splits sum.splits)

lemma pop_fault_db [simp]: "w_db (snd (pop_fault w)) = w_db w"
  by (simp add: pop_fault_def split: list.splits)

lemma pop_fault_same: "pop_fault w = (ft, w') \<Longrightarrow> w_db w' = w_db w"
  using pop_fault_db [of w] by simp

lemma pop_fault_none [simp]: "w_faults w = [] \<Longrightarrow> pop_fault w = (None, w)"
  by (simp add: pop_fault_def)

text \<open>Without faults a statement does what its effect says.\<close>

lemma sql_exec_ok [run_simps]:
  "w_faults w = [] \<Longrightarrow> sql_exec f w =
     (case f (w_db w) of Inl e \<Rightarrow> (Inl e, w) | Inr (x, d) \<Rightarrow> (Inr x, w\<lparr>w_db := d\<rparr>))"
  by (simp add: sql_exec_def)

lemma sql_rows_ok [run_simps]:
  "w_faults w = [] \<Longrightarrow> sql_rows wr f w =
     (case f (w_db w) of Inl e \<Rightarrow> (Inl (wr AtIter e), w) | Inr rs \<Rightarrow> (Inr rs, w))"
  by (simp add: sql_rows_def)

lemma sql_rows_skip_ok [run_simps]:
  "w_faults w = [] \<Longrightarrow> sql_rows_skip wr f w =
     (case f (w_db w) of Inl e \<Rightarrow> (Inl (wr AtIter e), w) | Inr rs \<Rightarrow> (Inr rs, w))"
  by (simp add: sql_rows_skip_def)

lemma sql_row_ok [run_simps]: "w_faults w = [] \<Longrightarrow> sql_row wr f w = (Inr (f (w_db w)), w)"
  by (simp add: sql_row_def)

lemma tx_step_ok [run_simps]: "w_faults w = [] \<Longrightarrow> tx_step w = (Inr (), w)"
  by (simp add: tx_step_def sql_exec_def)

subsection \<open>What an operation keeps\<close>

text \<open>\<open>keeps P m\<close>: whatever fails, \<open>m\<close> leads from tables with \<open>P\<close> to tables with \<open>P\<close>.
  \<open>reads m\<close>: \<open>m\<close> does not change the tables. \<open>atomic m\<close>: an error means no change.\<close>

definition keeps :: "(db \<Rightarrow> bool) \<Rightarrow> 'a io \<Rightarrow> bool" where
  "keeps P m \<longleftrightarrow> (\<forall>w. P (w_db w) \<longrightarrow> P (w_db (snd (m w))))"

definition reads :: "'a io \<Rightarrow> bool" where
  "reads m \<longleftrightarrow> (\<forall>w. w_db (snd (m w)) = w_db w)"

definition atomic :: "'a io \<Rightarrow> bool" where
  "atomic m \<longleftrightarrow> (\<forall>w e w'. m w = (Inl e, w') \<longrightarrow> w_db w' = w_db w)"

lemma keepsI: "(\<And>w. P (w_db w) \<Longrightarrow> P (w_db (snd (m w)))) \<Longrightarrow> keeps P m"
  by (simp add: keeps_def)

lemma keepsD: "keeps P m \<Longrightarrow> P (w_db w) \<Longrightarrow> P (w_db (snd (m w)))"
  by (simp add: keeps_def)

lemma keepsD': "keeps P m \<Longrightarrow> m w = (r, w') \<Longrightarrow> P (w_db w) \<Longrightarrow> P (w_db w')"
  by (auto simp: keeps_def dest: spec [of _ w])

lemma readsD: "reads m \<Longrightarrow> m w = (r, w') \<Longrightarrow> w_db w' = w_db w"
  by (auto simp: reads_def dest: spec [of _ w])

lemma reads_keeps: "reads m \<Longrightarrow> keeps P m"
  by (simp add: reads_def keeps_def)

lemma reads_atomic: "reads m \<Longrightarrow> atomic m"
  by (auto simp: atomic_def dest: readsD)

lemma reads_ret [simp, intro]: "reads (ret x)"
  and reads_throw [simp, intro]: "reads (throw e)"
  and reads_clock [simp, intro]: "reads clock"
  and reads_zone [simp, intro]: "reads zone"
  by (simp_all add: reads_def)

lemma reads_andthen [intro]:
  assumes "reads m" "\<And>x. reads (f x)"
  shows "reads (andthen m f)"
  unfolding reads_def
proof
  fix w :: world
  show "w_db (snd (andthen m f w)) = w_db w"
  proof (cases rule: andthen_cases [of m w f])
    case (err e w')
    with readsD [OF assms(1) err(1)] show ?thesis by simp
  next
    case (ok x w')
    have "w_db (snd (f x w')) = w_db w'" using assms(2) [of x] by (simp add: reads_def)
    with ok readsD [OF assms(1) ok(1)] show ?thesis by simp
  qed
qed

lemma snd_wrap [simp]: "snd (wrap p m w) = snd (m w)"
  by (simp add: wrap_def split: prod.split sum.split)

lemma snd_attempt [simp]: "snd (attempt m w) = snd (m w)"
  by (simp add: attempt_def split: prod.split)

lemma reads_wrap [simp]: "reads (wrap p m) = reads m"
  and reads_attempt [simp]: "reads (attempt n) = reads n"
  by (simp_all add: reads_def)

lemma tell_reads [simp, intro]: "reads (tell e)"
  by (simp add: reads_def tell_def)

lemma host_reads [simp, intro]: "reads (on_host f)" "reads (from_host g)"
  by (auto simp: reads_def on_host_def from_host_def split: prod.split option.split sum.split)

lemma sql_rows_reads [simp, intro]: "reads (sql_rows wr f)"
proof -
  have "w_db (snd (sql_rows wr f w)) = w_db w" for w
  proof -
    obtain ft w' where p: "pop_fault w = (ft, w')" by (rule prod.exhaust)
    then have "snd (sql_rows wr f w) = w'"
      by (simp add: sql_rows_def split: option.split fault.split sum.split)
    with pop_fault_same [OF p] show ?thesis by simp
  qed
  then show ?thesis by (simp add: reads_def)
qed

lemma sql_rows_skip_reads [simp, intro]: "reads (sql_rows_skip wr f)"
proof -
  have "w_db (snd (sql_rows_skip wr f w)) = w_db w" for w
  proof -
    obtain ft w' where p: "pop_fault w = (ft, w')" by (rule prod.exhaust)
    then have "snd (sql_rows_skip wr f w) = w'"
      by (simp add: sql_rows_skip_def split: option.split fault.split sum.split)
    with pop_fault_same [OF p] show ?thesis by simp
  qed
  then show ?thesis by (simp add: reads_def)
qed

lemma sql_row_reads [simp, intro]: "reads (sql_row wr f)"
proof -
  have "w_db (snd (sql_row wr f w)) = w_db w" for w
    by (auto simp: sql_row_def split: prod.splits option.splits dest: pop_fault_same)
  then show ?thesis by (simp add: reads_def)
qed

lemma keeps_ret [keeps_intros]: "keeps P (ret x)"
  and keeps_throw [keeps_intros]: "keeps P (throw e)"
  and keeps_clock [keeps_intros]: "keeps P clock"
  and keeps_zone [keeps_intros]: "keeps P zone"
  and keeps_sql_rows [keeps_intros]: "keeps P (sql_rows wr f)"
  and keeps_sql_rows_skip [keeps_intros]: "keeps P (sql_rows_skip wr f2)"
  and keeps_sql_row [keeps_intros]: "keeps P (sql_row wr1 g)"
  by (auto intro: reads_keeps)

lemma keeps_andthen [keeps_intros]:
  assumes "keeps P m" "\<And>x. keeps P (f x)"
  shows "keeps P (andthen m f)"
proof (rule keepsI)
  fix w :: world assume P: "P (w_db w)"
  show "P (w_db (snd (andthen m f w)))"
  proof (cases rule: andthen_cases [of m w f])
    case (err e w')
    with keepsD' [OF assms(1) err(1) P] show ?thesis by simp
  next
    case (ok x w')
    with keepsD [OF assms(2) keepsD' [OF assms(1) ok(1) P]] show ?thesis by simp
  qed
qed

lemma keeps_wrap [keeps_intros]: "keeps P m \<Longrightarrow> keeps P (wrap p m)"
  by (simp add: keeps_def)

lemma keeps_attempt [keeps_intros]: "keeps P m \<Longrightarrow> keeps P (attempt m)"
  by (simp add: keeps_def)

lemma keeps_each [keeps_intros]: "(\<And>x a. keeps P (f x a)) \<Longrightarrow> keeps P (each f xs a)"
  by (induction xs arbitrary: a) (auto intro: keeps_ret keeps_andthen)

lemma keeps_if [keeps_intros]: "keeps P m \<Longrightarrow> keeps P n \<Longrightarrow> keeps P (if b then m else n)"
  by simp

lemma keeps_option [keeps_intros]:
  "keeps P m \<Longrightarrow> (\<And>x. keeps P (n x)) \<Longrightarrow> keeps P (case o' of None \<Rightarrow> m | Some x \<Rightarrow> n x)"
  by (simp split: option.splits)

lemma keeps_sum [keeps_intros]:
  "(\<And>x. keeps P (m x)) \<Longrightarrow> (\<And>x. keeps P (n x)) \<Longrightarrow> keeps P (case s of Inl x \<Rightarrow> m x | Inr x \<Rightarrow> n x)"
  by (simp split: sum.splits)

lemma keeps_sql_exec:
  assumes "\<And>d x d'. P d \<Longrightarrow> f d = Inr (x, d') \<Longrightarrow> P d'"
  shows "keeps P (sql_exec f)"
proof (rule keepsI)
  fix w :: world assume "P (w_db w)"
  then show "P (w_db (snd (sql_exec f w)))"
    using assms
    by (auto simp: sql_exec_def split: prod.splits option.splits sum.splits dest: pop_fault_same)
qed

lemma sql_exec_atomic: "atomic (sql_exec f)"
  by (auto simp: atomic_def sql_exec_def split: prod.splits option.splits sum.splits
      dest: pop_fault_same)

lemma tx_step_reads [simp, intro]: "reads tx_step"
proof -
  have "w_db (snd (tx_step w)) = w_db w" for w
    by (auto simp: tx_step_def sql_exec_def split: prod.splits option.splits dest: pop_fault_same)
  then show ?thesis by (simp add: reads_def)
qed

subsection \<open>Transactions are atomic\<close>

lemma transaction_atomic: "atomic (transaction b body)"
  unfolding atomic_def
proof (intro allI impI)
  fix w :: world and e w'
  assume t: "transaction b body w = (Inl e, w')"
  obtain r1 w1 where w1: "wrap b tx_step w = (r1, w1)" by (rule prod.exhaust)
  have "reads (wrap b tx_step)" by simp
  then have "w_db w1 = w_db w" using w1 by (rule readsD)
  then show "w_db w' = w_db w"
    using t w1 by (auto simp: transaction_def split: sum.splits prod.splits)
qed

lemma transaction_keeps [keeps_intros]:
  assumes "keeps P body"
  shows "keeps P (transaction b body)"
proof (rule keepsI)
  fix w :: world assume P: "P (w_db w)"
  obtain r1 w1 where w1: "wrap b tx_step w = (r1, w1)" by (rule prod.exhaust)
  have d: "w_db w1 = w_db w" using w1 readsD [of "wrap b tx_step" w r1 w1] by simp
  from keepsD [OF assms, of w1] P d w1
  show "P (w_db (snd (transaction b body w)))"
    by (auto simp: transaction_def split: sum.splits prod.splits)
qed

text \<open>What a committed transaction did is what its body did.\<close>

lemma transaction_Inr:
  assumes "transaction b body w = (Inr x, w')"
  obtains w1 where "w_db w1 = w_db w" "body w1 = (Inr x, w')"
proof -
  obtain r1 w1 where w1: "wrap b tx_step w = (r1, w1)" by (rule prod.exhaust)
  have "w_db w1 = w_db w" using w1 readsD [of "wrap b tx_step" w r1 w1] by simp
  moreover have "body w1 = (Inr x, w')"
    using assms w1 by (auto simp: transaction_def split: sum.splits prod.splits)
  ultimately show thesis by (rule that)
qed

lemma transaction_ok [run_simps]:
  "w_faults w = [] \<Longrightarrow> transaction b body w =
     (case body w of (Inl e, w2) \<Rightarrow> (Inl e, w2\<lparr>w_db := w_db w\<rparr>) | (Inr x, w2) \<Rightarrow> (Inr x, w2))"
  by (simp add: transaction_def wrap_def tx_step_ok)

text \<open>A loop whose body skips what fails keeps the transaction going: \<open>on_ok\<close> runs \<open>m\<close>, and
  counts nothing when it fails.\<close>

definition affected :: "int io \<Rightarrow> int \<Rightarrow> int io" where
  "affected m n = andthen (attempt m) (\<lambda>r. case r of Inl _ \<Rightarrow> ret n | Inr k \<Rightarrow> ret (n + k))"

lemma keeps_affected [keeps_intros]: "keeps P m \<Longrightarrow> keeps P (affected m n)"
  unfolding affected_def by (intro keeps_intros)

subsection \<open>Pre- and postconditions\<close>

text \<open>\<open>hoare P m Q E\<close>: from tables with \<open>P\<close>, a run of \<open>m\<close> that returns \<open>x\<close> ends in \<open>Q x\<close>, and one
  that returns an error ends in \<open>E\<close>, whatever fails on the way.\<close>

definition hoare :: "(db \<Rightarrow> bool) \<Rightarrow> 'a io \<Rightarrow> ('a \<Rightarrow> db \<Rightarrow> bool) \<Rightarrow> (db \<Rightarrow> bool) \<Rightarrow> bool" where
  "hoare P m Q E \<longleftrightarrow>
     (\<forall>w r w'. P (w_db w) \<longrightarrow> m w = (r, w') \<longrightarrow>
        (case r of Inl _ \<Rightarrow> E (w_db w') | Inr x \<Rightarrow> Q x (w_db w')))"

lemma hoareI:
  assumes "\<And>w x w'. P (w_db w) \<Longrightarrow> m w = (Inr x, w') \<Longrightarrow> Q x (w_db w')"
    and "\<And>w e w'. P (w_db w) \<Longrightarrow> m w = (Inl e, w') \<Longrightarrow> E (w_db w')"
  shows "hoare P m Q E"
  using assms by (auto simp: hoare_def split: sum.splits)

lemma hoare_Inr: "hoare P m Q E \<Longrightarrow> m w = (Inr x, w') \<Longrightarrow> P (w_db w) \<Longrightarrow> Q x (w_db w')"
  by (auto simp: hoare_def dest!: spec [of _ w])

lemma hoare_Inl: "hoare P m Q E \<Longrightarrow> m w = (Inl e, w') \<Longrightarrow> P (w_db w) \<Longrightarrow> E (w_db w')"
  by (auto simp: hoare_def dest!: spec [of _ w])

lemma hoare_keeps: "hoare P m (\<lambda>_. P) P \<Longrightarrow> keeps P m"
proof (rule keepsI)
  fix w :: world
  assume h: "hoare P m (\<lambda>_. P) P" "P (w_db w)"
  obtain r w' where "m w = (r, w')" by (rule prod.exhaust)
  with h show "P (w_db (snd (m w)))"
    by (cases r) (auto dest: hoare_Inl hoare_Inr)
qed

lemma keeps_hoare: "keeps P m \<Longrightarrow> hoare P m (\<lambda>_. P) P"
  by (auto intro!: hoareI dest: keepsD')

lemma hoare_conseq:
  "hoare P' m Q' E' \<Longrightarrow> (\<And>d. P d \<Longrightarrow> P' d) \<Longrightarrow> (\<And>x d. Q' x d \<Longrightarrow> Q x d) \<Longrightarrow> (\<And>d. E' d \<Longrightarrow> E d) \<Longrightarrow>
   hoare P m Q E"
  by (rule hoareI) (blast dest: hoare_Inr hoare_Inl)+

lemma hoare_ret: "(\<And>d. P d \<Longrightarrow> Q x d) \<Longrightarrow> hoare P (ret x) Q E"
  by (auto simp: hoare_def)

lemma hoare_throw: "(\<And>d. P d \<Longrightarrow> E d) \<Longrightarrow> hoare P (throw e) Q E"
  by (auto simp: hoare_def)

lemma hoare_andthen:
  assumes "hoare P m R E" "\<And>x. hoare (R x) (f x) Q E"
  shows "hoare P (andthen m f) Q E"
proof -
  have "case r of Inl _ \<Rightarrow> E (w_db w') | Inr x \<Rightarrow> Q x (w_db w')"
    if P: "P (w_db w)" and run: "andthen m f w = (r, w')" for w r w'
  proof (cases rule: andthen_cases [of m w f])
    case (err e w1)
    with hoare_Inl [OF assms(1) err(1) P] run show ?thesis by auto
  next
    case (ok x w1)
    have "R x (w_db w1)" using hoare_Inr [OF assms(1) ok(1) P] .
    moreover have "f x w1 = (r, w')" using ok run by simp
    ultimately show ?thesis
      using hoare_Inr [OF assms(2)] hoare_Inl [OF assms(2)] by (cases r) force+
  qed
  then show ?thesis by (auto simp: hoare_def)
qed

lemma hoare_wrap: "hoare P m Q E \<Longrightarrow> hoare P (wrap p m) Q E"
  by (rule hoareI)
    (auto simp: wrap_def split: prod.splits sum.splits dest: hoare_Inr hoare_Inl)

lemma hoare_attempt:
  "hoare P m Q E \<Longrightarrow> hoare P (attempt m) (\<lambda>r d. case r of Inl _ \<Rightarrow> E d | Inr x \<Rightarrow> Q x d) F"
  by (rule hoareI) (auto simp: attempt_def split: prod.splits sum.splits dest: hoare_Inr hoare_Inl)

lemma hoare_each:
  assumes "\<And>x xs a. hoare (I (x # xs) a) (f x a) (I xs) E"
  shows "hoare (I xs a) (each f xs a) (I []) E"
proof (induction xs arbitrary: a)
  case Nil
  show ?case unfolding each.simps by (rule hoare_ret)
next
  case (Cons x xs)
  show ?case unfolding each.simps by (rule hoare_andthen [OF assms Cons.IH])
qed

lemma hoare_sql_exec:
  assumes "\<And>d x d'. P d \<Longrightarrow> f d = Inr (x, d') \<Longrightarrow> Q x d'" "\<And>d. P d \<Longrightarrow> E d"
  shows "hoare P (sql_exec f) Q E"
proof (rule hoareI)
  fix w :: world and x w'
  assume P: "P (w_db w)" and run: "sql_exec f w = (Inr x, w')"
  from run obtain w1 d where "pop_fault w = (None, w1)" "f (w_db w1) = Inr (x, d)" "w_db w' = d"
    by (auto simp: sql_exec_def split: prod.splits option.splits sum.splits)
  with P show "Q x (w_db w')" using pop_fault_same assms(1) by metis
next
  fix w :: world and e w'
  assume P: "P (w_db w)" and run: "sql_exec f w = (Inl e, w')"
  have "w_db w' = w_db w" using sql_exec_atomic [of f] run by (auto simp: atomic_def)
  with P assms(2) show "E (w_db w')" by simp
qed

lemma hoare_sql_row:
  assumes "\<And>d. P d \<Longrightarrow> Q (f d) d" "\<And>d. P d \<Longrightarrow> E d"
  shows "hoare P (sql_row wr f) Q E"
proof (rule hoareI)
  fix w :: world and x w'
  assume P: "P (w_db w)" and run: "sql_row wr f w = (Inr x, w')"
  from run have "pop_fault w = (None, w')" "x = f (w_db w')"
    by (auto simp: sql_row_def split: prod.splits option.splits)
  with P assms(1) show "Q x (w_db w')" using pop_fault_same by metis
next
  fix w :: world and e w'
  assume P: "P (w_db w)" and run: "sql_row wr f w = (Inl e, w')"
  have "w_db w' = w_db w" using sql_row_reads run by (rule readsD)
  with P assms(2) show "E (w_db w')" by simp
qed

lemma hoare_reads: "reads m \<Longrightarrow> (\<And>d. P d \<Longrightarrow> E d) \<Longrightarrow> hoare P m (\<lambda>_. P) E"
  by (auto intro!: hoareI dest: readsD)

lemma hoare_conj:
  "hoare P m Q E \<Longrightarrow> hoare P' m Q' E' \<Longrightarrow>
   hoare (\<lambda>d. P d \<and> P' d) m (\<lambda>x d. Q x d \<and> Q' x d) (\<lambda>d. E d \<and> E' d)"
  by (rule hoareI) (simp_all add: hoare_Inr hoare_Inl)

lemma hoare_if:
  "(c \<Longrightarrow> hoare P m Q E) \<Longrightarrow> (\<not> c \<Longrightarrow> hoare P n Q E) \<Longrightarrow> hoare P (if c then m else n) Q E"
  by simp

lemma hoare_sum:
  "(\<And>x. hoare P (m x) Q E) \<Longrightarrow> (\<And>x. hoare P (n x) Q E) \<Longrightarrow>
   hoare P (case s of Inl x \<Rightarrow> m x | Inr x \<Rightarrow> n x) Q E"
  by (simp split: sum.splits)

lemma hoare_option:
  "hoare P m Q E \<Longrightarrow> (\<And>x. hoare P (n x) Q E) \<Longrightarrow>
   hoare P (case o' of None \<Rightarrow> m | Some x \<Rightarrow> n x) Q E"
  by (simp split: option.splits)

lemma hoare_pre_False: "hoare (\<lambda>_. False) m Q E"
  by (simp add: hoare_def)

text \<open>A step that writes nothing, and may bind a value.\<close>

lemma hoare_reads_then:
  assumes "reads m" "\<And>d. P d \<Longrightarrow> E d" "\<And>x. hoare P (f x) Q E"
  shows "hoare P (andthen m f) Q E"
  by (rule hoare_andthen [OF hoare_reads [OF assms(1,2)] assms(3)])

lemma hoare_value_then:
  assumes "reads m" "\<And>w x w'. m w = (Inr x, w') \<Longrightarrow> V x (w_db w)" "\<And>d. P d \<Longrightarrow> E d"
    "\<And>x. hoare (\<lambda>d. P d \<and> V x d) (f x) Q E"
  shows "hoare P (andthen m f) Q E"
proof (rule hoare_andthen [where R = "\<lambda>x d. P d \<and> V x d"])
  show "hoare P m (\<lambda>x d. P d \<and> V x d) E"
    by (rule hoareI) (simp_all add: assms(2,3) readsD [OF assms(1)])
qed (rule assms(4))

lemma hoare_clock: "hoare P clock (\<lambda>_. P) E"
  by (auto simp: hoare_def)

lemma hoare_tx_step: "(\<And>d. P d \<Longrightarrow> E d) \<Longrightarrow> hoare P tx_step (\<lambda>_. P) E"
  by (rule hoare_reads) auto

text \<open>A transaction that fails ends where it began, whatever its body did.\<close>

lemma hoare_transaction:
  assumes "hoare P body Q (\<lambda>_. True)"
  shows "hoare P (transaction b body) Q P"
proof (rule hoareI)
  fix w :: world and x w'
  assume "P (w_db w)" "transaction b body w = (Inr x, w')"
  then show "Q x (w_db w')" using hoare_Inr [OF assms] by (metis transaction_Inr)
next
  fix w :: world and e w'
  assume "P (w_db w)" "transaction b body w = (Inl e, w')"
  then show "P (w_db w')" using transaction_atomic [of b body] by (auto simp: atomic_def)
qed

subsection \<open>Looking rows up\<close>

text \<open>
  The contract of a lookup by key: it writes nothing, and what it returns is what the tables hold.
  Services look a row up, return an error of their own when it is missing (or, for a new name, when
  it is there), and go on with what they found.
\<close>

definition must_exist :: "'v option io \<Rightarrow> error \<Rightarrow> ('v \<Rightarrow> 'b io) \<Rightarrow> 'b io" where
  "must_exist g e f = andthen g (\<lambda>r. case r of None \<Rightarrow> throw e | Some v \<Rightarrow> f v)"

definition must_not_exist :: "'v option io \<Rightarrow> error \<Rightarrow> 'b io \<Rightarrow> 'b io" where
  "must_not_exist g e m = andthen g (\<lambda>r. case r of None \<Rightarrow> m | Some _ \<Rightarrow> throw e)"

lemma keeps_must_exist [keeps_intros]:
  "keeps P g \<Longrightarrow> (\<And>v. keeps P (f v)) \<Longrightarrow> keeps P (must_exist g e f)"
  unfolding must_exist_def by (intro keeps_intros)

lemma keeps_must_not_exist [keeps_intros]:
  "keeps P g \<Longrightarrow> keeps P m \<Longrightarrow> keeps P (must_not_exist g e m)"
  unfolding must_not_exist_def by (intro keeps_intros)

locale repository =
  fixes get :: "'k \<Rightarrow> 'v option io" and view :: "db \<Rightarrow> 'k \<Rightarrow> 'v option"
  assumes get_reads: "reads (get k)"
    and get_view: "get k w = (Inr r, w') \<Longrightarrow> r = view (w_db w) k"
    and get_ok: "w_faults w = [] \<Longrightarrow> get k w = (Inr (view (w_db w) k), w)"
begin

lemma get_hoare: "(\<And>d. P d \<Longrightarrow> E d) \<Longrightarrow> hoare P (get k) (\<lambda>r d. P d \<and> r = view d k) E"
  by (rule hoareI) (simp_all add: get_view readsD [OF get_reads])

lemma must_exist_hoare:
  assumes "\<And>v. hoare (\<lambda>d. P d \<and> view d k = Some v) (f v) Q E" "\<And>d. P d \<Longrightarrow> E d"
  shows "hoare P (must_exist (get k) e f) Q E"
  unfolding must_exist_def
proof (rule hoare_andthen [OF get_hoare [where P = P]])
  fix r
  show "hoare (\<lambda>d. P d \<and> r = view d k) (case r of None \<Rightarrow> throw e | Some v \<Rightarrow> f v) Q E"
  proof (cases r)
    case None
    then show ?thesis using assms(2) by (auto intro: hoare_throw)
  next
    case (Some v)
    then show ?thesis using assms(1) [of v] by (simp add: eq_commute)
  qed
qed (rule assms(2))

lemma must_not_exist_hoare:
  assumes "hoare (\<lambda>d. P d \<and> view d k = None) m Q E" "\<And>d. P d \<Longrightarrow> E d"
  shows "hoare P (must_not_exist (get k) e m) Q E"
  unfolding must_not_exist_def
proof (rule hoare_andthen [OF get_hoare [where P = P]])
  fix r
  show "hoare (\<lambda>d. P d \<and> r = view d k) (case r of None \<Rightarrow> m | Some _ \<Rightarrow> throw e) Q E"
  proof (cases r)
    case None
    then show ?thesis using assms(1) by (simp add: eq_commute)
  next
    case (Some v)
    then show ?thesis using assms(2) by (auto intro: hoare_throw)
  qed
qed (rule assms(2))

lemma must_exist_InrE:
  assumes "must_exist (get k) e f w = (Inr y, w')"
  obtains v w1 where "view (w_db w) k = Some v" "w_db w1 = w_db w" "f v w1 = (Inr y, w')"
proof -
  from assms obtain r w1 where g: "get k w = (Inr r, w1)"
    and f: "(case r of None \<Rightarrow> throw e | Some v \<Rightarrow> f v) w1 = (Inr y, w')"
    unfolding must_exist_def by (rule andthen_InrE)
  from f obtain v where r: "r = Some v" by (cases r) auto
  with f have "f v w1 = (Inr y, w')" by simp
  with r get_view [OF g] readsD [OF get_reads g] show thesis
    by (intro that [of v w1]) simp_all
qed

lemma must_not_exist_InrE:
  assumes "must_not_exist (get k) e m w = (Inr y, w')"
  obtains w1 where "view (w_db w) k = None" "w_db w1 = w_db w" "m w1 = (Inr y, w')"
proof -
  from assms obtain r w1 where g: "get k w = (Inr r, w1)"
    and f: "(case r of None \<Rightarrow> m | Some v \<Rightarrow> throw e) w1 = (Inr y, w')"
    unfolding must_not_exist_def by (rule andthen_InrE)
  from f have r: "r = None" by (cases r) auto
  with f have "m w1 = (Inr y, w')" by simp
  with r get_view [OF g] readsD [OF get_reads g] show thesis
    by (intro that [of w1]) simp_all
qed

lemma missing_fails:
  assumes "view (w_db w) k = None"
  shows "\<exists>e' w'. must_exist (get k) e f w = (Inl e', w') \<and> w_db w' = w_db w"
proof (cases rule: andthen_cases [of "get k" w "\<lambda>r. case r of None \<Rightarrow> throw e | Some v \<Rightarrow> f v"])
  case (err e' w')
  then show ?thesis using readsD [OF get_reads] by (auto simp: must_exist_def)
next
  case (ok r w')
  with assms get_view [OF ok(1)] have "r = None" by simp
  with ok readsD [OF get_reads ok(1)] show ?thesis by (auto simp: must_exist_def)
qed

lemma missing_error:
  "w_faults w = [] \<Longrightarrow> view (w_db w) k = None \<Longrightarrow> must_exist (get k) e f w = (Inl e, w)"
  by (simp add: must_exist_def andthen_def get_ok)

lemma found_runs:
  "w_faults w = [] \<Longrightarrow> view (w_db w) k = Some v \<Longrightarrow> must_exist (get k) e f w = f v w"
  by (simp add: must_exist_def andthen_def get_ok)

lemma taken_error:
  "w_faults w = [] \<Longrightarrow> view (w_db w) k = Some v \<Longrightarrow> must_not_exist (get k) e m w = (Inl e, w)"
  by (simp add: must_not_exist_def andthen_def get_ok)

lemma free_runs:
  "w_faults w = [] \<Longrightarrow> view (w_db w) k = None \<Longrightarrow> must_not_exist (get k) e m w = m w"
  by (simp add: must_not_exist_def andthen_def get_ok)

end

end
