(* ===== verification/Secret_Store.thy ===== *)
theory Secret_Store
  imports Database
begin

text \<open>
  \<^verbatim>\<open>internal/store/secret_store.go\<close>: the statements on the table \<^verbatim>\<open>secrets\<close> and the
  transactions built from them. The UNIQUE constraints of the schema are checked by the effect of
  each statement. SQLite's \<^verbatim>\<open>json_each\<close> is not code of the repository: it is the
  parameter \<open>json_each\<close> (the text values of a JSON array, \<open>None\<close> for malformed JSON).
\<close>

subsection \<open>Reading rows\<close>

definition traffic_in :: "db \<Rightarrow> string \<Rightarrow> int" where
  "traffic_in d label = sum_where (\<lambda>r. tu_label r = label) tu_bytes_in (t_traffic_user d)"

definition traffic_out :: "db \<Rightarrow> string \<Rightarrow> int" where
  "traffic_out d label = sum_where (\<lambda>r. tu_label r = label) tu_bytes_out (t_traffic_user d)"

definition scan_secret :: "db \<Rightarrow> secret_row \<Rightarrow> secret" where
  "scan_secret d r =
     \<lparr>sec_ID = row_id r, sec_Label = row_label r, sec_SecretKey = row_secret_key r,
      sec_CreatedAt = row_created_at r, sec_Enabled = row_enabled r,
      sec_MaxConns = row_max_conns r, sec_MaxIPs = row_max_ips r,
      sec_QuotaBytes = row_quota_bytes r, sec_RateLimitUpBps = row_rate_limit_up_bps r,
      sec_RateLimitDownBps = row_rate_limit_down_bps r, sec_ExpiresAt = row_expires_at r,
      sec_Notes = row_notes r, sec_Tags = row_tags r, sec_ArchivedAt = row_archived_at r,
      sec_TrafficIn = traffic_in d (row_label r), sec_TrafficOut = traffic_out d (row_label r)\<rparr>"

abbreviation has_label :: "string \<Rightarrow> secret_row \<Rightarrow> bool" where
  "has_label l \<equiv> \<lambda>r. row_label r = l"

definition secrets_by_id :: "db \<Rightarrow> secret_row list" where
  "secrets_by_id d = sort_key row_id (t_secrets d)"

definition find_secret :: "db \<Rightarrow> string \<Rightarrow> secret option" where
  "find_secret d label = map_option (scan_secret d) (find (has_label label) (t_secrets d))"

definition enabled_count :: "db \<Rightarrow> int" where
  "enabled_count d = int (count_where row_enabled (t_secrets d))"

definition SecretStore_List :: "secret list io" where
  "SecretStore_List =
     sql_rows (stage_wrap ''list secrets'' ''scan secret'' ''iterate secrets'')
       (\<lambda>d. Inr (map (scan_secret d) (secrets_by_id d)))"

definition SecretStore_GetByLabel :: "string \<Rightarrow> secret option io" where
  "SecretStore_GetByLabel label =
     sql_row (ErrWrap (''get secret '' @ label)) (\<lambda>d. find_secret d label)"

definition SecretStore_CountEnabled :: "int io" where
  "SecretStore_CountEnabled =
     andthen (sql_row (\<lambda>e. e) (\<lambda>d. Some (enabled_count d)))
       (\<lambda>r. case r of None \<Rightarrow> throw ErrNoRows | Some n \<Rightarrow> ret n)"

definition SecretStore_CountEnabledByLabels :: "string list \<Rightarrow> int io" where
  "SecretStore_CountEnabledByLabels labels =
     (if labels = [] then ret 0
      else andthen
        (sql_row (\<lambda>e. e) (\<lambda>d. Some (int (count_where
           (\<lambda>r. row_enabled r \<and> row_label r \<in> set labels) (t_secrets d)))))
        (\<lambda>r. case r of None \<Rightarrow> throw ErrNoRows | Some n \<Rightarrow> ret n))"

definition SecretStore_Count :: "int io" where
  "SecretStore_Count =
     andthen (sql_row (\<lambda>e. e) (\<lambda>d. Some (int (length (t_secrets d)))))
       (\<lambda>r. case r of None \<Rightarrow> throw ErrNoRows | Some n \<Rightarrow> ret n)"

definition SecretStore_ListEnabledLabels :: "string list io" where
  "SecretStore_ListEnabledLabels =
     sql_rows (\<lambda>st e. if st = AtIter then ErrWrap ''iterate labels'' e else e)
       (\<lambda>d. Inr (map row_label (filter row_enabled (secrets_by_id d))))"

subsection \<open>Single-row writes\<close>

definition SecretStore_Create :: "secret \<Rightarrow> int io" where
  "SecretStore_Create sec =
     andthen clock (\<lambda>now. wrap ''create secret'' (sql_exec (\<lambda>d.
       if list_ex (has_label (sec_Label sec)) (t_secrets d)
       then Inl (ErrConstraint ''secrets.label'')
       else
         (let i = t_secrets_seq d + 1;
              r = \<lparr>row_id = i, row_label = sec_Label sec, row_secret_key = sec_SecretKey sec,
                   row_created_at = unix now, row_enabled = sec_Enabled sec,
                   row_max_conns = sec_MaxConns sec, row_max_ips = sec_MaxIPs sec,
                   row_quota_bytes = sec_QuotaBytes sec,
                   row_rate_limit_up_bps = sec_RateLimitUpBps sec,
                   row_rate_limit_down_bps = sec_RateLimitDownBps sec,
                   row_expires_at = sec_ExpiresAt sec, row_notes = sec_Notes sec,
                   row_tags = sec_Tags sec, row_archived_at = 0\<rparr>
          in Inr (i, d\<lparr>t_secrets := t_secrets d @ [r], t_secrets_seq := i\<rparr>)))))"

text \<open>An UPDATE of the rows with a label; the value is the number of affected rows.\<close>

definition update_secrets :: "string \<Rightarrow> (secret_row \<Rightarrow> secret_row) \<Rightarrow> int io" where
  "update_secrets label f = sql_exec (\<lambda>d.
     Inr (int (count_where (has_label label) (t_secrets d)),
          d\<lparr>t_secrets := update_where (has_label label) f (t_secrets d)\<rparr>))"

definition secret_columns :: "secret \<Rightarrow> secret_row \<Rightarrow> secret_row" where
  "secret_columns sec r =
     r\<lparr>row_secret_key := sec_SecretKey sec, row_enabled := sec_Enabled sec,
       row_max_conns := sec_MaxConns sec, row_max_ips := sec_MaxIPs sec,
       row_quota_bytes := sec_QuotaBytes sec, row_rate_limit_up_bps := sec_RateLimitUpBps sec,
       row_rate_limit_down_bps := sec_RateLimitDownBps sec, row_expires_at := sec_ExpiresAt sec,
       row_notes := sec_Notes sec, row_tags := sec_Tags sec\<rparr>"

definition SecretStore_Update :: "secret \<Rightarrow> unit io" where
  "SecretStore_Update sec =
     andthen (update_secrets (sec_Label sec) (secret_columns sec)) (\<lambda>_. ret ())"

definition SecretStore_Delete :: "string \<Rightarrow> unit io" where
  "SecretStore_Delete label =
     sql_exec (\<lambda>d. Inr ((), d\<lparr>t_secrets := delete_where (has_label label) (t_secrets d)\<rparr>))"

text \<open>The check of RowsAffected that turns a missing row into an error.\<close>

definition must_affect :: "string \<Rightarrow> int io \<Rightarrow> unit io" where
  "must_affect msg m = andthen (wrap msg m) (\<lambda>n. if n = 0 then throw ErrNoRows else ret ())"

definition SecretStore_ExtendExpiry :: "string \<Rightarrow> string \<Rightarrow> bool \<Rightarrow> unit io" where
  "SecretStore_ExtendExpiry label expiresAt reenable =
     must_affect ''extend expiry'' (update_secrets label (\<lambda>r.
       let r = r\<lparr>row_expires_at := expiresAt\<rparr>
       in if reenable then r\<lparr>row_enabled := True\<rparr> else r))"

definition SecretStore_UpdateTags :: "string \<Rightarrow> string \<Rightarrow> unit io" where
  "SecretStore_UpdateTags label tags =
     must_affect ''update tags'' (update_secrets label (\<lambda>r. r\<lparr>row_tags := tags\<rparr>))"

definition SecretStore_Archive :: "string \<Rightarrow> unit io" where
  "SecretStore_Archive label =
     andthen clock (\<lambda>now.
     must_affect ''archive secret'' (update_secrets label (\<lambda>r. r\<lparr>row_archived_at := unix now\<rparr>)))"

definition SecretStore_Unarchive :: "string \<Rightarrow> unit io" where
  "SecretStore_Unarchive label =
     must_affect ''unarchive secret'' (update_secrets label (\<lambda>r. r\<lparr>row_archived_at := 0\<rparr>))"

subsection \<open>Renaming\<close>

definition rename_secret_row :: "string \<Rightarrow> string \<Rightarrow> int io" where
  "rename_secret_row old new = sql_exec (\<lambda>d.
     let rs = update_where (has_label old) (\<lambda>r. r\<lparr>row_label := new\<rparr>) (t_secrets d)
     in if \<not> distinct (map row_label rs) then Inl (ErrConstraint ''secrets.label'')
        else Inr (int (count_where (has_label old) (t_secrets d)), d\<lparr>t_secrets := rs\<rparr>))"

definition traffic_key :: "traffic_row \<Rightarrow> string \<times> int" where
  "traffic_key r = (tu_label r, tu_instance_id r)"

definition rename_traffic_user :: "string \<Rightarrow> string \<Rightarrow> unit io" where
  "rename_traffic_user old new = sql_exec (\<lambda>d.
     let rs = update_where (\<lambda>r. tu_label r = old) (\<lambda>r. r\<lparr>tu_label := new\<rparr>) (t_traffic_user d)
     in if \<not> distinct (map traffic_key rs)
        then Inl (ErrConstraint ''traffic_user.label, traffic_user.instance_id'')
        else Inr ((), d\<lparr>t_traffic_user := rs\<rparr>))"

definition rename_traffic_history :: "string \<Rightarrow> string \<Rightarrow> unit io" where
  "rename_traffic_history old new = sql_exec (\<lambda>d.
     Inr ((), d\<lparr>t_traffic_history :=
       update_where (\<lambda>r. th_label r = old) (\<lambda>r. r\<lparr>th_label := new\<rparr>) (t_traffic_history d)\<rparr>))"

definition SecretStore_RenameLabel :: "string \<Rightarrow> string \<Rightarrow> unit io" where
  "SecretStore_RenameLabel oldLabel newLabel =
     transaction ''begin tx''
       (andthen (wrap ''rename secret'' (rename_secret_row oldLabel newLabel)) (\<lambda>n.
        if n = 0 then throw ErrNoRows else
        andthen (wrap ''rename traffic_user'' (rename_traffic_user oldLabel newLabel)) (\<lambda>_.
        andthen (wrap ''rename traffic_history'' (rename_traffic_history oldLabel newLabel)) (\<lambda>_.
        tx_step))))"

subsection \<open>Expiry\<close>

text \<open>\<^verbatim>\<open>parseExpiry\<close> of \<^verbatim>\<open>settings_store.go\<close>: three layouts, then a Unix time.\<close>

definition parseExpiry :: "string \<Rightarrow> int option" where
  "parseExpiry s =
     (case parse_rfc3339 s of Some t \<Rightarrow> Some t | None \<Rightarrow>
      (case parse_datetime parse_literal_z s of Some t \<Rightarrow> Some t | None \<Rightarrow>
       (case parse_date s of Some t \<Rightarrow> Some t | None \<Rightarrow>
        (case atoi s of Some n \<Rightarrow> if 0 < n then Some (n * second) else None | None \<Rightarrow> None))))"

definition expiry_past :: "int \<Rightarrow> string \<Rightarrow> bool" where
  "expiry_past now e = (case parseExpiry e of None \<Rightarrow> False | Some t \<Rightarrow> t < now)"

definition findExpiredIDs :: "int list io" where
  "findExpiredIDs =
     andthen (sql_rows_skip (stage_wrap ''query expired'' [] ''scan expired'')
       (\<lambda>d. Inr (map (\<lambda>r. (row_id r, row_expires_at r))
         (filter (\<lambda>r. row_enabled r \<and> row_expires_at r \<noteq> [] \<and> row_expires_at r \<noteq> ''0'')
           (t_secrets d)))))
       (\<lambda>rs. andthen clock (\<lambda>now. ret (map fst (filter (\<lambda>(_, e). expiry_past now e) rs))))"

definition disable_id :: "int \<Rightarrow> int io" where
  "disable_id i = sql_exec (\<lambda>d.
     let p = (\<lambda>r. row_id r = i \<and> row_enabled r)
     in Inr (int (count_where p (t_secrets d)),
             d\<lparr>t_secrets := update_where p (\<lambda>r. r\<lparr>row_enabled := False\<rparr>) (t_secrets d)\<rparr>))"

definition SecretStore_DisableExpired :: "int io" where
  "SecretStore_DisableExpired =
     transaction ''begin tx''
       (andthen findExpiredIDs (\<lambda>toDisable.
        if toDisable = [] then andthen tx_step (\<lambda>_. ret 0) else
        andthen (wrap ''count enabled'' SecretStore_CountEnabled) (\<lambda>enabledCount.
        let toDisable =
              (if enabledCount \<le> int (length toDisable) then butlast toDisable else toDisable) in
        andthen (each (\<lambda>i disabled.
            andthen (wrap (''disable expired '' @ show_int i) (disable_id i)) (\<lambda>n.
            ret (disabled + n))) toDisable 0) (\<lambda>disabled.
        andthen (wrap ''commit'' tx_step) (\<lambda>_. ret disabled)))))"

subsection \<open>Bulk operations\<close>

definition SecretStore_BulkExtendExpiry :: "string list \<Rightarrow> string \<Rightarrow> bool \<Rightarrow> int io" where
  "SecretStore_BulkExtendExpiry labels expiresAt reenable =
     transaction ''begin tx''
       (andthen (each (\<lambda>label. affected (update_secrets label (\<lambda>r.
            let r = r\<lparr>row_expires_at := expiresAt\<rparr>
            in if reenable then r\<lparr>row_enabled := True\<rparr> else r))) labels 0) (\<lambda>updated.
        andthen (wrap ''commit'' tx_step) (\<lambda>_. ret updated)))"

definition SecretStore_BulkRotateKeys :: "string list \<Rightarrow> (string \<times> string) list \<Rightarrow> int io" where
  "SecretStore_BulkRotateKeys labels keys =
     transaction ''begin tx''
       (andthen (each (\<lambda>label updated.
            case map_of keys label of
              None \<Rightarrow> ret updated
            | Some key \<Rightarrow>
                affected (update_secrets label (\<lambda>r. r\<lparr>row_secret_key := key\<rparr>)) updated) labels 0)
          (\<lambda>updated. andthen (wrap ''commit'' tx_step) (\<lambda>_. ret updated)))"

text \<open>\<^verbatim>\<open>SELECT enabled FROM secrets WHERE label = ?\<close>, its error skipped by the caller.\<close>

definition is_currently_enabled :: "string \<Rightarrow> bool option io" where
  "is_currently_enabled label =
     sql_row (\<lambda>e. e) (\<lambda>d. map_option row_enabled (find (has_label label) (t_secrets d)))"

definition count_to_disable :: "string list \<Rightarrow> int io" where
  "count_to_disable labels =
     each (\<lambda>label n. andthen (attempt (is_currently_enabled label)) (\<lambda>r.
       case r of Inr (Some True) \<Rightarrow> ret (n + 1) | _ \<Rightarrow> ret n)) labels 0"

definition guard_last_enabled :: "string list \<Rightarrow> unit io" where
  "guard_last_enabled labels =
     andthen (wrap ''count enabled'' SecretStore_CountEnabled) (\<lambda>currentEnabled.
     andthen (count_to_disable labels) (\<lambda>toDisable.
     if currentEnabled \<le> toDisable
     then throw (ErrMsg ''cannot disable: would leave no enabled secrets'') else ret ()))"

definition SecretStore_BulkToggleEnabled :: "string list \<Rightarrow> bool \<Rightarrow> int io" where
  "SecretStore_BulkToggleEnabled labels enable =
     transaction ''begin tx''
       (andthen (if \<not> enable then guard_last_enabled labels else ret ()) (\<lambda>_.
        andthen (each (\<lambda>label.
            affected (update_secrets label (\<lambda>r. r\<lparr>row_enabled := enable\<rparr>))) labels 0) (\<lambda>updated.
        andthen (wrap ''commit'' tx_step) (\<lambda>_. ret updated))))"

record limits =
  lim_maxConns :: int
  lim_maxIPs :: int
  lim_quotaBytes :: int
  lim_expiresAt :: string
  lim_rateLimitUpBps :: int
  lim_rateLimitDownBps :: int

text \<open>A negative number and an empty date leave the column alone.\<close>

definition apply_limits :: "limits \<Rightarrow> secret_row \<Rightarrow> secret_row" where
  "apply_limits l r =
     r\<lparr>row_max_conns := (if 0 \<le> lim_maxConns l then lim_maxConns l else row_max_conns r),
       row_max_ips := (if 0 \<le> lim_maxIPs l then lim_maxIPs l else row_max_ips r),
       row_quota_bytes := (if 0 \<le> lim_quotaBytes l then lim_quotaBytes l else row_quota_bytes r),
       row_rate_limit_up_bps :=
         (if 0 \<le> lim_rateLimitUpBps l then lim_rateLimitUpBps l else row_rate_limit_up_bps r),
       row_rate_limit_down_bps :=
         (if 0 \<le> lim_rateLimitDownBps l then lim_rateLimitDownBps l
          else row_rate_limit_down_bps r),
       row_expires_at := (if lim_expiresAt l \<noteq> [] then lim_expiresAt l else row_expires_at r)\<rparr>"

definition limit_columns :: "secret_row \<Rightarrow> secret_row \<Rightarrow> secret_row" where
  "limit_columns s r =
     r\<lparr>row_max_conns := row_max_conns s, row_max_ips := row_max_ips s,
       row_quota_bytes := row_quota_bytes s, row_rate_limit_up_bps := row_rate_limit_up_bps s,
       row_rate_limit_down_bps := row_rate_limit_down_bps s, row_expires_at := row_expires_at s\<rparr>"

definition set_limits_of :: "limits \<Rightarrow> string \<Rightarrow> int \<Rightarrow> int io" where
  "set_limits_of l label updated =
     andthen (attempt (sql_row (\<lambda>e. e) (\<lambda>d. find (has_label label) (t_secrets d)))) (\<lambda>r.
     case r of
       Inr (Some sec) \<Rightarrow>
         (let sec = apply_limits l sec in
          andthen (attempt (update_secrets (row_label sec) (limit_columns sec))) (\<lambda>r.
          case r of Inl _ \<Rightarrow> ret updated | Inr _ \<Rightarrow> ret (updated + 1)))
     | _ \<Rightarrow> ret updated)"

definition SecretStore_BulkSetLimits :: "string list \<Rightarrow> limits \<Rightarrow> int io" where
  "SecretStore_BulkSetLimits labels l =
     transaction ''begin tx''
       (andthen (each (set_limits_of l) labels 0) (\<lambda>updated.
        andthen (wrap ''commit'' tx_step) (\<lambda>_. ret updated)))"

subsection \<open>Searching\<close>

text \<open>LIKE of SQL as SQLite documents it: \<^verbatim>\<open>%\<close> matches any sequence, \<^verbatim>\<open>_\<close> one
  character (here one UTF-8 sequence), letters of the ASCII range match case-insensitively.\<close>

definition fold_case :: "char \<Rightarrow> char" where
  "fold_case c = (if 65 \<le> byte c \<and> byte c \<le> 90 then chr (byte c + 32) else c)"

fun sql_like :: "string list \<Rightarrow> string list \<Rightarrow> bool" where
  "sql_like [] s = (s = [])"
| "sql_like (p # ps) [] = (p = ''%'' \<and> sql_like ps [])"
| "sql_like (p # ps) (c # s) =
     (if p = ''%'' then sql_like ps (c # s) \<or> sql_like (p # ps) s
      else if p = ''_'' then sql_like ps s
      else map fold_case p = map fold_case c \<and> sql_like ps s)"

definition contains_like :: "string \<Rightarrow> string \<Rightarrow> bool" where
  "contains_like query s = sql_like (chunks (''%'' @ query @ ''%'')) (chunks s)"

definition scanned :: "string \<Rightarrow> (db \<Rightarrow> error + secret_row list) \<Rightarrow> secret list io" where
  "scanned msg f =
     sql_rows (stage_wrap msg ''scan secret'' ''iterate secrets'')
       (\<lambda>d. case f d of Inl e \<Rightarrow> Inl e | Inr rs \<Rightarrow> Inr (map (scan_secret d) rs))"

definition SecretStore_Search :: "string \<Rightarrow> secret list io" where
  "SecretStore_Search query =
     scanned ''search secrets'' (\<lambda>d. Inr (filter
       (\<lambda>r. contains_like query (row_label r) \<or> contains_like query (row_notes r))
       (secrets_by_id d)))"

text \<open>Equal totals come in the order of the table; SQL leaves their order open.\<close>

definition SecretStore_Top :: "int \<Rightarrow> secret list io" where
  "SecretStore_Top limit =
     (let limit = (if limit \<le> 0 \<or> 100 < limit then 10 else limit) in
      scanned ''top secrets'' (\<lambda>d. Inr (take (nat limit) (sort_key
        (\<lambda>r. - (traffic_in d (row_label r) + traffic_out d (row_label r))) (t_secrets d)))))"

definition rows_with_tag ::
    "(string \<Rightarrow> string list option) \<Rightarrow> string \<Rightarrow> db \<Rightarrow> error + secret_row list" where
  "rows_with_tag json_each tag d =
     (if list_ex (\<lambda>r. json_each (row_tags r) = None) (t_secrets d)
      then Inl (ErrDriver ''malformed JSON'')
      else Inr (filter (\<lambda>r. tag \<in> set (the (json_each (row_tags r)))) (secrets_by_id d)))"

definition SecretStore_ListByTag ::
    "(string \<Rightarrow> string list option) \<Rightarrow> string \<Rightarrow> secret list io" where
  "SecretStore_ListByTag json_each tag = scanned ''list by tag'' (rows_with_tag json_each tag)"

definition SecretStore_LabelsByTag ::
    "(string \<Rightarrow> string list option) \<Rightarrow> string \<Rightarrow> string list io" where
  "SecretStore_LabelsByTag json_each tag =
     sql_rows_skip (stage_wrap (''labels by tag '' @ tag) [] (''iterate labels by tag '' @ tag))
       (\<lambda>d. case rows_with_tag json_each tag d of
              Inl e \<Rightarrow> Inl e | Inr rs \<Rightarrow> Inr (map row_label rs))"

text \<open>The loop of ListAllTags over the tags of one row, and over the rows.\<close>

fun add_tags :: "string list \<Rightarrow> string list \<Rightarrow> string list" where
  "add_tags [] tags = tags"
| "add_tags (t # ts) tags =
     (let t = trim_space t
      in if t \<noteq> [] \<and> t \<notin> set tags then add_tags ts (tags @ [t]) else add_tags ts tags)"

fun collect_tags :: "string list \<Rightarrow> string list \<Rightarrow> string list" where
  "collect_tags [] tags = tags"
| "collect_tags (s # ss) tags =
     (case unmarshal_strings s of
        (ok, parsed) \<Rightarrow> if \<not> ok then collect_tags ss tags else collect_tags ss (add_tags parsed tags))"

definition SecretStore_ListAllTags :: "string list io" where
  "SecretStore_ListAllTags =
     andthen (sql_rows_skip (stage_wrap ''list tags'' [] ''iterate tags'')
       (\<lambda>d. Inr (filter (\<lambda>t. t \<noteq> [] \<and> t \<noteq> ''[]'') (map row_tags (t_secrets d)))))
       (\<lambda>rows. ret (collect_tags rows []))"

end
