(* ===== verification/Secret_Store_Laws.thy ===== *)
theory Secret_Store_Laws
  imports Secret_Store
begin

text \<open>
  What the operations of the secret store keep, under every schedule of statement failures: the
  keys of the table stay unique (\<open>secrets_wf\<close>), the transactions are atomic, reads do not write,
  and the operations that disable secrets leave at least one enabled (\<open>has_enabled\<close>) where the
  code promises it. The locale \<open>repository\<close> is the lookup contract that the services rely on.
\<close>

subsection \<open>Invariants of the tables\<close>

definition secrets_wf :: "db \<Rightarrow> bool" where
  "secrets_wf d \<longleftrightarrow>
     distinct (map row_label (t_secrets d)) \<and> distinct (map row_id (t_secrets d)) \<and>
     (\<forall>r \<in> set (t_secrets d). row_id r \<le> t_secrets_seq d) \<and>
     distinct (map traffic_key (t_traffic_user d))"

definition has_enabled :: "db \<Rightarrow> bool" where
  "has_enabled d \<longleftrightarrow> 0 < enabled_count d"

definition labels_valid :: "db \<Rightarrow> bool" where
  "labels_valid d \<longleftrightarrow> (\<forall>r \<in> set (t_secrets d). labelRe (row_label r))"

lemma has_enabled_iff: "has_enabled d \<longleftrightarrow> (\<exists>r \<in> set (t_secrets d). row_enabled r)"
  by (simp add: has_enabled_def enabled_count_def count_where_pos_iff)

lemma secrets_wf_empty [simp]: "secrets_wf empty_db"
  by (simp add: secrets_wf_def empty_db_def)

text \<open>An update of the table's rows that leaves the label and the number alone.\<close>

definition same_keys :: "(secret_row \<Rightarrow> secret_row) \<Rightarrow> bool" where
  "same_keys f \<longleftrightarrow> (\<forall>r. row_label (f r) = row_label r \<and> row_id (f r) = row_id r)"

lemma secrets_wf_update:
  assumes "secrets_wf d" "same_keys f"
  shows "secrets_wf (d\<lparr>t_secrets := update_where p f (t_secrets d)\<rparr>)"
  using assms
  by (auto simp: secrets_wf_def same_keys_def map_update_where_same set_update_where)

lemma labels_valid_update:
  assumes "labels_valid d" "same_keys f"
  shows "labels_valid (d\<lparr>t_secrets := update_where p f (t_secrets d)\<rparr>)"
  using assms by (auto simp: labels_valid_def same_keys_def set_update_where)

lemma secrets_wf_delete:
  "secrets_wf d \<Longrightarrow> secrets_wf (d\<lparr>t_secrets := delete_where p (t_secrets d)\<rparr>)"
  by (auto simp: secrets_wf_def distinct_map_delete_where)

lemma keeps_update_secrets:
  assumes "same_keys f"
  shows "keeps secrets_wf (update_secrets l f)" "keeps labels_valid (update_secrets l f)"
  unfolding update_secrets_def
  by (auto intro!: keeps_sql_exec secrets_wf_update labels_valid_update assms)

lemma same_keys_simps [simp]:
  "same_keys (secret_columns s)" "same_keys (limit_columns s')"
  "same_keys (\<lambda>r. r\<lparr>row_tags := t\<rparr>)" "same_keys (\<lambda>r. r\<lparr>row_archived_at := a\<rparr>)"
  "same_keys (\<lambda>r. r\<lparr>row_secret_key := k\<rparr>)" "same_keys (\<lambda>r. r\<lparr>row_enabled := b\<rparr>)"
  "same_keys (\<lambda>r. let r = r\<lparr>row_expires_at := e\<rparr> in if b then r\<lparr>row_enabled := True\<rparr> else r)"
  by (simp_all add: same_keys_def secret_columns_def limit_columns_def Let_def)

subsection \<open>Reads\<close>

lemma secret_reads [simp, intro]:
  "reads SecretStore_List" "reads (SecretStore_GetByLabel l)" "reads SecretStore_CountEnabled"
  "reads (SecretStore_CountEnabledByLabels ls)" "reads SecretStore_Count"
  "reads SecretStore_ListEnabledLabels" "reads (SecretStore_Search q)" "reads (SecretStore_Top n)"
  "reads (SecretStore_ListByTag je t)" "reads (SecretStore_LabelsByTag je t)"
  "reads SecretStore_ListAllTags" "reads findExpiredIDs" "reads (is_currently_enabled l)"
  by (auto simp: SecretStore_List_def SecretStore_GetByLabel_def SecretStore_CountEnabled_def
      SecretStore_CountEnabledByLabels_def SecretStore_Count_def SecretStore_ListEnabledLabels_def
      SecretStore_Search_def SecretStore_Top_def SecretStore_ListByTag_def
      SecretStore_LabelsByTag_def SecretStore_ListAllTags_def scanned_def findExpiredIDs_def
      is_currently_enabled_def Let_def split: option.splits intro!: reads_andthen)

lemma keeps_secret_reads [keeps_intros]:
  "keeps P SecretStore_List" "keeps P (SecretStore_GetByLabel l)"
  "keeps P SecretStore_CountEnabled" "keeps P (SecretStore_CountEnabledByLabels ls)"
  "keeps P SecretStore_Count" "keeps P SecretStore_ListEnabledLabels"
  "keeps P (SecretStore_Search q)" "keeps P (SecretStore_Top n)"
  "keeps P (SecretStore_ListByTag je t)" "keeps P (SecretStore_LabelsByTag je t)"
  "keeps P SecretStore_ListAllTags" "keeps P findExpiredIDs" "keeps P (is_currently_enabled l)"
  by (rule reads_keeps, simp)+

subsection \<open>Keys stay unique\<close>

lemma keeps_must_affect [keeps_intros]: "keeps P m \<Longrightarrow> keeps P (must_affect msg m)"
  unfolding must_affect_def by (intro keeps_intros)

lemma keeps_tx_step [keeps_intros]: "keeps P tx_step"
  by (rule reads_keeps) simp

lemma Create_keeps_wf [keeps_intros]: "keeps secrets_wf (SecretStore_Create sec)"
  unfolding SecretStore_Create_def
  by (intro keeps_intros keeps_sql_exec)
    (force simp: secrets_wf_def Let_def list_ex_iff split: if_splits)

lemma Create_keeps_valid:
  "labelRe (sec_Label sec) \<Longrightarrow> keeps labels_valid (SecretStore_Create sec)"
  unfolding SecretStore_Create_def
  by (intro keeps_intros keeps_sql_exec)
    (auto simp: labels_valid_def Let_def list_ex_iff split: if_splits)

lemma Delete_keeps [keeps_intros]:
  "keeps secrets_wf (SecretStore_Delete l)" "keeps labels_valid (SecretStore_Delete l)"
  unfolding SecretStore_Delete_def
  by (auto intro!: keeps_sql_exec secrets_wf_delete simp: labels_valid_def)

lemma rename_secret_row_keeps [keeps_intros]: "keeps secrets_wf (rename_secret_row old new)"
  unfolding rename_secret_row_def
  by (intro keeps_intros keeps_sql_exec)
    (auto simp: secrets_wf_def Let_def map_update_where_same set_update_where split: if_splits)

lemma rename_traffic_user_keeps [keeps_intros]: "keeps secrets_wf (rename_traffic_user old new)"
  unfolding rename_traffic_user_def
  by (intro keeps_intros keeps_sql_exec) (auto simp: secrets_wf_def Let_def split: if_splits)

lemma rename_traffic_history_keeps [keeps_intros]: "keeps secrets_wf (rename_traffic_history old new)"
  unfolding rename_traffic_history_def
  by (intro keeps_intros keeps_sql_exec) (auto simp: secrets_wf_def)

lemma rename_keeps_valid:
  assumes "labelRe new"
  shows "keeps labels_valid (rename_secret_row old new)"
    "keeps labels_valid (rename_traffic_user old new)"
    "keeps labels_valid (rename_traffic_history old new)"
  unfolding rename_secret_row_def rename_traffic_user_def rename_traffic_history_def
  using assms
  by (auto intro!: keeps_sql_exec simp: labels_valid_def Let_def set_update_where split: if_splits)

lemma disable_id_keeps [keeps_intros]:
  "keeps secrets_wf (disable_id i)" "keeps labels_valid (disable_id i)"
  unfolding disable_id_def
  by (auto intro!: keeps_sql_exec secrets_wf_update labels_valid_update simp: Let_def)

lemma keeps_set_limits_of:
  assumes "\<And>l s. keeps P (update_secrets l (limit_columns s))"
  shows "keeps P (set_limits_of l label n)"
  unfolding set_limits_of_def
  by (intro keeps_intros keeps_option keeps_sum) (auto simp: Let_def split: option.splits
      intro!: keeps_intros assms)

lemma keeps_count_to_disable [keeps_intros]: "keeps P (count_to_disable ls)"
proof -
  have "keeps P (andthen (attempt (is_currently_enabled l)) (\<lambda>r. case r of
      Inr (Some True) \<Rightarrow> ret (n + 1) | _ \<Rightarrow> ret n))" for l and n :: int
    by (intro keeps_intros) (auto split: sum.splits option.splits bool.splits intro: keeps_intros)
  then show ?thesis
    unfolding count_to_disable_def by (intro keeps_each)
qed

lemma keeps_guard_last_enabled [keeps_intros]: "keeps P (guard_last_enabled ls)"
  unfolding guard_last_enabled_def by (intro keeps_intros)

lemma store_keeps_wf [keeps_intros]:
  "keeps secrets_wf (SecretStore_Update sec)"
  "keeps secrets_wf (SecretStore_ExtendExpiry l e b)"
  "keeps secrets_wf (SecretStore_UpdateTags l t)"
  "keeps secrets_wf (SecretStore_Archive l)"
  "keeps secrets_wf (SecretStore_Unarchive l)"
  "keeps secrets_wf (SecretStore_RenameLabel l l')"
  "keeps secrets_wf SecretStore_DisableExpired"
  "keeps secrets_wf (SecretStore_BulkExtendExpiry ls e b)"
  "keeps secrets_wf (SecretStore_BulkRotateKeys ls ks)"
  "keeps secrets_wf (SecretStore_BulkToggleEnabled ls b)"
  "keeps secrets_wf (SecretStore_BulkSetLimits ls lm)"
  unfolding SecretStore_Update_def SecretStore_ExtendExpiry_def SecretStore_UpdateTags_def
    SecretStore_Archive_def SecretStore_Unarchive_def SecretStore_RenameLabel_def
    SecretStore_DisableExpired_def SecretStore_BulkExtendExpiry_def SecretStore_BulkRotateKeys_def
    SecretStore_BulkToggleEnabled_def SecretStore_BulkSetLimits_def Let_def
  by (intro keeps_intros keeps_update_secrets keeps_set_limits_of;
      simp add: same_keys_def secret_columns_def limit_columns_def)+

lemma store_keeps_valid [keeps_intros]:
  "keeps labels_valid (SecretStore_Update sec)"
  "keeps labels_valid (SecretStore_ExtendExpiry l e b)"
  "keeps labels_valid (SecretStore_UpdateTags l t)"
  "keeps labels_valid (SecretStore_Archive l)"
  "keeps labels_valid (SecretStore_Unarchive l)"
  "keeps labels_valid SecretStore_DisableExpired"
  "keeps labels_valid (SecretStore_BulkExtendExpiry ls e b)"
  "keeps labels_valid (SecretStore_BulkRotateKeys ls ks)"
  "keeps labels_valid (SecretStore_BulkToggleEnabled ls b)"
  "keeps labels_valid (SecretStore_BulkSetLimits ls lm)"
  unfolding SecretStore_Update_def SecretStore_ExtendExpiry_def SecretStore_UpdateTags_def
    SecretStore_Archive_def SecretStore_Unarchive_def
    SecretStore_DisableExpired_def SecretStore_BulkExtendExpiry_def SecretStore_BulkRotateKeys_def
    SecretStore_BulkToggleEnabled_def SecretStore_BulkSetLimits_def Let_def
  by (intro keeps_intros keeps_update_secrets keeps_set_limits_of;
      simp add: same_keys_def secret_columns_def limit_columns_def)+

lemma RenameLabel_keeps_valid:
  "labelRe new \<Longrightarrow> keeps labels_valid (SecretStore_RenameLabel old new)"
  unfolding SecretStore_RenameLabel_def by (intro keeps_intros rename_keeps_valid)

subsection \<open>Atomicity\<close>

lemma store_atomic:
  "atomic (SecretStore_RenameLabel l l')" "atomic SecretStore_DisableExpired"
  "atomic (SecretStore_BulkExtendExpiry ls e b)" "atomic (SecretStore_BulkRotateKeys ls ks)"
  "atomic (SecretStore_BulkToggleEnabled ls b)" "atomic (SecretStore_BulkSetLimits ls lm)"
  by (simp_all add: SecretStore_RenameLabel_def SecretStore_DisableExpired_def
      SecretStore_BulkExtendExpiry_def SecretStore_BulkRotateKeys_def
      SecretStore_BulkToggleEnabled_def SecretStore_BulkSetLimits_def transaction_atomic)

subsection \<open>Lookups\<close>

interpretation secrets: repository SecretStore_GetByLabel find_secret
proof unfold_locales
  fix label w r w'
  assume "SecretStore_GetByLabel label w = (Inr r, w')"
  then show "r = find_secret (w_db w) label"
    by (auto simp: SecretStore_GetByLabel_def sql_row_def dest: pop_fault_same
        split: prod.splits option.splits)
qed (simp_all add: SecretStore_GetByLabel_def run_simps)

lemma find_secret_None: "find_secret d l = None \<longleftrightarrow> \<not> list_ex (has_label l) (t_secrets d)"
  by (auto simp: find_secret_def find_None_iff list_ex_iff)

lemma find_secret_SomeD:
  assumes "find_secret d l = Some s"
  obtains r where "r \<in> set (t_secrets d)" "row_label r = l" "s = scan_secret d r"
  using assms by (auto simp: find_secret_def dest!: find_SomeD intro: that)

lemma scan_secret_columns [simp]:
  "sec_Label (scan_secret d r) = row_label r" "sec_Enabled (scan_secret d r) = row_enabled r"
  "sec_SecretKey (scan_secret d r) = row_secret_key r" "sec_ID (scan_secret d r) = row_id r"
  by (simp_all add: scan_secret_def)

subsection \<open>The last enabled secret\<close>

lemma enabled_count_nonneg [simp]: "0 \<le> enabled_count d"
  by (simp add: enabled_count_def)

lemma enabled_count_disable:
  assumes "distinct (map row_id (t_secrets d))"
  shows "enabled_count d - 1 \<le> enabled_count (d\<lparr>t_secrets :=
    update_where (\<lambda>r. row_id r = i \<and> row_enabled r) (\<lambda>r. r\<lparr>row_enabled := False\<rparr>) (t_secrets d)\<rparr>)"
proof -
  have "count_where (\<lambda>r. row_id r = i \<and> row_enabled r) (t_secrets d) \<le> 1"
    by (rule order_trans [OF count_where_conj_le count_where_key_le_1 [OF assms]])
  moreover have "count_where row_enabled (update_where (\<lambda>r. row_id r = i \<and> row_enabled r)
      (\<lambda>r. r\<lparr>row_enabled := False\<rparr>) (t_secrets d))
      + count_where (\<lambda>r. row_id r = i \<and> row_enabled r) (t_secrets d)
    = count_where row_enabled (t_secrets d)"
    by (rule count_where_update_drop) simp
  ultimately show ?thesis by (simp add: enabled_count_def)
qed

text \<open>More enabled secrets than the numbers that are left to disable.\<close>

definition spare :: "int list \<Rightarrow> db \<Rightarrow> bool" where
  "spare is d \<longleftrightarrow> secrets_wf d \<and> int (length is) < enabled_count d"

lemma disable_id_spare:
  "hoare (spare (i # is)) (wrap msg (disable_id i)) (\<lambda>_. spare is) (\<lambda>_. True)"
proof (rule hoare_wrap)
  have "spare is (d\<lparr>t_secrets := update_where (\<lambda>r. row_id r = i \<and> row_enabled r)
      (\<lambda>r. r\<lparr>row_enabled := False\<rparr>) (t_secrets d)\<rparr>)" if "spare (i # is) d" for d
  proof -
    from that have "distinct (map row_id (t_secrets d))" "secrets_wf d"
      by (simp_all add: spare_def secrets_wf_def)
    then show ?thesis
      using that enabled_count_disable [of d i] by (simp add: spare_def secrets_wf_update)
  qed
  then show "hoare (spare (i # is)) (disable_id i) (\<lambda>_. spare is) (\<lambda>_. True)"
    unfolding disable_id_def by (intro hoare_sql_exec) (auto simp: Let_def)
qed

lemma length_drop_indices: "length (drop_indices ns rs) \<le> length rs"
proof -
  have "length (drop_indices ns rs) \<le> length (zip [0 ..< length rs] rs)"
    unfolding drop_indices_def length_map by (rule length_filter_le)
  then show ?thesis by simp
qed

lemma sql_rows_skip_length:
  assumes "sql_rows_skip wr (\<lambda>d. Inr (f d)) w = (Inr rs, w')"
  shows "length rs \<le> length (f (w_db w))"
  using assms
  by (auto simp: sql_rows_skip_def length_drop_indices dest!: pop_fault_same
      split: prod.splits option.splits fault.splits)

lemma findExpiredIDs_length:
  assumes "findExpiredIDs w = (Inr is, w')"
  shows "int (length is) \<le> enabled_count (w_db w)"
proof -
  let ?q = "\<lambda>r. row_enabled r \<and> row_expires_at r \<noteq> [] \<and> row_expires_at r \<noteq> ''0''"
  from assms obtain rs w1 where rs: "sql_rows_skip (stage_wrap ''query expired'' [] ''scan expired'')
      (\<lambda>d. Inr (map (\<lambda>r. (row_id r, row_expires_at r)) (filter ?q (t_secrets d)))) w = (Inr rs, w1)"
    and "is = map fst (filter (\<lambda>(_, e). expiry_past (w_now w1) e) rs)"
    by (auto simp: findExpiredIDs_def andthen_def split: prod.splits sum.splits)
  then have "length is \<le> length rs" by simp
  also have "length rs \<le> count_where ?q (t_secrets (w_db w))"
    using sql_rows_skip_length [OF rs] by (simp add: count_where_def)
  also have "\<dots> \<le> count_where row_enabled (t_secrets (w_db w))"
    by (rule count_where_conj_le)
  finally show ?thesis by (simp add: enabled_count_def)
qed

lemma findExpiredIDs_hoare:
  "hoare P findExpiredIDs (\<lambda>is d. P d \<and> int (length is) \<le> enabled_count d) (\<lambda>_. True)"
  by (rule hoareI) (simp_all add: findExpiredIDs_length readsD [OF secret_reads(12)])

lemma CountEnabled_value:
  "SecretStore_CountEnabled w = (Inr n, w') \<Longrightarrow> n = enabled_count (w_db w)"
  by (auto simp: SecretStore_CountEnabled_def andthen_def sql_row_def dest: pop_fault_same
      split: prod.splits option.splits sum.splits)

lemma CountEnabled_hoare:
  "(\<And>d. P d \<Longrightarrow> E d) \<Longrightarrow>
   hoare P SecretStore_CountEnabled (\<lambda>n d. P d \<and> n = enabled_count d) E"
  by (rule hoareI) (simp_all add: CountEnabled_value readsD [OF secret_reads(3)])

lemma DisableExpired_loop:
  "hoare (spare is) (each (\<lambda>i n. andthen (wrap (msg i) (disable_id i)) (\<lambda>k. ret (n + k))) is (a :: int))
     (\<lambda>_. spare []) (\<lambda>_. True)"
  by (rule hoare_each) (rule hoare_andthen [OF disable_id_spare hoare_ret])

lemma spare_Nil: "spare [] = (\<lambda>d. secrets_wf d \<and> has_enabled d)"
  by (simp add: spare_def has_enabled_def fun_eq_iff)

text \<open>The numbers kept for the loop are fewer than the enabled secrets.\<close>

lemma spare_butlast:
  assumes "spare [] d" "int (length is) \<le> enabled_count d"
  shows "spare (if enabled_count d \<le> int (length is) then butlast is else is) d"
  using assms by (auto simp: spare_def)

lemma DisableExpired_hoare:
  "hoare (spare []) SecretStore_DisableExpired (\<lambda>_. spare []) (spare [])"
  unfolding SecretStore_DisableExpired_def Let_def
proof (rule hoare_transaction, rule hoare_andthen [OF findExpiredIDs_hoare [where P = "spare []"]])
  fix ids :: "int list"
  let ?P = "\<lambda>d. spare [] d \<and> int (length ids) \<le> enabled_count d"
  let ?ids = "\<lambda>n. if n \<le> int (length ids) then butlast ids else ids"
  show "hoare ?P (if ids = [] then andthen tx_step (\<lambda>_. ret 0)
      else andthen (wrap ''count enabled'' SecretStore_CountEnabled) (\<lambda>n.
        andthen (each (\<lambda>i disabled. andthen (wrap (''disable expired '' @ show_int i) (disable_id i))
          (\<lambda>n. ret (disabled + n))) (?ids n) 0) (\<lambda>disabled.
        andthen (wrap ''commit'' tx_step) (\<lambda>_. ret disabled))))
    (\<lambda>_. spare []) (\<lambda>_. True)"
  proof (cases "ids = []")
    case True
    then show ?thesis
      by simp (rule hoare_andthen [OF hoare_tx_step [where P = "spare []"] hoare_ret]; simp)
  next
    case False
    have loop: "hoare (\<lambda>d. ?P d \<and> n = enabled_count d)
        (each (\<lambda>i disabled. andthen (wrap (''disable expired '' @ show_int i) (disable_id i))
          (\<lambda>n. ret (disabled + n))) (?ids n) 0) (\<lambda>_. spare []) (\<lambda>_. True)" for n
      by (rule hoare_conseq [OF DisableExpired_loop]) (simp_all only: spare_butlast)
    have tail: "hoare (spare []) (andthen (wrap ''commit'' tx_step) (\<lambda>_. ret n)) (\<lambda>_. spare [])
        (\<lambda>_. True)" for n :: int
      by (rule hoare_andthen [OF hoare_wrap [OF hoare_tx_step]]) (auto intro: hoare_ret)
    show ?thesis
      unfolding if_not_P [OF False]
      by (rule hoare_andthen [OF hoare_wrap [OF CountEnabled_hoare [where P = ?P]]
          hoare_andthen [OF loop tail]]) simp
  qed
qed

lemma DisableExpired_keeps_enabled:
  "keeps (\<lambda>d. secrets_wf d \<and> has_enabled d) SecretStore_DisableExpired"
  using hoare_keeps [OF DisableExpired_hoare] by (simp add: spare_Nil)

text \<open>Without faults: which rows the run disables, and how many it reports.\<close>

definition expired_row :: "int \<Rightarrow> secret_row \<Rightarrow> bool" where
  "expired_row now r \<longleftrightarrow>
     row_enabled r \<and> row_expires_at r \<noteq> [] \<and> row_expires_at r \<noteq> ''0'' \<and>
     expiry_past now (row_expires_at r)"

definition expired_ids :: "int \<Rightarrow> db \<Rightarrow> int list" where
  "expired_ids now d = map row_id (filter (expired_row now) (t_secrets d))"

definition ids_to_disable :: "int \<Rightarrow> db \<Rightarrow> int list" where
  "ids_to_disable now d =
     (if enabled_count d \<le> int (length (expired_ids now d)) then butlast (expired_ids now d)
      else expired_ids now d)"

abbreviation disable_row :: "secret_row \<Rightarrow> secret_row" where
  "disable_row r \<equiv> r\<lparr>row_enabled := False\<rparr>"

lemma findExpiredIDs_ok:
  assumes "w_faults w = []"
  shows "findExpiredIDs w = (Inr (expired_ids (w_now w) (w_db w)), w)"
proof -
  have *: "map fst (filter (\<lambda>(_, e). expiry_past n e) (map (\<lambda>r. (row_id r, row_expires_at r))
       (filter (\<lambda>r. row_enabled r \<and> row_expires_at r \<noteq> [] \<and> row_expires_at r \<noteq> ''0'') rs)))
     = map row_id (filter (expired_row n) rs)" for n rs
    by (induction rs) (auto simp: expired_row_def)
  then show ?thesis
    using assms by (simp add: findExpiredIDs_def andthen_def run_simps expired_ids_def)
qed

lemma disable_id_ok:
  assumes "w_faults w = []" "distinct (map row_id (t_secrets (w_db w)))"
    "\<exists>r \<in> set (t_secrets (w_db w)). row_id r = i \<and> row_enabled r"
  shows "disable_id i w = (Inr 1, w\<lparr>w_db := (w_db w)\<lparr>t_secrets :=
    update_where (\<lambda>r. row_id r = i) disable_row (t_secrets (w_db w))\<rparr>\<rparr>)"
proof -
  let ?rs = "t_secrets (w_db w)"
  let ?p = "\<lambda>r. row_id r = i \<and> row_enabled r"
  have "update_where ?p disable_row ?rs = update_where (\<lambda>r. row_id r = i) disable_row ?rs"
    by (auto simp: update_where_def)
  moreover have "count_where ?p ?rs \<le> 1"
    by (rule order_trans [OF count_where_conj_le count_where_key_le_1 [OF assms(2)]])
  moreover have "0 < count_where ?p ?rs" using assms(3) by (simp add: count_where_pos_iff)
  ultimately show ?thesis
    using assms(1) by (simp add: disable_id_def run_simps Let_def le_Suc_eq)
qed

lemma update_where_disable:
  "update_where (\<lambda>r. row_id r \<in> X) disable_row (update_where (\<lambda>r. row_id r = i) disable_row rs)
   = update_where (\<lambda>r. row_id r \<in> insert i X) disable_row rs"
  by (auto simp: update_where_def)

lemma disable_loop_ok:
  assumes "w_faults w = []" "distinct (map row_id (t_secrets (w_db w)))" "distinct is"
    "\<And>i. i \<in> set is \<Longrightarrow> \<exists>r \<in> set (t_secrets (w_db w)). row_id r = i \<and> row_enabled r"
  shows "each (\<lambda>i n. andthen (wrap (msg i) (disable_id i)) (\<lambda>k. ret (n + k))) is n w =
    (Inr (n + int (length is)), w\<lparr>w_db := (w_db w)\<lparr>t_secrets :=
       update_where (\<lambda>r. row_id r \<in> set is) disable_row (t_secrets (w_db w))\<rparr>\<rparr>)"
  using assms
proof (induction "is" arbitrary: n w)
  case Nil
  then show ?case by (simp add: update_where_def)
next
  case (Cons i js)
  let ?rs = "t_secrets (w_db w)"
  let ?rs' = "update_where (\<lambda>r. row_id r = i) disable_row ?rs"
  let ?w = "w\<lparr>w_db := (w_db w)\<lparr>t_secrets := ?rs'\<rparr>\<rparr>"
  have one: "disable_id i w = (Inr 1, ?w)"
    by (rule disable_id_ok) (use Cons.prems in auto)
  have hit: "\<exists>r \<in> set (t_secrets (w_db ?w)). row_id r = j \<and> row_enabled r"
    if "j \<in> set js" for j
  proof -
    from that Cons.prems have "j \<noteq> i" and "\<exists>r \<in> set ?rs. row_id r = j \<and> row_enabled r" by auto
    then show ?thesis by (auto simp: set_update_where intro!: rev_image_eqI)
  qed
  have "w_faults ?w = []" "distinct (map row_id (t_secrets (w_db ?w)))" "distinct js"
    using Cons.prems by (simp_all add: map_update_where_same)
  note rest = Cons.IH [OF this hit, of "n + 1"]
  have step: "andthen (wrap (msg i) (disable_id i)) (\<lambda>k. ret (n + k)) w = (Inr (n + 1), ?w)"
    by (simp add: andthen_def wrap_def one)
  show ?case
    unfolding each.simps andthen_Inr [where m = "andthen _ _", OF step]
    by (subst rest) (auto simp: update_where_def)
qed

lemma butlast_expired_set: "set (ids_to_disable now d) \<subseteq> set (expired_ids now d)"
  by (auto simp: ids_to_disable_def dest: in_set_butlastD)

lemma ids_to_disable_props:
  assumes "secrets_wf d"
  shows "distinct (ids_to_disable now d)"
    and "i \<in> set (ids_to_disable now d) \<Longrightarrow> \<exists>r \<in> set (t_secrets d). row_id r = i \<and> row_enabled r"
proof -
  have "distinct (expired_ids now d)"
    using assms by (simp add: expired_ids_def secrets_wf_def distinct_map_filter)
  then show "distinct (ids_to_disable now d)"
    by (simp add: ids_to_disable_def distinct_butlast)
  show "i \<in> set (ids_to_disable now d) \<Longrightarrow> \<exists>r \<in> set (t_secrets d). row_id r = i \<and> row_enabled r"
    using butlast_expired_set [of now d] by (auto simp: expired_ids_def expired_row_def)
qed

lemma CountEnabled_ok [run_simps]:
  "w_faults w = [] \<Longrightarrow> SecretStore_CountEnabled w = (Inr (enabled_count (w_db w)), w)"
  by (simp add: SecretStore_CountEnabled_def andthen_def run_simps)

text \<open>
  C10: without failures DisableExpired disables exactly the enabled secrets whose expiry date has
  passed, but for the last of them when no other secret is enabled; it reports how many, and
  touches nothing else.
\<close>

theorem disable_expired_result:
  assumes "w_faults w = []" "secrets_wf (w_db w)"
  shows "SecretStore_DisableExpired w =
    (Inr (int (length (ids_to_disable (w_now w) (w_db w)))), w\<lparr>w_db := (w_db w)\<lparr>t_secrets :=
       update_where (\<lambda>r. row_id r \<in> set (ids_to_disable (w_now w) (w_db w))) disable_row
         (t_secrets (w_db w))\<rparr>\<rparr>)"
proof (cases "expired_ids (w_now w) (w_db w) = []")
  case True
  then have "ids_to_disable (w_now w) (w_db w) = []" by (simp add: ids_to_disable_def)
  with True assms show ?thesis
    by (simp add: SecretStore_DisableExpired_def run_simps findExpiredIDs_ok andthen_def
        update_where_def)
next
  case False
  have "distinct (map row_id (t_secrets (w_db w)))" using assms by (simp add: secrets_wf_def)
  note loop = disable_loop_ok [OF assms(1) this ids_to_disable_props [OF assms(2)],
      of "w_now w" _ _ 0]
  show ?thesis
    unfolding SecretStore_DisableExpired_def
    using False assms loop
    by (simp add: run_simps findExpiredIDs_ok andthen_Inr wrap_def Let_def
        flip: ids_to_disable_def)
qed

end
