(* ===== verification/Instance_Store.thy ===== *)
theory Instance_Store
  imports Database
begin

text \<open>
  \<^verbatim>\<open>internal/store/instance_store.go\<close>: the statements on the table
  \<^verbatim>\<open>instances\<close>, and the backfill of control-plane API ports at start-up. The schema's
  UNIQUE and CHECK constraints on \<^verbatim>\<open>port\<close> are errors of the writes. The lemmas show
  that keys stay unique and that the backfill gives every instance a port of its own.
\<close>

subsection \<open>Reads\<close>

definition instances_by_port :: "db \<Rightarrow> inst list" where
  "instances_by_port d = sort_key inst_Port (t_instances d)"

definition InstanceStore_Count :: "int io" where
  "InstanceStore_Count =
     andthen (sql_row (\<lambda>e. e) (\<lambda>d. Some (int (length (t_instances d)))))
       (\<lambda>r. case r of None \<Rightarrow> throw ErrNoRows | Some n \<Rightarrow> ret n)"

definition InstanceStore_List :: "inst list io" where
  "InstanceStore_List =
     sql_rows (stage_wrap ''list instances'' ''scan instance'' ''iterate instances'')
       (\<lambda>d. Inr (instances_by_port d))"

definition find_instance :: "db \<Rightarrow> int \<Rightarrow> inst option" where
  "find_instance d i = find (\<lambda>r. inst_ID r = i) (t_instances d)"

definition find_instance_port :: "db \<Rightarrow> int \<Rightarrow> inst option" where
  "find_instance_port d p = find (\<lambda>r. inst_Port r = p) (t_instances d)"

definition InstanceStore_GetByID :: "int \<Rightarrow> inst option io" where
  "InstanceStore_GetByID i =
     sql_row (ErrWrap (''get instance '' @ show_int i)) (\<lambda>d. find_instance d i)"

definition InstanceStore_GetByPort :: "int \<Rightarrow> inst option io" where
  "InstanceStore_GetByPort p =
     sql_row (ErrWrap (''get instance port '' @ show_int p)) (\<lambda>d. find_instance_port d p)"

definition InstanceStore_ListEnabled :: "inst list io" where
  "InstanceStore_ListEnabled =
     sql_rows (stage_wrap ''list enabled instances'' ''scan instance'' ''iterate enabled instances'')
       (\<lambda>d. Inr (map (\<lambda>i. i\<lparr>inst_Enabled := True\<rparr>) (filter inst_Enabled (instances_by_port d))))"

subsection \<open>Writes\<close>

definition instance_rows_ok :: "inst list \<Rightarrow> error option" where
  "instance_rows_ok rs =
     (if \<not> distinct (map inst_Port rs) then Some (ErrConstraint ''instances.port'')
      else if \<not> list_all (\<lambda>r. port_ok (inst_Port r)) rs
      then Some (ErrDriver ''CHECK constraint failed: port >= 1 AND port <= 65535'')
      else None)"

text \<open>The value is the id that \<^verbatim>\<open>inst.ID\<close> is set to.\<close>

definition InstanceStore_Create :: "inst \<Rightarrow> int io" where
  "InstanceStore_Create i = wrap ''create instance'' (sql_exec (\<lambda>d.
     let n = t_instances_seq d + 1;
         rs = t_instances d @ [i\<lparr>inst_ID := n\<rparr>]
     in (case instance_rows_ok rs of
           Some e \<Rightarrow> Inl e
         | None \<Rightarrow> Inr (n, d\<lparr>t_instances := rs, t_instances_seq := n\<rparr>))))"

text \<open>Every column but the key is set from the argument.\<close>

definition InstanceStore_Update :: "inst \<Rightarrow> unit io" where
  "InstanceStore_Update i =
     wrap (''update instance '' @ show_int (inst_ID i)) (sql_exec (\<lambda>d.
       let rs = update_where (\<lambda>r. inst_ID r = inst_ID i) (\<lambda>_. i) (t_instances d)
       in (case instance_rows_ok rs of
             Some e \<Rightarrow> Inl e
           | None \<Rightarrow> Inr ((), d\<lparr>t_instances := rs\<rparr>))))"

definition InstanceStore_Delete :: "int \<Rightarrow> unit io" where
  "InstanceStore_Delete p = wrap (''delete instance port '' @ show_int p) (sql_exec (\<lambda>d.
     Inr ((), d\<lparr>t_instances := delete_where (\<lambda>r. inst_Port r = p) (t_instances d)\<rparr>)))"

definition InstanceStore_DeleteByID :: "int \<Rightarrow> unit io" where
  "InstanceStore_DeleteByID i = wrap (''delete instance '' @ show_int i) (sql_exec (\<lambda>d.
     Inr ((), d\<lparr>t_instances := delete_where (\<lambda>r. inst_ID r = i) (t_instances d)\<rparr>)))"

subsection \<open>Backfill of API ports\<close>

definition apiPortBase :: int where
  "apiPortBase = 19091"

text \<open>The first loop: the ports in use, and the first candidate.\<close>

fun used_ports :: "inst list \<Rightarrow> int list \<Rightarrow> int \<Rightarrow> int list \<times> int" where
  "used_ports [] used next = (used, next)"
| "used_ports (i # is) used next =
     (let used = inst_MetricsPort i # inst_Port i # used in
      if inst_APIPort i \<noteq> 0 then
        used_ports is (inst_APIPort i # used)
          (if next \<le> inst_APIPort i then inst_APIPort i + 1 else next)
      else used_ports is used next)"

text \<open>The inner loop \<^verbatim>\<open>for used[next] { next++ }\<close>.\<close>

function next_free :: "int list \<Rightarrow> int \<Rightarrow> int" where
  "next_free used n = (if n \<in> set used then next_free used (n + 1) else n)"
  by pat_completeness auto
termination
proof (relation "measure (\<lambda>(used, n). card {u \<in> set used. n \<le> u})")
  fix used :: "int list" and n :: int
  assume "n \<in> set used"
  then have "n \<in> {u \<in> set used. n \<le> u}" by simp
  moreover have "n \<notin> {u \<in> set used. n + 1 \<le> u}" by simp
  moreover have "{u \<in> set used. n + 1 \<le> u} \<subseteq> {u \<in> set used. n \<le> u}" by auto
  ultimately have "{u \<in> set used. n + 1 \<le> u} \<subset> {u \<in> set used. n \<le> u}" by blast
  then show "((used, n + 1), used, n) \<in> measure (\<lambda>(used, n). card {u \<in> set used. n \<le> u})"
    by (simp add: psubset_card_mono)
qed simp

declare next_free.simps [simp del]

text \<open>The second loop. The code returns the number of assigned ports beside an error.\<close>

fun backfill :: "inst list \<Rightarrow> int list \<Rightarrow> int \<Rightarrow> int \<Rightarrow> (int \<times> error option) io" where
  "backfill [] used next assigned = ret (assigned, None)"
| "backfill (i # is) used next assigned =
     (if inst_APIPort i \<noteq> 0 then backfill is used next assigned
      else
        (let next = next_free used next in
         andthen (attempt (InstanceStore_Update (i\<lparr>inst_APIPort := next\<rparr>))) (\<lambda>r.
           case r of
             Inl e \<Rightarrow>
               ret (assigned, Some (ErrWrap (''assign api_port to instance '' @ show_int (inst_ID i)) e))
           | Inr _ \<Rightarrow> backfill is (next # used) (next + 1) (assigned + 1))))"

definition BackfillAPIPorts :: "(int \<times> error option) io" where
  "BackfillAPIPorts =
     andthen (attempt InstanceStore_List) (\<lambda>r.
     case r of
       Inl e \<Rightarrow> ret (0, Some e)
     | Inr instances \<Rightarrow>
         (case used_ports instances [] apiPortBase of
            (used, next) \<Rightarrow> backfill instances used next 0))"

subsection \<open>Keys stay unique\<close>

definition instances_wf :: "db \<Rightarrow> bool" where
  "instances_wf d \<longleftrightarrow>
     distinct (map inst_ID (t_instances d)) \<and> distinct (map inst_Port (t_instances d)) \<and>
     (\<forall>r \<in> set (t_instances d). inst_ID r \<le> t_instances_seq d \<and> port_ok (inst_Port r))"

lemma instance_rows_ok_None:
  "instance_rows_ok rs = None \<longleftrightarrow>
     distinct (map inst_Port rs) \<and> (\<forall>r \<in> set rs. port_ok (inst_Port r))"
  by (auto simp: instance_rows_ok_def list_all_iff)

lemma instances_wf_empty [simp]: "instances_wf empty_db"
  by (simp add: instances_wf_def empty_db_def)

lemma instance_reads [simp, intro]:
  "reads InstanceStore_List" "reads (InstanceStore_GetByID i)" "reads (InstanceStore_GetByPort p)"
  "reads InstanceStore_ListEnabled" "reads InstanceStore_Count"
  by (auto simp: InstanceStore_List_def InstanceStore_GetByID_def InstanceStore_GetByPort_def
      InstanceStore_ListEnabled_def InstanceStore_Count_def split: option.splits
      intro!: reads_andthen)

lemma keeps_instance_reads [keeps_intros]:
  "keeps P InstanceStore_List" "keeps P (InstanceStore_GetByID i)"
  "keeps P (InstanceStore_GetByPort p)" "keeps P InstanceStore_ListEnabled"
  "keeps P InstanceStore_Count"
  by (rule reads_keeps, simp)+

lemma instance_Create_keeps [keeps_intros]: "keeps instances_wf (InstanceStore_Create i)"
  unfolding InstanceStore_Create_def
proof (rule keeps_wrap, rule keeps_sql_exec)
  fix d d' :: db and x
  let ?rs = "t_instances d @ [i\<lparr>inst_ID := t_instances_seq d + 1\<rparr>]"
  assume wf: "instances_wf d"
    and "(let n = t_instances_seq d + 1; rs = t_instances d @ [i\<lparr>inst_ID := n\<rparr>]
      in case instance_rows_ok rs of Some e \<Rightarrow> Inl e
         | None \<Rightarrow> Inr (n, d\<lparr>t_instances := rs, t_instances_seq := n\<rparr>)) = Inr (x, d')"
  then have ok: "instance_rows_ok ?rs = None"
    and d': "d' = d\<lparr>t_instances := ?rs, t_instances_seq := t_instances_seq d + 1\<rparr>"
    by (auto simp: Let_def split: option.splits)
  have "t_instances_seq d + 1 \<notin> inst_ID ` set (t_instances d)"
    using wf by (force simp: instances_wf_def)
  with wf ok show "instances_wf d'"
    by (auto simp: d' instances_wf_def instance_rows_ok_None)
qed

lemma instance_Update_keeps [keeps_intros]: "keeps instances_wf (InstanceStore_Update i)"
  unfolding InstanceStore_Update_def
proof (rule keeps_wrap, rule keeps_sql_exec)
  fix d d' :: db and x
  let ?rs = "update_where (\<lambda>r. inst_ID r = inst_ID i) (\<lambda>_. i) (t_instances d)"
  assume wf: "instances_wf d"
    and "(let rs = ?rs in case instance_rows_ok rs of Some e \<Rightarrow> Inl e
         | None \<Rightarrow> Inr ((), d\<lparr>t_instances := rs\<rparr>)) = Inr (x, d')"
  then have ok: "instance_rows_ok ?rs = None" and d': "d' = d\<lparr>t_instances := ?rs\<rparr>"
    by (simp_all add: Let_def split: option.splits)
  have "map inst_ID ?rs = map inst_ID (t_instances d)"
    by (rule map_update_where_same) simp
  moreover have "\<forall>r \<in> set ?rs. inst_ID r \<le> t_instances_seq d"
    using wf by (auto simp: set_update_where instances_wf_def)
  ultimately show "instances_wf d'"
    using wf ok by (simp add: d' instances_wf_def instance_rows_ok_None)
qed

lemma instance_Delete_keeps [keeps_intros]:
  "keeps instances_wf (InstanceStore_Delete p)" "keeps instances_wf (InstanceStore_DeleteByID i)"
  unfolding InstanceStore_Delete_def InstanceStore_DeleteByID_def
  by (intro keeps_intros keeps_sql_exec;
      force simp: instances_wf_def distinct_map_delete_where)+

lemma backfill_keeps [keeps_intros]:
  "keeps instances_wf (backfill is used next assigned)"
proof (induction "is" used "next" assigned rule: backfill.induct)
  case (1 used n a)
  then show ?case by (simp only: backfill.simps keeps_ret)
next
  case (2 i "is" used n a)
  then show ?case
    unfolding backfill.simps Let_def by (auto intro!: keeps_intros split: sum.splits)
qed

lemma BackfillAPIPorts_keeps [keeps_intros]: "keeps instances_wf BackfillAPIPorts"
  unfolding BackfillAPIPorts_def
  by (intro keeps_intros) (auto intro: keeps_intros split: prod.splits)

interpretation instances_by_id: repository InstanceStore_GetByID find_instance
proof unfold_locales
  fix i w r w'
  assume "InstanceStore_GetByID i w = (Inr r, w')"
  then show "r = find_instance (w_db w) i"
    by (auto simp: InstanceStore_GetByID_def sql_row_def dest: pop_fault_same
        split: prod.splits option.splits)
qed (simp_all add: InstanceStore_GetByID_def run_simps)

interpretation instances_on_port: repository InstanceStore_GetByPort find_instance_port
proof unfold_locales
  fix p w r w'
  assume "InstanceStore_GetByPort p w = (Inr r, w')"
  then show "r = find_instance_port (w_db w) p"
    by (auto simp: InstanceStore_GetByPort_def sql_row_def dest: pop_fault_same
        split: prod.splits option.splits)
qed (simp_all add: InstanceStore_GetByPort_def run_simps)

subsection \<open>What the backfill assigns\<close>

lemma next_free_ge: "n \<le> next_free used n"
  by (induction used n rule: next_free.induct) (subst next_free.simps, auto)

lemma next_free_unused: "next_free used n \<notin> set used"
proof (induction used n rule: next_free.induct)
  case (1 used n)
  then show ?case by (subst next_free.simps) auto
qed

fun assignments :: "inst list \<Rightarrow> int list \<Rightarrow> int \<Rightarrow> (int \<times> int) list" where
  "assignments [] used next = []"
| "assignments (i # is) used next =
     (if inst_APIPort i \<noteq> 0 then assignments is used next
      else
        (let p = next_free used next in
         (inst_ID i, p) # assignments is (p # used) (p + 1)))"

definition with_port :: "(int \<times> int) list \<Rightarrow> inst \<Rightarrow> inst" where
  "with_port asg i =
     (case map_of asg (inst_ID i) of None \<Rightarrow> i | Some p \<Rightarrow> i\<lparr>inst_APIPort := p\<rparr>)"

lemma with_port_keys [simp]:
  "inst_ID (with_port asg i) = inst_ID i" "inst_Port (with_port asg i) = inst_Port i"
  "inst_MetricsPort (with_port asg i) = inst_MetricsPort i"
  by (simp_all add: with_port_def split: option.splits)

lemma with_port_Nil [simp]: "with_port [] = (\<lambda>i. i)"
  by (simp add: with_port_def fun_eq_iff)

lemma with_port_Cons:
  "x \<notin> fst ` set asg \<Longrightarrow> with_port asg (with_port [(x, p)] i) = with_port ((x, p) # asg) i"
  by (auto simp: with_port_def map_of_eq_None_iff [symmetric] split: option.splits)

lemma assignments_ids: "fst ` set (assignments is used n) = inst_ID ` {i \<in> set is. inst_APIPort i = 0}"
  by (induction "is" used n rule: assignments.induct) (auto simp: Let_def)

lemma assignments_ports:
  "(x, p) \<in> set (assignments is used n) \<Longrightarrow> n \<le> p \<and> p \<notin> set used"
proof (induction "is" used n rule: assignments.induct)
  case (2 i "is" used n)
  show ?case
  proof (cases "inst_APIPort i = 0 \<and> (x, p) \<noteq> (inst_ID i, next_free used n)")
    case True
    with 2 have "next_free used n + 1 \<le> p \<and> p \<notin> set (next_free used n # used)"
      by (auto simp: Let_def)
    with next_free_ge [of n used] show ?thesis by auto
  next
    case False
    with 2 next_free_ge [of n used] next_free_unused [of used n] show ?thesis
      by (auto simp: Let_def split: if_splits)
  qed
qed simp

lemma assignments_distinct: "distinct (map snd (assignments is used n))"
proof (induction "is" used n rule: assignments.induct)
  case (2 i "is" used n)
  then show ?case
    using assignments_ports [where used = "next_free used n # used" and n = "next_free used n + 1"]
    by (force simp: Let_def)
qed simp

lemma update_one_with_port:
  assumes "distinct (map inst_ID rs)" "i \<in> set rs"
  shows "update_where (\<lambda>r. inst_ID r = inst_ID i) (\<lambda>_. i\<lparr>inst_APIPort := p\<rparr>) rs
       = map (with_port [(inst_ID i, p)]) rs"
  unfolding update_where_def
proof (rule map_cong [OF refl])
  fix r assume "r \<in> set rs"
  with assms have "inst_ID r = inst_ID i \<Longrightarrow> r = i"
    by (auto simp: distinct_map inj_on_def)
  then show "(if inst_ID r = inst_ID i then i\<lparr>inst_APIPort := p\<rparr> else r)
      = with_port [(inst_ID i, p)] r"
    by (auto simp: with_port_def)
qed

lemma instance_Update_ok:
  assumes "w_faults w = []" "instances_wf (w_db w)" "i \<in> set (t_instances (w_db w))"
  shows "InstanceStore_Update (i\<lparr>inst_APIPort := p\<rparr>) w = (Inr (), w\<lparr>w_db := (w_db w)\<lparr>t_instances :=
    map (with_port [(inst_ID i, p)]) (t_instances (w_db w))\<rparr>\<rparr>)"
proof -
  let ?rs = "t_instances (w_db w)"
  have "distinct (map inst_ID ?rs)" using assms(2) by (simp add: instances_wf_def)
  note upd = update_one_with_port [OF this assms(3)]
  have "instance_rows_ok (map (with_port [(inst_ID i, p)]) ?rs) = None"
    using assms(2) by (simp add: instance_rows_ok_None instances_wf_def o_def)
  with assms(1) upd show ?thesis
    by (simp add: InstanceStore_Update_def wrap_def run_simps Let_def)
qed

lemma backfill_run:
  assumes "w_faults w = []" "instances_wf (w_db w)" "set is \<subseteq> set (t_instances (w_db w))"
    "distinct (map inst_ID is)"
  shows "backfill is used n a w =
    (Inr (a + int (length (assignments is used n)), None), w\<lparr>w_db := (w_db w)\<lparr>t_instances :=
       map (with_port (assignments is used n)) (t_instances (w_db w))\<rparr>\<rparr>)"
  using assms
proof (induction "is" used n arbitrary: a w rule: assignments.induct)
  case (1 used n)
  then show ?case by simp
next
  case (2 i "is" used n)
  let ?rs = "t_instances (w_db w)"
  let ?p = "next_free used n"
  let ?asg = "assignments is (?p # used) (?p + 1)"
  show ?case
  proof (cases "inst_APIPort i = 0")
    case False
    with 2 show ?thesis by simp
  next
    case True
    let ?w = "w\<lparr>w_db := (w_db w)\<lparr>t_instances := map (with_port [(inst_ID i, ?p)]) ?rs\<rparr>\<rparr>"
    have upd: "InstanceStore_Update (i\<lparr>inst_APIPort := ?p\<rparr>) w = (Inr (), ?w)"
      by (rule instance_Update_ok) (use 2 in auto)
    have wf: "instances_wf (w_db ?w)" using 2 by (auto simp: instances_wf_def o_def)
    have new: "inst_ID i \<notin> inst_ID ` set is" and old: "set is \<subseteq> set ?rs"
      using "2.prems" by simp_all
    have "j = with_port [(inst_ID i, ?p)] j" if "j \<in> set is" for j
    proof -
      from that new have "inst_ID j \<noteq> inst_ID i" by (metis imageI)
      then show ?thesis by (simp add: with_port_def)
    qed
    with old have sub: "set is \<subseteq> set (t_instances (w_db ?w))"
      by simp (blast intro: rev_image_eqI)
    have "w_faults ?w = []" "distinct (map inst_ID is)" using 2 by simp_all
    note rest = 2(2) [OF _ refl this(1) wf sub this(2), of "a + 1"]
    have "inst_ID i \<notin> fst ` set ?asg" using new by (auto simp: assignments_ids)
    then have "map (with_port ?asg) (map (with_port [(inst_ID i, ?p)]) ?rs)
        = map (with_port ((inst_ID i, ?p) # ?asg)) ?rs"
      by (simp add: with_port_Cons)
    with True rest upd show ?thesis
      by (simp add: Let_def andthen_def attempt_def)
  qed
qed

lemma used_ports_props:
  assumes "used_ports is u n = (u', n')"
  shows "n \<le> n'" and "set u \<subseteq> set u'"
    and "i \<in> set is \<Longrightarrow> inst_Port i \<in> set u' \<and> inst_MetricsPort i \<in> set u' \<and>
           (inst_APIPort i \<noteq> 0 \<longrightarrow> inst_APIPort i \<in> set u')"
  using assms
proof (induction "is" u n rule: used_ports.induct)
  case (2 j "is" u n)
  { case 1 with 2 show ?case by (fastforce simp: Let_def split: if_splits) }
  { case 2 with "2.IH" show ?case by (fastforce simp: Let_def split: if_splits) }
  { case 3
    show ?case
    proof (cases "inst_APIPort j = 0")
      case True
      then show ?thesis
        using 3 "2.IH"(5) [OF refl] "2.IH"(6) [OF refl] by (auto simp: Let_def)
    next
      case False
      then show ?thesis
        using 3 "2.IH"(2) [OF refl] "2.IH"(3) [OF refl] by (auto simp: Let_def)
    qed }
qed auto

lemma mem_instances_by_port [simp]: "set (instances_by_port d) = set (t_instances d)"
  by (simp add: instances_by_port_def)

lemma distinct_instances_by_port:
  "distinct (map k (t_instances d)) \<Longrightarrow> distinct (map k (instances_by_port d))"
  by (auto simp: instances_by_port_def distinct_map)

lemma length_assignments:
  "length (assignments is used n) = count_where (\<lambda>i. inst_APIPort i = 0) is"
  by (induction "is" used n rule: assignments.induct) (auto simp: Let_def)

lemma count_instances_by_port [simp]:
  "count_where q (instances_by_port d) = count_where q (t_instances d)"
  by (simp add: count_where_def instances_by_port_def filter_sort)

lemma with_port_assignments:
  assumes ids: "distinct (map inst_ID rs)" and i: "i \<in> set rs"
    and asg: "fst ` set asg = inst_ID ` {i \<in> set rs. inst_APIPort i = 0}"
  shows "with_port asg i =
    (if inst_APIPort i = 0 then i\<lparr>inst_APIPort := the (map_of asg (inst_ID i))\<rparr> else i)"
proof (cases "inst_APIPort i = 0")
  case True
  with i have "inst_ID i \<in> fst ` set asg" by (auto simp: asg)
  then have "map_of asg (inst_ID i) \<noteq> None" by (simp add: map_of_eq_None_iff)
  with True show ?thesis by (auto simp: with_port_def)
next
  case False
  have "inst_ID i \<notin> fst ` set asg"
  proof
    assume "inst_ID i \<in> fst ` set asg"
    then obtain j where "j \<in> set rs" "inst_APIPort j = 0" "inst_ID j = inst_ID i"
      by (auto simp: asg)
    with ids i have "j = i" by (auto simp: distinct_map inj_on_def)
    with False \<open>inst_APIPort j = 0\<close> show False by simp
  qed
  then have "map_of asg (inst_ID i) = None" by (simp add: map_of_eq_None_iff)
  with False show ?thesis by (simp add: with_port_def)
qed

lemma BackfillAPIPorts_run:
  assumes "w_faults w = []" "instances_wf (w_db w)"
    "used_ports (instances_by_port (w_db w)) [] apiPortBase = (used, n)"
    "asg = assignments (instances_by_port (w_db w)) used n"
  shows "BackfillAPIPorts w =
    (Inr (int (count_where (\<lambda>i. inst_APIPort i = 0) (t_instances (w_db w))), None),
     w\<lparr>w_db := (w_db w)\<lparr>t_instances := map (\<lambda>i. if inst_APIPort i = 0
       then i\<lparr>inst_APIPort := the (map_of asg (inst_ID i))\<rparr> else i) (t_instances (w_db w))\<rparr>\<rparr>)"
proof -
  let ?is = "instances_by_port (w_db w)"
  have ids: "distinct (map inst_ID (t_instances (w_db w)))" using assms(2) by (simp add: instances_wf_def)
  have "map (with_port asg) (t_instances (w_db w)) = map (\<lambda>i. if inst_APIPort i = 0
       then i\<lparr>inst_APIPort := the (map_of asg (inst_ID i))\<rparr> else i) (t_instances (w_db w))"
    by (rule map_cong [OF refl], rule with_port_assignments [OF ids])
      (simp_all add: assms(4) assignments_ids)
  moreover have "backfill ?is used n 0 w = (Inr (0 + int (length asg), None),
    w\<lparr>w_db := (w_db w)\<lparr>t_instances := map (with_port asg) (t_instances (w_db w))\<rparr>\<rparr>)"
    unfolding assms(4)
    by (rule backfill_run) (simp_all add: assms distinct_instances_by_port ids)
  ultimately show ?thesis
    using assms(1,3)
    by (simp add: BackfillAPIPorts_def InstanceStore_List_def andthen_def attempt_def run_simps
        length_assignments assms(4))
qed

subsection \<open>Properties\<close>

text \<open>
  C11: without database failures \<open>BackfillAPIPorts\<close> reports the number of instances that had
  no control-plane port, leaves every other instance and every other column as they were, and gives
  each of those instances a port from 19091 up that no instance used for anything and that no two
  of them share.
\<close>

theorem backfill_assigns_fresh_ports:
  assumes "w_faults w = []" and "instances_wf (w_db w)"
  shows "\<exists>f. BackfillAPIPorts w =
      (Inr (int (count_where (\<lambda>i. inst_APIPort i = 0) (t_instances (w_db w))), None),
       w\<lparr>w_db := (w_db w)\<lparr>t_instances := map (\<lambda>i. if inst_APIPort i = 0
         then i\<lparr>inst_APIPort := f i\<rparr> else i) (t_instances (w_db w))\<rparr>\<rparr>) \<and>
    inj_on f {i \<in> set (t_instances (w_db w)). inst_APIPort i = 0} \<and>
    (\<forall>i \<in> set (t_instances (w_db w)). inst_APIPort i = 0 \<longrightarrow> 19091 \<le> f i \<and>
      (\<forall>j \<in> set (t_instances (w_db w)).
         f i \<noteq> inst_Port j \<and> f i \<noteq> inst_MetricsPort j \<and> f i \<noteq> inst_APIPort j))"
proof -
  let ?rs = "t_instances (w_db w)"
  obtain used n where u: "used_ports (instances_by_port (w_db w)) [] apiPortBase = (used, n)"
    by (rule prod.exhaust)
  define asg where "asg = assignments (instances_by_port (w_db w)) used n"
  let ?f = "\<lambda>i. the (map_of asg (inst_ID i))"
  have mem: "(inst_ID i, ?f i) \<in> set asg" if "i \<in> set ?rs" "inst_APIPort i = 0" for i
  proof -
    from that have "inst_ID i \<in> fst ` set asg" by (auto simp: asg_def assignments_ids)
    then have "map_of asg (inst_ID i) \<noteq> None" by (simp add: map_of_eq_None_iff)
    then show ?thesis by (auto dest: map_of_SomeD)
  qed
  have "inj_on ?f {i \<in> set ?rs. inst_APIPort i = 0}"
  proof (rule inj_onI)
    fix i j
    assume i: "i \<in> {i \<in> set ?rs. inst_APIPort i = 0}" and j: "j \<in> {i \<in> set ?rs. inst_APIPort i = 0}"
      and eq: "?f i = ?f j"
    have "inj_on snd (set asg)"
      using assignments_distinct [of "instances_by_port (w_db w)" used n]
      by (simp add: distinct_map asg_def)
    moreover have "(inst_ID i, ?f j) \<in> set asg" "(inst_ID j, ?f j) \<in> set asg"
      using mem [of i] mem [of j] i j eq by simp_all
    ultimately have "(inst_ID i, ?f j) = (inst_ID j, ?f j)"
      by (intro inj_onD [of snd "set asg"]) simp_all
    then have "inst_ID i = inst_ID j" by simp
    with i j assms(2) show "i = j" by (auto simp: instances_wf_def distinct_map inj_on_def)
  qed
  moreover have "19091 \<le> ?f i \<and> ?f i \<notin> set used" if "i \<in> set ?rs" "inst_APIPort i = 0" for i
    using assignments_ports [OF mem [OF that, unfolded asg_def]] used_ports_props(1) [OF u]
    by (auto simp: asg_def apiPortBase_def)
  moreover have "inst_Port j \<in> set used \<and> inst_MetricsPort j \<in> set used \<and>
      (inst_APIPort j \<noteq> 0 \<longrightarrow> inst_APIPort j \<in> set used)" if "j \<in> set ?rs" for j
    by (rule used_ports_props(3) [OF u]) (simp add: that)
  ultimately show ?thesis
    using BackfillAPIPorts_run [OF assms u asg_def]
    by (intro exI [where x = ?f]) fastforce
qed

end
