(* ===== verification/Telemt_Secret.thy ===== *)
theory Telemt_Secret
  imports Database
begin

text \<open>
  \<^verbatim>\<open>pkg/telemt/secret.go\<close> and \<^verbatim>\<open>internal/service/link_builder.go\<close>: key generation, the
  FakeTLS secret that clients are given, and the proxy links of a secret. \<^verbatim>\<open>crypto/rand\<close>
  is the stream \<open>w_entropy\<close>; when it has less than 16 bytes left the read fails.
\<close>

subsection \<open>Keys\<close>

definition GenerateSecret :: "string io" where
  "GenerateSecret w =
     (if length (w_entropy w) < 16
      then (Inl (ErrWrap ''generate secret'' (ErrDriver ''unexpected EOF'')), w)
      else (Inr (hex_encode (take 16 (w_entropy w))), w\<lparr>w_entropy := drop 16 (w_entropy w)\<rparr>))"

definition DomainToHex :: "string \<Rightarrow> string" where
  "DomainToHex domain = hex_encode domain"

definition BuildFakeTLSSecret :: "string \<Rightarrow> string \<Rightarrow> bool \<Rightarrow> string" where
  "BuildFakeTLSSecret rawSecret domain maskingEnabled =
     (if \<not> maskingEnabled then ''dd'' @ rawSecret else ''ee'' @ rawSecret @ DomainToHex domain)"

definition BuildProxyLink :: "string \<Rightarrow> int \<Rightarrow> string \<Rightarrow> string" where
  "BuildProxyLink serverIP port s =
     ''tg://proxy?server='' @ serverIP @ ''&port='' @ show_int port @ ''&secret='' @ s"

definition BuildWebLink :: "string \<Rightarrow> int \<Rightarrow> string \<Rightarrow> string" where
  "BuildWebLink serverIP port s =
     ''https://t.me/proxy?server='' @ serverIP @ ''&port='' @ show_int port @ ''&secret='' @ s"

definition ValidateSecretKey :: "string \<Rightarrow> bool" where
  "ValidateSecretKey key = (if length key \<noteq> 32 then False else hex_decode key \<noteq> None)"

subsection \<open>Links\<close>

record proxy_link =
  pl_InstanceLabel :: string
  pl_InstancePort :: int
  pl_Domain :: string
  pl_TGLink :: string
  pl_WebLink :: string

definition link_for :: "secret \<Rightarrow> string \<Rightarrow> inst \<Rightarrow> string \<Rightarrow> proxy_link" where
  "link_for sec serverIP i domain =
     (let fullSecret = BuildFakeTLSSecret (sec_SecretKey sec) domain (inst_FakeTLS i) in
      \<lparr>pl_InstanceLabel = inst_Label i, pl_InstancePort = inst_Port i, pl_Domain = domain,
       pl_TGLink = BuildProxyLink serverIP (inst_Port i) fullSecret,
       pl_WebLink = BuildWebLink serverIP (inst_Port i) fullSecret\<rparr>)"

fun links_loop :: "secret \<Rightarrow> string list \<Rightarrow> string \<Rightarrow> inst list \<Rightarrow> proxy_link list" where
  "links_loop sec secretTags serverIP [] = []"
| "links_loop sec secretTags serverIP (i # is) =
     (if \<not> inst_Enabled i then links_loop sec secretTags serverIP is
      else if \<not> TagsMatch (Instance_GetTags i) secretTags
      then links_loop sec secretTags serverIP is
      else map (link_for sec serverIP i) (AllDomains i) @ links_loop sec secretTags serverIP is)"

definition BuildLinksForSecret :: "secret \<Rightarrow> inst list \<Rightarrow> string \<Rightarrow> proxy_link list" where
  "BuildLinksForSecret sec instances serverIP =
     links_loop sec (Secret_GetTags sec) serverIP instances"

subsection \<open>Facts\<close>

lemma GenerateSecret_reads [simp, intro]: "reads GenerateSecret"
  by (simp add: reads_def GenerateSecret_def)

lemma keeps_GenerateSecret [keeps_intros]: "keeps P GenerateSecret"
  by (rule reads_keeps) simp

lemma GenerateSecret_valid: "GenerateSecret w = (Inr k, w') \<Longrightarrow> ValidateSecretKey k"
  by (auto simp: GenerateSecret_def ValidateSecretKey_def min_def split: if_splits)

text \<open>What a client reads back from a full secret: the mode, the key and the domain.\<close>

definition parse_full_secret :: "string \<Rightarrow> (bool \<times> string \<times> string) option" where
  "parse_full_secret s =
     (if take 2 s = ''dd'' then Some (False, drop 2 s, [])
      else if take 2 s = ''ee'' then
        map_option (\<lambda>dom. (True, take 32 (drop 2 s), dom)) (hex_decode (drop 34 s))
      else None)"

lemma parse_BuildFakeTLSSecret:
  "length key = 32 \<Longrightarrow> parse_full_secret (BuildFakeTLSSecret key domain m) =
     Some (if m then (True, key, domain) else (False, key, []))"
  by (simp add: parse_full_secret_def BuildFakeTLSSecret_def DomainToHex_def)

lemma set_links_loop:
  "set (links_loop sec tags ip is) =
     {link_for sec ip i domain | i domain. i \<in> set is \<and> inst_Enabled i \<and>
        TagsMatch (Instance_GetTags i) tags \<and> domain \<in> set (AllDomains i)}"
  by (induction "is") auto

end
