(* ===== verification/Traffic_Store.thy ===== *)
theory Traffic_Store
  imports Database
begin

text \<open>
  \<^verbatim>\<open>internal/store/traffic_store.go\<close> and \<^verbatim>\<open>internal/store/alert_store.go\<close>: the
  cumulative counters with the last snapshot of the engine's own counters beside them, the history
  records, and the marks that a quota alert was sent. A Go map handed to the store is an
  association list in the order the loop visits it. Counters are unbounded integers here; SQLite
  keeps them in 64 bits.
\<close>

subsection \<open>Global counters\<close>

definition TrafficStore_GetGlobal :: "snapshot io" where
  "TrafficStore_GetGlobal =
     andthen (sql_row (ErrWrap ''get global traffic'') t_traffic_global)
       (\<lambda>r. case r of None \<Rightarrow> throw (ErrWrap ''get global traffic'' ErrNoRows) | Some t \<Rightarrow> ret t)"

definition add_snapshot :: "snapshot \<Rightarrow> snapshot \<Rightarrow> snapshot" where
  "add_snapshot delta t =
     \<lparr>snap_BytesIn = snap_BytesIn t + snap_BytesIn delta,
      snap_BytesOut = snap_BytesOut t + snap_BytesOut delta,
      snap_SnapIn = snap_SnapIn delta, snap_SnapOut = snap_SnapOut delta\<rparr>"

definition TrafficStore_UpdateGlobal :: "int \<Rightarrow> int \<Rightarrow> int \<Rightarrow> int \<Rightarrow> unit io" where
  "TrafficStore_UpdateGlobal deltaIn deltaOut snapIn snapOut =
     sql_exec (\<lambda>d. Inr ((), d\<lparr>t_traffic_global := map_option (add_snapshot
       \<lparr>snap_BytesIn = deltaIn, snap_BytesOut = deltaOut, snap_SnapIn = snapIn,
        snap_SnapOut = snapOut\<rparr>) (t_traffic_global d)\<rparr>))"

definition TrafficStore_ResetGlobal :: "unit io" where
  "TrafficStore_ResetGlobal =
     sql_exec (\<lambda>d. Inr ((), d\<lparr>t_traffic_global := map_option (\<lambda>_.
       \<lparr>snap_BytesIn = 0, snap_BytesOut = 0, snap_SnapIn = 0, snap_SnapOut = 0\<rparr>)
       (t_traffic_global d)\<rparr>))"

subsection \<open>Per-user counters\<close>

record user_traffic =
  ut_Label :: string
  ut_BytesIn :: int
  ut_BytesOut :: int

definition user_sum :: "db \<Rightarrow> string \<Rightarrow> user_traffic" where
  "user_sum d label =
     \<lparr>ut_Label = label,
      ut_BytesIn = sum_where (\<lambda>r. tu_label r = label) tu_bytes_in (t_traffic_user d),
      ut_BytesOut = sum_where (\<lambda>r. tu_label r = label) tu_bytes_out (t_traffic_user d)\<rparr>"

definition TrafficStore_ListUserTraffic :: "user_traffic list io" where
  "TrafficStore_ListUserTraffic =
     sql_rows (stage_wrap ''list user traffic'' ''scan user traffic'' ''iterate user traffic'')
       (\<lambda>d. Inr (map (user_sum d) (sort (remdups (map tu_label (t_traffic_user d))))))"

definition TrafficStore_GetUserTraffic :: "string \<Rightarrow> user_traffic io" where
  "TrafficStore_GetUserTraffic label =
     andthen (sql_row (ErrWrap (''get user traffic '' @ label)) (\<lambda>d.
         if list_ex (\<lambda>r. tu_label r = label) (t_traffic_user d) then Some (user_sum d label)
         else None))
       (\<lambda>r. case r of
          None \<Rightarrow> ret \<lparr>ut_Label = label, ut_BytesIn = 0, ut_BytesOut = 0\<rparr>
        | Some u \<Rightarrow> ret u)"

definition TrafficStore_GetUserSnapshot :: "string \<Rightarrow> int \<Rightarrow> (int \<times> int) io" where
  "TrafficStore_GetUserSnapshot label i =
     andthen (sql_row (\<lambda>e. e) (\<lambda>d. map_option (\<lambda>r. (tu_snap_in r, tu_snap_out r))
         (find (\<lambda>r. tu_label r = label \<and> tu_instance_id r = i) (t_traffic_user d))))
       (\<lambda>r. case r of None \<Rightarrow> ret (0, 0) | Some s \<Rightarrow> ret s)"

definition user_snapshots :: "db \<Rightarrow> int \<Rightarrow> (string \<times> int \<times> int) list" where
  "user_snapshots d i =
     map (\<lambda>r. (tu_label r, tu_snap_in r, tu_snap_out r))
       (filter (\<lambda>r. tu_instance_id r = i) (t_traffic_user d))"

definition TrafficStore_GetAllUserSnapshots :: "int \<Rightarrow> (string \<times> int \<times> int) list io" where
  "TrafficStore_GetAllUserSnapshots i =
     sql_rows (stage_wrap ''get user snapshots'' ''scan user snapshot'' ''iterate user snapshots'')
       (\<lambda>d. Inr (user_snapshots d i))"

text \<open>\<^verbatim>\<open>INSERT ... ON CONFLICT(label, instance_id) DO UPDATE\<close>: counters are added to,
  the snapshot is replaced.\<close>

definition upsert_traffic ::
    "string \<Rightarrow> int \<Rightarrow> snapshot \<Rightarrow> traffic_row list \<Rightarrow> traffic_row list" where
  "upsert_traffic label i s rs =
     (if list_ex (\<lambda>r. tu_label r = label \<and> tu_instance_id r = i) rs then
        update_where (\<lambda>r. tu_label r = label \<and> tu_instance_id r = i)
          (\<lambda>r. r\<lparr>tu_bytes_in := tu_bytes_in r + snap_BytesIn s,
                 tu_bytes_out := tu_bytes_out r + snap_BytesOut s,
                 tu_snap_in := snap_SnapIn s, tu_snap_out := snap_SnapOut s\<rparr>) rs
      else rs @ [\<lparr>tu_label = label, tu_instance_id = i, tu_bytes_in = snap_BytesIn s,
                  tu_bytes_out = snap_BytesOut s, tu_snap_in = snap_SnapIn s,
                  tu_snap_out = snap_SnapOut s\<rparr>])"

definition exec_upsert :: "string \<Rightarrow> int \<Rightarrow> snapshot \<Rightarrow> unit io" where
  "exec_upsert label i s =
     sql_exec (\<lambda>d. Inr ((), d\<lparr>t_traffic_user := upsert_traffic label i s (t_traffic_user d)\<rparr>))"

definition TrafficStore_UpdateUserTraffic ::
    "string \<Rightarrow> int \<Rightarrow> int \<Rightarrow> int \<Rightarrow> int \<Rightarrow> int \<Rightarrow> unit io" where
  "TrafficStore_UpdateUserTraffic label i deltaIn deltaOut snapIn snapOut =
     exec_upsert label i \<lparr>snap_BytesIn = deltaIn, snap_BytesOut = deltaOut, snap_SnapIn = snapIn,
       snap_SnapOut = snapOut\<rparr>"

text \<open>PrepareContext is a step of its own that can fail.\<close>

definition flushUsers :: "(string \<times> snapshot) list \<Rightarrow> int \<Rightarrow> unit io" where
  "flushUsers users i =
     andthen (wrap ''prepare user flush'' tx_step) (\<lambda>_.
     each (\<lambda>(label, s) _.
       wrap (''flush user '' @ label @ '' instance '' @ show_int i) (exec_upsert label i s))
       users ())"

definition TrafficStore_FlushTraffic :: "snapshot \<Rightarrow> (string \<times> snapshot) list \<Rightarrow> int \<Rightarrow> unit io" where
  "TrafficStore_FlushTraffic global users i =
     transaction ''begin flush tx''
       (andthen (wrap ''flush global'' (TrafficStore_UpdateGlobal (snap_BytesIn global)
           (snap_BytesOut global) (snap_SnapIn global) (snap_SnapOut global))) (\<lambda>_.
        andthen (flushUsers users i) (\<lambda>_. tx_step)))"

definition TrafficStore_FlushInstanceTraffic :: "(string \<times> snapshot) list \<Rightarrow> int \<Rightarrow> unit io" where
  "TrafficStore_FlushInstanceTraffic users i =
     transaction ''begin instance flush tx'' (andthen (flushUsers users i) (\<lambda>_. tx_step))"

definition TrafficStore_ResetTraffic :: "string \<Rightarrow> unit io" where
  "TrafficStore_ResetTraffic label =
     sql_exec (\<lambda>d. Inr ((), d\<lparr>t_traffic_user := update_where (\<lambda>r. tu_label r = label)
       (\<lambda>r. r\<lparr>tu_bytes_in := 0, tu_bytes_out := 0, tu_snap_in := 0, tu_snap_out := 0\<rparr>)
       (t_traffic_user d)\<rparr>))"

definition TrafficStore_ResetAllTraffic :: "unit io" where
  "TrafficStore_ResetAllTraffic =
     sql_exec (\<lambda>d. Inr ((), d\<lparr>t_traffic_user := update_where (\<lambda>_. True)
       (\<lambda>r. r\<lparr>tu_bytes_in := 0, tu_bytes_out := 0, tu_snap_in := 0, tu_snap_out := 0\<rparr>)
       (t_traffic_user d)\<rparr>))"

subsection \<open>History\<close>

definition insert_history :: "int \<Rightarrow> int \<Rightarrow> int \<Rightarrow> int \<Rightarrow> string \<Rightarrow> unit io" where
  "insert_history ts bytesIn bytesOut connections label =
     sql_exec (\<lambda>d. Inr ((), d\<lparr>t_traffic_history := t_traffic_history d @
       [\<lparr>th_timestamp = ts, th_bytes_in = bytesIn, th_bytes_out = bytesOut,
         th_connections = connections, th_label = label\<rparr>]\<rparr>))"

definition InsertHistoryBatch ::
    "int \<Rightarrow> int \<Rightarrow> int \<Rightarrow> int \<Rightarrow> (string \<times> int \<times> int) list \<Rightarrow> unit io" where
  "InsertHistoryBatch ts globalIn globalOut connections users =
     transaction ''begin history tx''
       (andthen (wrap ''prepare history insert'' tx_step) (\<lambda>_.
        andthen (if 0 < globalIn \<or> 0 < globalOut \<or> 0 < connections
                 then wrap ''insert global history''
                        (insert_history ts globalIn globalOut connections [])
                 else ret ()) (\<lambda>_.
        andthen (each (\<lambda>(label, bin, bout) _.
            if 0 < bin \<or> 0 < bout
            then wrap (''insert user history '' @ label) (insert_history ts bin bout 0 label)
            else ret ()) users ()) (\<lambda>_. tx_step))))"

record history_record =
  hr_Timestamp :: int
  hr_BytesIn :: int
  hr_BytesOut :: int
  hr_Connections :: int

text \<open>The error of \<^verbatim>\<open>rows.Err()\<close> is returned as it is.\<close>

definition history_wrap :: "string \<Rightarrow> string \<Rightarrow> stage \<Rightarrow> error \<Rightarrow> error" where
  "history_wrap q s st e = (if st = AtIter then e else stage_wrap q s [] st e)"

definition history_between :: "db \<Rightarrow> int \<Rightarrow> int \<Rightarrow> string \<Rightarrow> history_row list" where
  "history_between d start stop label =
     filter (\<lambda>r. start \<le> th_timestamp r \<and> th_timestamp r \<le> stop \<and> th_label r = label)
       (t_traffic_history d)"

definition TrafficStore_GetHistory :: "int \<Rightarrow> int \<Rightarrow> string \<Rightarrow> history_record list io" where
  "TrafficStore_GetHistory start stop label =
     sql_rows (history_wrap ''get history'' ''scan history'') (\<lambda>d.
       Inr (map (\<lambda>r. \<lparr>hr_Timestamp = th_timestamp r, hr_BytesIn = th_bytes_in r,
                 hr_BytesOut = th_bytes_out r, hr_Connections = th_connections r\<rparr>)
         (sort_key th_timestamp (history_between d start stop label))))"

definition bucket :: "int \<Rightarrow> history_row \<Rightarrow> int" where
  "bucket g r = quot (th_timestamp r) g * g"

definition aggregate_bucket :: "int \<Rightarrow> history_row list \<Rightarrow> int \<Rightarrow> history_record" where
  "aggregate_bucket g rs ts =
     \<lparr>hr_Timestamp = ts, hr_BytesIn = sum_where (\<lambda>r. bucket g r = ts) th_bytes_in rs,
      hr_BytesOut = sum_where (\<lambda>r. bucket g r = ts) th_bytes_out rs,
      hr_Connections = quot (sum_where (\<lambda>r. bucket g r = ts) th_connections rs)
        (int (count_where (\<lambda>r. bucket g r = ts) rs))\<rparr>"

definition TrafficStore_GetAggregatedHistory ::
    "int \<Rightarrow> int \<Rightarrow> string \<Rightarrow> int \<Rightarrow> history_record list io" where
  "TrafficStore_GetAggregatedHistory start stop label groupSeconds =
     (if groupSeconds \<le> 0
      then throw (ErrMsg (''groupSeconds must be positive, got '' @ show_int groupSeconds))
      else sql_rows (history_wrap ''get aggregated history'' ''scan aggregated history'') (\<lambda>d.
        let rs = history_between d start stop label
        in Inr (map (aggregate_bucket groupSeconds rs)
             (sort (remdups (map (bucket groupSeconds) rs))))))"

definition TrafficStore_CleanOldHistory :: "int \<Rightarrow> unit io" where
  "TrafficStore_CleanOldHistory maxAge =
     andthen clock (\<lambda>now. sql_exec (\<lambda>d. Inr ((), d\<lparr>t_traffic_history :=
       delete_where (\<lambda>r. th_timestamp r < unix (now - maxAge)) (t_traffic_history d)\<rparr>)))"

subsection \<open>Quota alerts\<close>

text \<open>The count is read into a variable that stays 0 when the query fails.\<close>

definition WasAlerted :: "string \<Rightarrow> int \<Rightarrow> bool io" where
  "WasAlerted label percent =
     andthen (sql_row (\<lambda>e. e) (\<lambda>d.
         Some (count_where (\<lambda>a. a = (label, percent)) (t_quota_alerts d))))
       (\<lambda>r. case r of None \<Rightarrow> throw ErrNoRows | Some n \<Rightarrow> ret (0 < n))"

definition MarkAlerted :: "string \<Rightarrow> int \<Rightarrow> unit io" where
  "MarkAlerted label percent =
     sql_exec (\<lambda>d. Inr ((), d\<lparr>t_quota_alerts :=
       delete_where (\<lambda>a. a = (label, percent)) (t_quota_alerts d) @ [(label, percent)]\<rparr>))"

definition ClearForLabel :: "string \<Rightarrow> unit io" where
  "ClearForLabel label =
     sql_exec (\<lambda>d. Inr ((), d\<lparr>t_quota_alerts := delete_where (\<lambda>a. fst a = label)
       (t_quota_alerts d)\<rparr>))"

end
