(* ===== verification/Engine_API.thy ===== *)
theory Engine_API
  imports Database
begin

text \<open>
  \<^verbatim>\<open>internal/service/engine_api.go\<close>: the client of the engine's control-plane API. A request
  takes the next entry of \<open>w_http\<close> for its answer (\<open>None\<close>: no answer; when the list is used up
  the answer is 200) and is recorded in \<open>w_posts\<close>. The error texts only go to the log. The URL is
  built from an escaped path, so building the request does not fail.
\<close>

definition upper_hex :: "nat \<Rightarrow> char" where
  "upper_hex n = chr (if n < 10 then 48 + n else 55 + n)"

text \<open>\<^verbatim>\<open>url.PathEscape\<close>: what is not allowed in a path segment becomes \<^verbatim>\<open>%XX\<close>.\<close>

definition path_char :: "char \<Rightarrow> bool" where
  "path_char c \<longleftrightarrow> is_alpha c \<or> is_digit c \<or>
     c \<in> {CHR ''-'', CHR ''_'', CHR ''.'', CHR ''~'', CHR ''$'', CHR ''&'', CHR ''+'', CHR '':'',
          CHR ''='', CHR ''@''}"

definition PathEscape :: "string \<Rightarrow> string" where
  "PathEscape s = concat (map (\<lambda>c.
     if path_char c then [c]
     else [CHR ''%'', upper_hex (byte c div 16), upper_hex (byte c mod 16)]) s)"

definition http_post :: "string \<Rightarrow> int option io" where
  "http_post url w =
     (case w_http w of
        [] \<Rightarrow> (Inr (Some 200), w\<lparr>w_posts := w_posts w @ [url]\<rparr>)
      | st # sts \<Rightarrow> (Inr st, w\<lparr>w_http := sts, w_posts := w_posts w @ [url]\<rparr>))"

definition reset_url :: "int \<Rightarrow> string \<Rightarrow> string" where
  "reset_url apiPort label =
     ''http://127.0.0.1:'' @ show_int apiPort @ ''/v1/users/'' @ PathEscape label @ ''/reset-quota''"

definition ResetUserQuota :: "int \<Rightarrow> string \<Rightarrow> unit io" where
  "ResetUserQuota apiPort label =
     (if apiPort \<le> 0 then ret ()
      else andthen (http_post (reset_url apiPort label)) (\<lambda>st.
        case st of
          None \<Rightarrow> throw (ErrMsg ''reset-quota'')
        | Some code \<Rightarrow>
            if code = 200 \<or> code = 404 then ret ()
            else throw (ErrMsg (''unexpected status '' @ show_int code))))"

definition ResetLabel :: "inst list \<Rightarrow> string \<Rightarrow> unit io" where
  "ResetLabel instances label =
     each (\<lambda>i _.
       if \<not> inst_Enabled i \<or> inst_APIPort i \<le> 0 then ret ()
       else andthen (attempt (ResetUserQuota (inst_APIPort i) label)) (\<lambda>_. ret ())) instances ()"

definition ResetAll :: "inst list \<Rightarrow> secret list \<Rightarrow> unit io" where
  "ResetAll instances secrets =
     each (\<lambda>i _.
       if \<not> inst_Enabled i \<or> inst_APIPort i \<le> 0 then ret ()
       else
         (let instTags = Instance_GetTags i in
          each (\<lambda>sec _.
            if \<not> TagsMatch instTags (Secret_GetTags sec) then ret ()
            else andthen (attempt (ResetUserQuota (inst_APIPort i) (sec_Label sec)))
                   (\<lambda>_. ret ())) secrets ())) instances ()"

subsection \<open>What is requested\<close>

lemma PathEscape_label: "list_all label_char s \<Longrightarrow> PathEscape s = s"
  by (induction s) (auto simp: PathEscape_def path_char_def label_char_def)

lemma http_post_reads [simp, intro]: "reads (http_post url)"
  by (simp add: reads_def http_post_def split: list.splits)

lemma ResetUserQuota_reads [simp, intro]: "reads (ResetUserQuota p l)"
  unfolding ResetUserQuota_def
  by (auto intro!: reads_andthen split: option.splits)

lemma reads_each: "(\<And>x a. reads (f x a)) \<Longrightarrow> reads (each f xs a)"
  by (induction xs arbitrary: a) (simp_all add: reads_andthen del: run_ret)

lemma engine_reads [simp, intro]: "reads (ResetLabel is l)" "reads (ResetAll is ss)"
  unfolding ResetLabel_def ResetAll_def Let_def
  by (auto intro!: reads_each reads_andthen)

lemma keeps_engine [keeps_intros]: "keeps P (ResetLabel is l)" "keeps P (ResetAll is ss)"
  by (rule reads_keeps, simp)+

text \<open>\<open>sends us m\<close>: \<open>m\<close> returns no error and posts exactly the requests \<open>us\<close>, in this order,
  whatever the engines answer.\<close>

definition sends :: "string list \<Rightarrow> unit io \<Rightarrow> bool" where
  "sends us m \<longleftrightarrow> (\<forall>w. fst (m w) = Inr () \<and> w_posts (snd (m w)) = w_posts w @ us)"

lemma sends_ret [simp]: "sends [] (ret ())"
  by (simp add: sends_def)

lemma sendsD:
  assumes "sends us m"
  obtains w' where "m w = (Inr (), w')" "w_posts w' = w_posts w @ us"
  using assms by (cases "m w") (auto simp: sends_def dest: spec [of _ w] intro: that)

lemma sends_andthen:
  assumes "sends us m" "sends vs (f ())"
  shows "sends (us @ vs) (andthen m f)"
  unfolding sends_def
proof
  fix w :: world
  obtain w1 where "m w = (Inr (), w1)" "w_posts w1 = w_posts w @ us"
    by (rule sendsD [OF assms(1)])
  moreover obtain w2 where "f () w1 = (Inr (), w2)" "w_posts w2 = w_posts w1 @ vs"
    by (rule sendsD [OF assms(2)])
  ultimately show "fst (andthen m f w) = Inr () \<and> w_posts (snd (andthen m f w)) = w_posts w @ us @ vs"
    by (simp add: andthen_def)
qed

lemma sends_each:
  "(\<And>x. sends (g x) (f x ())) \<Longrightarrow> sends (concat (map g xs)) (each f xs ())"
proof (induction xs)
  case Nil
  show ?case unfolding each.simps list.map concat.simps by (rule sends_ret)
next
  case (Cons x xs)
  show ?case unfolding each.simps list.map concat.simps
    by (rule sends_andthen, rule Cons.prems, rule Cons.IH [OF Cons.prems])
qed

lemma sends_attempt:
  "0 < p \<Longrightarrow> sends [reset_url p l] (andthen (attempt (ResetUserQuota p l)) (\<lambda>_. ret ()))"
  by (auto simp: sends_def ResetUserQuota_def http_post_def andthen_def attempt_def
      split: list.splits option.splits)

definition engine_of :: "inst \<Rightarrow> bool" where
  "engine_of i \<longleftrightarrow> inst_Enabled i \<and> 0 < inst_APIPort i"

lemma ResetLabel_sends:
  "sends (concat (map (\<lambda>i. if engine_of i then [reset_url (inst_APIPort i) l] else []) is))
     (ResetLabel is l)"
  unfolding ResetLabel_def
  by (rule sends_each) (auto simp: engine_of_def not_le intro: sends_attempt)

lemma ResetAll_sends:
  "sends (concat (map (\<lambda>i. if engine_of i
       then concat (map (\<lambda>s. if TagsMatch (Instance_GetTags i) (Secret_GetTags s)
              then [reset_url (inst_APIPort i) (sec_Label s)] else []) ss) else []) is))
     (ResetAll is ss)"
  unfolding ResetAll_def Let_def
  by (rule sends_each) (auto simp: engine_of_def not_le intro!: sends_each sends_attempt)

end
