(* ===== verification/Secret_Service.thy ===== *)
theory Secret_Service
  imports Secret_Store_Laws Instance_Store Telemt_Secret Traffic_Store Engine_API
begin

text \<open>
  \<^verbatim>\<open>internal/service/secret_service.go\<close>: the operations behind the API, the bot and the
  scheduler. Each is the composition of store calls the code makes, with its guards and the errors
  it returns. \<open>hasEngine\<close> stands for \<^verbatim>\<open>s.engineAPI != nil\<close>. A pointer to a secret that
  the code fills in (the id set by Create) is the value of the operation.
\<close>

definition MaxSecrets :: int where
  "MaxSecrets = 1000"

definition not_found :: "string \<Rightarrow> error" where
  "not_found label = ErrMsg (''secret '' @ squote label @ '' not found'')"

definition already_exists :: "string \<Rightarrow> error" where
  "already_exists label = ErrMsg (''secret '' @ squote label @ '' already exists'')"

definition too_many :: error where
  "too_many = ErrMsg (''maximum '' @ show_int MaxSecrets @ '' secrets reached'')"

abbreviation with_secret :: "string \<Rightarrow> (secret \<Rightarrow> 'b io) \<Rightarrow> 'b io" where
  "with_secret label f \<equiv> must_exist (SecretStore_GetByLabel label) (not_found label) f"

abbreviation when_free :: "string \<Rightarrow> 'b io \<Rightarrow> 'b io" where
  "when_free label m \<equiv> must_not_exist (SecretStore_GetByLabel label) (already_exists label) m"

definition check_label :: "string \<Rightarrow> (error \<Rightarrow> error) \<Rightarrow> unit io" where
  "check_label label wr =
     (case ValidateLabel label of Some e \<Rightarrow> throw (wr (ErrMsg e)) | None \<Rightarrow> ret ())"

subsection \<open>Adding and removing\<close>

definition SecretService_Add :: "string \<Rightarrow> string \<Rightarrow> secret io" where
  "SecretService_Add label secretKey =
     andthen (check_label label (\<lambda>e. e)) (\<lambda>_.
     andthen (wrap ''count secrets'' SecretStore_Count) (\<lambda>count.
     if MaxSecrets \<le> count then throw too_many else
     when_free label (
       andthen (if secretKey = [] then wrap ''generate secret'' GenerateSecret
                else if \<not> ValidateSecretKey secretKey
                then throw (ErrMsg ''secret key must be 32 hex characters'')
                else ret secretKey) (\<lambda>secretKey.
       andthen clock (\<lambda>now.
       let sec = empty_secret\<lparr>sec_Label := label, sec_SecretKey := secretKey, sec_Enabled := True,
                   sec_CreatedAt := unix now\<rparr> in
       andthen (wrap ''create secret'' (SecretStore_Create sec)) (\<lambda>i.
       ret (sec\<lparr>sec_ID := i\<rparr>)))))))"

definition SecretService_Remove :: "string \<Rightarrow> bool \<Rightarrow> unit io" where
  "SecretService_Remove label force =
     with_secret label (\<lambda>sec.
       andthen (if sec_Enabled sec \<and> \<not> force then
                  andthen SecretStore_CountEnabled (\<lambda>enabled.
                  if enabled \<le> 1
                  then throw (ErrMsg ''cannot remove the last enabled secret (use force=true to override)'')
                  else ret ())
                else ret ()) (\<lambda>_.
       SecretStore_Delete label))"

definition SecretService_Clone :: "string \<Rightarrow> string \<Rightarrow> secret io" where
  "SecretService_Clone srcLabel newLabel =
     andthen (check_label newLabel (\<lambda>e. e)) (\<lambda>_.
     when_free newLabel (
       andthen SecretStore_Count (\<lambda>count.
       if MaxSecrets \<le> count then throw too_many else
       with_secret srcLabel (\<lambda>src.
         andthen (wrap ''generate secret'' GenerateSecret) (\<lambda>newKey.
         andthen clock (\<lambda>now.
         let clone = empty_secret\<lparr>sec_Label := newLabel, sec_SecretKey := newKey,
               sec_Enabled := sec_Enabled src, sec_MaxConns := sec_MaxConns src,
               sec_MaxIPs := sec_MaxIPs src, sec_QuotaBytes := sec_QuotaBytes src,
               sec_ExpiresAt := sec_ExpiresAt src, sec_Notes := sec_Notes src,
               sec_Tags := sec_Tags src, sec_CreatedAt := unix now\<rparr> in
         andthen (SecretStore_Create clone) (\<lambda>i. ret (clone\<lparr>sec_ID := i\<rparr>))))))))"

subsection \<open>Changing one secret\<close>

definition SecretService_Rotate :: "string \<Rightarrow> secret io" where
  "SecretService_Rotate label =
     with_secret label (\<lambda>sec.
       andthen (wrap ''generate secret'' GenerateSecret) (\<lambda>newKey.
       let sec = sec\<lparr>sec_SecretKey := newKey\<rparr> in
       andthen (wrap ''update secret'' (SecretStore_Update sec)) (\<lambda>_. ret sec)))"

definition SecretService_Toggle :: "string \<Rightarrow> bool \<Rightarrow> unit io" where
  "SecretService_Toggle label enable =
     with_secret label (\<lambda>sec.
       andthen (if \<not> enable then
                  andthen SecretStore_CountEnabled (\<lambda>enabled.
                  if enabled \<le> 1 then throw (ErrMsg ''cannot disable the last enabled secret'')
                  else ret ())
                else ret ()) (\<lambda>_.
       SecretStore_Update (sec\<lparr>sec_Enabled := enable\<rparr>)))"

definition maxLimit :: int where
  "maxLimit = 1000000"

text \<open>A negative number and an empty date leave the field alone; the arguments in the order of
  the parameters.\<close>

definition limited :: "limits \<Rightarrow> secret \<Rightarrow> error + secret" where
  "limited l sec =
     (if 0 \<le> lim_maxConns l \<and> maxLimit < lim_maxConns l
      then Inl (ErrMsg (''max_conns cannot exceed '' @ show_int maxLimit))
      else if 0 \<le> lim_maxIPs l \<and> maxLimit < lim_maxIPs l
      then Inl (ErrMsg (''max_ips cannot exceed '' @ show_int maxLimit))
      else Inr (sec\<lparr>
        sec_MaxConns := (if 0 \<le> lim_maxConns l then lim_maxConns l else sec_MaxConns sec),
        sec_MaxIPs := (if 0 \<le> lim_maxIPs l then lim_maxIPs l else sec_MaxIPs sec),
        sec_QuotaBytes := (if 0 \<le> lim_quotaBytes l then lim_quotaBytes l else sec_QuotaBytes sec),
        sec_RateLimitUpBps :=
          (if 0 \<le> lim_rateLimitUpBps l then lim_rateLimitUpBps l else sec_RateLimitUpBps sec),
        sec_RateLimitDownBps :=
          (if 0 \<le> lim_rateLimitDownBps l then lim_rateLimitDownBps l
           else sec_RateLimitDownBps sec),
        sec_ExpiresAt := (if lim_expiresAt l \<noteq> [] then lim_expiresAt l else sec_ExpiresAt sec)\<rparr>))"

definition SecretService_SetLimits :: "string \<Rightarrow> limits \<Rightarrow> unit io" where
  "SecretService_SetLimits label l =
     with_secret label (\<lambda>sec.
       case limited l sec of Inl e \<Rightarrow> throw e | Inr sec \<Rightarrow> SecretStore_Update sec)"

definition SecretService_UpdateNotes :: "string \<Rightarrow> string \<Rightarrow> unit io" where
  "SecretService_UpdateNotes label notes =
     with_secret label (\<lambda>sec. SecretStore_Update (sec\<lparr>sec_Notes := notes\<rparr>))"

definition SecretService_Rename :: "string \<Rightarrow> string \<Rightarrow> unit io" where
  "SecretService_Rename oldLabel newLabel =
     andthen (check_label newLabel (ErrWrap ''invalid new label'')) (\<lambda>_.
     with_secret oldLabel (\<lambda>_.
       when_free newLabel (SecretStore_RenameLabel oldLabel newLabel)))"

text \<open>\<^verbatim>\<open>time.Now().AddDate(0, 0, days).Format(time.RFC3339)\<close> in the local zone.\<close>

definition expiry_after :: "int \<Rightarrow> string io" where
  "expiry_after days =
     andthen clock (\<lambda>now. andthen zone (\<lambda>z. ret (format_rfc3339 z (add_days now days))))"

definition SecretService_Extend :: "string \<Rightarrow> int \<Rightarrow> unit io" where
  "SecretService_Extend label days =
     (if days \<le> 0 then throw (ErrMsg ''days must be positive'')
      else with_secret label (\<lambda>sec.
        andthen (expiry_after days) (\<lambda>expiresAt.
        SecretStore_ExtendExpiry label expiresAt (\<not> sec_Enabled sec))))"

definition SecretService_DisableExpired :: "int io" where
  "SecretService_DisableExpired = SecretStore_DisableExpired"

definition SecretService_SetTags :: "string \<Rightarrow> string \<Rightarrow> unit io" where
  "SecretService_SetTags label tags =
     with_secret label (\<lambda>_. SecretStore_UpdateTags label tags)"

definition SecretService_Archive :: "string \<Rightarrow> unit io" where
  "SecretService_Archive label = with_secret label (\<lambda>_. SecretStore_Archive label)"

definition SecretService_Unarchive :: "string \<Rightarrow> unit io" where
  "SecretService_Unarchive label = with_secret label (\<lambda>_. SecretStore_Unarchive label)"

subsection \<open>Traffic resets\<close>

definition SecretService_ResetTraffic :: "bool \<Rightarrow> string \<Rightarrow> unit io" where
  "SecretService_ResetTraffic hasEngine label =
     andthen (TrafficStore_ResetTraffic label) (\<lambda>_.
     if hasEngine then
       andthen (attempt InstanceStore_List) (\<lambda>r.
       case r of Inl _ \<Rightarrow> ret () | Inr insts \<Rightarrow> ResetLabel insts label)
     else ret ())"

definition SecretService_ResetAllTraffic :: "bool \<Rightarrow> unit io" where
  "SecretService_ResetAllTraffic hasEngine =
     andthen TrafficStore_ResetAllTraffic (\<lambda>_.
     if hasEngine then
       andthen (attempt InstanceStore_List) (\<lambda>ri.
       andthen (attempt SecretStore_List) (\<lambda>rs.
       case (ri, rs) of (Inr insts, Inr secs) \<Rightarrow> ResetAll insts secs | _ \<Rightarrow> ret ()))
     else ret ())"

subsection \<open>Links\<close>

record secret_with_links =
  swl_Secret :: secret
  swl_Links :: "proxy_link list"

record secret_with_link =
  sw_Secret :: secret
  sw_TGLink :: string
  sw_WebLink :: string

definition SecretService_GetLinks :: "string \<Rightarrow> string \<Rightarrow> secret_with_links io" where
  "SecretService_GetLinks label serverIP =
     with_secret label (\<lambda>sec.
       andthen InstanceStore_List (\<lambda>instances.
       ret \<lparr>swl_Secret = sec, swl_Links = BuildLinksForSecret sec instances serverIP\<rparr>))"

definition SecretService_GetAllLinks :: "string \<Rightarrow> secret_with_links list io" where
  "SecretService_GetAllLinks serverIP =
     andthen SecretStore_List (\<lambda>secrets.
     andthen InstanceStore_List (\<lambda>instances.
     ret (map (\<lambda>sec. \<lparr>swl_Secret = sec, swl_Links = BuildLinksForSecret sec instances serverIP\<rparr>)
       (filter sec_Enabled secrets))))"

definition SecretService_GetLink ::
    "string \<Rightarrow> string \<Rightarrow> int \<Rightarrow> bool \<Rightarrow> string \<Rightarrow> secret_with_link io" where
  "SecretService_GetLink label serverIP port maskingEnabled domain =
     with_secret label (\<lambda>sec.
       let fullSecret = BuildFakeTLSSecret (sec_SecretKey sec) domain maskingEnabled in
       ret \<lparr>sw_Secret = sec, sw_TGLink = BuildProxyLink serverIP port fullSecret,
            sw_WebLink = BuildWebLink serverIP port fullSecret\<rparr>)"

subsection \<open>Bulk operations\<close>

definition SecretService_BulkExtend :: "string list \<Rightarrow> int \<Rightarrow> int io" where
  "SecretService_BulkExtend labels days =
     (if days \<le> 0 then throw (ErrMsg ''days must be positive'')
      else andthen (expiry_after days) (\<lambda>expiresAt.
        SecretStore_BulkExtendExpiry labels expiresAt True))"

definition generate_keys :: "string list \<Rightarrow> (string \<times> string) list io" where
  "generate_keys labels =
     each (\<lambda>label keys.
       andthen (wrap (''generate key for '' @ label) GenerateSecret) (\<lambda>key.
       ret (put label key keys))) labels []"

definition SecretService_BulkRotate :: "string list \<Rightarrow> (int \<times> string list) io" where
  "SecretService_BulkRotate labels =
     andthen (generate_keys labels) (\<lambda>keys.
     andthen (SecretStore_BulkRotateKeys labels keys) (\<lambda>updated. ret (updated, labels)))"

definition SecretService_BulkToggle :: "string list \<Rightarrow> bool \<Rightarrow> int io" where
  "SecretService_BulkToggle labels enable =
     andthen (if \<not> enable then
                andthen SecretStore_CountEnabled (\<lambda>totalEnabled.
                andthen (SecretStore_CountEnabledByLabels labels) (\<lambda>toDisable.
                if totalEnabled \<le> toDisable
                then throw (ErrMsg ''cannot disable all enabled secrets'') else ret ()))
              else ret ()) (\<lambda>_.
     SecretStore_BulkToggleEnabled labels enable)"

definition SecretService_BulkSetLimits :: "string list \<Rightarrow> limits \<Rightarrow> int io" where
  "SecretService_BulkSetLimits labels l = SecretStore_BulkSetLimits labels l"

subsection \<open>Queries\<close>

definition SecretService_List :: "secret list io" where
  "SecretService_List = SecretStore_List"

definition SecretService_Search :: "string \<Rightarrow> secret list io" where
  "SecretService_Search query =
     (if query = [] then SecretService_List else SecretStore_Search query)"

definition SecretService_LabelsByTag ::
    "(string \<Rightarrow> string list option) \<Rightarrow> string \<Rightarrow> string list io" where
  "SecretService_LabelsByTag json_each tag =
     (if tag = [] then throw (ErrMsg ''tag must not be empty'')
      else SecretStore_LabelsByTag json_each tag)"

subsection \<open>Import\<close>

record import_result =
  imp_Imported :: "string list"
  imp_Skipped :: "string list"
  imp_Errors :: "string list"

definition import_error :: "string \<Rightarrow> import_result \<Rightarrow> import_result" where
  "import_error msg res = res\<lparr>imp_Errors := imp_Errors res @ [msg]\<rparr>"

text \<open>\<^verbatim>\<open>e.SecretKey, _ = telemt.GenerateSecret()\<close>: a failed read leaves the key empty.\<close>

definition import_create :: "secret \<Rightarrow> import_result \<Rightarrow> import_result io" where
  "import_create e res =
     andthen (if sec_SecretKey e = [] then
                andthen (attempt GenerateSecret) (\<lambda>r.
                case r of Inl _ \<Rightarrow> ret [] | Inr k \<Rightarrow> ret k)
              else ret (sec_SecretKey e)) (\<lambda>key.
     andthen clock (\<lambda>now.
     andthen (attempt (SecretStore_Create
         (e\<lparr>sec_SecretKey := key, sec_Enabled := True, sec_CreatedAt := unix now\<rparr>))) (\<lambda>r.
     case r of
       Inl err \<Rightarrow>
         ret (import_error (sec_Label e @ '': create failed: '' @ err_text err) res)
     | Inr _ \<Rightarrow> ret (res\<lparr>imp_Imported := imp_Imported res @ [sec_Label e]\<rparr>))))"

definition import_one :: "secret \<Rightarrow> import_result \<Rightarrow> import_result io" where
  "import_one e res =
     (if sec_Label e = [] then ret (import_error ''entry with empty label skipped'' res)
      else case ValidateLabel (sec_Label e) of
        Some err \<Rightarrow> ret (import_error (sec_Label e @ '': '' @ err) res)
      | None \<Rightarrow>
          andthen (attempt (SecretStore_GetByLabel (sec_Label e))) (\<lambda>r.
          case r of
            Inl err \<Rightarrow>
              ret (import_error (sec_Label e @ '': lookup failed: '' @ err_text err) res)
          | Inr (Some _) \<Rightarrow> ret (res\<lparr>imp_Skipped := imp_Skipped res @ [sec_Label e]\<rparr>)
          | Inr None \<Rightarrow>
              if sec_SecretKey e \<noteq> [] \<and> \<not> ValidateSecretKey (sec_SecretKey e)
              then ret (import_error (sec_Label e @ '': invalid secret key'') res)
              else import_create e res))"

definition ImportSecrets :: "secret list \<Rightarrow> import_result io" where
  "ImportSecrets entries =
     andthen SecretStore_Count (\<lambda>count.
     if MaxSecrets < count + int (length entries)
     then throw (ErrMsg (''import would exceed max '' @ show_int MaxSecrets @ '' secrets''))
     else each import_one entries \<lparr>imp_Imported = [], imp_Skipped = [], imp_Errors = []\<rparr>)"

end
