(* ===== verification/Secret_Service_Laws.thy ===== *)
theory Secret_Service_Laws
  imports Secret_Service
begin

text \<open>
  What the operations of the secret service keep, whatever statement fails: the registry stays
  well formed (\<open>registry_ok\<close>: unique keys, valid labels, at most 1000 secrets), and every operation
  but the forced removal leaves at least one secret enabled.
\<close>

subsection \<open>The registry\<close>

definition secret_count :: "db \<Rightarrow> int" where
  "secret_count d = int (length (t_secrets d))"

definition registry_ok :: "db \<Rightarrow> bool" where
  "registry_ok d \<longleftrightarrow> secrets_wf d \<and> labels_valid d \<and> secret_count d \<le> MaxSecrets"

definition served :: "db \<Rightarrow> bool" where
  "served d \<longleftrightarrow> registry_ok d \<and> has_enabled d"

lemma keeps_conj: "keeps P m \<Longrightarrow> keeps Q m \<Longrightarrow> keeps (\<lambda>d. P d \<and> Q d) m"
  by (simp add: keeps_def)

lemma registry_okI:
  "keeps secrets_wf m \<Longrightarrow> keeps labels_valid m \<Longrightarrow> keeps (\<lambda>d. secret_count d \<le> MaxSecrets) m \<Longrightarrow>
   keeps registry_ok m"
  unfolding registry_ok_def by (intro keeps_conj)

lemma servedI: "keeps registry_ok m \<Longrightarrow> keeps has_enabled m \<Longrightarrow> keeps served m"
  unfolding served_def by (intro keeps_conj)

subsection \<open>Operations that neither add nor remove rows\<close>

definition same_size :: "'a io \<Rightarrow> bool" where
  "same_size m \<longleftrightarrow> (\<forall>n. keeps (\<lambda>d. secret_count d \<le> n) m)"

lemma same_sizeD: "same_size m \<Longrightarrow> keeps (\<lambda>d. secret_count d \<le> n) m"
  by (simp add: same_size_def)

lemma keeps_size_update: "keeps (\<lambda>d. secret_count d \<le> n) (update_secrets l f)"
  unfolding update_secrets_def by (rule keeps_sql_exec) (auto simp: secret_count_def)

lemma keeps_size_small:
  "keeps (\<lambda>d. secret_count d \<le> n) (disable_id i)"
  "keeps (\<lambda>d. secret_count d \<le> n) (rename_secret_row old new)"
  "keeps (\<lambda>d. secret_count d \<le> n) (rename_traffic_user old new)"
  "keeps (\<lambda>d. secret_count d \<le> n) (rename_traffic_history old new)"
  unfolding disable_id_def rename_secret_row_def rename_traffic_user_def
    rename_traffic_history_def
  by (rule keeps_sql_exec; auto simp: secret_count_def Let_def split: if_splits)+

lemma keeps_size_Delete: "keeps (\<lambda>d. secret_count d \<le> n) (SecretStore_Delete l)"
proof -
  have "length (delete_where q rs) \<le> length rs" for q and rs :: "secret_row list"
    unfolding delete_where_def by (rule length_filter_le)
  then have "int (length (delete_where q rs)) \<le> n" if "int (length rs) \<le> n"
    for q and rs :: "secret_row list" using that by (meson of_nat_mono order_trans)
  then show ?thesis
    unfolding SecretStore_Delete_def by (intro keeps_sql_exec) (auto simp: secret_count_def)
qed

lemma store_keeps_size:
  "keeps (\<lambda>d. secret_count d \<le> n) (SecretStore_Update sec)"
  "keeps (\<lambda>d. secret_count d \<le> n) (SecretStore_ExtendExpiry l e b)"
  "keeps (\<lambda>d. secret_count d \<le> n) (SecretStore_UpdateTags l t)"
  "keeps (\<lambda>d. secret_count d \<le> n) (SecretStore_Archive l)"
  "keeps (\<lambda>d. secret_count d \<le> n) (SecretStore_Unarchive l)"
  "keeps (\<lambda>d. secret_count d \<le> n) (SecretStore_RenameLabel l l')"
  "keeps (\<lambda>d. secret_count d \<le> n) SecretStore_DisableExpired"
  "keeps (\<lambda>d. secret_count d \<le> n) (SecretStore_BulkExtendExpiry ls e b)"
  "keeps (\<lambda>d. secret_count d \<le> n) (SecretStore_BulkRotateKeys ls ks)"
  "keeps (\<lambda>d. secret_count d \<le> n) (SecretStore_BulkToggleEnabled ls b)"
  "keeps (\<lambda>d. secret_count d \<le> n) (SecretStore_BulkSetLimits ls lm)"
  unfolding SecretStore_Update_def SecretStore_ExtendExpiry_def SecretStore_UpdateTags_def
    SecretStore_Archive_def SecretStore_Unarchive_def SecretStore_RenameLabel_def
    SecretStore_DisableExpired_def SecretStore_BulkExtendExpiry_def SecretStore_BulkRotateKeys_def
    SecretStore_BulkToggleEnabled_def SecretStore_BulkSetLimits_def Let_def
  by (intro keeps_intros keeps_set_limits_of keeps_size_update keeps_size_small)+

lemma store_keeps_registry [keeps_intros]:
  "keeps registry_ok (SecretStore_Update sec)"
  "keeps registry_ok (SecretStore_ExtendExpiry l e b)"
  "keeps registry_ok (SecretStore_UpdateTags l t)"
  "keeps registry_ok (SecretStore_Archive l)"
  "keeps registry_ok (SecretStore_Unarchive l)"
  "keeps registry_ok (SecretStore_Delete l)"
  "keeps registry_ok SecretStore_DisableExpired"
  "keeps registry_ok (SecretStore_BulkExtendExpiry ls e b)"
  "keeps registry_ok (SecretStore_BulkRotateKeys ls ks)"
  "keeps registry_ok (SecretStore_BulkToggleEnabled ls b)"
  "keeps registry_ok (SecretStore_BulkSetLimits ls lm)"
  by (intro registry_okI keeps_intros store_keeps_size keeps_size_Delete)+

lemma RenameLabel_keeps_registry:
  "labelRe new \<Longrightarrow> keeps registry_ok (SecretStore_RenameLabel old new)"
  by (intro registry_okI keeps_intros RenameLabel_keeps_valid store_keeps_size)

subsection \<open>Operations that disable nothing\<close>

lemma keeps_enabled_update:
  assumes "\<And>r. row_enabled r \<Longrightarrow> row_enabled (f r)"
  shows "keeps has_enabled (update_secrets l f)"
  unfolding update_secrets_def using assms
  by (intro keeps_sql_exec) (auto simp: has_enabled_iff set_update_where)

lemma Create_keeps_enabled [keeps_intros]: "keeps has_enabled (SecretStore_Create sec)"
  unfolding SecretStore_Create_def
  by (intro keeps_intros keeps_sql_exec) (auto simp: has_enabled_iff Let_def split: if_splits)

lemma rename_keeps_enabled:
  "keeps has_enabled (rename_secret_row old new)"
  "keeps has_enabled (rename_traffic_user old new)"
  "keeps has_enabled (rename_traffic_history old new)"
  unfolding rename_secret_row_def rename_traffic_user_def rename_traffic_history_def
  by (auto intro!: keeps_sql_exec
      simp: has_enabled_def enabled_count_def Let_def count_where_update_same split: if_splits)

lemma enabled_stays:
  "row_enabled r \<Longrightarrow> row_enabled (let r = r\<lparr>row_expires_at := e\<rparr>
     in if b then r\<lparr>row_enabled := True\<rparr> else r)"
  "row_enabled r \<Longrightarrow> row_enabled (r\<lparr>row_tags := t\<rparr>)"
  "row_enabled r \<Longrightarrow> row_enabled (r\<lparr>row_archived_at := a\<rparr>)"
  "row_enabled r \<Longrightarrow> row_enabled (r\<lparr>row_secret_key := k\<rparr>)"
  "row_enabled r \<Longrightarrow> row_enabled (limit_columns s r)"
  "row_enabled (r\<lparr>row_enabled := True\<rparr>)"
  by (simp_all add: limit_columns_def Let_def)

lemma store_keeps_enabled [keeps_intros]:
  "keeps has_enabled (SecretStore_ExtendExpiry l e b)"
  "keeps has_enabled (SecretStore_UpdateTags l t)"
  "keeps has_enabled (SecretStore_Archive l)"
  "keeps has_enabled (SecretStore_Unarchive l)"
  "keeps has_enabled (SecretStore_RenameLabel l l')"
  "keeps has_enabled (SecretStore_BulkExtendExpiry ls e b)"
  "keeps has_enabled (SecretStore_BulkRotateKeys ls ks)"
  "keeps has_enabled (SecretStore_BulkSetLimits ls lm)"
  unfolding SecretStore_ExtendExpiry_def SecretStore_UpdateTags_def
    SecretStore_Archive_def SecretStore_Unarchive_def SecretStore_RenameLabel_def
    SecretStore_BulkExtendExpiry_def SecretStore_BulkRotateKeys_def SecretStore_BulkSetLimits_def
  by (intro keeps_intros keeps_set_limits_of keeps_enabled_update rename_keeps_enabled enabled_stays;
      assumption)+

subsection \<open>Writing a secret back\<close>

lemma find_has_label: "find_secret d l = Some s \<Longrightarrow> sec_Label s = l"
  by (auto elim: find_secret_SomeD)

text \<open>Update with a copy of the row that was read, its \<^verbatim>\<open>enabled\<close> flag untouched.\<close>

lemma has_enabled_write_back:
  assumes "secrets_wf d" "has_enabled d" "find_secret d l = Some s"
    "sec_Label s' = l" "sec_Enabled s' \<longleftrightarrow> sec_Enabled s"
  shows "has_enabled (d\<lparr>t_secrets := update_where (has_label (sec_Label s')) (secret_columns s')
    (t_secrets d)\<rparr>)"
proof -
  obtain r where r: "r \<in> set (t_secrets d)" "row_label r = l" "s = scan_secret d r"
    by (rule find_secret_SomeD [OF assms(3)])
  have "row_enabled (secret_columns s' r') = row_enabled r'"
    if "r' \<in> set (t_secrets d)" "row_label r' = l" for r'
  proof -
    have "r' = r" using that r assms(1) by (auto simp: secrets_wf_def distinct_map inj_on_def)
    with r assms(5) show ?thesis by (simp add: secret_columns_def)
  qed
  then show ?thesis
    using assms(2,4) by (simp add: has_enabled_def enabled_count_def count_where_update_same)
qed

lemma Update_write_back:
  assumes "\<And>d. P d \<Longrightarrow> secrets_wf d \<and> has_enabled d \<and>
     (\<exists>s l. find_secret d l = Some s \<and> sec_Label s' = l \<and> sec_Enabled s' = sec_Enabled s)"
  shows "hoare P (SecretStore_Update s') (\<lambda>_. has_enabled) has_enabled"
  unfolding SecretStore_Update_def update_secrets_def
proof (rule hoare_andthen [OF hoare_sql_exec [where Q = "\<lambda>_. has_enabled"]])
  show "hoare has_enabled (ret ()) (\<lambda>_. has_enabled) has_enabled"
    by (rule hoare_ret)
qed (use assms has_enabled_write_back in fastforce)+

text \<open>Two enabled secrets: one may be disabled or deleted.\<close>

lemma enabled_count_other:
  assumes "secrets_wf d" "1 < enabled_count d"
  shows "\<exists>r \<in> set (t_secrets d). row_enabled r \<and> row_label r \<noteq> l"
proof (rule ccontr)
  assume "\<not> ?thesis"
  then have "count_where row_enabled (t_secrets d) \<le> count_where (has_label l) (t_secrets d)"
    by (intro count_where_mono) auto
  also have "\<dots> \<le> 1"
    using assms(1) by (intro count_where_key_le_1) (simp add: secrets_wf_def)
  finally show False using assms(2) by (simp add: enabled_count_def)
qed

definition enabled_beside :: "string set \<Rightarrow> db \<Rightarrow> bool" where
  "enabled_beside ls d \<longleftrightarrow> (\<exists>r \<in> set (t_secrets d). row_enabled r \<and> row_label r \<notin> ls)"

lemma enabled_beside_has_enabled: "enabled_beside ls d \<Longrightarrow> has_enabled d"
  by (auto simp: enabled_beside_def has_enabled_iff)

lemma enabled_beside_disabled:
  assumes "secrets_wf d" "has_enabled d" "find_secret d l = Some s" "\<not> sec_Enabled s"
  shows "enabled_beside {l} d"
proof -
  obtain r where r: "r \<in> set (t_secrets d)" "row_label r = l" "\<not> row_enabled r"
    using find_secret_SomeD [OF assms(3)] assms(4) by force
  obtain r' where r': "r' \<in> set (t_secrets d)" "row_enabled r'"
    using assms(2) by (auto simp: has_enabled_iff)
  have "row_label r' \<noteq> l"
    using r r' assms(1) by (auto simp: secrets_wf_def distinct_map inj_on_def)
  with r' show ?thesis by (auto simp: enabled_beside_def)
qed

lemma keeps_enabled_beside:
  assumes "l \<in> ls"
  shows "keeps (enabled_beside ls) (update_secrets l f)"
    "keeps (enabled_beside ls) (SecretStore_Delete l)"
  unfolding update_secrets_def SecretStore_Delete_def using assms
  by (auto intro!: keeps_sql_exec simp: enabled_beside_def set_update_where)

lemma Update_keeps_beside: "sec_Label s \<in> ls \<Longrightarrow> keeps (enabled_beside ls) (SecretStore_Update s)"
  unfolding SecretStore_Update_def by (intro keeps_intros keeps_enabled_beside)

subsection \<open>Guards\<close>

lemma check_label_reads [simp, intro]: "reads (check_label l wr)"
  by (auto simp: check_label_def split: option.splits)

lemma keeps_check_label [keeps_intros]: "keeps P (check_label l wr)"
  by (rule reads_keeps) simp

lemma check_label_valid: "check_label l wr w = (Inr u, w') \<Longrightarrow> labelRe l"
  by (auto simp: check_label_def ValidateLabel_def split: if_splits option.splits)

text \<open>What follows a label check may assume the label is valid.\<close>

lemma hoare_check_label:
  assumes "labelRe l \<Longrightarrow> hoare P m Q E" "\<And>d. P d \<Longrightarrow> E d"
  shows "hoare P (andthen (check_label l wr) (\<lambda>_. m)) Q E"
proof (cases "labelRe l")
  case True
  with assms show ?thesis by (intro hoare_reads_then) auto
next
  case False
  then have "check_label l wr = throw (wr (ErrMsg label_error))"
    by (simp add: check_label_def ValidateLabel_def)
  then show ?thesis
    using assms(2) by (auto simp: andthen_def intro!: hoareI)
qed

lemma Count_value: "SecretStore_Count w = (Inr n, w') \<Longrightarrow> n = secret_count (w_db w)"
  by (auto simp: SecretStore_Count_def andthen_def sql_row_def secret_count_def dest: pop_fault_same
      split: prod.splits option.splits sum.splits)

lemma CountEnabledByLabels_value:
  "SecretStore_CountEnabledByLabels ls w = (Inr n, w') \<Longrightarrow>
   n = int (count_where (\<lambda>r. row_enabled r \<and> row_label r \<in> set ls) (t_secrets (w_db w)))"
  by (auto simp: SecretStore_CountEnabledByLabels_def andthen_def sql_row_def count_where_def
      dest: pop_fault_same split: prod.splits option.splits sum.splits if_splits)

subsection \<open>Creating rows\<close>

lemma Create_size:
  "hoare (\<lambda>d. secret_count d < n) (SecretStore_Create sec) (\<lambda>_ d. secret_count d \<le> n)
     (\<lambda>d. secret_count d \<le> n)"
  unfolding SecretStore_Create_def
  by (intro hoare_reads_then reads_clock hoare_wrap hoare_sql_exec)
    (auto simp: secret_count_def Let_def split: if_splits)

lemma Create_registry:
  assumes "labelRe (sec_Label sec)"
  shows "hoare (\<lambda>d. registry_ok d \<and> secret_count d < MaxSecrets) (SecretStore_Create sec)
     (\<lambda>_. registry_ok) registry_ok"
proof -
  have "hoare (\<lambda>d. (secrets_wf d \<and> labels_valid d) \<and> secret_count d < MaxSecrets)
    (SecretStore_Create sec)
    (\<lambda>_ d. (secrets_wf d \<and> labels_valid d) \<and> secret_count d \<le> MaxSecrets)
    (\<lambda>d. (secrets_wf d \<and> labels_valid d) \<and> secret_count d \<le> MaxSecrets)"
    by (intro hoare_conj Create_size keeps_hoare keeps_conj Create_keeps_wf
        Create_keeps_valid [OF assms])
  then show ?thesis
    by (rule hoare_conseq) (auto simp: registry_ok_def)
qed

text \<open>What follows the check of the limit may assume there is room.\<close>

lemma hoare_count_guard:
  assumes "hoare (\<lambda>d. P d \<and> secret_count d < MaxSecrets) m Q E" "\<And>d. P d \<Longrightarrow> E d"
    "reads c" "\<And>w n w'. c w = (Inr n, w') \<Longrightarrow> n = secret_count (w_db w)"
  shows "hoare P (andthen c (\<lambda>n. if MaxSecrets \<le> n then throw too_many else m)) Q E"
  using assms
  by (intro hoare_value_then [where V = "\<lambda>n d. n = secret_count d"] hoare_if hoare_throw)
    (auto elim!: hoare_conseq)

lemma Add_keeps_registry [keeps_intros]: "keeps registry_ok (SecretService_Add l k)"
  unfolding SecretService_Add_def Let_def
proof (rule hoare_keeps, rule hoare_check_label, rule hoare_count_guard,
    rule secrets.must_not_exist_hoare)
  let ?P = "\<lambda>d. (registry_ok d \<and> secret_count d < MaxSecrets) \<and> find_secret d l = None"
  assume "labelRe l"
  then have create: "hoare ?P (andthen (wrap ''create secret'' (SecretStore_Create (empty_secret
      \<lparr>sec_Label := l, sec_SecretKey := key, sec_Enabled := True, sec_CreatedAt := c\<rparr>)))
      (\<lambda>i. ret (s i))) (\<lambda>_. registry_ok) registry_ok" for key c and s :: "int \<Rightarrow> secret"
    by (intro hoare_andthen hoare_wrap hoare_ret hoare_conseq [OF Create_registry]) auto
  show "hoare ?P (andthen (if k = [] then wrap ''generate secret'' GenerateSecret
      else if \<not> ValidateSecretKey k then throw (ErrMsg ''secret key must be 32 hex characters'')
      else ret k) (\<lambda>secretKey. andthen clock (\<lambda>now.
      andthen (wrap ''create secret'' (SecretStore_Create (empty_secret
      \<lparr>sec_Label := l, sec_SecretKey := secretKey, sec_Enabled := True, sec_CreatedAt := unix now\<rparr>)))
      (\<lambda>i. ret (empty_secret\<lparr>sec_Label := l, sec_SecretKey := secretKey, sec_Enabled := True,
        sec_CreatedAt := unix now, sec_ID := i\<rparr>)))))
    (\<lambda>_. registry_ok) registry_ok"
    by (rule hoare_reads_then, simp, simp, rule hoare_reads_then, simp, simp, rule create)
qed (auto simp: wrap_Inr dest: Count_value)

lemma Clone_keeps_registry [keeps_intros]: "keeps registry_ok (SecretService_Clone src l)"
  unfolding SecretService_Clone_def Let_def
proof (rule hoare_keeps, rule hoare_check_label, rule secrets.must_not_exist_hoare,
    rule hoare_count_guard, rule secrets.must_exist_hoare)
  fix v
  let ?P = "\<lambda>d. ((registry_ok d \<and> find_secret d l = None) \<and> secret_count d < MaxSecrets) \<and>
    find_secret d src = Some v"
  assume "labelRe l"
  then have create: "sec_Label sec = l \<Longrightarrow> hoare ?P (andthen (SecretStore_Create sec) (\<lambda>i. ret (s i)))
      (\<lambda>_. registry_ok) registry_ok" for sec and s :: "int \<Rightarrow> secret"
    by (intro hoare_andthen hoare_ret hoare_conseq [OF Create_registry]) auto
  show "hoare ?P (andthen (wrap ''generate secret'' GenerateSecret) (\<lambda>newKey.
      andthen clock (\<lambda>now. andthen (SecretStore_Create (empty_secret
        \<lparr>sec_Label := l, sec_SecretKey := newKey, sec_Enabled := sec_Enabled v,
         sec_MaxConns := sec_MaxConns v, sec_MaxIPs := sec_MaxIPs v,
         sec_QuotaBytes := sec_QuotaBytes v, sec_ExpiresAt := sec_ExpiresAt v,
         sec_Notes := sec_Notes v, sec_Tags := sec_Tags v, sec_CreatedAt := unix now\<rparr>))
      (\<lambda>i. ret (empty_secret
        \<lparr>sec_Label := l, sec_SecretKey := newKey, sec_Enabled := sec_Enabled v,
         sec_MaxConns := sec_MaxConns v, sec_MaxIPs := sec_MaxIPs v,
         sec_QuotaBytes := sec_QuotaBytes v, sec_ExpiresAt := sec_ExpiresAt v,
         sec_Notes := sec_Notes v, sec_Tags := sec_Tags v, sec_CreatedAt := unix now,
         sec_ID := i\<rparr>)))))
    (\<lambda>_. registry_ok) registry_ok"
    by (rule hoare_reads_then, simp, simp, rule hoare_reads_then, simp, simp, rule create, simp)
qed (auto simp: wrap_Inr dest: Count_value)

lemma Rename_keeps_registry [keeps_intros]: "keeps registry_ok (SecretService_Rename old new)"
  unfolding SecretService_Rename_def
  by (rule hoare_keeps, rule hoare_check_label, rule keeps_hoare)
    (intro keeps_intros RenameLabel_keeps_registry, assumption+)

subsection \<open>Importing\<close>

text \<open>Room for the entries that are left.\<close>

definition room :: "secret list \<Rightarrow> db \<Rightarrow> bool" where
  "room es d \<longleftrightarrow> registry_ok d \<and> secret_count d + int (length es) \<le> MaxSecrets"

lemma room_registry: "room es d \<Longrightarrow> registry_ok d"
  and room_less: "room (e # es) d \<Longrightarrow> room es d"
  by (simp_all add: room_def)

lemma Create_room:
  assumes "labelRe (sec_Label sec)"
  shows "hoare (room (e # es)) (SecretStore_Create sec) (\<lambda>_. room es) (room es)"
proof -
  let ?n = "MaxSecrets - int (length es)"
  have "hoare (\<lambda>d. (registry_ok d \<and> secret_count d < MaxSecrets) \<and> secret_count d < ?n)
    (SecretStore_Create sec) (\<lambda>_ d. registry_ok d \<and> secret_count d \<le> ?n)
    (\<lambda>d. registry_ok d \<and> secret_count d \<le> ?n)"
    by (intro hoare_conj Create_size Create_registry [OF assms])
  then show ?thesis by (rule hoare_conseq) (auto simp: room_def)
qed

lemma hoare_attempt_then:
  assumes "hoare P m (\<lambda>_. R) R" "\<And>r. hoare R (f r) Q E"
  shows "hoare P (andthen (attempt m) f) Q E"
  using assms
  by (intro hoare_andthen [where R = "\<lambda>_. R"] hoare_conseq [OF hoare_attempt [OF assms(1)]])
    (auto split: sum.splits)

lemma import_create_room:
  assumes "labelRe (sec_Label e)"
  shows "hoare (room (e # es)) (import_create e res) (\<lambda>_. room es) (room es)"
  unfolding import_create_def
proof (rule hoare_reads_then)
  show "reads (if sec_SecretKey e = [] then andthen (attempt GenerateSecret)
      (\<lambda>r. case r of Inl _ \<Rightarrow> ret [] | Inr k \<Rightarrow> ret k) else ret (sec_SecretKey e))"
    by (auto intro!: reads_andthen split: sum.splits)
  show "hoare (room (e # es)) (andthen clock (\<lambda>now.
      andthen (attempt (SecretStore_Create
        (e\<lparr>sec_SecretKey := key, sec_Enabled := True, sec_CreatedAt := unix now\<rparr>))) (\<lambda>r.
      case r of Inl err \<Rightarrow> ret (import_error (sec_Label e @ '': create failed: '' @ err_text err) res)
      | Inr _ \<Rightarrow> ret (res\<lparr>imp_Imported := imp_Imported res @ [sec_Label e]\<rparr>))))
    (\<lambda>_. room es) (room es)" for key
    by (rule hoare_reads_then, simp, erule room_less, rule hoare_attempt_then,
        rule Create_room, simp add: assms)
      (auto intro!: hoare_ret hoareI split: sum.splits)
qed (erule room_less)

lemma import_one_room: "hoare (room (e # es)) (import_one e res) (\<lambda>_. room es) (room es)"
proof (cases "labelRe (sec_Label e)")
  case True
  then have v: "ValidateLabel (sec_Label e) = None" "sec_Label e \<noteq> []"
    by (auto simp: ValidateLabel_def labelRe_def)
  have skip: "hoare (room (e # es)) (ret r) (\<lambda>_. room es) (room es)" for r :: import_result
    by (rule hoare_ret) (erule room_less)
  show ?thesis
    unfolding import_one_def v(1) if_not_P [OF v(2)] option.case
    by (rule hoare_reads_then, simp, erule room_less)
      (intro hoare_sum hoare_option hoare_if skip import_create_room True)
next
  case False
  then have "import_one e res = ret (import_error (if sec_Label e = []
      then ''entry with empty label skipped'' else sec_Label e @ '': '' @ label_error) res)"
    by (auto simp: import_one_def ValidateLabel_def)
  then show ?thesis by (auto intro: hoare_ret room_less)
qed

lemma Import_keeps_registry [keeps_intros]: "keeps registry_ok (ImportSecrets es)"
  unfolding ImportSecrets_def
proof (rule hoare_keeps, rule hoare_value_then [where V = "\<lambda>n d. n = secret_count d"])
  fix n
  let ?P = "\<lambda>d. registry_ok d \<and> n = secret_count d"
  show "hoare ?P (if MaxSecrets < n + int (length es)
      then throw (ErrMsg (''import would exceed max '' @ show_int MaxSecrets @ '' secrets''))
      else each import_one es \<lparr>imp_Imported = [], imp_Skipped = [], imp_Errors = []\<rparr>)
    (\<lambda>_. registry_ok) registry_ok"
  proof (rule hoare_if)
    assume "\<not> MaxSecrets < n + int (length es)"
    then show "hoare ?P (each import_one es \<lparr>imp_Imported = [], imp_Skipped = [], imp_Errors = []\<rparr>)
        (\<lambda>_. registry_ok) registry_ok"
      by (intro hoare_conseq [OF hoare_each [where I = "\<lambda>es _. room es" and E = registry_ok]]
          hoare_conseq [OF import_one_room])
        (auto simp: room_def)
  qed (auto intro: hoare_throw)
qed (auto simp: wrap_Inr dest: Count_value)

subsection \<open>Every operation keeps the registry\<close>

lemma keeps_traffic_exec:
  assumes "\<And>r. traffic_key (f r) = traffic_key r"
  shows "keeps registry_ok
      (sql_exec (\<lambda>d. Inr ((), d\<lparr>t_traffic_user := update_where q f (t_traffic_user d)\<rparr>)))"
    "keeps has_enabled
      (sql_exec (\<lambda>d. Inr ((), d\<lparr>t_traffic_user := update_where q f (t_traffic_user d)\<rparr>)))"
  by (auto intro!: keeps_sql_exec simp: registry_ok_def secrets_wf_def labels_valid_def
      secret_count_def has_enabled_def enabled_count_def map_update_where_same assms)

lemma reset_keeps [keeps_intros]:
  "keeps registry_ok (TrafficStore_ResetTraffic l)" "keeps registry_ok TrafficStore_ResetAllTraffic"
  "keeps has_enabled (TrafficStore_ResetTraffic l)" "keeps has_enabled TrafficStore_ResetAllTraffic"
  unfolding TrafficStore_ResetTraffic_def TrafficStore_ResetAllTraffic_def
  by (simp_all add: keeps_traffic_exec traffic_key_def)

lemma expiry_after_reads [simp, intro]: "reads (expiry_after n)"
  unfolding expiry_after_def by (intro reads_andthen) auto

lemma generate_keys_reads [simp, intro]: "reads (generate_keys ls)"
  unfolding generate_keys_def by (intro reads_each reads_andthen) auto

lemma keeps_service_reads [keeps_intros]:
  "keeps P (expiry_after n)" "keeps P (generate_keys ls)"
  by (rule reads_keeps, simp)+

lemma service_reads [simp, intro]:
  "reads (SecretService_GetLinks l ip)" "reads (SecretService_GetAllLinks ip)"
  "reads (SecretService_GetLink l ip p m dm)" "reads SecretService_List"
  "reads (SecretService_Search q)" "reads (SecretService_LabelsByTag je t)"
  unfolding SecretService_GetLinks_def SecretService_GetAllLinks_def SecretService_GetLink_def
    SecretService_List_def SecretService_Search_def SecretService_LabelsByTag_def must_exist_def
  by (auto intro!: reads_andthen simp: Let_def split: option.splits)

lemma service_keeps_registry [keeps_intros]:
  "keeps registry_ok (SecretService_Remove l force)"
  "keeps registry_ok (SecretService_Rotate l)"
  "keeps registry_ok (SecretService_Toggle l b)"
  "keeps registry_ok (SecretService_SetLimits l lm)"
  "keeps registry_ok (SecretService_UpdateNotes l nt)"
  "keeps registry_ok (SecretService_Extend l n)"
  "keeps registry_ok SecretService_DisableExpired"
  "keeps registry_ok (SecretService_SetTags l t)"
  "keeps registry_ok (SecretService_Archive l)"
  "keeps registry_ok (SecretService_Unarchive l)"
  "keeps registry_ok (SecretService_ResetTraffic eng l)"
  "keeps registry_ok (SecretService_ResetAllTraffic eng)"
  "keeps registry_ok (SecretService_BulkExtend ls n)"
  "keeps registry_ok (SecretService_BulkRotate ls)"
  "keeps registry_ok (SecretService_BulkToggle ls b)"
  "keeps registry_ok (SecretService_BulkSetLimits ls lm)"
  unfolding SecretService_Remove_def SecretService_Rotate_def SecretService_Toggle_def
    SecretService_SetLimits_def SecretService_UpdateNotes_def SecretService_Extend_def
    SecretService_DisableExpired_def SecretService_SetTags_def SecretService_Archive_def
    SecretService_Unarchive_def SecretService_ResetTraffic_def SecretService_ResetAllTraffic_def
    SecretService_BulkExtend_def SecretService_BulkRotate_def SecretService_BulkToggle_def
    SecretService_BulkSetLimits_def Let_def prod.case
  by (intro keeps_intros)+

subsection \<open>Every operation but the forced removal leaves a secret enabled\<close>

lemma service_keeps_enabled:
  "keeps has_enabled (SecretService_Add l k)"
  "keeps has_enabled (SecretService_Clone src l)"
  "keeps has_enabled (SecretService_Rename l l')"
  "keeps has_enabled (SecretService_Extend l n)"
  "keeps has_enabled (SecretService_SetTags l t)"
  "keeps has_enabled (SecretService_Archive l)"
  "keeps has_enabled (SecretService_Unarchive l)"
  "keeps has_enabled (SecretService_ResetTraffic eng l)"
  "keeps has_enabled (SecretService_ResetAllTraffic eng)"
  "keeps has_enabled (SecretService_BulkExtend ls n)"
  "keeps has_enabled (SecretService_BulkRotate ls)"
  "keeps has_enabled (SecretService_BulkSetLimits ls lm)"
  unfolding SecretService_Add_def SecretService_Clone_def SecretService_Rename_def
    SecretService_Extend_def SecretService_SetTags_def SecretService_Archive_def
    SecretService_Unarchive_def SecretService_ResetTraffic_def SecretService_ResetAllTraffic_def
    SecretService_BulkExtend_def SecretService_BulkRotate_def
    SecretService_BulkSetLimits_def Let_def prod.case
  by (intro keeps_intros)+

lemma import_keeps_enabled: "keeps has_enabled (ImportSecrets es)"
  unfolding ImportSecrets_def import_one_def import_create_def
  by (intro keeps_intros)

lemma served_keepsI:
  assumes "keeps registry_ok m" "hoare served m (\<lambda>_. has_enabled) has_enabled"
  shows "keeps served m"
proof (rule keepsI)
  fix w :: world
  assume "served (w_db w)"
  moreover obtain r w' where run: "m w = (r, w')" by (rule prod.exhaust)
  ultimately have "registry_ok (w_db w')" "has_enabled (w_db w')"
    using keepsD' [OF assms(1) run] hoare_Inr [OF assms(2), of w _ w']
      hoare_Inl [OF assms(2), of w _ w'] by (auto simp: served_def split: sum.splits) (cases r; auto)
  with run show "served (w_db (snd (m w)))" by (simp add: served_def)
qed

lemma served_facts: "served d \<Longrightarrow> secrets_wf d \<and> has_enabled d"
  by (simp add: served_def registry_ok_def)

lemma Rotate_served: "hoare served (SecretService_Rotate l) (\<lambda>_. has_enabled) has_enabled"
  unfolding SecretService_Rotate_def Let_def
proof (rule secrets.must_exist_hoare, rule hoare_reads_then)
  fix v k
  let ?P = "\<lambda>d. served d \<and> find_secret d l = Some v"
  show "hoare ?P (andthen (wrap ''update secret'' (SecretStore_Update (v\<lparr>sec_SecretKey := k\<rparr>)))
      (\<lambda>_. ret (v\<lparr>sec_SecretKey := k\<rparr>))) (\<lambda>_. has_enabled) has_enabled"
    by (rule hoare_andthen [OF hoare_wrap [OF Update_write_back] hoare_ret])
      (auto dest: served_facts find_has_label)
qed (auto dest: served_facts)

lemma UpdateNotes_served:
  "hoare served (SecretService_UpdateNotes l nt) (\<lambda>_. has_enabled) has_enabled"
  unfolding SecretService_UpdateNotes_def
  by (rule secrets.must_exist_hoare, rule Update_write_back)
    (auto dest: served_facts find_has_label)

lemma limited_keeps [simp]:
  "limited lm s = Inr s' \<Longrightarrow> sec_Label s' = sec_Label s \<and> sec_Enabled s' = sec_Enabled s"
  by (auto simp: limited_def split: if_splits)

lemma SetLimits_served: "hoare served (SecretService_SetLimits l lm) (\<lambda>_. has_enabled) has_enabled"
  unfolding SecretService_SetLimits_def
proof (rule secrets.must_exist_hoare)
  fix v
  show "hoare (\<lambda>d. served d \<and> find_secret d l = Some v)
      (case limited lm v of Inl e \<Rightarrow> throw e | Inr sec \<Rightarrow> SecretStore_Update sec)
      (\<lambda>_. has_enabled) has_enabled"
  proof (cases "limited lm v")
    case (Inl e)
    then show ?thesis by (auto intro!: hoare_throw dest: served_facts)
  next
    case (Inr s)
    have "secrets_wf d \<and> has_enabled d \<and> (\<exists>s' l. find_secret d l = Some s' \<and> sec_Label s = l \<and>
        sec_Enabled s = sec_Enabled s')" if "served d \<and> find_secret d l = Some v" for d
      using that limited_keeps [OF Inr] find_has_label [of d l v] by (simp add: served_facts)
    with Inr show ?thesis by (simp add: Update_write_back)
  qed
qed (auto dest: served_facts)

lemma CountEnabled_guard:
  assumes "hoare (\<lambda>d. P d \<and> 1 < enabled_count d) m Q E" "\<And>d. P d \<Longrightarrow> E d"
  shows "hoare P (andthen (andthen SecretStore_CountEnabled (\<lambda>n.
    if n \<le> 1 then throw e else ret ())) (\<lambda>_. m)) Q E"
proof (rule hoare_andthen [where R = "\<lambda>_ d. P d \<and> 1 < enabled_count d"])
  show "hoare P (andthen SecretStore_CountEnabled (\<lambda>n. if n \<le> 1 then throw e else ret ()))
      (\<lambda>_ d. P d \<and> 1 < enabled_count d) E"
    by (rule hoare_andthen [OF CountEnabled_hoare], erule assms(2), rule hoare_if)
      (auto intro: hoare_throw hoare_ret assms(2))
qed (rule assms(1))

lemma beside_hoare:
  assumes "keeps (enabled_beside ls) m" "\<And>d. P d \<Longrightarrow> enabled_beside ls d"
  shows "hoare P m (\<lambda>_. has_enabled) has_enabled"
  by (rule hoare_conseq [OF keeps_hoare [OF assms(1)]]) (auto intro: assms(2) enabled_beside_has_enabled)

lemma served_beside: "served d \<Longrightarrow> 1 < enabled_count d \<Longrightarrow> enabled_beside {l} d"
  using enabled_count_other by (fastforce simp: enabled_beside_def served_def registry_ok_def)

lemma Toggle_served: "hoare served (SecretService_Toggle l b) (\<lambda>_. has_enabled) has_enabled"
  unfolding SecretService_Toggle_def
proof (rule secrets.must_exist_hoare)
  fix v
  let ?P = "\<lambda>d. served d \<and> find_secret d l = Some v"
  let ?m = "SecretStore_Update (v\<lparr>sec_Enabled := b\<rparr>)"
  show "hoare ?P (andthen (if \<not> b then andthen SecretStore_CountEnabled (\<lambda>enabled.
        if enabled \<le> 1 then throw (ErrMsg ''cannot disable the last enabled secret'') else ret ())
      else ret ()) (\<lambda>_. ?m)) (\<lambda>_. has_enabled) has_enabled"
  proof (cases b)
    case True
    have "keeps has_enabled ?m"
      unfolding SecretStore_Update_def
      by (intro keeps_intros keeps_enabled_update) (simp add: secret_columns_def True)
    then have "hoare ?P ?m (\<lambda>_. has_enabled) has_enabled"
      by (rule hoare_conseq [OF keeps_hoare]) (auto dest: served_facts)
    with True show ?thesis by (simp del: run_ret)
  next
    case False
    have "hoare (\<lambda>d. ?P d \<and> 1 < enabled_count d) ?m (\<lambda>_. has_enabled) has_enabled"
    proof (cases "sec_Label v = l")
      case True
      show ?thesis by (rule beside_hoare [of "{l}", OF Update_keeps_beside]) (auto simp: True served_beside)
    next
      case False
      then have "(\<lambda>d. ?P d \<and> 1 < enabled_count d) = (\<lambda>_. False)"
        by (auto simp: fun_eq_iff dest: find_has_label)
      then show ?thesis by (simp only: hoare_pre_False)
    qed
    with False show ?thesis
      unfolding if_P [OF False]
      by (intro CountEnabled_guard) (auto dest: served_facts)
  qed
qed (auto dest: served_facts)

lemma Remove_served:
  "hoare served (SecretService_Remove l False) (\<lambda>_. has_enabled) has_enabled"
  unfolding SecretService_Remove_def
proof (rule secrets.must_exist_hoare)
  fix v
  let ?P = "\<lambda>d. served d \<and> find_secret d l = Some v"
  have delete: "hoare Q (SecretStore_Delete l) (\<lambda>_. has_enabled) has_enabled"
    if "\<And>d. Q d \<Longrightarrow> enabled_beside {l} d" for Q
    by (rule beside_hoare [of "{l}", OF keeps_enabled_beside(2)]) (simp_all add: that)
  show "hoare ?P (andthen (if sec_Enabled v \<and> \<not> False then
        andthen SecretStore_CountEnabled (\<lambda>enabled. if enabled \<le> 1
          then throw (ErrMsg ''cannot remove the last enabled secret (use force=true to override)'')
          else ret ())
      else ret ()) (\<lambda>_. SecretStore_Delete l)) (\<lambda>_. has_enabled) has_enabled"
  proof (cases "sec_Enabled v")
    case True
    have "hoare (\<lambda>d. ?P d \<and> 1 < enabled_count d) (SecretStore_Delete l) (\<lambda>_. has_enabled) has_enabled"
      by (rule delete) (simp add: served_beside)
    then have "hoare ?P (andthen (andthen SecretStore_CountEnabled (\<lambda>enabled. if enabled \<le> 1
        then throw (ErrMsg ''cannot remove the last enabled secret (use force=true to override)'')
        else ret ())) (\<lambda>_. SecretStore_Delete l)) (\<lambda>_. has_enabled) has_enabled"
      by (rule CountEnabled_guard) (auto dest: served_facts)
    with True show ?thesis by (simp del: run_ret)
  next
    case False
    have "hoare ?P (SecretStore_Delete l) (\<lambda>_. has_enabled) has_enabled"
      by (rule delete) (use False enabled_beside_disabled in \<open>auto dest: served_facts\<close>)
    with False show ?thesis by (simp del: run_ret)
  qed
qed (auto dest: served_facts)

text \<open>The bulk operation counts the enabled secrets with and without the labels.\<close>

lemma enabled_beside_count:
  assumes "int (count_where (\<lambda>r. row_enabled r \<and> row_label r \<in> set ls) (t_secrets d)) < enabled_count d"
  shows "enabled_beside (set ls) d"
proof (rule ccontr)
  assume "\<not> ?thesis"
  then have "count_where row_enabled (t_secrets d)
      \<le> count_where (\<lambda>r. row_enabled r \<and> row_label r \<in> set ls) (t_secrets d)"
    by (intro count_where_mono) (auto simp: enabled_beside_def)
  with assms show False by (simp add: enabled_count_def)
qed

lemma keeps_each_in:
  "(\<And>x a. x \<in> set xs \<Longrightarrow> keeps P (f x a)) \<Longrightarrow> keeps P (each f xs a)"
  by (induction xs arbitrary: a) (auto intro: keeps_ret keeps_andthen simp del: run_ret)

lemma BulkToggleEnabled_beside:
  "keeps (enabled_beside (set ls)) (SecretStore_BulkToggleEnabled ls b)"
  unfolding SecretStore_BulkToggleEnabled_def
  by (intro keeps_intros keeps_each_in keeps_enabled_beside)

lemma BulkToggleEnabled_True: "keeps has_enabled (SecretStore_BulkToggleEnabled ls True)"
  unfolding SecretStore_BulkToggleEnabled_def
  by (intro keeps_intros keeps_enabled_update) simp

lemma BulkToggle_served: "hoare served (SecretService_BulkToggle ls b) (\<lambda>_. has_enabled) has_enabled"
proof (cases b)
  case True
  have "keeps has_enabled (SecretService_BulkToggle ls True)"
    unfolding SecretService_BulkToggle_def by (intro keeps_intros BulkToggleEnabled_True)
  then show ?thesis
    unfolding True [THEN eqTrueI] by (rule hoare_conseq [OF keeps_hoare]) (auto dest: served_facts)
next
  case False
  let ?m = "SecretStore_BulkToggleEnabled ls b"
  let ?in = "\<lambda>d. int (count_where (\<lambda>r. row_enabled r \<and> row_label r \<in> set ls) (t_secrets d))"
  have guard: "hoare served (andthen SecretStore_CountEnabled (\<lambda>totalEnabled.
      andthen (SecretStore_CountEnabledByLabels ls) (\<lambda>toDisable.
      if totalEnabled \<le> toDisable
      then throw (ErrMsg ''cannot disable all enabled secrets'') else ret ())))
    (\<lambda>_ d. ?in d < enabled_count d) has_enabled"
    by (rule hoare_value_then [where V = "\<lambda>n d. n = enabled_count d"],
        simp, erule CountEnabled_value, simp add: served_facts,
        rule hoare_value_then [where V = "\<lambda>n d. n = ?in d"],
        simp, erule CountEnabledByLabels_value, simp add: served_facts)
      (auto intro!: hoare_if hoare_throw hoare_ret dest: served_facts)
  have "hoare (\<lambda>d. ?in d < enabled_count d) ?m (\<lambda>_. has_enabled) has_enabled"
    by (rule beside_hoare [OF BulkToggleEnabled_beside]) (rule enabled_beside_count)
  then show ?thesis
    unfolding SecretService_BulkToggle_def if_P [OF False]
    by (rule hoare_andthen [OF guard])
qed

lemma DisableExpired_served:
  "hoare served SecretService_DisableExpired (\<lambda>_. has_enabled) has_enabled"
  unfolding SecretService_DisableExpired_def
  by (rule hoare_conseq [OF DisableExpired_hoare]) (auto simp: spare_Nil dest: served_facts)

lemma service_keeps_served [keeps_intros]:
  "keeps served (SecretService_Add l k)"
  "keeps served (SecretService_Clone src l)"
  "keeps served (SecretService_Rename l l')"
  "keeps served (SecretService_Extend l n)"
  "keeps served (SecretService_SetTags l t)"
  "keeps served (SecretService_Archive l)"
  "keeps served (SecretService_Unarchive l)"
  "keeps served (SecretService_ResetTraffic eng l)"
  "keeps served (SecretService_ResetAllTraffic eng)"
  "keeps served (SecretService_BulkExtend ls n)"
  "keeps served (SecretService_BulkRotate ls)"
  "keeps served (SecretService_BulkSetLimits ls lm)"
  "keeps served (ImportSecrets es)"
  by (rule servedI, rule keeps_intros, rule service_keeps_enabled import_keeps_enabled)+

lemma service_keeps_served' [keeps_intros]:
  "keeps served (SecretService_Remove l False)"
  "keeps served (SecretService_Rotate l)"
  "keeps served (SecretService_Toggle l b)"
  "keeps served (SecretService_SetLimits l lm)"
  "keeps served (SecretService_UpdateNotes l nt)"
  "keeps served SecretService_DisableExpired"
  "keeps served (SecretService_BulkToggle ls b)"
  by (rule served_keepsI, rule keeps_intros, rule Remove_served Rotate_served Toggle_served
      SetLimits_served UpdateNotes_served BulkToggle_served DisableExpired_served)+

end
