(* ===== verification/Go_Float.thy ===== *)
theory Go_Float
  imports Complex_Main Go_Strings
begin

text \<open>
  Go's \<^verbatim>\<open>float64\<close> as the traffic code uses it: a value is a rational number (of the form a
  double can hold), an infinity or NaN; results are rounded to the nearest double, ties to even.
  The sign of zero is not modelled. Conversions to \<^verbatim>\<open>int64\<close> that do not fit give the
  smallest number, as on amd64. \<open>ParseFloat\<close> reads the decimal forms that the callers' regular
  expression lets through.
\<close>

datatype f64 = Fin rat | PosInf | NegInf | NaN

subsection \<open>Rounding\<close>

fun bitlen :: "nat \<Rightarrow> nat" where
  "bitlen n = (if n = 0 then 0 else Suc (bitlen (n div 2)))"

declare bitlen.simps [simp del]

definition pow2 :: "int \<Rightarrow> rat" where
  "pow2 k = (if 0 \<le> k then 2 ^ nat k else 1 / 2 ^ nat (- k))"

definition floor_log2 :: "rat \<Rightarrow> int" where
  "floor_log2 q =
     (case quotient_of q of (n, d) \<Rightarrow>
        let k = int (bitlen (nat n)) - int (bitlen (nat d)) in if pow2 k \<le> q then k else k - 1)"

definition round_half_even :: "rat \<Rightarrow> int" where
  "round_half_even q =
     (let f = \<lfloor>q\<rfloor>; r = q - of_int f in
      if r < 1 / 2 then f else if 1 / 2 < r then f + 1 else if even f then f else f + 1)"

definition round64 :: "rat \<Rightarrow> f64" where
  "round64 q =
     (if q = 0 then Fin 0
      else
        (let a = \<bar>q\<bar>;
             e = max (- 1074) (floor_log2 a - 52);
             v = of_int (round_half_even (a / pow2 e)) * pow2 e
         in if 2 ^ 1024 \<le> v then (if q < 0 then NegInf else PosInf)
            else Fin (sgn q * v)))"

subsection \<open>Operations\<close>

fun f64_add :: "f64 \<Rightarrow> f64 \<Rightarrow> f64" where
  "f64_add (Fin a) (Fin b) = round64 (a + b)"
| "f64_add NaN y = NaN"
| "f64_add x NaN = NaN"
| "f64_add PosInf y = (if y = NegInf then NaN else PosInf)"
| "f64_add NegInf y = (if y = PosInf then NaN else NegInf)"
| "f64_add (Fin a) y = y"

fun f64_max :: "f64 \<Rightarrow> f64 \<Rightarrow> f64" where
  "f64_max NaN y = NaN"
| "f64_max x NaN = NaN"
| "f64_max PosInf y = PosInf"
| "f64_max x PosInf = PosInf"
| "f64_max NegInf y = y"
| "f64_max x NegInf = x"
| "f64_max (Fin a) (Fin b) = Fin (max a b)"

definition truncate_rat :: "rat \<Rightarrow> int" where
  "truncate_rat q = (if q < 0 then - \<lfloor>- q\<rfloor> else \<lfloor>q\<rfloor>)"

definition in_int64_range :: "int \<Rightarrow> bool" where
  "in_int64_range t \<longleftrightarrow> - (2 ^ 63) \<le> t \<and> t < 2 ^ 63"

fun f64_to_int64 :: "f64 \<Rightarrow> int" where
  "f64_to_int64 (Fin q) = (if in_int64_range (truncate_rat q) then truncate_rat q else - (2 ^ 63))"
| "f64_to_int64 _ = - (2 ^ 63)"

subsection \<open>Parsing\<close>

text \<open>\<^verbatim>\<open>strconv.ParseFloat\<close> on decimal digits with at most one point and an optional
  exponent; a value that rounds to an infinity is an error.\<close>

definition take_sign :: "string \<Rightarrow> bool \<times> string" where
  "take_sign s =
     (if s \<noteq> [] \<and> hd s = CHR ''-'' then (True, tl s)
      else if s \<noteq> [] \<and> hd s = CHR ''+'' then (False, tl s) else (False, s))"

definition parse_exponent :: "string \<Rightarrow> int option" where
  "parse_exponent s =
     (if s = [] then Some 0
      else if hd s = CHR ''e'' \<or> hd s = CHR ''E'' then
        (case take_sign (tl s) of (neg, ds) \<Rightarrow>
           if ds = [] \<or> \<not> list_all is_digit ds then None
           else Some (if neg then - int (nat_of_digits 0 ds) else int (nat_of_digits 0 ds)))
      else None)"

definition parse_decimal :: "string \<Rightarrow> rat option" where
  "parse_decimal s =
     (case take_sign s of (neg, s) \<Rightarrow>
        let ip = takeWhile is_digit s; r = dropWhile is_digit s;
            point = (r \<noteq> [] \<and> hd r = CHR ''.'');
            r = (if point then tl r else r);
            fp = (if point then takeWhile is_digit r else []);
            r = (if point then dropWhile is_digit r else r)
        in if ip = [] \<and> fp = [] then None
           else map_option (\<lambda>e.
             (if neg then -1 else 1) * of_nat (nat_of_digits 0 (ip @ fp)) *
             (if 0 \<le> e - int (length fp) then 10 ^ nat (e - int (length fp))
              else 1 / 10 ^ nat (int (length fp) - e)))
             (parse_exponent r))"

definition ParseFloat :: "string \<Rightarrow> f64 option" where
  "ParseFloat s =
     (if s = ''Inf'' then Some PosInf
      else if s = ''NaN'' then Some NaN
      else
        (case parse_decimal s of
           None \<Rightarrow> None
         | Some q \<Rightarrow> (case round64 q of Fin v \<Rightarrow> Some (Fin v) | _ \<Rightarrow> None)))"

subsection \<open>Printing\<close>

text \<open>\<^verbatim>\<open>strconv.FormatFloat(v, 'f', -1, 64)\<close>: the fewest digits that are read
  back as the same double, the closest of them to it, without an exponent.\<close>

definition pow10 :: "int \<Rightarrow> rat" where
  "pow10 k = (if 0 \<le> k then 10 ^ nat k else 1 / 10 ^ nat (- k))"

text \<open>The exponent of the leading digit; 400 exceeds the number of digits of any double.\<close>

definition floor_log10 :: "rat \<Rightarrow> int" where
  "floor_log10 q =
     (case find (\<lambda>k. pow10 k \<le> q) (rev [-400..400]) of None \<Rightarrow> 0 | Some k \<Rightarrow> k)"

text \<open>\<open>k\<close> significant digits \<open>n\<close> with the exponent of the last one.\<close>

definition digits_of :: "rat \<Rightarrow> int \<Rightarrow> (nat \<times> int) option" where
  "digits_of q k =
     (let x = floor_log10 q - k + 1; n = \<lfloor>q / pow10 x\<rfloor>;
          ok = (\<lambda>m. round64 (of_int m * pow10 x) = Fin q)
      in if ok n \<and> (\<not> ok (n + 1) \<or> q - of_int n * pow10 x \<le> of_int (n + 1) * pow10 x - q)
         then Some (nat n, x)
         else if ok (n + 1) then Some (nat (n + 1), x) else None)"

definition place_point :: "nat \<Rightarrow> int \<Rightarrow> string" where
  "place_point n x =
     (if 0 \<le> x then show_nat n @ replicate (nat x) CHR ''0''
      else
        (let s = show_nat n; s = replicate (Suc (nat (- x)) - length s) CHR ''0'' @ s; i = length s - nat (- x)
         in take i s @ ''.'' @ drop i s))"

fun FormatFloat :: "f64 \<Rightarrow> string" where
  "FormatFloat (Fin q) =
     (if q = 0 then ''0''
      else (if q < 0 then ''-'' else []) @
        (case List.map_filter (digits_of \<bar>q\<bar>) [1..17] of
           [] \<Rightarrow> [] | (n, x) # _ \<Rightarrow> place_point n x))"
| "FormatFloat PosInf = ''+Inf''"
| "FormatFloat NegInf = ''-Inf''"
| "FormatFloat NaN = ''NaN''"

subsection \<open>Integers below \<open>2 ^ 53\<close> are exact\<close>

lemma bitlen_le: "n < 2 ^ m \<Longrightarrow> bitlen n \<le> m"
proof (induction m arbitrary: n)
  case 0
  then show ?case by (simp add: bitlen.simps)
next
  case (Suc m)
  then have "n div 2 < 2 ^ m" by simp
  with Suc.IH show ?case by (subst bitlen.simps) simp
qed

lemma floor_log2_int:
  assumes "0 < n" "n < 2 ^ 53"
  shows "floor_log2 (of_int n) \<le> 52"
proof -
  have "nat n < nat (2 ^ 53)" using assms by (subst nat_mono_iff) simp_all
  then have "nat n < 2 ^ 53" by (simp add: nat_power_eq)
  then have "bitlen (nat n) \<le> 53" by (rule bitlen_le)
  moreover have "bitlen 1 = 1" by (simp add: bitlen.simps)
  ultimately show ?thesis
    by (simp add: floor_log2_def quotient_of_int Let_def)
qed

lemma round_half_even_int [simp]: "round_half_even (of_int n) = n"
  by (simp add: round_half_even_def Let_def)

lemma round64_int:
  assumes "\<bar>n\<bar> < 2 ^ 53"
  shows "round64 (of_int n) = Fin (of_int n)"
proof (cases "n = 0")
  case True
  then show ?thesis by (simp add: round64_def)
next
  case False
  define a where "a = \<bar>n\<bar>"
  define e where "e = max (- 1074) (floor_log2 (of_int a) - 52)"
  have "floor_log2 (of_int a) \<le> 52" by (rule floor_log2_int) (use False assms in \<open>auto simp: a_def\<close>)
  then have e: "e \<le> 0" by (simp add: e_def)
  have pos: "0 < pow2 e" by (simp add: pow2_def)
  have whole: "of_int a / pow2 e = (of_int (a * 2 ^ nat (- e)) :: rat)"
    using e by (cases "e = 0") (simp_all add: pow2_def)
  have "of_int (round_half_even (of_int a / pow2 e)) * pow2 e = (of_int a / pow2 e) * pow2 e"
    unfolding whole round_half_even_int ..
  also have "\<dots> = of_int a" using pos by simp
  finally have v: "of_int (round_half_even (of_int a / pow2 e)) * pow2 e = (of_int a :: rat)" .
  have "(of_int a :: rat) < of_int (2 ^ 53)" using assms by (subst of_int_less_iff) (simp add: a_def)
  also have "\<dots> \<le> 2 ^ 1024" by simp
  finally have small: "\<not> 2 ^ 1024 \<le> (of_int a :: rat)" by simp
  have "\<bar>of_int n :: rat\<bar> = of_int a" by (simp add: a_def)
  moreover have "sgn (of_int n) * of_int a = (of_int n :: rat)"
    using False by (simp add: a_def sgn_if)
  ultimately show ?thesis
    using False small v by (simp add: round64_def Let_def flip: e_def)
qed

lemma truncate_rat_int [simp]: "truncate_rat (of_int n) = n"
  by (simp add: truncate_rat_def floor_minus)

lemma f64_to_int64_int: "\<bar>n\<bar> < 2 ^ 53 \<Longrightarrow> f64_to_int64 (Fin (of_int n)) = n"
  by (simp add: in_int64_range_def) linarith

lemma f64_add_int:
  "\<bar>m + n\<bar> < 2 ^ 53 \<Longrightarrow> f64_add (Fin (of_int m)) (Fin (of_int n)) = Fin (of_int (m + n))"
  by (simp add: round64_int flip: of_int_add)

end
