(* ===== verification/Promutil.thy ===== *)
theory Promutil
  imports Go_Float Go_Json
begin

text \<open>
  \<^verbatim>\<open>pkg/promutil/parser.go\<close> and the metric types of \<^verbatim>\<open>internal/model/traffic.go\<close>: the
  Prometheus text of an engine, its lines matched by the regular expressions of the code, and the
  metrics the panel uses. Maps are association lists, a new key at the end.
\<close>

record user_live =
  um_OctetsFromClient :: f64
  um_OctetsToClient :: f64
  um_Connections :: f64
  um_UniqueIPs :: f64

record live_metrics =
  lm_UptimeSeconds :: f64
  lm_ConnsCurrent :: f64
  lm_ConnsTotal :: f64
  lm_ConnsBadTotal :: f64
  lm_UpstreamAttemptTotal :: f64
  lm_UpstreamSuccessTotal :: f64
  lm_UpstreamFailTotal :: f64
  lm_MEWritersActive :: f64
  lm_MEWritersWarm :: f64
  lm_UserMetrics :: "(string \<times> user_live) list"
  lm_BadByClass :: "(string \<times> f64) list"
  lm_HandshakeFailByClass :: "(string \<times> f64) list"

definition no_user :: user_live where
  "no_user = \<lparr>um_OctetsFromClient = Fin 0, um_OctetsToClient = Fin 0, um_Connections = Fin 0,
     um_UniqueIPs = Fin 0\<rparr>"

definition no_metrics :: live_metrics where
  "no_metrics = \<lparr>lm_UptimeSeconds = Fin 0, lm_ConnsCurrent = Fin 0, lm_ConnsTotal = Fin 0,
     lm_ConnsBadTotal = Fin 0, lm_UpstreamAttemptTotal = Fin 0, lm_UpstreamSuccessTotal = Fin 0,
     lm_UpstreamFailTotal = Fin 0, lm_MEWritersActive = Fin 0, lm_MEWritersWarm = Fin 0,
     lm_UserMetrics = [], lm_BadByClass = [], lm_HandshakeFailByClass = []\<rparr>"

record metric =
  m_Name :: string
  m_Labels :: "(string \<times> string) list"
  m_Value :: f64

text \<open>Assignment to a key of a map: in place, or at the end.\<close>

fun set_key :: "'k \<Rightarrow> 'v \<Rightarrow> ('k \<times> 'v) list \<Rightarrow> ('k \<times> 'v) list" where
  "set_key k v [] = [(k, v)]"
| "set_key k v ((k', v') # m) = (if k' = k then (k, v) # m else (k', v') # set_key k v m)"

subsection \<open>Lines\<close>

definition word_char :: "char \<Rightarrow> bool" where
  "word_char c \<longleftrightarrow> is_alpha c \<or> is_digit c \<or> c = CHR ''_''"

definition re_space :: "char \<Rightarrow> bool" where
  "re_space c \<longleftrightarrow> byte c \<in> {9, 10, 12, 13, 32}"

definition value_char :: "char \<Rightarrow> bool" where
  "value_char c \<longleftrightarrow> is_digit c \<or> c \<in> {CHR ''.'', CHR ''e'', CHR ''E'', CHR ''+'', CHR ''-''}"

text \<open>The groups of \<^verbatim>\<open>metricRe\<close>: name, text between braces, value. A sign is a character of
  the first alternative for the value, so that alternative also takes the sign of
  \<^verbatim>\<open>+Inf\<close>.\<close>

definition metricRe :: "string \<Rightarrow> (string \<times> string \<times> string) option" where
  "metricRe s =
     (let name = takeWhile word_char s; r = dropWhile word_char s;
          braces = (r \<noteq> [] \<and> hd r = CHR ''{'' \<and> CHR ''}'' \<in> set r);
          labels = (if braces then takeWhile (\<lambda>c. c \<noteq> CHR ''}'') (tl r) else []);
          r = (if braces then tl (dropWhile (\<lambda>c. c \<noteq> CHR ''}'') r) else r);
          v = dropWhile re_space r
      in if name = [] \<or> takeWhile re_space r = [] then None
         else if takeWhile value_char v \<noteq> [] then Some (name, labels, takeWhile value_char v)
         else if has_prefix v ''Inf'' then Some (name, labels, ''Inf'')
         else if has_prefix v ''NaN'' then Some (name, labels, ''NaN'')
         else None)"

text \<open>All matches of \<^verbatim>\<open>(\w+)="([^"]*)"\<close>, from left to right.\<close>

function find_labels :: "string \<Rightarrow> (string \<times> string) list" where
  "find_labels s =
     (if s = [] then []
      else if \<not> word_char (hd s) then find_labels (tl s)
      else
        (let name = takeWhile word_char s; r = dropWhile word_char s; t = drop 2 r in
         if take 2 r = [CHR ''='', dquote] \<and> dquote \<in> set t
         then (name, takeWhile (\<lambda>c. c \<noteq> dquote) t) #
                find_labels (tl (dropWhile (\<lambda>c. c \<noteq> dquote) t))
         else find_labels r))"
  by pat_completeness auto
termination
proof (relation "measure length")
  fix s :: string and name r t
  assume s: "s \<noteq> []" "\<not> \<not> word_char (hd s)" and r: "r = dropWhile word_char s"
    and t: "t = drop 2 r"
  have "length r < length s"
    using s by (cases s) (simp_all add: r length_dropWhile_le le_imp_less_Suc)
  moreover have "length (dropWhile (\<lambda>c. c \<noteq> dquote) t) \<le> length t" by (rule length_dropWhile_le)
  ultimately show "(r, s) \<in> measure length"
    and "(tl (dropWhile (\<lambda>c. c \<noteq> dquote) t), s) \<in> measure length"
    by (auto simp: t)
qed auto

declare find_labels.simps [simp del]

definition parse_labels :: "string \<Rightarrow> (string \<times> string) list" where
  "parse_labels s = foldl (\<lambda>m (k, v). set_key k v m) [] (find_labels s)"

definition parse_line :: "string \<Rightarrow> metric option" where
  "parse_line line =
     (let line = trim_space line in
      if line = [] \<or> has_prefix line ''#'' then None
      else
        (case metricRe line of
           None \<Rightarrow> None
         | Some (name, labels, v) \<Rightarrow>
             (case ParseFloat v of
                None \<Rightarrow> None
              | Some x \<Rightarrow>
                  Some \<lparr>m_Name = name,
                        m_Labels = (if labels \<noteq> [] then parse_labels labels else []),
                        m_Value = x\<rparr>)))"

definition ParseMetrics :: "string \<Rightarrow> metric list" where
  "ParseMetrics text = List.map_filter parse_line (split_char newline text)"

subsection \<open>The metrics of the panel\<close>

definition set_scalar :: "string \<Rightarrow> f64 \<Rightarrow> live_metrics \<Rightarrow> live_metrics option" where
  "set_scalar name v lm =
     (if name = ''telemt_uptime_seconds'' then Some (lm\<lparr>lm_UptimeSeconds := v\<rparr>)
      else if name = ''telemt_connections_current'' then Some (lm\<lparr>lm_ConnsCurrent := v\<rparr>)
      else if name = ''telemt_connections_total'' then Some (lm\<lparr>lm_ConnsTotal := v\<rparr>)
      else if name = ''telemt_connections_bad_total'' then Some (lm\<lparr>lm_ConnsBadTotal := v\<rparr>)
      else if name = ''telemt_upstream_connect_attempt_total''
      then Some (lm\<lparr>lm_UpstreamAttemptTotal := v\<rparr>)
      else if name = ''telemt_upstream_connect_success_total''
      then Some (lm\<lparr>lm_UpstreamSuccessTotal := v\<rparr>)
      else if name = ''telemt_upstream_connect_fail_total''
      then Some (lm\<lparr>lm_UpstreamFailTotal := v\<rparr>)
      else if name = ''telemt_me_writers_active_current''
      then Some (lm\<lparr>lm_MEWritersActive := v\<rparr>)
      else if name = ''telemt_me_writers_warm_current'' then Some (lm\<lparr>lm_MEWritersWarm := v\<rparr>)
      else None)"

definition user_field :: "string \<Rightarrow> (f64 \<Rightarrow> user_live \<Rightarrow> user_live) option" where
  "user_field name =
     (if name = ''telemt_user_octets_from_client''
      then Some (\<lambda>v u. u\<lparr>um_OctetsFromClient := v\<rparr>)
      else if name = ''telemt_user_octets_to_client'' then Some (\<lambda>v u. u\<lparr>um_OctetsToClient := v\<rparr>)
      else if name = ''telemt_user_connections_current''
      then Some (\<lambda>v u. u\<lparr>um_Connections := v\<rparr>)
      else if name = ''telemt_user_unique_ips_current'' then Some (\<lambda>v u. u\<lparr>um_UniqueIPs := v\<rparr>)
      else None)"

definition get_user :: "string \<Rightarrow> live_metrics \<Rightarrow> user_live" where
  "get_user user lm =
     (case map_of (lm_UserMetrics lm) user of None \<Rightarrow> no_user | Some u \<Rightarrow> u)"

definition extract_step :: "live_metrics \<Rightarrow> metric \<Rightarrow> live_metrics" where
  "extract_step lm m =
     (case set_scalar (m_Name m) (m_Value m) lm of
        Some lm' \<Rightarrow> lm'
      | None \<Rightarrow>
          (case user_field (m_Name m) of
             Some fn \<Rightarrow>
               (case map_of (m_Labels m) ''user'' of
                  None \<Rightarrow> lm
                | Some user \<Rightarrow>
                    lm\<lparr>lm_UserMetrics :=
                      set_key user (fn (m_Value m) (get_user user lm)) (lm_UserMetrics lm)\<rparr>)
           | None \<Rightarrow>
               (case map_of (m_Labels m) ''class'' of
                  None \<Rightarrow> lm
                | Some cls \<Rightarrow>
                    if m_Name m = ''telemt_connections_bad_by_class_total''
                    then lm\<lparr>lm_BadByClass := set_key cls (m_Value m) (lm_BadByClass lm)\<rparr>
                    else if m_Name m = ''telemt_handshake_failures_by_class_total''
                    then lm\<lparr>lm_HandshakeFailByClass :=
                           set_key cls (m_Value m) (lm_HandshakeFailByClass lm)\<rparr>
                    else lm)))"

definition ExtractTelemtMetrics :: "metric list \<Rightarrow> live_metrics" where
  "ExtractTelemtMetrics ms = foldl extract_step no_metrics ms"

text \<open>The body, or \<open>None\<close> when reading it fails.\<close>

definition FetchAndParse :: "string option \<Rightarrow> live_metrics option" where
  "FetchAndParse body = map_option (\<lambda>text. ExtractTelemtMetrics (ParseMetrics text)) body"

subsection \<open>Facts\<close>

lemma map_of_set_key [simp]: "map_of (set_key k v m) k' = (if k' = k then Some v else map_of m k')"
  by (induction k v m rule: set_key.induct) auto

lemma keys_set_key: "fst ` set (set_key k v m) = insert k (fst ` set m)"
  by (induction k v m rule: set_key.induct) auto

lemma distinct_set_key: "distinct (map fst m) \<Longrightarrow> distinct (map fst (set_key k v m))"
  by (induction k v m rule: set_key.induct) (auto simp: keys_set_key)

lemma users_distinct: "distinct (map fst (lm_UserMetrics (ExtractTelemtMetrics ms)))"
proof -
  have "distinct (map fst (lm_UserMetrics (foldl extract_step lm ms)))"
    if "distinct (map fst (lm_UserMetrics lm))" for lm
    using that
  proof (induction ms arbitrary: lm)
    case (Cons m ms)
    have "distinct (map fst (lm_UserMetrics (extract_step lm m)))"
      using Cons.prems
      by (auto simp: extract_step_def set_scalar_def distinct_set_key split: option.splits)
    then show ?case using Cons.IH by simp
  qed simp
  then show ?thesis by (simp add: ExtractTelemtMetrics_def no_metrics_def)
qed

end
