(* ===== verification/Traffic_Service.thy ===== *)
theory Traffic_Service
  imports Secret_Service_Laws Promutil
begin

text \<open>
  \<^verbatim>\<open>internal/service/traffic_service.go\<close>: reading the engines' metrics, turning their
  counters into increments of the stored totals, and acting on quotas and expiry dates. What lies
  outside is an argument: \<open>scrape\<close> gives the body that the metrics URL on a port returns
  (\<open>None\<close> when the request or the read fails), \<open>running\<close> the names of the running containers,
  \<open>hasEngine\<close> whether the engine client is set. Failures that the code logs and passes over are
  \<open>attempt\<close>ed.
\<close>

subsection \<open>Live metrics\<close>

definition resolveSwingMetricsPort :: "int \<Rightarrow> int \<Rightarrow> string list \<Rightarrow> int" where
  "resolveSwingMetricsPort primaryPort defaultMetricsPort running =
     (case find (\<lambda>i. ''popugate-telemt-'' @ show_int (primaryPort + 10000 + i) \<in> set running)
        [0..99] of
        Some i \<Rightarrow> primaryPort + 10000 + i + 100
      | None \<Rightarrow> defaultMetricsPort)"

definition add_user_live :: "user_live \<Rightarrow> user_live \<Rightarrow> user_live" where
  "add_user_live u m =
     \<lparr>um_OctetsFromClient = f64_add (um_OctetsFromClient u) (um_OctetsFromClient m),
      um_OctetsToClient = f64_add (um_OctetsToClient u) (um_OctetsToClient m),
      um_Connections = f64_add (um_Connections u) (um_Connections m),
      um_UniqueIPs = f64_add (um_UniqueIPs u) (um_UniqueIPs m)\<rparr>"

definition merge_class :: "(string \<times> f64) list \<Rightarrow> (string \<times> f64) list \<Rightarrow> (string \<times> f64) list" where
  "merge_class combined live =
     foldl (\<lambda>m (cls, v). set_key cls
       (f64_add (case map_of m cls of None \<Rightarrow> Fin 0 | Some x \<Rightarrow> x) v) m) combined live"

definition mergeInstanceMetrics :: "live_metrics \<Rightarrow> live_metrics \<Rightarrow> live_metrics" where
  "mergeInstanceMetrics c l =
     c\<lparr>lm_UptimeSeconds := f64_max (lm_UptimeSeconds c) (lm_UptimeSeconds l),
       lm_ConnsCurrent := f64_add (lm_ConnsCurrent c) (lm_ConnsCurrent l),
       lm_ConnsTotal := f64_add (lm_ConnsTotal c) (lm_ConnsTotal l),
       lm_ConnsBadTotal := f64_add (lm_ConnsBadTotal c) (lm_ConnsBadTotal l),
       lm_UpstreamAttemptTotal := f64_add (lm_UpstreamAttemptTotal c) (lm_UpstreamAttemptTotal l),
       lm_UpstreamSuccessTotal := f64_add (lm_UpstreamSuccessTotal c) (lm_UpstreamSuccessTotal l),
       lm_UpstreamFailTotal := f64_add (lm_UpstreamFailTotal c) (lm_UpstreamFailTotal l),
       lm_MEWritersActive := f64_add (lm_MEWritersActive c) (lm_MEWritersActive l),
       lm_MEWritersWarm := f64_add (lm_MEWritersWarm c) (lm_MEWritersWarm l),
       lm_UserMetrics := foldl (\<lambda>m (user, metrics).
         set_key user (add_user_live (case map_of m user of None \<Rightarrow> no_user | Some u \<Rightarrow> u) metrics) m)
         (lm_UserMetrics c) (lm_UserMetrics l),
       lm_BadByClass := merge_class (lm_BadByClass c) (lm_BadByClass l),
       lm_HandshakeFailByClass :=
         merge_class (lm_HandshakeFailByClass c) (lm_HandshakeFailByClass l)\<rparr>"

text \<open>Engines that only report connections per user: the total is their sum.\<close>

definition sum_connections :: "live_metrics \<Rightarrow> live_metrics" where
  "sum_connections l =
     (if lm_ConnsCurrent l = Fin 0 \<and> lm_UserMetrics l \<noteq> [] then
        l\<lparr>lm_ConnsCurrent :=
          foldl (\<lambda>s (_, um). f64_add s (um_Connections um)) (lm_ConnsCurrent l) (lm_UserMetrics l)\<rparr>
      else l)"

definition scrape_instance ::
    "(int \<Rightarrow> string option) \<Rightarrow> string list \<Rightarrow> inst \<Rightarrow> live_metrics option" where
  "scrape_instance scrape running i =
     FetchAndParse (scrape (resolveSwingMetricsPort (inst_Port i) (inst_MetricsPort i) running))"

definition fetchLiveMetrics ::
    "(int \<Rightarrow> string option) \<Rightarrow> string list \<Rightarrow> live_metrics io" where
  "fetchLiveMetrics scrape running =
     andthen InstanceStore_List (\<lambda>instances.
     let lives = List.map_filter (scrape_instance scrape running) (filter inst_Enabled instances) in
     if lives = [] then throw (ErrMsg ''no metrics collected from any active instance'')
     else ret (sum_connections (foldl mergeInstanceMetrics no_metrics lives)))"

record live_cache =
  lc_lastLive :: "live_metrics option"
  lc_lastTime :: int

text \<open>The value is the metrics and the cache left behind; an error leaves the cache alone.\<close>

definition GetLiveMetrics ::
    "(int \<Rightarrow> string option) \<Rightarrow> string list \<Rightarrow> live_cache \<Rightarrow> (live_metrics \<times> live_cache) io" where
  "GetLiveMetrics scrape running c =
     andthen clock (\<lambda>now.
     let fetch = andthen (fetchLiveMetrics scrape running) (\<lambda>l.
           andthen clock (\<lambda>t. ret (l, \<lparr>lc_lastLive = Some l, lc_lastTime = t\<rparr>))) in
     case lc_lastLive c of
       Some l \<Rightarrow> if now - lc_lastTime c < 2 * second then ret (l, c) else fetch
     | None \<Rightarrow> fetch)"

subsection \<open>Increments\<close>

definition nonNegativeDelta :: "int \<Rightarrow> int \<Rightarrow> int" where
  "nonNegativeDelta current previous =
     (let d = int64 (current - previous) in if d < 0 then current else d)"

definition octets_in :: "user_live \<Rightarrow> int" where
  "octets_in um = f64_to_int64 (um_OctetsFromClient um)"

definition octets_out :: "user_live \<Rightarrow> int" where
  "octets_out um = f64_to_int64 (um_OctetsToClient um)"

definition user_delta :: "(string \<times> int \<times> int) list \<Rightarrow> string \<times> user_live \<Rightarrow> (string \<times> snapshot) option" where
  "user_delta snapshots = (\<lambda>(user, um).
     let prev = (case map_of snapshots user of None \<Rightarrow> (0, 0) | Some p \<Rightarrow> p);
         deltaIn = nonNegativeDelta (octets_in um) (fst prev);
         deltaOut = nonNegativeDelta (octets_out um) (snd prev)
     in if 0 < deltaIn \<or> 0 < deltaOut
        then Some (user, \<lparr>snap_BytesIn = deltaIn, snap_BytesOut = deltaOut,
                          snap_SnapIn = octets_in um, snap_SnapOut = octets_out um\<rparr>)
        else None)"

definition computeUserDeltas ::
    "(string \<times> user_live) list \<Rightarrow> (string \<times> int \<times> int) list \<Rightarrow> (string \<times> snapshot) list" where
  "computeUserDeltas live snapshots = List.map_filter (user_delta snapshots) live"

record flush_acc =
  acc_totalIn :: int
  acc_totalOut :: int
  acc_conns :: int
  acc_histUsers :: "(string \<times> int \<times> int) list"
  acc_snapIn :: int
  acc_snapOut :: int

definition acc_init :: flush_acc where
  "acc_init = \<lparr>acc_totalIn = 0, acc_totalOut = 0, acc_conns = 0, acc_histUsers = [],
     acc_snapIn = 0, acc_snapOut = 0\<rparr>"

definition addUserDeltas :: "flush_acc \<Rightarrow> (string \<times> snapshot) list \<Rightarrow> flush_acc" where
  "addUserDeltas acc deltas = foldl (\<lambda>a (label, s).
     let e = (case map_of (acc_histUsers a) label of None \<Rightarrow> (0, 0) | Some p \<Rightarrow> p) in
     a\<lparr>acc_totalIn := int64 (acc_totalIn a + snap_BytesIn s),
       acc_totalOut := int64 (acc_totalOut a + snap_BytesOut s),
       acc_histUsers := set_key label
         (int64 (fst e + snap_BytesIn s), int64 (snd e + snap_BytesOut s)) (acc_histUsers a)\<rparr>)
     acc deltas"

definition flushGlobal :: "flush_acc \<Rightarrow> snapshot \<Rightarrow> unit io" where
  "flushGlobal a globalSnap =
     (if acc_totalIn a = 0 \<and> acc_totalOut a = 0 \<and> acc_conns a = 0 \<and>
         acc_snapIn a = 0 \<and> acc_snapOut a = 0
      then ret ()
      else
        (let globalDeltaIn = nonNegativeDelta (acc_snapIn a) (snap_SnapIn globalSnap);
             globalDeltaOut = nonNegativeDelta (acc_snapOut a) (snap_SnapOut globalSnap) in
         andthen (attempt (TrafficStore_UpdateGlobal globalDeltaIn globalDeltaOut
             (acc_snapIn a) (acc_snapOut a))) (\<lambda>_.
         if 0 < acc_totalIn a \<or> 0 < acc_totalOut a \<or> 0 < acc_conns a then
           andthen clock (\<lambda>now.
           andthen (attempt (InsertHistoryBatch (unix now) (acc_totalIn a) (acc_totalOut a)
             (acc_conns a) (acc_histUsers a))) (\<lambda>_. ret ()))
         else ret ())))"

definition add_instance_totals :: "live_metrics \<Rightarrow> flush_acc \<Rightarrow> flush_acc" where
  "add_instance_totals live a =
     (let instTotalFrom = foldl (\<lambda>s (_, um). f64_add s (um_OctetsFromClient um)) (Fin 0)
            (lm_UserMetrics live);
          instTotalTo = foldl (\<lambda>s (_, um). f64_add s (um_OctetsToClient um)) (Fin 0)
            (lm_UserMetrics live) in
      a\<lparr>acc_snapIn := int64 (acc_snapIn a + f64_to_int64 instTotalFrom),
        acc_snapOut := int64 (acc_snapOut a + f64_to_int64 instTotalTo),
        acc_conns := int64 (acc_conns a + f64_to_int64 (lm_ConnsCurrent live))\<rparr>)"

definition flushInstance ::
    "(int \<Rightarrow> string option) \<Rightarrow> string list \<Rightarrow> inst \<Rightarrow> flush_acc \<Rightarrow> flush_acc io" where
  "flushInstance scrape running i acc =
     (case scrape_instance scrape running i of
        None \<Rightarrow> ret acc
      | Some live \<Rightarrow>
          (let live = sum_connections live in
           andthen (attempt (TrafficStore_GetAllUserSnapshots (inst_ID i))) (\<lambda>r.
           let userSnapshots = (case r of Inl _ \<Rightarrow> [] | Inr m \<Rightarrow> m);
               userDeltas = computeUserDeltas (lm_UserMetrics live) userSnapshots;
               acc = add_instance_totals live acc in
           if userDeltas = [] then ret acc
           else andthen (attempt (TrafficStore_FlushInstanceTraffic userDeltas (inst_ID i))) (\<lambda>r.
             case r of Inl _ \<Rightarrow> ret acc | Inr _ \<Rightarrow> ret (addUserDeltas acc userDeltas)))))"

definition Flush :: "(int \<Rightarrow> string option) \<Rightarrow> string list \<Rightarrow> unit io" where
  "Flush scrape running =
     andthen InstanceStore_List (\<lambda>instances.
     andthen (wrap ''get global snapshot'' TrafficStore_GetGlobal) (\<lambda>globalSnap.
     andthen (each (\<lambda>i acc.
         if \<not> inst_Enabled i then ret acc else flushInstance scrape running i acc)
       instances acc_init) (\<lambda>acc.
     flushGlobal acc globalSnap)))"

subsection \<open>Quotas\<close>

text \<open>\<^verbatim>\<open>enabled, _ := CountEnabled\<close> is 0 when the query fails; the last enabled secret is
  left alone.\<close>

definition auto_disable :: "secret \<Rightarrow> unit io" where
  "auto_disable sec =
     andthen (attempt SecretStore_CountEnabled) (\<lambda>r.
     if 1 < (case r of Inl _ \<Rightarrow> 0 | Inr n \<Rightarrow> n) then
       andthen (attempt (SecretStore_Update (sec\<lparr>sec_Enabled := False\<rparr>))) (\<lambda>_. ret ())
     else ret ())"

definition was_alerted :: "string \<Rightarrow> int \<Rightarrow> bool io" where
  "was_alerted label percent =
     andthen (attempt (WasAlerted label percent)) (\<lambda>r.
     ret (case r of Inl _ \<Rightarrow> False | Inr b \<Rightarrow> b))"

definition checkQuotaExceeded :: "secret \<Rightarrow> unit io" where
  "checkQuotaExceeded sec =
     andthen (was_alerted (sec_Label sec) 100) (\<lambda>alerted.
     if alerted then ret ()
     else andthen (auto_disable sec) (\<lambda>_.
          andthen (attempt (MarkAlerted (sec_Label sec) 100)) (\<lambda>_. ret ())))"

definition checkQuotaWarning :: "string \<Rightarrow> unit io" where
  "checkQuotaWarning label =
     andthen (was_alerted label 80) (\<lambda>alerted.
     if alerted then ret ()
     else andthen (attempt (MarkAlerted label 80)) (\<lambda>_. ret ()))"

definition quota_percent :: "int \<Rightarrow> int \<Rightarrow> int" where
  "quota_percent totalBytes quotaBytes = quot (int64 (totalBytes * 100)) quotaBytes"

definition checkSecretQuota :: "secret \<Rightarrow> unit io" where
  "checkSecretQuota sec =
     (if \<not> sec_Enabled sec \<or> sec_QuotaBytes sec \<le> 0 then ret ()
      else andthen (attempt (TrafficStore_GetUserTraffic (sec_Label sec))) (\<lambda>r.
        case r of
          Inl _ \<Rightarrow> ret ()
        | Inr u \<Rightarrow>
            (let totalBytes = int64 (ut_BytesIn u + ut_BytesOut u) in
             if totalBytes \<le> 0 then ret ()
             else
               (let pct = quota_percent totalBytes (sec_QuotaBytes sec) in
                if 100 \<le> pct then checkQuotaExceeded sec
                else if 80 \<le> pct then checkQuotaWarning (sec_Label sec)
                else ret ()))))"

definition CheckQuotas :: "unit io" where
  "CheckQuotas =
     andthen (attempt SecretStore_List) (\<lambda>r.
     case r of Inl _ \<Rightarrow> ret () | Inr secrets \<Rightarrow> each (\<lambda>sec _. checkSecretQuota sec) secrets ())"

definition CheckExpirations :: "unit io" where
  "CheckExpirations =
     andthen (attempt SecretStore_List) (\<lambda>r.
     case r of
       Inl _ \<Rightarrow> ret ()
     | Inr secrets \<Rightarrow>
         andthen clock (\<lambda>now.
         each (\<lambda>sec _.
           if \<not> sec_Enabled sec \<or> sec_ExpiresAt sec = [] \<or> sec_ExpiresAt sec = ''0'' then ret ()
           else
             (case parse_date (sec_ExpiresAt sec) of
                None \<Rightarrow> ret ()
              | Some expTime \<Rightarrow> if expTime < now then auto_disable sec else ret ())) secrets ()))"

definition ResetAllQuotas :: "bool \<Rightarrow> unit io" where
  "ResetAllQuotas hasEngine =
     andthen (attempt TrafficStore_ResetAllTraffic) (\<lambda>r.
     case r of
       Inl _ \<Rightarrow> ret ()
     | Inr _ \<Rightarrow>
         if hasEngine then
           andthen (attempt InstanceStore_List) (\<lambda>ri.
           andthen (attempt SecretStore_List) (\<lambda>rs.
           case (ri, rs) of (Inr insts, Inr secs) \<Rightarrow> ResetAll insts secs | _ \<Rightarrow> ret ()))
         else ret ())"

subsection \<open>Reports\<close>

record traffic_report =
  rep_TotalIn :: int
  rep_TotalOut :: int
  rep_Users :: "user_traffic list"

definition GetReport :: "traffic_report io" where
  "GetReport =
     andthen TrafficStore_GetGlobal (\<lambda>g.
     andthen TrafficStore_ListUserTraffic (\<lambda>users.
     ret \<lparr>rep_TotalIn = snap_BytesIn g, rep_TotalOut = snap_BytesOut g, rep_Users = users\<rparr>))"

definition TrafficService_GetHistory ::
    "int \<Rightarrow> int \<Rightarrow> string \<Rightarrow> string \<Rightarrow> history_record list io" where
  "TrafficService_GetHistory start stop label aggregate =
     (if aggregate = ''hour'' then TrafficStore_GetAggregatedHistory start stop label 3600
      else if aggregate = ''day'' then TrafficStore_GetAggregatedHistory start stop label 86400
      else TrafficStore_GetHistory start stop label)"

end
