(* ===== verification/Traffic_Service_Laws.thy ===== *)
theory Traffic_Service_Laws
  imports Traffic_Service
begin

text \<open>
  What the traffic service keeps (the registry stays well formed, and neither quotas nor expiry
  dates disable the last enabled secret), and how the stored totals follow the engines' counters:
  per user and instance exactly the increments the counters show, with a restart counted from zero.
\<close>

subsection \<open>Traffic rows\<close>

definition traffic_row_of :: "traffic_row list \<Rightarrow> string \<Rightarrow> int \<Rightarrow> traffic_row option" where
  "traffic_row_of rs l i = find (\<lambda>r. tu_label r = l \<and> tu_instance_id r = i) rs"

definition upsert_row :: "string \<Rightarrow> int \<Rightarrow> snapshot \<Rightarrow> traffic_row option \<Rightarrow> traffic_row" where
  "upsert_row l i s ro =
     (case ro of
        None \<Rightarrow> \<lparr>tu_label = l, tu_instance_id = i, tu_bytes_in = snap_BytesIn s,
                 tu_bytes_out = snap_BytesOut s, tu_snap_in = snap_SnapIn s,
                 tu_snap_out = snap_SnapOut s\<rparr>
      | Some r \<Rightarrow> r\<lparr>tu_bytes_in := tu_bytes_in r + snap_BytesIn s,
                   tu_bytes_out := tu_bytes_out r + snap_BytesOut s,
                   tu_snap_in := snap_SnapIn s, tu_snap_out := snap_SnapOut s\<rparr>)"

lemma find_append: "find q (xs @ ys) = (case find q xs of None \<Rightarrow> find q ys | Some x \<Rightarrow> Some x)"
  by (induction xs) auto

lemma list_ex_find: "list_ex q xs \<longleftrightarrow> find q xs \<noteq> None"
  by (induction xs) auto

lemma traffic_row_of_upsert:
  "traffic_row_of (upsert_traffic l i s rs) l' i' =
     (if l' = l \<and> i' = i then Some (upsert_row l i s (traffic_row_of rs l i))
      else traffic_row_of rs l' i')"
proof (cases "traffic_row_of rs l i")
  case None
  then have "\<not> list_ex (\<lambda>r. tu_label r = l \<and> tu_instance_id r = i) rs"
    by (simp add: list_ex_find traffic_row_of_def)
  with None show ?thesis
    by (auto simp: upsert_traffic_def traffic_row_of_def find_append upsert_row_def
        split: option.splits)
next
  case (Some r)
  then have "list_ex (\<lambda>r. tu_label r = l \<and> tu_instance_id r = i) rs"
    by (simp add: list_ex_find traffic_row_of_def)
  moreover have "find (\<lambda>r. tu_label r = l' \<and> tu_instance_id r = i') (update_where
      (\<lambda>r. tu_label r = l \<and> tu_instance_id r = i) (\<lambda>r. r\<lparr>tu_bytes_in := tu_bytes_in r + snap_BytesIn s,
         tu_bytes_out := tu_bytes_out r + snap_BytesOut s, tu_snap_in := snap_SnapIn s,
         tu_snap_out := snap_SnapOut s\<rparr>) rs) =
    (if l' = l \<and> i' = i then Some (upsert_row l i s (Some r)) else traffic_row_of rs l' i')"
  proof (cases "l' = l \<and> i' = i")
    case True
    with Some show ?thesis
      by (simp add: find_update_where_hit traffic_row_of_def upsert_row_def)
  next
    case False
    then show ?thesis by (subst find_update_where_other) (auto simp: traffic_row_of_def)
  qed
  ultimately show ?thesis using Some by (simp add: upsert_traffic_def traffic_row_of_def)
qed

lemma upsert_distinct:
  assumes "distinct (map traffic_key rs)"
  shows "distinct (map traffic_key (upsert_traffic l i s rs))"
proof (cases "list_ex (\<lambda>r. tu_label r = l \<and> tu_instance_id r = i) rs")
  case True
  then have "map traffic_key (upsert_traffic l i s rs) = map traffic_key rs"
    by (simp add: upsert_traffic_def) (rule map_update_where_same, simp add: traffic_key_def)
  with assms show ?thesis by simp
next
  case False
  then have "(l, i) \<notin> traffic_key ` set rs" by (auto simp: traffic_key_def list_ex_iff)
  with False assms show ?thesis by (simp add: upsert_traffic_def traffic_key_def)
qed

text \<open>The loop of a flush.\<close>

definition upsert_all :: "int \<Rightarrow> (string \<times> snapshot) list \<Rightarrow> traffic_row list \<Rightarrow> traffic_row list" where
  "upsert_all i users rs = foldl (\<lambda>rs (l, s). upsert_traffic l i s rs) rs users"

lemma upsert_all_row:
  assumes "distinct (map fst users)"
  shows "traffic_row_of (upsert_all i users rs) l j =
    (if j = i then
       (case map_of users l of None \<Rightarrow> traffic_row_of rs l i
        | Some s \<Rightarrow> Some (upsert_row l i s (traffic_row_of rs l i)))
     else traffic_row_of rs l j)"
  using assms
proof (induction users arbitrary: rs)
  case Nil
  then show ?case by (simp add: upsert_all_def)
next
  case (Cons u users)
  obtain k s where u: "u = (k, s)" by (cases u)
  have "upsert_all i (u # users) rs = upsert_all i users (upsert_traffic k i s rs)"
    by (simp add: upsert_all_def u)
  moreover have "k \<notin> fst ` set users" using Cons.prems by (simp add: u)
  then have "map_of users k = None" by (simp add: map_of_eq_None_iff)
  ultimately show ?case
    using Cons by (auto simp: u traffic_row_of_upsert split: option.splits)
qed

lemma each_exec_upsert:
  "w_faults w = [] \<Longrightarrow>
   each (\<lambda>(l, s) _. wrap (msg l) (exec_upsert l i s)) users () w =
     (Inr (), w\<lparr>w_db := (w_db w)\<lparr>t_traffic_user := upsert_all i users (t_traffic_user (w_db w))\<rparr>\<rparr>)"
proof (induction users arbitrary: w)
  case Nil
  then show ?case by (simp add: upsert_all_def)
next
  case (Cons u users)
  obtain k s where u: "u = (k, s)" by (cases u)
  let ?w = "w\<lparr>w_db := (w_db w)\<lparr>t_traffic_user := upsert_traffic k i s (t_traffic_user (w_db w))\<rparr>\<rparr>"
  have "wrap (msg k) (exec_upsert k i s) w = (Inr (), ?w)"
    using Cons.prems by (simp add: exec_upsert_def wrap_def run_simps)
  moreover note Cons.IH [of ?w]
  ultimately show ?case
    using Cons.prems by (simp add: u andthen_def upsert_all_def)
qed

lemma FlushInstanceTraffic_ok:
  assumes "w_faults w = []"
  shows "TrafficStore_FlushInstanceTraffic users i w =
    (Inr (), w\<lparr>w_db := (w_db w)\<lparr>t_traffic_user := upsert_all i users (t_traffic_user (w_db w))\<rparr>\<rparr>)"
proof -
  have prep: "wrap ''prepare user flush'' tx_step w = (Inr (), w)"
    using assms by (simp add: wrap_def tx_step_ok)
  have "flushUsers users i w = (Inr (),
      w\<lparr>w_db := (w_db w)\<lparr>t_traffic_user := upsert_all i users (t_traffic_user (w_db w))\<rparr>\<rparr>)"
    unfolding flushUsers_def andthen_Inr [where m = "wrap _ _", OF prep]
    by (rule each_exec_upsert [OF assms])
  with assms show ?thesis
    by (simp add: TrafficStore_FlushInstanceTraffic_def transaction_ok andthen_Inr tx_step_ok)
qed

subsection \<open>Increments\<close>

lemma nonNegativeDelta_values:
  assumes "0 \<le> current" "in_int64 current" "0 \<le> previous" "in_int64 previous"
  shows "nonNegativeDelta current previous =
    (if previous \<le> current then current - previous else current)"
proof -
  have "in_int64 (current - previous)" using assms by (simp add: in_int64_def)
  then show ?thesis using assms by (simp add: nonNegativeDelta_def Let_def)
qed

lemma map_of_user_snapshots:
  "map_of (user_snapshots d i) l =
     map_option (\<lambda>r. (tu_snap_in r, tu_snap_out r)) (traffic_row_of (t_traffic_user d) l i)"
proof -
  have "map_of (map (\<lambda>r. (tu_label r, tu_snap_in r, tu_snap_out r))
      (filter (\<lambda>r. tu_instance_id r = i) rs)) l =
    map_option (\<lambda>r. (tu_snap_in r, tu_snap_out r)) (find (\<lambda>r. tu_label r = l \<and> tu_instance_id r = i) rs)"
    for rs :: "traffic_row list" by (induction rs) auto
  then show ?thesis by (simp add: user_snapshots_def traffic_row_of_def)
qed

lemma user_delta_key: "user_delta snaps u = Some x \<Longrightarrow> fst x = fst u"
  by (cases u) (auto simp: user_delta_def Let_def split: if_splits)

lemma computeUserDeltas_keys:
  "distinct (map fst live) \<Longrightarrow> distinct (map fst (computeUserDeltas live snaps))"
  unfolding computeUserDeltas_def by (rule map_filter_keys(2)) (rule user_delta_key)

lemma map_of_computeUserDeltas:
  "distinct (map fst live) \<Longrightarrow> map_of (computeUserDeltas live snaps) l =
     (case map_of live l of None \<Rightarrow> None
      | Some um \<Rightarrow> map_option snd (user_delta snaps (l, um)))"
proof (induction live)
  case Nil
  then show ?case by (simp add: computeUserDeltas_def map_filter_simps)
next
  case (Cons u live)
  obtain k um where u: "u = (k, um)" by (cases u)
  have "k \<notin> fst ` set live" using Cons.prems by (simp add: u)
  then have none: "map_of live k = None" by (simp add: map_of_eq_None_iff)
  have "computeUserDeltas (u # live) snaps =
    (case user_delta snaps (k, um) of None \<Rightarrow> [] | Some x \<Rightarrow> [x]) @ computeUserDeltas live snaps"
    by (simp add: computeUserDeltas_def map_filter_simps u split: option.splits)
  then show ?case
    using Cons none user_delta_key [of snaps "(k, um)"]
    by (cases "user_delta snaps (k, um)") (auto simp: u)
qed

subsection \<open>One instance\<close>

text \<open>The totals and the snapshots stored for a user on an instance; a missing row counts as 0.\<close>

definition stored_bytes :: "db \<Rightarrow> string \<Rightarrow> int \<Rightarrow> int \<times> int" where
  "stored_bytes d l i =
     (case traffic_row_of (t_traffic_user d) l i of
        None \<Rightarrow> (0, 0) | Some r \<Rightarrow> (tu_bytes_in r, tu_bytes_out r))"

definition stored_snap :: "db \<Rightarrow> string \<Rightarrow> int \<Rightarrow> int \<times> int" where
  "stored_snap d l i =
     (case traffic_row_of (t_traffic_user d) l i of
        None \<Rightarrow> (0, 0) | Some r \<Rightarrow> (tu_snap_in r, tu_snap_out r))"

definition increment :: "int \<Rightarrow> int \<Rightarrow> int" where
  "increment current previous = (if previous \<le> current then current - previous else current)"

definition counter_ok :: "int \<Rightarrow> bool" where
  "counter_ok n \<longleftrightarrow> 0 \<le> n \<and> in_int64 n"

lemma delta_increment:
  "counter_ok c \<Longrightarrow> counter_ok p \<Longrightarrow> nonNegativeDelta c p = increment c p"
  by (simp add: nonNegativeDelta_values counter_ok_def increment_def)

lemma increment_nonneg: "counter_ok c \<Longrightarrow> 0 \<le> increment c p"
  by (simp add: increment_def counter_ok_def)

lemma sum_connections_users [simp]: "lm_UserMetrics (sum_connections l) = lm_UserMetrics l"
  by (simp add: sum_connections_def)

lemma scrape_users_distinct:
  "scrape_instance scrape running i = Some live \<Longrightarrow> distinct (map fst (lm_UserMetrics live))"
  by (auto simp: scrape_instance_def FetchAndParse_def users_distinct)

lemma stored_snap_lookup:
  "(case map_of (user_snapshots d i) l of None \<Rightarrow> (0, 0) | Some p \<Rightarrow> p) = stored_snap d l i"
  by (simp add: map_of_user_snapshots stored_snap_def split: option.splits)

lemma GetAllUserSnapshots_ok [run_simps]:
  "w_faults w = [] \<Longrightarrow>
   TrafficStore_GetAllUserSnapshots i w = (Inr (user_snapshots (w_db w) i), w)"
  by (simp add: TrafficStore_GetAllUserSnapshots_def run_simps)

definition deltas_of :: "live_metrics \<Rightarrow> (string \<times> int \<times> int) list \<Rightarrow> (string \<times> snapshot) list" where
  "deltas_of live snaps = computeUserDeltas (lm_UserMetrics live) snaps"

lemma upsert_all_Nil [simp]: "upsert_all i [] rs = rs"
  by (simp add: upsert_all_def)

lemma flushInstance_run:
  assumes "w_faults w1 = []" "scrape_instance scrape running i = Some live"
    "TrafficStore_GetAllUserSnapshots (inst_ID i) w = (r, w1)"
    "snaps = (case r of Inl _ \<Rightarrow> [] | Inr m \<Rightarrow> m)"
  obtains acc' where "flushInstance scrape running i acc w = (Inr acc', w1\<lparr>w_db := (w_db w1)
    \<lparr>t_traffic_user := upsert_all (inst_ID i) (deltas_of live snaps) (t_traffic_user (w_db w1))\<rparr>\<rparr>)"
proof -
  let ?live = "sum_connections live"
  have "attempt (TrafficStore_GetAllUserSnapshots (inst_ID i)) w = (Inr r, w1)"
    using assms(3) by (simp add: attempt_def)
  note read = andthen_Inr [where m = "attempt _", OF this]
  show thesis
  proof (cases "deltas_of live snaps = []")
    case True
    then show thesis
      by (intro that [of "add_instance_totals ?live acc"])
        (simp add: flushInstance_def assms(2) Let_def read deltas_of_def flip: assms(4))
  next
    case False
    have "attempt (TrafficStore_FlushInstanceTraffic (deltas_of live snaps) (inst_ID i)) w1
      = (Inr (Inr ()), w1\<lparr>w_db := (w_db w1)\<lparr>t_traffic_user :=
          upsert_all (inst_ID i) (deltas_of live snaps) (t_traffic_user (w_db w1))\<rparr>\<rparr>)"
      by (simp add: attempt_def FlushInstanceTraffic_ok assms(1))
    note flush = andthen_Inr [where m = "attempt _", OF this]
    show thesis
      using False
      by (intro that [of "addUserDeltas (add_instance_totals ?live acc) (deltas_of live snaps)"])
        (simp add: flushInstance_def assms(2) Let_def read flush [unfolded deltas_of_def] deltas_of_def
          flip: assms(4))
  qed
qed

text \<open>What the rows are afterwards, for given previous snapshots.\<close>

lemma upsert_deltas_bytes:
  assumes "distinct (map fst (lm_UserMetrics live))"
    "map_of (lm_UserMetrics live) l = Some um"
    "counter_ok (octets_in um)" "counter_ok (octets_out um)"
    "(case map_of snaps l of None \<Rightarrow> (0, 0) | Some p \<Rightarrow> p) = (pin, pout)"
    "counter_ok pin" "counter_ok pout"
    "d' = d\<lparr>t_traffic_user := upsert_all i (deltas_of live snaps) (t_traffic_user d)\<rparr>"
  shows "stored_bytes d' l i =
    (fst (stored_bytes d l i) + increment (octets_in um) pin,
     snd (stored_bytes d l i) + increment (octets_out um) pout)"
proof -
  let ?din = "increment (octets_in um) pin" and ?dout = "increment (octets_out um) pout"
  have delta: "user_delta snaps (l, um) = (if 0 < ?din \<or> 0 < ?dout
      then Some (l, \<lparr>snap_BytesIn = ?din, snap_BytesOut = ?dout, snap_SnapIn = octets_in um,
        snap_SnapOut = octets_out um\<rparr>) else None)"
    using assms(3-7) by (simp add: user_delta_def Let_def delta_increment)
  have "0 \<le> ?din" "0 \<le> ?dout" using assms by (simp_all add: increment_nonneg)
  moreover have row: "traffic_row_of (t_traffic_user d') l i =
    (case map_option snd (user_delta snaps (l, um)) of
       None \<Rightarrow> traffic_row_of (t_traffic_user d) l i
     | Some s \<Rightarrow> Some (upsert_row l i s (traffic_row_of (t_traffic_user d) l i)))"
    using assms(1,2,8) upsert_all_row [OF computeUserDeltas_keys [OF assms(1)]]
    by (simp add: deltas_of_def map_of_computeUserDeltas)
  ultimately show ?thesis
    by (cases "0 < ?din \<or> 0 < ?dout"; cases "traffic_row_of (t_traffic_user d) l i")
      (simp_all add: stored_bytes_def delta upsert_row_def row)
qed

lemma upsert_deltas_other:
  assumes "distinct (map fst (lm_UserMetrics live))"
    "j \<noteq> i \<or> map_of (lm_UserMetrics live) l = None"
  shows "stored_bytes (d\<lparr>t_traffic_user := upsert_all i (deltas_of live snaps) (t_traffic_user d)\<rparr>) l j
    = stored_bytes d l j"
  using assms upsert_all_row [OF computeUserDeltas_keys [OF assms(1)]]
  by (auto simp: stored_bytes_def deltas_of_def map_of_computeUserDeltas)

subsection \<open>A run of flushes\<close>

lemma upsert_deltas_snap:
  assumes "distinct (map fst (lm_UserMetrics live))"
    "map_of (lm_UserMetrics live) l = Some um"
    "counter_ok (octets_in um)" "counter_ok (octets_out um)"
    "(case map_of snaps l of None \<Rightarrow> (0, 0) | Some p \<Rightarrow> p) = stored_snap d l i"
    "stored_snap d l i = (pin, pout)" "counter_ok pin" "counter_ok pout"
    "pin \<le> octets_in um" "pout \<le> octets_out um"
    "d' = d\<lparr>t_traffic_user := upsert_all i (deltas_of live snaps) (t_traffic_user d)\<rparr>"
  shows "stored_snap d' l i = (octets_in um, octets_out um)"
proof -
  let ?din = "octets_in um - pin" and ?dout = "octets_out um - pout"
  have delta: "user_delta snaps (l, um) = (if 0 < ?din \<or> 0 < ?dout
      then Some (l, \<lparr>snap_BytesIn = ?din, snap_BytesOut = ?dout, snap_SnapIn = octets_in um,
        snap_SnapOut = octets_out um\<rparr>) else None)"
    using assms(3-10) by (simp add: user_delta_def Let_def delta_increment increment_def)
  have row: "traffic_row_of (t_traffic_user d') l i =
    (case map_option snd (user_delta snaps (l, um)) of
       None \<Rightarrow> traffic_row_of (t_traffic_user d) l i
     | Some s \<Rightarrow> Some (upsert_row l i s (traffic_row_of (t_traffic_user d) l i)))"
    using assms(1,2,11) upsert_all_row [OF computeUserDeltas_keys [OF assms(1)]]
    by (simp add: deltas_of_def map_of_computeUserDeltas)
  show ?thesis
  proof (cases "0 < ?din \<or> 0 < ?dout")
    case True
    then show ?thesis
      by (cases "traffic_row_of (t_traffic_user d) l i")
        (simp_all add: stored_snap_def delta upsert_row_def row)
  next
    case False
    with assms(9,10) have "octets_in um = pin" "octets_out um = pout" by auto
    with False assms(6) show ?thesis by (simp add: stored_snap_def delta row)
  qed
qed

text \<open>What a scrape shows of a user: \<open>None\<close> when the engine did not answer or did not name the
  user.\<close>

definition observed :: "string list \<Rightarrow> inst \<Rightarrow> string \<Rightarrow> (int \<Rightarrow> string option) \<Rightarrow> (int \<times> int) option" where
  "observed running i l scrape =
     (case scrape_instance scrape running i of
        None \<Rightarrow> None
      | Some live \<Rightarrow>
          map_option (\<lambda>um. (octets_in um, octets_out um)) (map_of (lm_UserMetrics live) l))"

fun rising :: "int \<times> int \<Rightarrow> (int \<times> int) list \<Rightarrow> bool" where
  "rising p [] = True"
| "rising p (q # qs) =
     (fst p \<le> fst q \<and> snd p \<le> snd q \<and> counter_ok (fst q) \<and> counter_ok (snd q) \<and> rising q qs)"

text \<open>The state after flushing an instance once per scrape.\<close>

fun flush_all :: "string list \<Rightarrow> inst \<Rightarrow> flush_acc \<Rightarrow> (int \<Rightarrow> string option) list \<Rightarrow> world \<Rightarrow> world" where
  "flush_all running i acc [] w = w"
| "flush_all running i acc (s # ss) w =
     flush_all running i acc ss (snd (flushInstance s running i acc w))"

lemma flushInstance_missed:
  assumes "w_faults w = []" "observed running i l scrape = None"
  shows "w_faults (snd (flushInstance scrape running i acc w)) = [] \<and>
    stored_bytes (w_db (snd (flushInstance scrape running i acc w))) l (inst_ID i)
      = stored_bytes (w_db w) l (inst_ID i) \<and>
    stored_snap (w_db (snd (flushInstance scrape running i acc w))) l (inst_ID i)
      = stored_snap (w_db w) l (inst_ID i)"
proof (cases "scrape_instance scrape running i")
  case None
  then show ?thesis using assms(1) by (simp add: flushInstance_def)
next
  case (Some live)
  then have "map_of (lm_UserMetrics live) l = None"
    using assms(2) by (simp add: observed_def)
  with scrape_users_distinct [OF Some]
  have "traffic_row_of (upsert_all (inst_ID i) (deltas_of live snaps) rs) l (inst_ID i)
      = traffic_row_of rs l (inst_ID i)" for snaps rs
    using upsert_all_row [OF computeUserDeltas_keys [OF scrape_users_distinct [OF Some]]]
    by (simp add: deltas_of_def map_of_computeUserDeltas)
  moreover obtain acc' where "flushInstance scrape running i acc w = (Inr acc', w\<lparr>w_db := (w_db w)
    \<lparr>t_traffic_user := upsert_all (inst_ID i)
      (deltas_of live (user_snapshots (w_db w) (inst_ID i))) (t_traffic_user (w_db w))\<rparr>\<rparr>)"
    by (rule flushInstance_run [OF assms(1) Some GetAllUserSnapshots_ok [OF assms(1)]]) simp_all
  ultimately show ?thesis
    using assms(1) by (simp add: stored_bytes_def stored_snap_def)
qed

lemma flushInstance_seen:
  assumes "w_faults w = []" "observed running i l scrape = Some (cin, cout)"
    "counter_ok cin" "counter_ok cout"
    "stored_snap (w_db w) l (inst_ID i) = (pin, pout)" "counter_ok pin" "counter_ok pout"
  shows "\<exists>acc' w'. flushInstance scrape running i acc w = (Inr acc', w') \<and> w_faults w' = [] \<and>
    stored_bytes (w_db w') l (inst_ID i) =
      (fst (stored_bytes (w_db w) l (inst_ID i)) + increment cin pin,
       snd (stored_bytes (w_db w) l (inst_ID i)) + increment cout pout) \<and>
    (pin \<le> cin \<longrightarrow> pout \<le> cout \<longrightarrow> stored_snap (w_db w') l (inst_ID i) = (cin, cout))"
proof -
  obtain live um where live: "scrape_instance scrape running i = Some live"
    and um: "map_of (lm_UserMetrics live) l = Some um"
    and c: "cin = octets_in um" "cout = octets_out um"
    using assms(2) by (auto simp: observed_def split: option.splits)
  let ?snaps = "user_snapshots (w_db w) (inst_ID i)"
  let ?d = "(w_db w)\<lparr>t_traffic_user := upsert_all (inst_ID i) (deltas_of live ?snaps)
    (t_traffic_user (w_db w))\<rparr>"
  obtain acc' where run: "flushInstance scrape running i acc w = (Inr acc', w\<lparr>w_db := ?d\<rparr>)"
    by (rule flushInstance_run [OF assms(1) live GetAllUserSnapshots_ok [OF assms(1)]]) simp_all
  note prev = stored_snap_lookup [of "w_db w" "inst_ID i" l]
  have "stored_bytes ?d l (inst_ID i) =
      (fst (stored_bytes (w_db w) l (inst_ID i)) + increment cin pin,
       snd (stored_bytes (w_db w) l (inst_ID i)) + increment cout pout)"
    unfolding c
    by (rule upsert_deltas_bytes [OF scrape_users_distinct [OF live] um])
      (use assms(3-7) prev c in simp_all)
  moreover have "stored_snap ?d l (inst_ID i) = (cin, cout)" if "pin \<le> cin" "pout \<le> cout"
    unfolding c
    by (rule upsert_deltas_snap [OF scrape_users_distinct [OF live] um])
      (use assms(3-7) prev c that in simp_all)
  ultimately show ?thesis using run assms(1) by simp
qed

lemma flush_all_total:
  assumes "w_faults w = []" "counter_ok (fst p)" "counter_ok (snd p)"
    "stored_snap (w_db w) l (inst_ID i) = p"
    "rising p (List.map_filter (observed running i l) ss)"
  shows "stored_bytes (w_db (flush_all running i acc ss w)) l (inst_ID i) =
    (fst (stored_bytes (w_db w) l (inst_ID i)) +
       fst (last (p # List.map_filter (observed running i l) ss)) - fst p,
     snd (stored_bytes (w_db w) l (inst_ID i)) +
       snd (last (p # List.map_filter (observed running i l) ss)) - snd p)"
  using assms
proof (induction ss arbitrary: w p)
  case Nil
  then show ?case by (simp add: map_filter_simps)
next
  case (Cons s ss)
  let ?w = "snd (flushInstance s running i acc w)"
  show ?case
  proof (cases "observed running i l s")
    case None
    with flushInstance_missed [OF Cons.prems(1) None, of acc] Cons.prems Cons.IH [of ?w p]
    show ?thesis by (simp add: map_filter_simps)
  next
    case (Some q)
    obtain cin cout where q: "q = (cin, cout)" by (cases q)
    obtain pin pout where p: "p = (pin, pout)" by (cases p)
    from Cons.prems(5) have r: "pin \<le> cin" "pout \<le> cout" "counter_ok cin" "counter_ok cout"
      "rising q (List.map_filter (observed running i l) ss)"
      by (simp_all add: map_filter_simps Some q p)
    have seen: "w_faults ?w = []" "stored_bytes (w_db ?w) l (inst_ID i) =
        (fst (stored_bytes (w_db w) l (inst_ID i)) + (cin - pin),
         snd (stored_bytes (w_db w) l (inst_ID i)) + (cout - pout))"
      "stored_snap (w_db ?w) l (inst_ID i) = q"
      using flushInstance_seen [OF Cons.prems(1) Some [unfolded q] r(3,4), of pin pout acc]
        Cons.prems(2-4) r by (auto simp: p q increment_def)
    from Cons.IH [OF seen(1) _ _ seen(3) r(5)] r seen(2) show ?thesis
      by (simp add: map_filter_simps Some p q)
  qed
qed

subsection \<open>The registry stays as it is\<close>

text \<open>The parts of the tables the registry's invariants talk about.\<close>

lemma registry_cong:
  assumes "t_secrets d' = t_secrets d" "t_secrets_seq d' = t_secrets_seq d"
    "distinct (map traffic_key (t_traffic_user d)) \<Longrightarrow> distinct (map traffic_key (t_traffic_user d'))"
  shows "served d \<Longrightarrow> served d'" "registry_ok d \<Longrightarrow> registry_ok d'"
  using assms
  by (auto simp: served_def registry_ok_def secrets_wf_def labels_valid_def secret_count_def
      has_enabled_def enabled_count_def)

lemma traffic_exec_keeps [keeps_intros]:
  "keeps served (exec_upsert l i s)" "keeps registry_ok (exec_upsert l i s)"
  "keeps served (TrafficStore_UpdateGlobal a b c e)"
  "keeps registry_ok (TrafficStore_UpdateGlobal a b c e)"
  "keeps served (insert_history ts bi bo cn l)" "keeps registry_ok (insert_history ts bi bo cn l)"
  "keeps served (MarkAlerted l n)" "keeps registry_ok (MarkAlerted l n)"
  unfolding exec_upsert_def TrafficStore_UpdateGlobal_def insert_history_def MarkAlerted_def
  by (rule keeps_sql_exec;
      clarsimp;
      erule registry_cong [rotated -1];
      simp add: upsert_distinct)+

lemma WasAlerted_reads [simp, intro]: "reads (WasAlerted l n)" "reads (was_alerted l n)"
  unfolding WasAlerted_def was_alerted_def by (auto intro!: reads_andthen split: option.splits)

lemma traffic_reads [simp, intro]:
  "reads TrafficStore_GetGlobal" "reads (TrafficStore_GetAllUserSnapshots i)"
  "reads (TrafficStore_GetUserTraffic l)" "reads TrafficStore_ListUserTraffic" "reads GetReport"
  unfolding TrafficStore_GetGlobal_def TrafficStore_GetAllUserSnapshots_def
    TrafficStore_GetUserTraffic_def TrafficStore_ListUserTraffic_def GetReport_def
  by (auto intro!: reads_andthen split: option.splits)

lemma keeps_traffic_reads [keeps_intros]:
  "keeps P (WasAlerted l n)" "keeps P (was_alerted l n)" "keeps P TrafficStore_GetGlobal"
  "keeps P (TrafficStore_GetAllUserSnapshots i)" "keeps P (TrafficStore_GetUserTraffic l)"
  by (rule reads_keeps, simp)+

lemma keeps_flushUsers [keeps_intros]:
  "(\<And>l s. keeps P (exec_upsert l i s)) \<Longrightarrow> keeps P (flushUsers users i)"
  unfolding flushUsers_def by (intro keeps_intros) (auto intro: keeps_intros split: prod.splits)

lemma keeps_InsertHistoryBatch [keeps_intros]:
  "(\<And>ts bi bo cn l. keeps P (insert_history ts bi bo cn l)) \<Longrightarrow>
   keeps P (InsertHistoryBatch ts gi go cn users)"
  unfolding InsertHistoryBatch_def
  by (intro keeps_intros) (auto intro: keeps_intros split: prod.splits)

lemma keeps_FlushInstanceTraffic [keeps_intros]:
  "(\<And>l s. keeps P (exec_upsert l i s)) \<Longrightarrow> keeps P (TrafficStore_FlushInstanceTraffic users i)"
  unfolding TrafficStore_FlushInstanceTraffic_def by (intro keeps_intros) auto

lemma keeps_flushInstance [keeps_intros]:
  "(\<And>l s. keeps P (exec_upsert l (inst_ID i) s)) \<Longrightarrow> keeps P (flushInstance scrape running i acc)"
  unfolding flushInstance_def Let_def by (intro keeps_intros) auto

lemma Flush_keeps [keeps_intros]:
  "keeps served (Flush scrape running)" "keeps registry_ok (Flush scrape running)"
  unfolding Flush_def flushGlobal_def Let_def by (intro keeps_intros)+

subsection \<open>Quotas and expiry dates\<close>

lemma auto_disable_keeps_registry [keeps_intros]: "keeps registry_ok (auto_disable sec)"
  unfolding auto_disable_def by (intro keeps_intros)

lemma auto_disable_served: "keeps served (auto_disable sec)"
proof (rule served_keepsI)
  let ?s = "sec\<lparr>sec_Enabled := False\<rparr>"
  let ?R = "\<lambda>r d. served d \<and> (case r of Inl e \<Rightarrow> True | Inr n \<Rightarrow> n = enabled_count d)"
  have count: "hoare served (attempt SecretStore_CountEnabled) ?R has_enabled"
    by (rule hoare_conseq [OF hoare_attempt [OF CountEnabled_hoare [where P = served and E = served]]])
      (auto split: sum.splits)
  show "hoare served (auto_disable sec) (\<lambda>_. has_enabled) has_enabled"
    unfolding auto_disable_def
  proof (rule hoare_andthen [OF count], rule hoare_if)
    fix r :: "error + int"
    let ?P = "?R r"
    assume n: "1 < (case r of Inl _ \<Rightarrow> 0 | Inr n \<Rightarrow> n)"
    have "keeps (enabled_beside {sec_Label sec}) (andthen (attempt (SecretStore_Update ?s)) (\<lambda>_. ret ()))"
      by (intro keeps_intros Update_keeps_beside) simp
    then show "hoare ?P (andthen (attempt (SecretStore_Update ?s)) (\<lambda>_. ret ()))
        (\<lambda>_. has_enabled) has_enabled"
      by (rule beside_hoare) (use n in \<open>auto simp: served_beside split: sum.splits\<close>)
  next
    fix r :: "error + int"
    show "hoare (?R r) (ret ()) (\<lambda>_. has_enabled) has_enabled"
      by (rule hoare_ret) (simp add: served_facts)
  qed
qed (rule keeps_intros)

lemma checkSecretQuota_keeps [keeps_intros]:
  "keeps served (checkSecretQuota sec)" "keeps registry_ok (checkSecretQuota sec)"
  unfolding checkSecretQuota_def checkQuotaExceeded_def checkQuotaWarning_def Let_def
  by (intro keeps_intros auto_disable_served)+

lemma traffic_service_keeps [keeps_intros]:
  "keeps served CheckQuotas" "keeps registry_ok CheckQuotas"
  "keeps served CheckExpirations" "keeps registry_ok CheckExpirations"
  unfolding CheckQuotas_def CheckExpirations_def
  by (intro keeps_intros auto_disable_served)+

lemma ResetAllQuotas_keeps [keeps_intros]:
  "keeps served (ResetAllQuotas eng)" "keeps registry_ok (ResetAllQuotas eng)"
  unfolding ResetAllQuotas_def prod.case
  by (intro keeps_intros servedI)+

subsection \<open>Properties\<close>

text \<open>
  C5: a flush of one instance, without failures of the database, adds to a user's stored totals
  exactly what the engine's counters grew by since the stored snapshot, or the whole counter when
  it is below the snapshot (the engine restarted).
\<close>

theorem flush_adds_increments:
  assumes "w_faults w = []" "observed running i l scrape = Some (cin, cout)"
    and "counter_ok cin" "counter_ok cout"
    and "stored_snap (w_db w) l (inst_ID i) = (pin, pout)" "counter_ok pin" "counter_ok pout"
  shows "stored_bytes (w_db (snd (flushInstance scrape running i acc w))) l (inst_ID i) =
    (fst (stored_bytes (w_db w) l (inst_ID i)) + (if pin \<le> cin then cin - pin else cin),
     snd (stored_bytes (w_db w) l (inst_ID i)) + (if pout \<le> cout then cout - pout else cout))"
  using flushInstance_seen [OF assms, of acc] by (auto simp: increment_def)

text \<open>
  C4: over any run of flushes of an instance in which a user's counters do not fall, the totals
  grow by the last counter seen minus the first snapshot: nothing is lost and nothing is counted
  twice, whichever scrapes fail or do not name the user.
\<close>

theorem flushes_count_everything_once:
  assumes "w_faults w = []" "counter_ok (fst p)" "counter_ok (snd p)"
    and "stored_snap (w_db w) l (inst_ID i) = p"
    and "rising p (List.map_filter (observed running i l) ss)"
  shows "stored_bytes (w_db (flush_all running i acc ss w)) l (inst_ID i) =
    (fst (stored_bytes (w_db w) l (inst_ID i)) +
       fst (last (p # List.map_filter (observed running i l) ss)) - fst p,
     snd (stored_bytes (w_db w) l (inst_ID i)) +
       snd (last (p # List.map_filter (observed running i l) ss)) - snd p)"
  using assms by (rule flush_all_total)

text \<open>
  C6: when reading the stored snapshots fails, the flush goes on with none and adds the engine's
  whole counters to the totals, although the snapshots had already been counted.
\<close>

theorem failed_snapshot_read_counts_again:
  assumes "w_faults w = [Some (FQuery m)]" "observed running i l scrape = Some (cin, cout)"
    and "counter_ok cin" "counter_ok cout"
  shows "stored_bytes (w_db (snd (flushInstance scrape running i acc w))) l (inst_ID i) =
    (fst (stored_bytes (w_db w) l (inst_ID i)) + cin,
     snd (stored_bytes (w_db w) l (inst_ID i)) + cout)"
proof -
  obtain live um where live: "scrape_instance scrape running i = Some live"
    and um: "map_of (lm_UserMetrics live) l = Some um"
    and c: "cin = octets_in um" "cout = octets_out um"
    using assms(2) by (auto simp: observed_def split: option.splits)
  let ?w = "w\<lparr>w_faults := []\<rparr>"
  have read: "TrafficStore_GetAllUserSnapshots (inst_ID i) w
      = (Inl (ErrWrap ''get user snapshots'' (ErrDriver m)), ?w)"
    using assms(1) by (simp add: TrafficStore_GetAllUserSnapshots_def sql_rows_def pop_fault_def)
  obtain acc' where run: "flushInstance scrape running i acc w = (Inr acc', ?w\<lparr>w_db := (w_db ?w)
    \<lparr>t_traffic_user := upsert_all (inst_ID i) (deltas_of live []) (t_traffic_user (w_db ?w))\<rparr>\<rparr>)"
    by (rule flushInstance_run [OF _ live read]) simp_all
  have "stored_bytes ((w_db w)\<lparr>t_traffic_user := upsert_all (inst_ID i) (deltas_of live [])
      (t_traffic_user (w_db w))\<rparr>) l (inst_ID i) =
    (fst (stored_bytes (w_db w) l (inst_ID i)) + increment cin 0,
     snd (stored_bytes (w_db w) l (inst_ID i)) + increment cout 0)"
    unfolding c
    by (rule upsert_deltas_bytes [OF scrape_users_distinct [OF live] um])
      (use assms(3,4) c in \<open>simp_all add: counter_ok_def in_int64_def\<close>)
  with run assms(3,4) show ?thesis by (simp add: increment_def counter_ok_def)
qed


end
