(* ===== verification/Secret_Properties.thy ===== *)
theory Secret_Properties
  imports Traffic_Service_Laws
begin

text \<open>
  What each operation of the secret service does: an error of an operation on secrets means that
  nothing was written; a success means exactly the documented change. The properties of the
  registry of secrets are at the end.
\<close>

subsection \<open>Errors write nothing\<close>

lemma atomic_reads_then: "reads m \<Longrightarrow> (\<And>x. atomic (f x)) \<Longrightarrow> atomic (andthen m f)"
  unfolding atomic_def
proof (intro allI impI)
  fix w :: world and e w'
  assume m: "reads m" and f: "\<And>x. \<forall>w e w'. f x w = (Inl e, w') \<longrightarrow> w_db w' = w_db w"
    and run: "andthen m f w = (Inl e, w')"
  show "w_db w' = w_db w"
  proof (cases rule: andthen_cases [of m w f])
    case (err e1 w1)
    with run readsD [OF m err(1)] show ?thesis by simp
  next
    case (ok x w1)
    with run have "f x w1 = (Inl e, w')" by simp
    with f [of x] have "w_db w' = w_db w1" by blast
    with readsD [OF m ok(1)] show ?thesis by simp
  qed
qed

lemma atomic_then_ret: "atomic m \<Longrightarrow> atomic (andthen m (\<lambda>x. ret (g x)))"
  by (auto simp: atomic_def andthen_def split: prod.splits sum.splits)

lemma atomic_wrap [simp]: "atomic m \<Longrightarrow> atomic (wrap p m)"
  by (auto simp: atomic_def wrap_def split: prod.splits sum.splits)

lemma atomic_throw [simp]: "atomic (throw e)" and atomic_ret [simp]: "atomic (ret x)"
  by (simp_all add: reads_atomic)

lemma atomic_if: "atomic m \<Longrightarrow> atomic n \<Longrightarrow> atomic (if b then m else n)"
  by simp

lemma atomic_must_exist: "reads g \<Longrightarrow> (\<And>v. atomic (f v)) \<Longrightarrow> atomic (must_exist g e f)"
  unfolding must_exist_def by (rule atomic_reads_then) (auto split: option.splits)

lemma atomic_must_not_exist: "reads g \<Longrightarrow> atomic m \<Longrightarrow> atomic (must_not_exist g e m)"
  unfolding must_not_exist_def by (rule atomic_reads_then) (auto split: option.splits)

lemma atomic_update_secrets [simp]: "atomic (update_secrets l f)"
  by (simp add: update_secrets_def sql_exec_atomic)

lemma update_secrets_none:
  "update_secrets l f w = (Inr 0, w') \<Longrightarrow> w_db w' = w_db w"
  by (auto simp: update_secrets_def sql_exec_def update_where_none dest: pop_fault_same
      split: prod.splits option.splits)

lemma atomic_must_affect [simp]: "atomic (must_affect msg (update_secrets l f))"
  unfolding atomic_def must_affect_def
proof (intro allI impI)
  fix w :: world and e w'
  assume run: "andthen (wrap msg (update_secrets l f)) (\<lambda>n. if n = 0 then throw ErrNoRows else ret ()) w
    = (Inl e, w')"
  obtain r w1 where u: "update_secrets l f w = (r, w1)" by (rule prod.exhaust)
  show "w_db w' = w_db w"
  proof (cases r)
    case (Inl e1)
    have "w_db w1 = w_db w"
      using atomic_update_secrets [of l f] u Inl by (auto simp: atomic_def)
    with run u Inl show ?thesis by (simp add: andthen_def wrap_def)
  next
    case (Inr n)
    with run u have "n = 0" "w' = w1" by (auto simp: andthen_def wrap_def split: if_splits)
    with u Inr update_secrets_none show ?thesis by blast
  qed
qed

lemma atomic_Create [simp]: "atomic (SecretStore_Create sec)"
  unfolding SecretStore_Create_def by (intro atomic_reads_then atomic_wrap sql_exec_atomic) simp

lemma atomic_Update [simp]: "atomic (SecretStore_Update sec)"
  unfolding SecretStore_Update_def by (intro atomic_then_ret) simp

lemma store_atomic' [simp]:
  "atomic (SecretStore_Delete l)" "atomic (SecretStore_ExtendExpiry l e b)"
  "atomic (SecretStore_UpdateTags l t)" "atomic (SecretStore_Archive l)"
  "atomic (SecretStore_Unarchive l)"
  unfolding SecretStore_Delete_def SecretStore_ExtendExpiry_def SecretStore_UpdateTags_def
    SecretStore_Archive_def SecretStore_Unarchive_def
  by (simp_all add: sql_exec_atomic atomic_reads_then)

lemmas atomic_intros =
  atomic_reads_then atomic_then_ret atomic_wrap atomic_if atomic_must_exist atomic_must_not_exist
  atomic_throw atomic_ret store_atomic store_atomic' atomic_Create atomic_Update

lemma reads_guard: "reads m \<Longrightarrow> reads (andthen m (\<lambda>n. if c n then throw e else ret ()))"
  by (auto intro: reads_andthen)

subsection \<open>Successes\<close>

lemmas with_secret_InrE = secrets.must_exist_InrE [where e = "not_found l" and k = l for l]
lemmas when_free_InrE = secrets.must_not_exist_InrE [where e = "already_exists l" and k = l for l]

lemma reads_InrE:
  assumes "andthen m f w = (Inr y, w')" "reads m"
  obtains x w1 where "m w = (Inr x, w1)" "w_db w1 = w_db w" "f x w1 = (Inr y, w')"
  using assms by (auto elim!: andthen_InrE intro: that dest: readsD)

text \<open>The row that Create appends.\<close>

definition created_row :: "int \<Rightarrow> int \<Rightarrow> secret \<Rightarrow> secret_row" where
  "created_row i now sec =
     \<lparr>row_id = i, row_label = sec_Label sec, row_secret_key = sec_SecretKey sec,
      row_created_at = unix now, row_enabled = sec_Enabled sec, row_max_conns = sec_MaxConns sec,
      row_max_ips = sec_MaxIPs sec, row_quota_bytes = sec_QuotaBytes sec,
      row_rate_limit_up_bps = sec_RateLimitUpBps sec,
      row_rate_limit_down_bps = sec_RateLimitDownBps sec, row_expires_at = sec_ExpiresAt sec,
      row_notes = sec_Notes sec, row_tags = sec_Tags sec, row_archived_at = 0\<rparr>"

definition with_row :: "secret_row \<Rightarrow> db \<Rightarrow> db" where
  "with_row r d = d\<lparr>t_secrets := t_secrets d @ [r], t_secrets_seq := row_id r\<rparr>"

lemma Create_Inr:
  assumes "SecretStore_Create sec w = (Inr i, w')"
  shows "i = t_secrets_seq (w_db w) + 1 \<and> w_now w' = w_now w \<and>
    w_db w' = with_row (created_row i (w_now w) sec) (w_db w)"
  using assms
  by (auto simp: SecretStore_Create_def andthen_def wrap_def sql_exec_def Let_def with_row_def
      created_row_def pop_fault_def split: prod.splits option.splits sum.splits if_splits list.splits)

lemma Update_Inr:
  assumes "SecretStore_Update s w = (Inr u, w')"
  shows "w_db w' = (w_db w)\<lparr>t_secrets :=
    update_where (has_label (sec_Label s)) (secret_columns s) (t_secrets (w_db w))\<rparr>"
  using assms
  by (auto simp: SecretStore_Update_def update_secrets_def andthen_def sql_exec_def
      split: prod.splits option.splits dest!: pop_fault_same)

text \<open>Writing back a copy of the row changes only the fields that differ.\<close>

lemma secret_columns_scan: "secret_columns (scan_secret d r) r = r"
  by (simp add: secret_columns_def scan_secret_def)

lemma write_back_rows:
  assumes "secrets_wf d" "find_secret d l = Some s"
    "\<And>r. secret_columns s' r = g (secret_columns s r)"
  shows "update_where (has_label l) (secret_columns s') (t_secrets d)
       = update_where (has_label l) g (t_secrets d)"
proof -
  obtain r0 where r0: "r0 \<in> set (t_secrets d)" "row_label r0 = l" "s = scan_secret d r0"
    by (rule find_secret_SomeD [OF assms(2)])
  have "r = r0" if "r \<in> set (t_secrets d)" "row_label r = l" for r
    using that r0 assms(1) by (auto simp: secrets_wf_def distinct_map inj_on_def)
  moreover have "secret_columns s' r0 = g r0"
    using assms(3) [of r0] by (simp only: r0(3) secret_columns_scan)
  ultimately show ?thesis
    unfolding update_where_def by (intro map_cong refl if_cong) (metis (no_types))
qed

subsection \<open>The operations as one type\<close>

datatype secret_op =
    OpAdd string string
  | OpRemove string bool
  | OpClone string string
  | OpRotate string
  | OpToggle string bool
  | OpSetLimits string limits
  | OpUpdateNotes string string
  | OpRename string string
  | OpExtend string int
  | OpDisableExpired
  | OpSetTags string string
  | OpArchive string
  | OpUnarchive string
  | OpResetTraffic bool string
  | OpResetAllTraffic bool
  | OpBulkExtend "string list" int
  | OpBulkRotate "string list"
  | OpBulkToggle "string list" bool
  | OpBulkSetLimits "string list" limits
  | OpImport "secret list"

definition discard :: "'a io \<Rightarrow> unit io" where
  "discard m = andthen m (\<lambda>_. ret ())"

fun run_op :: "secret_op \<Rightarrow> unit io" where
  "run_op (OpAdd label key) = discard (SecretService_Add label key)"
| "run_op (OpRemove label force) = SecretService_Remove label force"
| "run_op (OpClone src new) = discard (SecretService_Clone src new)"
| "run_op (OpRotate label) = discard (SecretService_Rotate label)"
| "run_op (OpToggle label enable) = SecretService_Toggle label enable"
| "run_op (OpSetLimits label l) = SecretService_SetLimits label l"
| "run_op (OpUpdateNotes label notes) = SecretService_UpdateNotes label notes"
| "run_op (OpRename old new) = SecretService_Rename old new"
| "run_op (OpExtend label days) = SecretService_Extend label days"
| "run_op OpDisableExpired = discard SecretService_DisableExpired"
| "run_op (OpSetTags label tags) = SecretService_SetTags label tags"
| "run_op (OpArchive label) = SecretService_Archive label"
| "run_op (OpUnarchive label) = SecretService_Unarchive label"
| "run_op (OpResetTraffic eng label) = SecretService_ResetTraffic eng label"
| "run_op (OpResetAllTraffic eng) = SecretService_ResetAllTraffic eng"
| "run_op (OpBulkExtend labels days) = discard (SecretService_BulkExtend labels days)"
| "run_op (OpBulkRotate labels) = discard (SecretService_BulkRotate labels)"
| "run_op (OpBulkToggle labels enable) = discard (SecretService_BulkToggle labels enable)"
| "run_op (OpBulkSetLimits labels l) = discard (SecretService_BulkSetLimits labels l)"
| "run_op (OpImport entries) = discard (ImportSecrets entries)"

text \<open>Removing with \<^verbatim>\<open>force=true\<close> is the one operation that may take the last enabled
  secret.\<close>

fun forced :: "secret_op \<Rightarrow> bool" where
  "forced (OpRemove label force) = force"
| "forced _ = False"

lemma keeps_discard [keeps_intros]: "keeps P m \<Longrightarrow> keeps P (discard m)"
  unfolding discard_def by (intro keeps_intros)

lemma run_op_registry: "keeps registry_ok (run_op op)"
  by (cases op) (simp_all add: keeps_discard service_keeps_registry Add_keeps_registry
      Clone_keeps_registry Rename_keeps_registry Import_keeps_registry)

lemma run_op_served: "\<not> forced op \<Longrightarrow> keeps served (run_op op)"
  by (cases op) (simp_all add: keeps_discard service_keeps_served service_keeps_served')

text \<open>What never returns an error.\<close>

definition never_fails :: "'a io \<Rightarrow> bool" where
  "never_fails m \<longleftrightarrow> (\<forall>w. \<exists>x w'. m w = (Inr x, w'))"

lemma never_fails_ret: "never_fails (ret x)"
  by (simp add: never_fails_def)

lemma never_fails_clock: "never_fails clock"
  by (simp add: never_fails_def)

lemma never_fails_attempt: "never_fails (attempt m)"
  unfolding never_fails_def attempt_def by (simp add: case_prod_beta)

lemma never_fails_andthen:
  assumes "never_fails m" "\<And>x. never_fails (f x)"
  shows "never_fails (andthen m f)"
  unfolding never_fails_def
proof
  fix w :: world
  obtain x w1 where "m w = (Inr x, w1)" using assms(1) unfolding never_fails_def by blast
  moreover obtain y w2 where "f x w1 = (Inr y, w2)" using assms(2) [of x] unfolding never_fails_def by blast
  ultimately show "\<exists>y w'. andthen m f w = (Inr y, w')" by (simp add: andthen_def)
qed

lemma never_fails_each: "(\<And>x a. never_fails (f x a)) \<Longrightarrow> never_fails (each f xs a)"
  by (induction xs arbitrary: a) (auto intro: never_fails_andthen never_fails_ret simp del: run_ret)

lemmas never_fails_intros = never_fails_ret never_fails_clock never_fails_attempt never_fails_andthen never_fails_each

lemma never_fails_atomic: "never_fails m \<Longrightarrow> atomic m"
  unfolding never_fails_def atomic_def by (metis Inl_Inr_False fst_conv)

lemma never_fails_import_one: "never_fails (import_one e res)"
  unfolding import_one_def import_create_def
  by (auto intro!: never_fails_intros split: option.splits sum.splits simp del: run_ret)

lemma atomic_then_never_fails:
  assumes "atomic m" "\<And>x. never_fails (f x)"
  shows "atomic (andthen m f)"
  unfolding atomic_def
proof (intro allI impI)
  fix w :: world and e w'
  assume run: "andthen m f w = (Inl e, w')"
  show "w_db w' = w_db w"
  proof (cases rule: andthen_cases [of m w f])
    case (err e1 w1)
    with run assms(1) show ?thesis by (auto simp: atomic_def)
  next
    case (ok x w1)
    with run assms(2) [of x] show ?thesis by (auto simp: never_fails_def dest: spec [of _ w1])
  qed
qed

lemma never_fails_engine: "never_fails (ResetLabel is l)" "never_fails (ResetAll is ss)"
  unfolding ResetLabel_def ResetAll_def Let_def
  by (auto intro!: never_fails_intros simp del: run_ret)

lemma atomic_discard: "atomic m \<Longrightarrow> atomic (discard m)"
  unfolding discard_def by (rule atomic_then_ret)

lemma service_atomic:
  "atomic (SecretService_Add l k)" "atomic (SecretService_Remove l force)"
  "atomic (SecretService_Clone src l)" "atomic (SecretService_Rotate l)"
  "atomic (SecretService_Toggle l b)" "atomic (SecretService_SetLimits l lm)"
  "atomic (SecretService_UpdateNotes l nt)" "atomic (SecretService_Rename old l)"
  "atomic (SecretService_Extend l n)" "atomic SecretService_DisableExpired"
  "atomic (SecretService_SetTags l t)" "atomic (SecretService_Archive l)"
  "atomic (SecretService_Unarchive l)" "atomic (SecretService_BulkExtend ls n)"
  "atomic (SecretService_BulkRotate ls)" "atomic (SecretService_BulkToggle ls b)"
  "atomic (SecretService_BulkSetLimits ls lm)"
  unfolding SecretService_Add_def SecretService_Remove_def SecretService_Clone_def
    SecretService_Rotate_def SecretService_Toggle_def SecretService_SetLimits_def
    SecretService_UpdateNotes_def SecretService_Rename_def SecretService_Extend_def
    SecretService_DisableExpired_def SecretService_SetTags_def SecretService_Archive_def
    SecretService_Unarchive_def SecretService_BulkExtend_def SecretService_BulkRotate_def
    SecretService_BulkToggle_def SecretService_BulkSetLimits_def Let_def
  by (auto intro!: atomic_intros reads_andthen split: sum.splits simp del: run_ret)

lemma reset_atomic:
  "atomic (SecretService_ResetTraffic eng l)" "atomic (SecretService_ResetAllTraffic eng)"
  unfolding SecretService_ResetTraffic_def SecretService_ResetAllTraffic_def
    TrafficStore_ResetTraffic_def TrafficStore_ResetAllTraffic_def
  by (auto intro!: atomic_then_never_fails sql_exec_atomic never_fails_intros never_fails_engine
      split: sum.splits simp del: run_ret)

lemma import_atomic: "atomic (ImportSecrets es)"
  unfolding ImportSecrets_def
  by (intro atomic_reads_then atomic_if atomic_throw secret_reads
      never_fails_atomic [OF never_fails_each] never_fails_import_one)

lemma run_op_atomic: "atomic (run_op op)"
  by (cases op) (simp_all add: atomic_discard service_atomic reset_atomic import_atomic)

subsection \<open>What a success means\<close>

lemma limited_Inr:
  assumes "limited lm s = Inr s'"
  shows "secret_columns s' r = apply_limits lm (secret_columns s r)"
proof -
  have ok: "\<not> (0 \<le> lim_maxConns lm \<and> maxLimit < lim_maxConns lm)"
    "\<not> (0 \<le> lim_maxIPs lm \<and> maxLimit < lim_maxIPs lm)"
    using assms unfolding limited_def by (metis Inl_Inr_False)+
  have "s' = projr (limited lm s)" using assms by simp
  then show ?thesis
    unfolding limited_def if_not_P [OF ok(1)] if_not_P [OF ok(2)] sum.sel
    by (intro secret_row.equality)
      (simp_all add: secret_columns_def apply_limits_def split del: if_split cong: if_cong)
qed

lemma rename_secret_row_Inr:
  "rename_secret_row old new w = (Inr n, w') \<Longrightarrow> w_db w' = (w_db w)\<lparr>t_secrets :=
     update_where (has_label old) (\<lambda>r. r\<lparr>row_label := new\<rparr>) (t_secrets (w_db w))\<rparr>"
  by (auto simp: rename_secret_row_def sql_exec_def Let_def dest!: pop_fault_same
      split: prod.splits option.splits sum.splits if_splits)

lemma rename_traffic_user_Inr:
  "rename_traffic_user old new w = (Inr n, w') \<Longrightarrow> w_db w' = (w_db w)\<lparr>t_traffic_user :=
     update_where (\<lambda>r. tu_label r = old) (\<lambda>r. r\<lparr>tu_label := new\<rparr>) (t_traffic_user (w_db w))\<rparr>"
  by (auto simp: rename_traffic_user_def sql_exec_def Let_def dest!: pop_fault_same
      split: prod.splits option.splits sum.splits if_splits)

lemma rename_traffic_history_Inr:
  "rename_traffic_history old new w = (Inr n, w') \<Longrightarrow> w_db w' = (w_db w)\<lparr>t_traffic_history :=
     update_where (\<lambda>r. th_label r = old) (\<lambda>r. r\<lparr>th_label := new\<rparr>) (t_traffic_history (w_db w))\<rparr>"
  by (auto simp: rename_traffic_history_def sql_exec_def dest!: pop_fault_same
      split: prod.splits option.splits sum.splits)

definition renamed_tables :: "string \<Rightarrow> string \<Rightarrow> db \<Rightarrow> db" where
  "renamed_tables old new d = d\<lparr>
     t_secrets := update_where (has_label old) (\<lambda>r. r\<lparr>row_label := new\<rparr>) (t_secrets d),
     t_traffic_user := update_where (\<lambda>r. tu_label r = old) (\<lambda>r. r\<lparr>tu_label := new\<rparr>) (t_traffic_user d),
     t_traffic_history :=
       update_where (\<lambda>r. th_label r = old) (\<lambda>r. r\<lparr>th_label := new\<rparr>) (t_traffic_history d)\<rparr>"

text \<open>A run that returns, from fixed tables.\<close>

definition returns :: "db \<Rightarrow> 'a io \<Rightarrow> ('a \<Rightarrow> db \<Rightarrow> bool) \<Rightarrow> bool" where
  "returns d m Q \<longleftrightarrow> hoare (\<lambda>d'. d' = d) m Q (\<lambda>_. True)"

lemma returnsD: "returns (w_db w) m Q \<Longrightarrow> m w = (Inr x, w') \<Longrightarrow> Q x (w_db w')"
  using hoare_Inr [of "\<lambda>d'. d' = w_db w" m Q "\<lambda>_. True" w x w'] by (simp add: returns_def)

lemma returnsI: "(\<And>w x w'. w_db w = d \<Longrightarrow> m w = (Inr x, w') \<Longrightarrow> Q x (w_db w')) \<Longrightarrow> returns d m Q"
  unfolding returns_def by (rule hoareI) simp_all

lemma returns_then: "returns d m (\<lambda>x d'. returns d' (f x) Q) \<Longrightarrow> returns d (andthen m f) Q"
  by (rule returnsI) (auto elim!: andthen_InrE dest: returnsD)

lemma returns_reads:
  "reads m \<Longrightarrow> (\<And>w x w'. w_db w = d \<Longrightarrow> m w = (Inr x, w') \<Longrightarrow> returns d (f x) Q) \<Longrightarrow> returns d (andthen m f) Q"
  by (rule returnsI, erule reads_InrE, assumption) (metis (no_types, lifting) returnsD)

lemma returns_ret: "Q x d \<Longrightarrow> returns d (ret x) Q"
  by (rule returnsI) auto

lemma returns_throw: "returns d (throw e) Q"
  by (rule returnsI) simp

lemma returns_if: "(c \<Longrightarrow> returns d m Q) \<Longrightarrow> (\<not> c \<Longrightarrow> returns d n Q) \<Longrightarrow> returns d (if c then m else n) Q"
  by simp

lemma returns_wrap: "returns d m Q \<Longrightarrow> returns d (wrap p m) Q"
  by (rule returnsI) (auto simp: wrap_Inr dest: returnsD)

lemma returns_transaction: "returns d m Q \<Longrightarrow> returns d (transaction b m) Q"
  by (rule returnsI) (metis returnsD transaction_Inr)

lemma returns_check_label:
  "(labelRe l \<Longrightarrow> returns d m Q) \<Longrightarrow> returns d (andthen (check_label l wr) (\<lambda>_. m)) Q"
  by (rule returns_reads) (auto dest: check_label_valid)

lemma returns_with_secret:
  assumes "\<And>s. find_secret d l = Some s \<Longrightarrow> returns d (f s) Q"
  shows "returns d (with_secret l f) Q"
proof (rule returnsI)
  fix w x w'
  assume w: "w_db w = d" and run: "with_secret l f w = (Inr x, w')"
  from run obtain s w1 where "find_secret (w_db w) l = Some s" "w_db w1 = w_db w" "f s w1 = (Inr x, w')"
    by (rule with_secret_InrE)
  moreover from this assms w have "returns (w_db w1) (f s) Q" by simp
  ultimately show "Q x (w_db w')" by (blast intro: returnsD)
qed

lemma returns_when_free:
  assumes "find_secret d l = None \<Longrightarrow> returns d m Q"
  shows "returns d (when_free l m) Q"
proof (rule returnsI)
  fix w x w'
  assume w: "w_db w = d" and run: "when_free l m w = (Inr x, w')"
  from run obtain w1 where "find_secret (w_db w) l = None" "w_db w1 = w_db w" "m w1 = (Inr x, w')"
    by (rule when_free_InrE)
  moreover from this assms w have "returns (w_db w1) m Q" by simp
  ultimately show "Q x (w_db w')" by (blast intro: returnsD)
qed

lemma returns_Create:
  "(\<And>now. Q (t_secrets_seq d + 1) (with_row (created_row (t_secrets_seq d + 1) now sec) d)) \<Longrightarrow>
   returns d (SecretStore_Create sec) Q"
  by (rule returnsI) (auto dest: Create_Inr)

lemma returns_Update:
  "Q () (d\<lparr>t_secrets := update_where (has_label (sec_Label s)) (secret_columns s) (t_secrets d)\<rparr>) \<Longrightarrow>
   returns d (SecretStore_Update s) Q"
  by (rule returnsI) (auto dest: Update_Inr)

lemma RenameLabel_returns:
  "returns d (SecretStore_RenameLabel old new) (\<lambda>_ d'. d' = renamed_tables old new d)"
  unfolding SecretStore_RenameLabel_def
proof (rule returns_transaction, rule returns_then, rule returns_wrap, rule returnsI)
  fix w n w'
  assume w: "w_db w = d" and run: "rename_secret_row old new w = (Inr n, w')"
  let ?d1 = "d\<lparr>t_secrets := update_where (has_label old) (\<lambda>r. r\<lparr>row_label := new\<rparr>) (t_secrets d)\<rparr>"
  let ?d2 = "?d1\<lparr>t_traffic_user :=
    update_where (\<lambda>r. tu_label r = old) (\<lambda>r. r\<lparr>tu_label := new\<rparr>) (t_traffic_user d)\<rparr>"
  have history: "returns ?d2 (andthen (wrap ''rename traffic_history'' (rename_traffic_history old new))
      (\<lambda>_. tx_step)) (\<lambda>_ d'. d' = renamed_tables old new d)"
    by (intro returns_then returns_wrap returnsI)
      (auto dest!: rename_traffic_history_Inr readsD [OF tx_step_reads] simp: renamed_tables_def)
  have "returns ?d1 (andthen (wrap ''rename traffic_user'' (rename_traffic_user old new)) (\<lambda>_.
      andthen (wrap ''rename traffic_history'' (rename_traffic_history old new)) (\<lambda>_. tx_step)))
      (\<lambda>_ d'. d' = renamed_tables old new d)"
    by (rule returns_then, rule returns_wrap, rule returnsI)
      (use history in \<open>auto dest!: rename_traffic_user_Inr\<close>)
  with rename_secret_row_Inr [OF run] w
  show "returns (w_db w') (if n = 0 then throw ErrNoRows else
      andthen (wrap ''rename traffic_user'' (rename_traffic_user old new)) (\<lambda>_.
      andthen (wrap ''rename traffic_history'' (rename_traffic_history old new)) (\<lambda>_. tx_step)))
      (\<lambda>_ d'. d' = renamed_tables old new d)"
    by (auto intro!: returns_if returns_throw)
qed

definition added :: "string \<Rightarrow> string \<Rightarrow> db \<Rightarrow> secret \<Rightarrow> db \<Rightarrow> bool" where
  "added l k d s d' \<longleftrightarrow>
     labelRe l \<and> find_secret d l = None \<and> secret_count d < MaxSecrets \<and>
     ValidateSecretKey (sec_SecretKey s) \<and> (k \<noteq> [] \<longrightarrow> sec_SecretKey s = k) \<and>
     (\<exists>now now'. s = empty_secret\<lparr>sec_Label := l, sec_SecretKey := sec_SecretKey s, sec_Enabled := True,
          sec_CreatedAt := unix now, sec_ID := t_secrets_seq d + 1\<rparr> \<and>
        d' = with_row (created_row (t_secrets_seq d + 1) now' s) d)"

lemma Add_returns: "returns d (SecretService_Add l k) (added l k d)"
  unfolding SecretService_Add_def Let_def
proof (rule returns_check_label, rule returns_reads)
  fix w n w'
  assume l: "labelRe l" and w: "w_db w = d"
    and "wrap ''count secrets'' SecretStore_Count w = (Inr n, w')"
  then have n: "n = secret_count d" using Count_value [of w n w'] by (simp add: wrap_Inr)
  show "returns d (if MaxSecrets \<le> n then throw too_many else when_free l (
       andthen (if k = [] then wrap ''generate secret'' GenerateSecret
                else if \<not> ValidateSecretKey k
                then throw (ErrMsg ''secret key must be 32 hex characters'')
                else ret k) (\<lambda>key. andthen clock (\<lambda>now.
       andthen (wrap ''create secret'' (SecretStore_Create (empty_secret\<lparr>sec_Label := l,
         sec_SecretKey := key, sec_Enabled := True, sec_CreatedAt := unix now\<rparr>))) (\<lambda>i.
       ret (empty_secret\<lparr>sec_Label := l, sec_SecretKey := key, sec_Enabled := True,
         sec_CreatedAt := unix now, sec_ID := i\<rparr>)))))) (added l k d)"
  proof (rule returns_if [OF returns_throw returns_when_free], rule returns_reads)
    fix w key w'
    assume room: "\<not> MaxSecrets \<le> n" and free: "find_secret d l = None"
      and "(if k = [] then wrap ''generate secret'' GenerateSecret
            else if \<not> ValidateSecretKey k
            then throw (ErrMsg ''secret key must be 32 hex characters'') else ret k) w = (Inr key, w')"
    then have "ValidateSecretKey key" "k \<noteq> [] \<longrightarrow> key = k"
      by (auto simp: wrap_Inr dest: GenerateSecret_valid split: if_splits)
    with l n room free show "returns d (andthen clock (\<lambda>now.
       andthen (wrap ''create secret'' (SecretStore_Create (empty_secret\<lparr>sec_Label := l,
         sec_SecretKey := key, sec_Enabled := True, sec_CreatedAt := unix now\<rparr>))) (\<lambda>i.
       ret (empty_secret\<lparr>sec_Label := l, sec_SecretKey := key, sec_Enabled := True,
         sec_CreatedAt := unix now, sec_ID := i\<rparr>)))) (added l k d)"
      by (intro returns_reads returns_then returns_wrap returns_Create returns_ret reads_clock)
        (auto simp: added_def created_row_def empty_secret_def)
  qed auto
qed simp

definition set_keys :: "string \<Rightarrow> (secret_row \<Rightarrow> secret_row) \<Rightarrow> db \<Rightarrow> db" where
  "set_keys l f d = d\<lparr>t_secrets := update_where (has_label l) f (t_secrets d)\<rparr>"

lemma Rotate_returns:
  assumes "secrets_wf d"
  shows "returns d (SecretService_Rotate l) (\<lambda>s d'. ValidateSecretKey (sec_SecretKey s) \<and>
    d' = set_keys l (\<lambda>r. r\<lparr>row_secret_key := sec_SecretKey s\<rparr>) d)"
  unfolding SecretService_Rotate_def Let_def
proof (rule returns_with_secret, rule returns_reads)
  fix s w k w'
  assume s: "find_secret d l = Some s" and "wrap ''generate secret'' GenerateSecret w = (Inr k, w')"
  then have k: "ValidateSecretKey k" by (simp add: wrap_Inr GenerateSecret_valid)
  have "update_where (has_label l) (secret_columns (s\<lparr>sec_SecretKey := k\<rparr>)) (t_secrets d)
      = update_where (has_label l) (\<lambda>r. r\<lparr>row_secret_key := k\<rparr>) (t_secrets d)"
    by (rule write_back_rows [OF assms s]) (simp add: secret_columns_def)
  with k find_has_label [OF s]
  show "returns d (andthen (wrap ''update secret'' (SecretStore_Update (s\<lparr>sec_SecretKey := k\<rparr>)))
      (\<lambda>_. ret (s\<lparr>sec_SecretKey := k\<rparr>))) (\<lambda>s d'. ValidateSecretKey (sec_SecretKey s) \<and>
    d' = set_keys l (\<lambda>r. r\<lparr>row_secret_key := sec_SecretKey s\<rparr>) d)"
    by (intro returns_then returns_wrap returns_Update returns_ret) (simp add: set_keys_def)
qed simp

lemma SetLimits_returns:
  assumes "secrets_wf d"
  shows "returns d (SecretService_SetLimits l lm) (\<lambda>_ d'. lim_maxConns lm \<le> maxLimit \<and>
    lim_maxIPs lm \<le> maxLimit \<and> d' = set_keys l (apply_limits lm) d)"
  unfolding SecretService_SetLimits_def
proof (rule returns_with_secret)
  fix s
  assume s: "find_secret d l = Some s"
  show "returns d (case limited lm s of Inl e \<Rightarrow> throw e | Inr sec \<Rightarrow> SecretStore_Update sec)
    (\<lambda>_ d'. lim_maxConns lm \<le> maxLimit \<and> lim_maxIPs lm \<le> maxLimit \<and>
       d' = set_keys l (apply_limits lm) d)"
  proof (cases "limited lm s")
    case (Inl e)
    then show ?thesis by (simp add: returns_throw)
  next
    case (Inr s')
    then have le: "lim_maxConns lm \<le> maxLimit" "lim_maxIPs lm \<le> maxLimit"
      unfolding limited_def by (force simp: maxLimit_def split: if_split_asm)+
    have "update_where (has_label l) (secret_columns s') (t_secrets d)
        = update_where (has_label l) (apply_limits lm) (t_secrets d)"
      by (rule write_back_rows [OF assms s]) (rule limited_Inr [OF Inr])
    with le limited_keeps [OF Inr] find_has_label [OF s] Inr show ?thesis
      by (auto intro!: returns_Update simp: set_keys_def)
  qed
qed

text \<open>The row a clone adds: the source's settings but for the two rate limits.\<close>

definition cloned :: "string \<Rightarrow> string \<Rightarrow> db \<Rightarrow> db \<Rightarrow> bool" where
  "cloned src l d d' \<longleftrightarrow>
     (\<exists>s r. find_secret d src = Some s \<and> find_secret d l = None \<and> labelRe l \<and> d' = with_row r d \<and>
        row_id r = t_secrets_seq d + 1 \<and> row_label r = l \<and> ValidateSecretKey (row_secret_key r) \<and>
        row_enabled r = sec_Enabled s \<and> row_max_conns r = sec_MaxConns s \<and>
        row_max_ips r = sec_MaxIPs s \<and> row_quota_bytes r = sec_QuotaBytes s \<and>
        row_expires_at r = sec_ExpiresAt s \<and> row_notes r = sec_Notes s \<and>
        row_tags r = sec_Tags s \<and> row_archived_at r = 0 \<and>
        row_rate_limit_up_bps r = 0 \<and> row_rate_limit_down_bps r = 0)"

lemma Clone_returns: "returns d (SecretService_Clone src l) (\<lambda>_. cloned src l d)"
  unfolding SecretService_Clone_def Let_def
  by (rule returns_check_label, rule returns_when_free, rule returns_reads, simp,
      rule returns_if [OF returns_throw returns_with_secret], rule returns_reads, simp,
      rule returns_reads, simp, rule returns_then, rule returns_Create, rule returns_ret)
    (auto simp: cloned_def created_row_def empty_secret_def wrap_Inr dest: GenerateSecret_valid
      intro!: exI conjI [OF refl])

lemma Rename_returns:
  "returns d (SecretService_Rename old new) (\<lambda>_ d'. labelRe new \<and> find_secret d new = None \<and>
     d' = renamed_tables old new d)"
  unfolding SecretService_Rename_def
proof (rule returns_check_label, rule returns_with_secret, rule returns_when_free)
  assume "labelRe new" "find_secret d new = None"
  then show "returns d (SecretStore_RenameLabel old new) (\<lambda>_ d'. labelRe new \<and>
      find_secret d new = None \<and> d' = renamed_tables old new d)"
    by (intro returnsI) (auto dest: returnsD [OF RenameLabel_returns])
qed

text \<open>Every entry of an import ends in exactly one list.\<close>

definition outcomes :: "import_result \<Rightarrow> nat" where
  "outcomes r = length (imp_Imported r) + length (imp_Skipped r) + length (imp_Errors r)"

lemma import_one_outcomes: "import_one e res w = (Inr res', w') \<Longrightarrow> outcomes res' = Suc (outcomes res)"
  by (auto simp: import_one_def import_create_def import_error_def outcomes_def elim!: andthen_InrE
      split: if_splits option.splits sum.splits)

lemma import_loop_outcomes:
  "each import_one es res w = (Inr res', w') \<Longrightarrow> outcomes res' = length es + outcomes res"
proof (induction es arbitrary: res w)
  case (Cons e es)
  from Cons.prems obtain r1 w1 where "import_one e res w = (Inr r1, w1)"
    and "each import_one es r1 w1 = (Inr res', w')"
    unfolding each.simps by (rule andthen_InrE)
  with Cons.IH import_one_outcomes show ?case by fastforce
qed simp

subsection \<open>Properties\<close>

text \<open>
  C12: a secret that was added has a valid label that was free, a key of 32 hexadecimal digits (the
  caller's, if one was given), is enabled and without limits; it is one new row at the end of the
  table with the next number, and there was room for it.
\<close>

theorem add_success:
  assumes "SecretService_Add l k w = (Inr s, w')"
  shows "added l k (w_db w) s (w_db w')"
  by (rule returnsD [OF Add_returns assms])

text \<open>
  Rotating a secret replaces its key by a fresh one of 32 hexadecimal digits and changes
  nothing else in the database.
\<close>

theorem rotate_success:
  assumes "SecretService_Rotate l w = (Inr s, w')" "secrets_wf (w_db w)"
  shows "ValidateSecretKey (sec_SecretKey s) \<and>
    w_db w' = set_keys l (\<lambda>r. r\<lparr>row_secret_key := sec_SecretKey s\<rparr>) (w_db w)"
  by (rule returnsD [OF Rotate_returns [OF assms(2)] assms(1)])

text \<open>
  Setting the limits of one secret has on its row exactly the effect that the bulk operation
  has on each of its rows (negative numbers and an empty date leave a column alone), with the two
  counters at most a million, and changes nothing else.
\<close>

theorem set_limits_success:
  assumes "SecretService_SetLimits l lm w = (Inr u, w')" "secrets_wf (w_db w)"
  shows "lim_maxConns lm \<le> maxLimit \<and> lim_maxIPs lm \<le> maxLimit \<and>
    w_db w' = set_keys l (apply_limits lm) (w_db w)"
  by (rule returnsD [OF SetLimits_returns [OF assms(2)] assms(1)])

text \<open>
  A clone is one new row with a valid, free label, a fresh key and the source's flag, counters,
  quota, expiry date, notes and tags; both rate limits of the source are lost.
\<close>

theorem clone_success:
  assumes "SecretService_Clone src l w = (Inr c, w')"
  shows "cloned src l (w_db w) (w_db w')"
  by (rule returnsD [OF Clone_returns assms])

text \<open>
  C13: a rename that succeeds gives the secret, its traffic rows and its history the new label,
  which is valid and was free, and changes nothing else: a quota alert stays under the old label.
\<close>

theorem rename_success:
  assumes "SecretService_Rename old new w = (Inr u, w')"
  shows "labelRe new \<and> find_secret (w_db w) new = None \<and> w_db w' = renamed_tables old new (w_db w)"
  by (rule returnsD [OF Rename_returns assms])

text \<open>
  Every entry of an import is reported exactly once, as imported, as skipped or as an error.
\<close>

theorem import_reports_every_entry:
  assumes "ImportSecrets es w = (Inr res, w')"
  shows "length (imp_Imported res) + length (imp_Skipped res) + length (imp_Errors res) = length es"
proof -
  from assms obtain w1 where
    "each import_one es \<lparr>imp_Imported = [], imp_Skipped = [], imp_Errors = []\<rparr> w1 = (Inr res, w')"
    unfolding ImportSecrets_def by (auto elim!: andthen_InrE split: if_splits)
  from import_loop_outcomes [OF this] show ?thesis by (simp add: outcomes_def)
qed

end
