(* ===== verification/Panel_System.thy ===== *)
theory Panel_System
  imports Secret_Properties
begin

text \<open>
  The panel as a transition system: a step is an operation of the secret service, a run of one of
  the background jobs on traffic, quotas and expiry dates, or a change of what the environment
  decides (clock, failures, entropy, answers of the engines). A step may end in an error. The
  invariants of the registry hold in every reachable state.
\<close>

inductive panel_step :: "bool \<Rightarrow> world \<Rightarrow> world \<Rightarrow> bool" for allow_forced where
  operation: "(forced op \<longrightarrow> allow_forced) \<Longrightarrow> run_op op w = (r, w') \<Longrightarrow> panel_step allow_forced w w'"
| flush: "Flush scrape running w = (r, w') \<Longrightarrow> panel_step allow_forced w w'"
| quotas: "CheckQuotas w = (r, w') \<Longrightarrow> panel_step allow_forced w w'"
| expirations: "CheckExpirations w = (r, w') \<Longrightarrow> panel_step allow_forced w w'"
| monthly_reset: "ResetAllQuotas eng w = (r, w') \<Longrightarrow> panel_step allow_forced w w'"
| environment: "w_db w' = w_db w \<Longrightarrow> panel_step allow_forced w w'"

text \<open>Every step but the environment's is a run of one of these operations.\<close>

lemma panel_stepE:
  assumes "panel_step f w w'"
  obtains (run) m :: "unit io" and r where "m w = (r, w')"
      "(\<exists>op. m = run_op op \<and> (forced op \<longrightarrow> f)) \<or> (\<exists>scrape running. m = Flush scrape running) \<or>
       m = CheckQuotas \<or> m = CheckExpirations \<or> (\<exists>eng. m = ResetAllQuotas eng)"
  | (environment) "w_db w' = w_db w"
  using assms by (cases rule: panel_step.cases) (blast intro: run environment)+

text \<open>An invariant that every operation and every job keeps holds in all reachable states.\<close>

lemma panel_invariant:
  assumes "(panel_step f)\<^sup>*\<^sup>* w w'" "P (w_db w)"
    "\<And>op. (forced op \<longrightarrow> f) \<Longrightarrow> keeps P (run_op op)" "\<And>s r. keeps P (Flush s r)"
    "keeps P CheckQuotas" "keeps P CheckExpirations" "\<And>eng. keeps P (ResetAllQuotas eng)"
  shows "P (w_db w')"
  using assms(1,2)
proof (induction rule: rtranclp_induct)
  case (step w1 w2)
  then have "P (w_db w1)" by simp
  from step(2) show ?case
  proof (cases rule: panel_stepE)
    case (run m r)
    then have "keeps P m" using assms(3-7) by auto
    from keepsD' [OF this run(1) \<open>P (w_db w1)\<close>] show ?thesis .
  qed (simp add: \<open>P (w_db w1)\<close>)
qed simp

subsection \<open>Alerts are never withdrawn\<close>

definition alerted :: "string \<Rightarrow> int \<Rightarrow> db \<Rightarrow> bool" where
  "alerted l n d \<longleftrightarrow> (l, n) \<in> set (t_quota_alerts d)"

lemma exec_keeps_alert:
  "keeps (alerted l n) (update_secrets l1 f)" "keeps (alerted l n) (disable_id i)"
  "keeps (alerted l n) (rename_secret_row old new)" "keeps (alerted l n) (rename_traffic_user old new)"
  "keeps (alerted l n) (rename_traffic_history old new)" "keeps (alerted l n) (SecretStore_Delete l2)"
  "keeps (alerted l n) (exec_upsert l3 i3 s3)" "keeps (alerted l n) (TrafficStore_UpdateGlobal a b c e)"
  "keeps (alerted l n) (insert_history ts bi bo cn l4)" "keeps (alerted l n) (MarkAlerted l5 n5)"
  "keeps (alerted l n) (TrafficStore_ResetTraffic l6)" "keeps (alerted l n) TrafficStore_ResetAllTraffic"
  unfolding update_secrets_def disable_id_def rename_secret_row_def rename_traffic_user_def
    rename_traffic_history_def SecretStore_Delete_def exec_upsert_def TrafficStore_UpdateGlobal_def
    insert_history_def MarkAlerted_def TrafficStore_ResetTraffic_def TrafficStore_ResetAllTraffic_def
  by (auto intro!: keeps_sql_exec simp: alerted_def Let_def split: if_splits)

lemma Create_keeps_alert: "keeps (alerted l n) (SecretStore_Create sec)"
  unfolding SecretStore_Create_def
  by (intro keeps_intros keeps_sql_exec) (auto simp: alerted_def Let_def split: if_splits)

lemma store_keeps_alert:
  "keeps (alerted l n) (SecretStore_Update sec)"
  "keeps (alerted l n) (SecretStore_ExtendExpiry l1 e b)"
  "keeps (alerted l n) (SecretStore_UpdateTags l1 t)"
  "keeps (alerted l n) (SecretStore_Archive l1)"
  "keeps (alerted l n) (SecretStore_Unarchive l1)"
  "keeps (alerted l n) (SecretStore_RenameLabel l1 l2)"
  "keeps (alerted l n) SecretStore_DisableExpired"
  "keeps (alerted l n) (SecretStore_BulkExtendExpiry ls e b)"
  "keeps (alerted l n) (SecretStore_BulkRotateKeys ls ks)"
  "keeps (alerted l n) (SecretStore_BulkToggleEnabled ls b)"
  "keeps (alerted l n) (SecretStore_BulkSetLimits ls lm)"
  unfolding SecretStore_Update_def SecretStore_ExtendExpiry_def SecretStore_UpdateTags_def
    SecretStore_Archive_def SecretStore_Unarchive_def SecretStore_RenameLabel_def
    SecretStore_DisableExpired_def SecretStore_BulkExtendExpiry_def SecretStore_BulkRotateKeys_def
    SecretStore_BulkToggleEnabled_def SecretStore_BulkSetLimits_def Let_def
  by (intro keeps_intros keeps_set_limits_of exec_keeps_alert)+

lemma run_op_keeps_alert: "keeps (alerted l n) (run_op op)"
  by (cases op; simp only: run_op.simps;
      unfold SecretService_Add_def SecretService_Remove_def SecretService_Clone_def
        SecretService_Rotate_def SecretService_Toggle_def SecretService_SetLimits_def
        SecretService_UpdateNotes_def SecretService_Rename_def SecretService_Extend_def
        SecretService_DisableExpired_def SecretService_SetTags_def SecretService_Archive_def
        SecretService_Unarchive_def SecretService_BulkExtend_def SecretService_BulkRotate_def
        SecretService_BulkToggle_def SecretService_BulkSetLimits_def SecretService_ResetTraffic_def
        SecretService_ResetAllTraffic_def ImportSecrets_def import_one_def import_create_def
        Let_def prod.case;
      intro keeps_intros store_keeps_alert exec_keeps_alert Create_keeps_alert)

lemma jobs_keep_alert:
  "keeps (alerted l n) (Flush scrape running)" "keeps (alerted l n) CheckQuotas"
  "keeps (alerted l n) CheckExpirations" "keeps (alerted l n) (ResetAllQuotas eng)"
  unfolding Flush_def flushGlobal_def CheckQuotas_def checkSecretQuota_def checkQuotaExceeded_def
    checkQuotaWarning_def auto_disable_def CheckExpirations_def ResetAllQuotas_def Let_def prod.case
  by (intro keeps_intros store_keeps_alert exec_keeps_alert)+

subsection \<open>Enforcing a quota\<close>

definition user_total :: "db \<Rightarrow> string \<Rightarrow> int" where
  "user_total d l = traffic_in d l + traffic_out d l"

lemma sum_where_none: "\<not> list_ex q rs \<Longrightarrow> sum_where q f rs = 0"
  by (induction rs) auto

lemma GetUserTraffic_ok:
  "w_faults w = [] \<Longrightarrow> TrafficStore_GetUserTraffic l w =
     (Inr \<lparr>ut_Label = l, ut_BytesIn = traffic_in (w_db w) l, ut_BytesOut = traffic_out (w_db w) l\<rparr>, w)"
  by (auto simp: TrafficStore_GetUserTraffic_def andthen_def run_simps user_sum_def traffic_in_def
      traffic_out_def sum_where_none)

lemma was_alerted_ok:
  "w_faults w = [] \<Longrightarrow> was_alerted l n w = (Inr (alerted l n (w_db w)), w)"
  by (auto simp: was_alerted_def WasAlerted_def attempt_def andthen_def run_simps alerted_def
      count_where_pos_iff)

lemma quota_percent_over:
  assumes "0 < quota" "0 \<le> used" "used * 100 < 2 ^ 63"
  shows "100 \<le> quota_percent used quota \<longleftrightarrow> quota \<le> used"
proof -
  have "quota_percent used quota = used * 100 div quota"
    using assms by (simp add: quota_percent_def in_int64_def)
  moreover have "100 \<le> used * 100 div quota \<longleftrightarrow> 100 * quota \<le> used * 100"
  proof
    assume "100 \<le> used * 100 div quota"
    then have "100 * quota \<le> used * 100 div quota * quota"
      using assms(1) by (intro mult_right_mono) simp_all
    also have "\<dots> \<le> used * 100"
      using assms(1) pos_mod_sign [of quota "used * 100"] div_mult_mod_eq [of "used * 100" quota]
      by linarith
    finally show "100 * quota \<le> used * 100" .
  next
    assume "100 * quota \<le> used * 100"
    from zdiv_mono1 [OF this assms(1)] show "100 \<le> used * 100 div quota"
      using assms(1) by simp
  qed
  ultimately show ?thesis by simp
qed

text \<open>The traffic of a secret has reached its quota.\<close>

definition over_quota :: "secret \<Rightarrow> db \<Rightarrow> bool" where
  "over_quota sec d \<longleftrightarrow>
     sec_Enabled sec \<and> 0 < sec_QuotaBytes sec \<and> sec_QuotaBytes sec \<le> user_total d (sec_Label sec) \<and>
     user_total d (sec_Label sec) * 100 < 2 ^ 63"

lemma checkSecretQuota_over:
  assumes "w_faults w = []" "over_quota sec (w_db w)"
  shows "checkSecretQuota sec w = checkQuotaExceeded sec w"
proof -
  let ?t = "user_total (w_db w) (sec_Label sec)"
  have t: "0 < ?t" "?t * 100 < 2 ^ 63" "sec_Enabled sec" "0 < sec_QuotaBytes sec"
    using assms(2) by (simp_all add: over_quota_def)
  then have "int64 ?t = ?t" by (intro int64_id) (simp add: in_int64_def)
  moreover have "100 \<le> quota_percent ?t (sec_QuotaBytes sec)"
    using assms(2) t by (subst quota_percent_over) (simp_all add: over_quota_def)
  ultimately show ?thesis
    using t assms(1)
    by (simp add: checkSecretQuota_def andthen_def attempt_def GetUserTraffic_ok Let_def
        flip: user_total_def)
qed

lemma Update_ok:
  "w_faults w = [] \<Longrightarrow> SecretStore_Update s w = (Inr (), w\<lparr>w_db := (w_db w)\<lparr>t_secrets :=
     update_where (has_label (sec_Label s)) (secret_columns s) (t_secrets (w_db w))\<rparr>\<rparr>)"
  by (simp add: SecretStore_Update_def update_secrets_def andthen_def run_simps)

lemma disable_columns:
  "secret_columns (s\<lparr>sec_Enabled := False\<rparr>) r = disable_row (secret_columns s r)"
  by (simp add: secret_columns_def)

subsection \<open>Properties\<close>

text \<open>
  C1: in every state the panel reaches without a forced removal from a state in which some secret
  is enabled, the registry is well formed and some secret is still enabled: no operation, no
  background job and no failure of a statement takes the last one away.
\<close>

theorem panel_never_without_enabled_secret:
  assumes "(panel_step False)\<^sup>*\<^sup>* w w'" and "served (w_db w)"
  shows "served (w_db w')"
  by (rule panel_invariant [where P = served, OF assms])
    (simp_all add: run_op_served Flush_keeps traffic_service_keeps ResetAllQuotas_keeps)

text \<open>
  C2: forced removals included, labels and numbers stay unique, labels stay valid, traffic rows
  stay unique per secret and instance, and there are never more than 1000 secrets.
\<close>

theorem panel_registry_invariant:
  assumes "(panel_step True)\<^sup>*\<^sup>* w w'" and "registry_ok (w_db w)"
  shows "registry_ok (w_db w')"
  by (rule panel_invariant [where P = registry_ok, OF assms])
    (simp_all add: run_op_registry Flush_keeps traffic_service_keeps ResetAllQuotas_keeps)

text \<open>
  C3: an operation of the secret service that returns an error has written nothing, at whatever
  statement it failed.
\<close>

theorem operation_errors_write_nothing:
  "fst (run_op op w) = Inl e \<Longrightarrow> w_db (snd (run_op op w)) = w_db w"
  using run_op_atomic [of op] unfolding atomic_def by (metis prod.collapse)


text \<open>
  C9: once a secret was reported for reaching its quota, the quota is never enforced on its label
  again: the mark survives every later operation and job (traffic resets, the monthly reset,
  re-enabling, even removing and re-adding the secret), and with the mark a check does nothing.
\<close>

theorem quota_alert_is_never_withdrawn:
  assumes "(panel_step True)\<^sup>*\<^sup>* w w'" and "alerted l 100 (w_db w)"
    and "w_faults w' = []" "sec_Label sec = l" "over_quota sec (w_db w')"
  shows "checkSecretQuota sec w' = (Inr (), w')"
proof -
  have "alerted l 100 (w_db w')"
    by (rule panel_invariant [where P = "alerted l 100", OF assms(1,2)]) (simp_all add: run_op_keeps_alert jobs_keep_alert)
  with assms(3-5) show ?thesis
    by (simp add: checkSecretQuota_over checkQuotaExceeded_def andthen_def was_alerted_ok)
qed

end
