(* ===== verification/Witnesses.thy ===== *)
theory Witnesses
  imports Panel_System Telemt_Secret Instance_Store
begin

text \<open>
  Concrete panels at which the properties of the secret and traffic components apply, and each
  property at one of them.
\<close>

subsection \<open>A panel with two secrets\<close>

definition sample_key :: string where
  "sample_key = ''0123456789abcdef0123456789abcdef''"

definition sample_row :: "int \<Rightarrow> string \<Rightarrow> secret_row" where
  "sample_row i l = \<lparr>row_id = i, row_label = l, row_secret_key = sample_key, row_created_at = 0,
     row_enabled = True, row_max_conns = 0, row_max_ips = 0, row_quota_bytes = 1000,
     row_rate_limit_up_bps = 7, row_rate_limit_down_bps = 7, row_expires_at = [], row_notes = [],
     row_tags = ''[]'', row_archived_at = 0\<rparr>"

definition sample_traffic :: traffic_row where
  "sample_traffic = \<lparr>tu_label = ''alice'', tu_instance_id = 1, tu_bytes_in = 900,
     tu_bytes_out = 200, tu_snap_in = 0, tu_snap_out = 0\<rparr>"

definition sample_db :: db where
  "sample_db = empty_db\<lparr>t_secrets := [sample_row 1 ''alice'', sample_row 2 ''bob''],
     t_secrets_seq := 2, t_traffic_user := [sample_traffic]\<rparr>"

definition empty_host :: host where
  "empty_host = \<lparr>ho_containers = [], ho_rules = [], ho_files = [], ho_env = 0\<rparr>"

definition sample_world :: world where
  "sample_world = \<lparr>w_db = sample_db, w_faults = [], w_now = 0, w_zone = 0,
     w_entropy = replicate 16 CHR ''a'', w_http = [], w_posts = [], w_events = [],
     w_host = empty_host, w_drains = []\<rparr>"

lemmas sample_defs =
  sample_world_def sample_db_def sample_row_def sample_traffic_def empty_db_def

lemma sample_running [simp]: "w_faults sample_world = []"
  by (simp add: sample_world_def)

lemma sample_valid_label [simp]: "labelRe ''alice''" "labelRe ''bob''" "labelRe ''carol''"
  by code_simp+

lemma sample_wf [simp]: "secrets_wf (w_db sample_world)"
  by (simp add: sample_defs secrets_wf_def traffic_key_def)

lemma sample_served [simp]: "served (w_db sample_world)"
  using sample_wf by (simp add: served_def registry_ok_def has_enabled_def enabled_count_def
      labels_valid_def secret_count_def MaxSecrets_def sample_defs)

lemma sample_registry [simp]: "registry_ok (w_db sample_world)"
  using sample_served by (simp add: served_def)

lemma sample_one_operation:
  "(forced op \<longrightarrow> f) \<Longrightarrow> (panel_step f)\<^sup>*\<^sup>* w (snd (run_op op w))"
  by (rule r_into_rtranclp) (auto intro: panel_step.operation [OF _ prod.collapse [symmetric]])

lemmas sample_run = andthen_def attempt_def wrap_def ret_def throw_def sql_row_def sql_exec_def
  sql_rows_def pop_fault_def clock_def zone_def tx_step_def

subsection \<open>The properties of the panel\<close>

theorem panel_never_without_enabled_secret_witness:
  "served (w_db (snd (run_op (OpToggle ''alice'' False) sample_world)))"
  by (rule panel_never_without_enabled_secret [OF sample_one_operation sample_served]) simp

theorem panel_registry_invariant_witness:
  "registry_ok (w_db (snd (run_op (OpRemove ''bob'' True) sample_world)))"
  by (rule panel_registry_invariant [OF sample_one_operation sample_registry]) simp

theorem operation_errors_write_nothing_witness:
  "w_db (snd (run_op (OpRotate ''nobody'') sample_world)) = w_db sample_world"
  by (rule operation_errors_write_nothing [where e = "not_found ''nobody''"])
    (simp add: discard_def SecretService_Rotate_def must_exist_def SecretStore_GetByLabel_def
      sample_run find_secret_def sample_defs)


subsection \<open>A panel with one instance whose engine answers\<close>

definition sample_line :: "string \<Rightarrow> string \<Rightarrow> string" where
  "sample_line name v = name @ ''{user='' @ [dquote] @ ''alice'' @ [dquote] @ ''} '' @ v"

definition sample_text :: string where
  "sample_text = sample_line ''telemt_user_octets_from_client'' ''150'' @ [newline] @
     sample_line ''telemt_user_octets_to_client'' ''70''"

lemma sample_labels:
  "parse_labels (''user='' @ [dquote] @ ''alice'' @ [dquote]) = [(''user'', ''alice'')]"
  by code_simp

lemma sample_numbers: "ParseFloat ''150'' = Some (Fin 150)" "ParseFloat ''70'' = Some (Fin 70)"
  using round64_int [of 150] round64_int [of 70]
  by (simp_all add: ParseFloat_def parse_decimal_def take_sign_def parse_exponent_def is_digit_def)

lemma sample_metric:
  "parse_line (sample_line ''telemt_user_octets_from_client'' ''150'') =
     Some \<lparr>m_Name = ''telemt_user_octets_from_client'', m_Labels = [(''user'', ''alice'')],
           m_Value = Fin 150\<rparr>"
  "parse_line (sample_line ''telemt_user_octets_to_client'' ''70'') =
     Some \<lparr>m_Name = ''telemt_user_octets_to_client'', m_Labels = [(''user'', ''alice'')],
           m_Value = Fin 70\<rparr>"
proof -
  have *: "parse_line l = Some \<lparr>m_Name = n, m_Labels = [(''user'', ''alice'')], m_Value = Fin x\<rparr>"
    if "trim_space l = l" "l \<noteq> []" "\<not> has_prefix l ''#''"
      and "metricRe l = Some (n, ''user='' @ [dquote] @ ''alice'' @ [dquote], v)"
      and "ParseFloat v = Some (Fin x)" for l n v x
    using that sample_labels by (simp add: parse_line_def)
  show "parse_line (sample_line ''telemt_user_octets_from_client'' ''150'') =
     Some \<lparr>m_Name = ''telemt_user_octets_from_client'', m_Labels = [(''user'', ''alice'')],
           m_Value = Fin 150\<rparr>"
  proof (rule * [where v = "''150''"])
    show "trim_space (sample_line ''telemt_user_octets_from_client'' ''150'') =
        sample_line ''telemt_user_octets_from_client'' ''150''"
      by (rule trim_space_ascii) (simp_all add: sample_line_def dquote_def is_space_def)
  qed (simp add: sample_line_def, simp add: sample_line_def, code_simp, rule sample_numbers)
  show "parse_line (sample_line ''telemt_user_octets_to_client'' ''70'') =
     Some \<lparr>m_Name = ''telemt_user_octets_to_client'', m_Labels = [(''user'', ''alice'')],
           m_Value = Fin 70\<rparr>"
  proof (rule * [where v = "''70''"])
    show "trim_space (sample_line ''telemt_user_octets_to_client'' ''70'') =
        sample_line ''telemt_user_octets_to_client'' ''70''"
      by (rule trim_space_ascii) (simp_all add: sample_line_def dquote_def is_space_def)
  qed (simp add: sample_line_def, simp add: sample_line_def, code_simp, rule sample_numbers)
qed

definition sample_inst :: inst where
  "sample_inst = \<lparr>inst_ID = 1, inst_Port = 443, inst_MetricsPort = 9090, inst_Enabled = True,
     inst_Label = ''main'', inst_ActivePort = 0, inst_ActiveMetricsPort = 0,
     inst_TLSDomain = ''example.com'', inst_TLSDomains = [], inst_FakeTLS = True,
     inst_MaskHost = [], inst_MaskPort = 443, inst_UnknownSNIAction = ''drop'',
     inst_ExclusiveMask = [], inst_Tags = [], inst_TCPMSSEnabled = False, inst_TCPMSS = 92,
     inst_TCPMSSBulk = 1400, inst_TLSFronting = True, inst_APIPort = 0\<rparr>"

lemma sample_observed:
  "observed [] sample_inst ''alice'' (\<lambda>_. Some sample_text) = Some (150, 70)"
proof -
  have "newline \<notin> set (sample_line ''telemt_user_octets_from_client'' ''150'')"
    "newline \<notin> set (sample_line ''telemt_user_octets_to_client'' ''70'')"
    by (simp_all add: sample_line_def newline_def dquote_def)
  then have "split_char newline sample_text =
     [sample_line ''telemt_user_octets_from_client'' ''150'',
      sample_line ''telemt_user_octets_to_client'' ''70'']"
    by (simp add: sample_text_def split_char_append split_char_absent)
  then show ?thesis
    by (simp add: observed_def scrape_instance_def FetchAndParse_def ParseMetrics_def
        List.map_filter_def sample_metric ExtractTelemtMetrics_def extract_step_def set_scalar_def
        user_field_def get_user_def octets_in_def octets_out_def no_metrics_def no_user_def
        truncate_rat_def in_int64_range_def)
qed


subsection \<open>The properties of the traffic accounting\<close>

lemma sample_snapshots:
  "stored_snap (w_db sample_world) ''alice'' (inst_ID sample_inst) = (0, 0)"
  "stored_bytes (w_db sample_world) ''alice'' (inst_ID sample_inst) = (900, 200)"
  by (simp_all add: stored_snap_def stored_bytes_def traffic_row_of_def sample_inst_def sample_defs)

lemma sample_missed: "observed [] i l (\<lambda>_. None) = None"
  by (simp add: observed_def scrape_instance_def FetchAndParse_def)

definition sample_global :: snapshot where
  "sample_global = \<lparr>snap_BytesIn = 100, snap_BytesOut = 0, snap_SnapIn = 100, snap_SnapOut = 0\<rparr>"

theorem flush_adds_increments_witness:
  "stored_bytes (w_db (snd (flushInstance (\<lambda>_. Some sample_text) [] sample_inst acc_init sample_world)))
     ''alice'' (inst_ID sample_inst) = (1050, 270)"
  using flush_adds_increments [OF sample_running sample_observed, where acc = acc_init]
  by (simp add: sample_snapshots counter_ok_def in_int64_def)

theorem flushes_count_everything_once_witness:
  "stored_bytes (w_db (flush_all [] sample_inst acc_init
       [\<lambda>_. Some sample_text, \<lambda>_. None, \<lambda>_. Some sample_text] sample_world))
     ''alice'' (inst_ID sample_inst) = (1050, 270)"
  using flushes_count_everything_once [where w = sample_world and p = "(0, 0)" and l = "''alice''"
    and i = sample_inst and running = "[]" and acc = acc_init
    and ss = "[\<lambda>_. Some sample_text, \<lambda>_. None, \<lambda>_. Some sample_text]"]
  by (simp add: sample_snapshots counter_ok_def in_int64_def List.map_filter_def sample_observed
      sample_missed)

theorem failed_snapshot_read_counts_again_witness:
  "stored_bytes (w_db (snd (flushInstance (\<lambda>_. Some sample_text) [] sample_inst acc_init
     (sample_world\<lparr>w_faults := [Some (FQuery ''disk I/O error'')]\<rparr>)))) ''alice'' (inst_ID sample_inst)
   = (1050, 270)"
  using failed_snapshot_read_counts_again [OF _ sample_observed, where acc = acc_init
    and w = "sample_world\<lparr>w_faults := [Some (FQuery ''disk I/O error'')]\<rparr>"]
  by (simp add: sample_snapshots counter_ok_def in_int64_def)



subsection \<open>The properties of the secret service\<close>

lemma sample_succeeds:
  "fst (m w) = Inr x \<Longrightarrow> (\<And>w'. m w = (Inr x, w') \<Longrightarrow> P (w_db w')) \<Longrightarrow> P (w_db (snd (m w)))"
  by (cases "m w") auto

lemmas sample_eval = sample_run must_exist_def must_not_exist_def check_label_def ValidateLabel_def
  SecretStore_GetByLabel_def SecretStore_Count_def SecretStore_CountEnabled_def SecretStore_Create_def
  SecretStore_Update_def update_secrets_def find_secret_def GenerateSecret_def MaxSecrets_def
  Let_def

theorem add_success_witness:
  "\<exists>s. added ''carol'' [] sample_db s (w_db (snd (SecretService_Add ''carol'' [] sample_world)))"
proof -
  have "\<exists>s. fst (SecretService_Add ''carol'' [] sample_world) = Inr s"
    by (simp add: SecretService_Add_def sample_eval sample_defs scan_secret_def)
  then obtain s w' where "SecretService_Add ''carol'' [] sample_world = (Inr s, w')"
    by (metis prod.collapse)
  from add_success [OF this] this show ?thesis by (auto simp: sample_world_def)
qed

theorem rotate_success_witness:
  "\<exists>k. ValidateSecretKey k \<and> w_db (snd (SecretService_Rotate ''bob'' sample_world)) =
     set_keys ''bob'' (\<lambda>r. r\<lparr>row_secret_key := k\<rparr>) sample_db"
proof -
  have "\<exists>s. fst (SecretService_Rotate ''bob'' sample_world) = Inr s"
    by (simp add: SecretService_Rotate_def sample_eval sample_defs scan_secret_def)
  then obtain s w' where "SecretService_Rotate ''bob'' sample_world = (Inr s, w')"
    by (metis prod.collapse)
  from rotate_success [OF this sample_wf] this show ?thesis by (auto simp: sample_world_def)
qed

definition sample_limits :: limits where
  "sample_limits = \<lparr>lim_maxConns = 10, lim_maxIPs = -1, lim_quotaBytes = -1, lim_expiresAt = [],
     lim_rateLimitUpBps = -1, lim_rateLimitDownBps = -1\<rparr>"

lemma sample_limited: "limited sample_limits s = Inr (s\<lparr>sec_MaxConns := 10\<rparr>)"
  by (simp add: limited_def sample_limits_def maxLimit_def)

theorem set_limits_success_witness:
  "w_db (snd (SecretService_SetLimits ''bob'' sample_limits sample_world)) =
     set_keys ''bob'' (apply_limits sample_limits) sample_db"
proof -
  have "\<exists>u. fst (SecretService_SetLimits ''bob'' sample_limits sample_world) = Inr u"
    by (simp add: SecretService_SetLimits_def sample_limited sample_eval sample_defs scan_secret_def)
  then obtain u w' where "SecretService_SetLimits ''bob'' sample_limits sample_world = (Inr u, w')"
    by (metis prod.collapse)
  from set_limits_success [OF this sample_wf] this show ?thesis by (auto simp: sample_world_def)
qed

theorem clone_success_witness:
  "cloned ''bob'' ''carol'' sample_db (w_db (snd (SecretService_Clone ''bob'' ''carol'' sample_world)))"
proof -
  have "\<exists>u. fst (SecretService_Clone ''bob'' ''carol'' sample_world) = Inr u"
    by (simp add: SecretService_Clone_def sample_eval sample_defs scan_secret_def)
  then obtain u w' where "SecretService_Clone ''bob'' ''carol'' sample_world = (Inr u, w')"
    by (metis prod.collapse)
  from clone_success [OF this] this show ?thesis by (auto simp: sample_world_def)
qed

theorem rename_success_witness:
  "w_db (snd (SecretService_Rename ''bob'' ''carol'' sample_world)) =
     renamed_tables ''bob'' ''carol'' sample_db"
proof -
  have "\<exists>u. fst (SecretService_Rename ''bob'' ''carol'' sample_world) = Inr u"
    by (simp add: SecretService_Rename_def SecretStore_RenameLabel_def rename_secret_row_def
        rename_traffic_user_def rename_traffic_history_def transaction_def traffic_key_def
        sample_eval sample_defs scan_secret_def)
  then obtain u w' where "SecretService_Rename ''bob'' ''carol'' sample_world = (Inr u, w')"
    by (metis prod.collapse)
  from rename_success [OF this] this show ?thesis by (auto simp: sample_world_def)
qed

theorem import_reports_every_entry_witness:
  "\<exists>res w'. ImportSecrets [empty_secret\<lparr>sec_Label := ''alice''\<rparr>] sample_world = (Inr res, w') \<and>
     length (imp_Imported res) + length (imp_Skipped res) + length (imp_Errors res) = 1"
proof -
  have "\<exists>u. fst (ImportSecrets [empty_secret\<lparr>sec_Label := ''alice''\<rparr>] sample_world) = Inr u"
    by (simp add: ImportSecrets_def import_one_def sample_eval sample_defs scan_secret_def
        empty_secret_def)
  then obtain res w' where *: "ImportSecrets [empty_secret\<lparr>sec_Label := ''alice''\<rparr>] sample_world = (Inr res, w')"
    by (metis prod.collapse)
  from import_reports_every_entry [OF *] * show ?thesis by auto
qed


subsection \<open>Quotas, expiry dates and ports\<close>

definition sample_alice :: secret where
  "sample_alice = scan_secret sample_db (sample_row 1 ''alice'')"

lemma sample_over:
  "over_quota sample_alice sample_db" "sec_Label sample_alice = ''alice''"
  "find_secret sample_db ''alice'' = Some sample_alice"
  by (simp_all add: over_quota_def sample_alice_def scan_secret_def user_total_def traffic_in_def
      traffic_out_def find_secret_def sample_defs)


theorem quota_alert_is_never_withdrawn_witness:
  "checkSecretQuota sample_alice
     (sample_world\<lparr>w_db := sample_db\<lparr>t_quota_alerts := [(''alice'', 100)]\<rparr>\<rparr>) =
   (Inr (), sample_world\<lparr>w_db := sample_db\<lparr>t_quota_alerts := [(''alice'', 100)]\<rparr>\<rparr>)"
proof (rule quota_alert_is_never_withdrawn [OF rtranclp.rtrancl_refl])
  show "over_quota sample_alice
     (w_db (sample_world\<lparr>w_db := sample_db\<lparr>t_quota_alerts := [(''alice'', 100)]\<rparr>\<rparr>))"
    using sample_over(1)
    by (simp add: over_quota_def user_total_def traffic_in_def traffic_out_def sample_db_def)
qed (simp_all add: alerted_def sample_over)

definition sample_expired :: world where
  "sample_expired = sample_world\<lparr>w_now := 1000000 * second, w_db := sample_db\<lparr>t_secrets :=
     [sample_row 1 ''alice'', (sample_row 2 ''bob'')\<lparr>row_expires_at := ''1''\<rparr>]\<rparr>\<rparr>"

theorem disable_expired_result_witness:
  "fst (SecretStore_DisableExpired sample_expired) = Inr 1"
proof -
  have "parseExpiry ''1'' = Some second" by code_simp
  then have "ids_to_disable (w_now sample_expired) (w_db sample_expired) = [2]"
    by (simp add: ids_to_disable_def expired_ids_def expired_row_def expiry_past_def
        sample_expired_def sample_defs second_def enabled_count_def)
  moreover have "secrets_wf (w_db sample_expired)"
    by (simp add: sample_expired_def sample_defs secrets_wf_def traffic_key_def)
  ultimately show ?thesis
    using disable_expired_result [of sample_expired] by (simp add: sample_expired_def)
qed

definition sample_instances :: world where
  "sample_instances = sample_world\<lparr>w_db := sample_db\<lparr>t_instances := [sample_inst], t_instances_seq := 1\<rparr>\<rparr>"

theorem backfill_assigns_fresh_ports_witness:
  "fst (BackfillAPIPorts sample_instances) = Inr (1, None)"
proof -
  have "w_faults sample_instances = []" "instances_wf (w_db sample_instances)"
    by (simp_all add: sample_instances_def instances_wf_def sample_inst_def sample_db_def port_ok_def)
  from backfill_assigns_fresh_ports [OF this] show ?thesis
    by (auto simp: sample_instances_def sample_inst_def)
qed

end
