(* ===== verification/Settings_Model.thy ===== *)
theory Settings_Model
  imports Go_Strings
begin

text \<open>
  \<^verbatim>\<open>internal/model/settings.go\<close>: the settings of the panel, their defaults and the
  correction of values out of range.
\<close>

record settings =
  st_ProxyPort :: int
  st_ProxyMetricsPort :: int
  st_ProxyDomain :: string
  st_ProxyConcurrency :: int
  st_ProxyCPUs :: string
  st_ProxyMemory :: string
  st_CustomIP :: string
  st_FakeCertLen :: int
  st_ProxyProtocol :: bool
  st_ProxyProtocolTrustedCIDRs :: string
  st_AdTag :: string
  st_UseMiddleProxy :: bool
  st_GeoblockMode :: string
  st_BlocklistCountries :: string
  st_MaskingEnabled :: bool
  st_MaskingHost :: string
  st_MaskingPort :: int
  st_MaskingRelayMaxBytes :: int
  st_UnknownSNIAction :: string
  st_ProxySecretURL :: string
  st_ProxyConfigV4URL :: string
  st_ProxyConfigV6URL :: string
  st_TelegramEnabled :: bool
  st_TelegramBotToken :: string
  st_TelegramChatID :: string
  st_TelegramInterval :: int
  st_TelegramAlertsEnabled :: bool
  st_TelegramServerLabel :: string
  st_WebURL :: string
  st_AutoUpdateEnabled :: bool
  st_SecretAutoRotateDays :: int
  st_MaintenanceMode :: bool
  st_ReplicationEnabled :: bool
  st_ReplicationRole :: string
  st_ReplicationSyncInterval :: int
  st_ReplicationSSHPort :: int
  st_ReplicationSSHUser :: string
  st_ReplicationDeleteExtra :: bool
  st_ReplicationSSHKeyPath :: string
  st_ReplicationExclude :: string
  st_ReplicationRestartOnChange :: bool
  st_ReplicationLog :: string
  st_Debug :: bool
  st_BackupRetentionDays :: int
  st_TelemtVersion :: string
  st_TelemtCommit :: string
  st_TelemtRepo :: string
  st_SynlimitEnabled :: bool
  st_SynlimitBackend :: string
  st_SynlimitSeconds :: int
  st_SynlimitHitcount :: int
  st_SynlimitBurst :: int
  st_SysctlOptimizationsEnabled :: bool
  st_OriginalQdisc :: string
  st_OriginalCongestionControl :: string
  st_OriginalFastOpen :: string

definition DefaultSettings :: settings where
  "DefaultSettings = \<lparr>
     st_ProxyPort = 443, st_ProxyMetricsPort = 9090, st_ProxyDomain = ''cloudflare.com'',
     st_ProxyConcurrency = 8192, st_ProxyCPUs = [], st_ProxyMemory = [], st_CustomIP = [],
     st_FakeCertLen = 2048, st_ProxyProtocol = False, st_ProxyProtocolTrustedCIDRs = [],
     st_AdTag = [], st_UseMiddleProxy = True, st_GeoblockMode = ''blacklist'',
     st_BlocklistCountries = [], st_MaskingEnabled = True, st_MaskingHost = [],
     st_MaskingPort = 443, st_MaskingRelayMaxBytes = 0, st_UnknownSNIAction = ''mask'',
     st_ProxySecretURL = [], st_ProxyConfigV4URL = [], st_ProxyConfigV6URL = [],
     st_TelegramEnabled = False, st_TelegramBotToken = [], st_TelegramChatID = [],
     st_TelegramInterval = 6, st_TelegramAlertsEnabled = True,
     st_TelegramServerLabel = ''PopuGate'', st_WebURL = [], st_AutoUpdateEnabled = True,
     st_SecretAutoRotateDays = 0, st_MaintenanceMode = False, st_ReplicationEnabled = False,
     st_ReplicationRole = ''standalone'', st_ReplicationSyncInterval = 60,
     st_ReplicationSSHPort = 22, st_ReplicationSSHUser = ''root'',
     st_ReplicationDeleteExtra = True, st_ReplicationSSHKeyPath = [],
     st_ReplicationExclude = ''relay_stats,backups,connection.log,.ssh,settings.db,replication'',
     st_ReplicationRestartOnChange = True, st_ReplicationLog = [], st_Debug = False,
     st_BackupRetentionDays = 7, st_TelemtVersion = [], st_TelemtCommit = [], st_TelemtRepo = [],
     st_SynlimitEnabled = False, st_SynlimitBackend = ''nftables'', st_SynlimitSeconds = 60,
     st_SynlimitHitcount = 48, st_SynlimitBurst = 1, st_SysctlOptimizationsEnabled = False,
     st_OriginalQdisc = [], st_OriginalCongestionControl = [], st_OriginalFastOpen = []\<rparr>"

definition validPort :: "int \<Rightarrow> int \<Rightarrow> int" where
  "validPort port fallback = (if port < 1 \<or> 65535 < port then fallback else port)"

fun validEnum :: "string \<Rightarrow> string list \<Rightarrow> string \<Rightarrow> string" where
  "validEnum val [] fallback = fallback"
| "validEnum val (a # allowed) fallback = (if val = a then val else validEnum val allowed fallback)"

definition atLeast_or :: "int \<Rightarrow> int \<Rightarrow> int \<Rightarrow> int" where
  "atLeast_or least fallback n = (if n < least then fallback else n)"

definition Settings_Validate :: "settings \<Rightarrow> settings" where
  "Settings_Validate s = s\<lparr>
     st_ProxyPort := validPort (st_ProxyPort s) 443,
     st_ProxyMetricsPort := validPort (st_ProxyMetricsPort s) 9090,
     st_ProxyConcurrency := atLeast_or 1 8192 (st_ProxyConcurrency s),
     st_FakeCertLen := atLeast_or 512 2048 (st_FakeCertLen s),
     st_MaskingPort := validPort (st_MaskingPort s) 443,
     st_UnknownSNIAction := validEnum (st_UnknownSNIAction s) [''drop'', ''mask''] ''mask'',
     st_GeoblockMode := validEnum (st_GeoblockMode s) [''whitelist'', ''blacklist''] ''blacklist'',
     st_TelegramInterval := atLeast_or 1 6 (st_TelegramInterval s),
     st_ReplicationRole :=
       validEnum (st_ReplicationRole s) [''standalone'', ''master'', ''slave''] ''standalone'',
     st_ReplicationSyncInterval := atLeast_or 10 60 (st_ReplicationSyncInterval s),
     st_ReplicationSSHPort := validPort (st_ReplicationSSHPort s) 22,
     st_BackupRetentionDays := atLeast_or 1 7 (st_BackupRetentionDays s),
     st_SecretAutoRotateDays := atLeast_or 0 0 (st_SecretAutoRotateDays s),
     st_SynlimitBackend := validEnum (st_SynlimitBackend s) [''nftables'', ''iptables''] ''nftables'',
     st_SynlimitSeconds := atLeast_or 1 60 (st_SynlimitSeconds s),
     st_SynlimitHitcount := atLeast_or 1 48 (st_SynlimitHitcount s),
     st_SynlimitBurst := atLeast_or 1 1 (st_SynlimitBurst s)\<rparr>"

subsection \<open>What a correction establishes\<close>

definition port_range :: "int \<Rightarrow> bool" where
  "port_range p \<longleftrightarrow> 1 \<le> p \<and> p \<le> 65535"

definition settings_ok :: "settings \<Rightarrow> bool" where
  "settings_ok s \<longleftrightarrow>
     port_range (st_ProxyPort s) \<and> port_range (st_ProxyMetricsPort s) \<and>
     1 \<le> st_ProxyConcurrency s \<and> 512 \<le> st_FakeCertLen s \<and> port_range (st_MaskingPort s) \<and>
     st_UnknownSNIAction s \<in> {''drop'', ''mask''} \<and>
     st_GeoblockMode s \<in> {''whitelist'', ''blacklist''} \<and> 1 \<le> st_TelegramInterval s \<and>
     st_ReplicationRole s \<in> {''standalone'', ''master'', ''slave''} \<and>
     10 \<le> st_ReplicationSyncInterval s \<and> port_range (st_ReplicationSSHPort s) \<and>
     1 \<le> st_BackupRetentionDays s \<and> 0 \<le> st_SecretAutoRotateDays s \<and>
     st_SynlimitBackend s \<in> {''nftables'', ''iptables''} \<and> 1 \<le> st_SynlimitSeconds s \<and>
     1 \<le> st_SynlimitHitcount s \<and> 1 \<le> st_SynlimitBurst s"

lemma validPort_range: "port_range fb \<Longrightarrow> port_range (validPort p fb)"
  by (simp add: validPort_def port_range_def)

lemma validPort_id: "port_range p \<Longrightarrow> validPort p fb = p"
  by (simp add: validPort_def port_range_def)

lemma validEnum_in: "fb \<in> set as \<Longrightarrow> validEnum v as fb \<in> set as"
proof -
  have "validEnum v as fb \<in> insert fb (set as)" by (induction as) auto
  then show "fb \<in> set as \<Longrightarrow> validEnum v as fb \<in> set as" by auto
qed

lemma port_range_defaults: "port_range 443" "port_range 9090" "port_range 22"
  by (simp_all add: port_range_def)

lemma validEnum_id: "v \<in> set as \<Longrightarrow> validEnum v as fb = v"
  by (induction as) auto

lemma atLeast_or_ge: "least \<le> fb \<Longrightarrow> least \<le> atLeast_or least fb n"
  by (simp add: atLeast_or_def)

lemma atLeast_or_id: "least \<le> n \<Longrightarrow> atLeast_or least fb n = n"
  by (simp add: atLeast_or_def)

lemma Settings_Validate_ok: "settings_ok (Settings_Validate s)"
  using validEnum_in [of "''mask''" "[''drop'', ''mask'']" "st_UnknownSNIAction s"]
    validEnum_in [of "''blacklist''" "[''whitelist'', ''blacklist'']" "st_GeoblockMode s"]
    validEnum_in [of "''standalone''" "[''standalone'', ''master'', ''slave'']" "st_ReplicationRole s"]
    validEnum_in [of "''nftables''" "[''nftables'', ''iptables'']" "st_SynlimitBackend s"]
  unfolding settings_ok_def Settings_Validate_def
  by (simp add: validPort_range atLeast_or_ge port_range_defaults del: validEnum.simps)

lemma Settings_Validate_id: "settings_ok s \<Longrightarrow> Settings_Validate s = s"
  by (cases s) (auto simp: settings_ok_def Settings_Validate_def validPort_id atLeast_or_id)

end
