(* ===== verification/Settings_Store.thy ===== *)
theory Settings_Store
  imports Settings_Model Secret_Store
begin

text \<open>
  \<^verbatim>\<open>internal/store/settings_store.go\<close>: the key-value table of settings, read as a whole
  into the settings record, written in one transaction, and the signing key that is made on first
  use. The contract of a key-value store is a locale, of which the table is an instance.
\<close>

subsection \<open>Reading values\<close>

definition getInt :: "(string \<times> string) list \<Rightarrow> string \<Rightarrow> int \<Rightarrow> int" where
  "getInt m key def =
     (case map_of m key of
        None \<Rightarrow> def
      | Some v \<Rightarrow> if v = [] then def else (case atoi v of None \<Rightarrow> def | Some n \<Rightarrow> n))"

definition getInt64 :: "(string \<times> string) list \<Rightarrow> string \<Rightarrow> int \<Rightarrow> int" where
  "getInt64 m key def =
     (case map_of m key of
        None \<Rightarrow> def
      | Some v \<Rightarrow> if v = [] then def else (case atoi v of None \<Rightarrow> def | Some n \<Rightarrow> n))"

definition getString :: "(string \<times> string) list \<Rightarrow> string \<Rightarrow> string \<Rightarrow> string" where
  "getString m key def = (case map_of m key of None \<Rightarrow> def | Some v \<Rightarrow> v)"

definition getBoolDefault :: "(string \<times> string) list \<Rightarrow> string \<Rightarrow> bool \<Rightarrow> bool" where
  "getBoolDefault m key def = (case map_of m key of None \<Rightarrow> def | Some v \<Rightarrow> v = ''true'')"

definition getBool :: "(string \<times> string) list \<Rightarrow> string \<Rightarrow> bool" where
  "getBool m key = getBoolDefault m key False"

definition settings_of :: "(string \<times> string) list \<Rightarrow> settings" where
  "settings_of kv = Settings_Validate (DefaultSettings\<lparr>
     st_ProxyPort := getInt kv ''proxy_port'' 443,
     st_ProxyMetricsPort := getInt kv ''proxy_metrics_port'' 9090,
     st_ProxyDomain := getString kv ''proxy_domain'' ''cloudflare.com'',
     st_ProxyConcurrency := getInt kv ''proxy_concurrency'' 8192,
     st_ProxyCPUs := getString kv ''proxy_cpus'' [],
     st_ProxyMemory := getString kv ''proxy_memory'' [],
     st_CustomIP := getString kv ''custom_ip'' [],
     st_FakeCertLen := getInt kv ''fake_cert_len'' 2048,
     st_ProxyProtocol := getBool kv ''proxy_protocol'',
     st_ProxyProtocolTrustedCIDRs := getString kv ''proxy_protocol_trusted_cidrs'' [],
     st_AdTag := getString kv ''ad_tag'' [],
     st_UseMiddleProxy := getBoolDefault kv ''use_middle_proxy'' True,
     st_GeoblockMode := getString kv ''geoblock_mode'' ''blacklist'',
     st_BlocklistCountries := getString kv ''blocklist_countries'' [],
     st_MaskingEnabled := getBool kv ''masking_enabled'',
     st_MaskingHost := getString kv ''masking_host'' [],
     st_MaskingPort := getInt kv ''masking_port'' 443,
     st_MaskingRelayMaxBytes := getInt64 kv ''masking_relay_max_bytes'' 0,
     st_UnknownSNIAction := getString kv ''unknown_sni_action'' ''mask'',
     st_ProxySecretURL := getString kv ''proxy_secret_url'' [],
     st_ProxyConfigV4URL := getString kv ''proxy_config_v4_url'' [],
     st_ProxyConfigV6URL := getString kv ''proxy_config_v6_url'' [],
     st_TelegramEnabled := getBool kv ''telegram_enabled'',
     st_TelegramBotToken := getString kv ''telegram_bot_token'' [],
     st_TelegramChatID := getString kv ''telegram_chat_id'' [],
     st_TelegramInterval := getInt kv ''telegram_interval'' 6,
     st_TelegramAlertsEnabled := getBool kv ''telegram_alerts_enabled'',
     st_TelegramServerLabel := getString kv ''telegram_server_label'' ''PopuGate'',
     st_WebURL := getString kv ''web_url'' [],
     st_AutoUpdateEnabled := getBool kv ''auto_update_enabled'',
     st_SecretAutoRotateDays := getInt kv ''secret_auto_rotate_days'' 0,
     st_MaintenanceMode := getBool kv ''maintenance_mode'',
     st_ReplicationEnabled := getBool kv ''replication_enabled'',
     st_ReplicationRole := getString kv ''replication_role'' ''standalone'',
     st_ReplicationSyncInterval := getInt kv ''replication_sync_interval'' 60,
     st_ReplicationSSHPort := getInt kv ''replication_ssh_port'' 22,
     st_ReplicationSSHUser := getString kv ''replication_ssh_user'' ''root'',
     st_ReplicationDeleteExtra := getBool kv ''replication_delete_extra'',
     st_ReplicationSSHKeyPath := getString kv ''replication_ssh_key_path'' [],
     st_ReplicationExclude := getString kv ''replication_exclude'' [],
     st_ReplicationRestartOnChange := getBool kv ''replication_restart_on_change'',
     st_ReplicationLog := getString kv ''replication_log'' [], st_Debug := getBool kv ''debug'',
     st_BackupRetentionDays := getInt kv ''backup_retention_days'' 7,
     st_TelemtVersion := getString kv ''telemt_version'' [],
     st_TelemtCommit := getString kv ''telemt_commit'' [],
     st_TelemtRepo := getString kv ''telemt_repo'' [],
     st_SynlimitEnabled := getBool kv ''synlimit_enabled'',
     st_SynlimitBackend := getString kv ''synlimit_backend'' ''nftables'',
     st_SynlimitSeconds := getInt kv ''synlimit_seconds'' 60,
     st_SynlimitHitcount := getInt kv ''synlimit_hitcount'' 48,
     st_SynlimitBurst := getInt kv ''synlimit_burst'' 1,
     st_SysctlOptimizationsEnabled := getBool kv ''sysctl_optimizations_enabled'',
     st_OriginalQdisc := getString kv ''original_qdisc'' [],
     st_OriginalCongestionControl := getString kv ''original_congestion_control'' [],
     st_OriginalFastOpen := getString kv ''original_fastopen'' []\<rparr>)"

definition SettingsStore_Load :: "settings io" where
  "SettingsStore_Load =
     andthen (sql_rows (stage_wrap ''query settings'' ''scan setting'' ''iterate settings'')
       (\<lambda>d. Inr (t_settings d)))
       (\<lambda>rows. ret (settings_of (rev rows)))"

subsection \<open>Single values\<close>

definition save_setting :: "string \<Rightarrow> string \<Rightarrow> unit io" where
  "save_setting key v =
     wrap (''save setting '' @ key)
       (sql_exec (\<lambda>d. Inr ((), d\<lparr>t_settings := put key v (t_settings d)\<rparr>)))"

text \<open>The updates come from a Go map: the list holds its entries in the order of the iteration.\<close>

definition SettingsStore_Save :: "(string \<times> string) list \<Rightarrow> unit io" where
  "SettingsStore_Save updates =
     transaction ''begin tx''
       (andthen (wrap ''prepare'' tx_step) (\<lambda>_.
        andthen (each (\<lambda>(key, v) _. save_setting key v) updates ()) (\<lambda>_. tx_step)))"

definition setting :: "db \<Rightarrow> string \<Rightarrow> string" where
  "setting d key = (case map_of (t_settings d) key of None \<Rightarrow> [] | Some v \<Rightarrow> v)"

definition SettingsStore_Get :: "string \<Rightarrow> string io" where
  "SettingsStore_Get key =
     andthen (sql_row (\<lambda>e. e) (\<lambda>d. map_of (t_settings d) key))
       (\<lambda>r. ret (case r of None \<Rightarrow> [] | Some v \<Rightarrow> v))"

definition GetAuthPasswordHash :: "string io" where
  "GetAuthPasswordHash = SettingsStore_Get ''auth_password_hash''"

definition SetAuthPasswordHash :: "string \<Rightarrow> unit io" where
  "SetAuthPasswordHash hash = SettingsStore_Save [(''auth_password_hash'', hash)]"

definition generateRandomHex :: "nat \<Rightarrow> string io" where
  "generateRandomHex n w =
     (if length (w_entropy w) < n
      then (Inl (ErrWrap ''generate random bytes'' (ErrDriver ''unexpected EOF'')), w)
      else (Inr (hex_encode (take n (w_entropy w))), w\<lparr>w_entropy := drop n (w_entropy w)\<rparr>))"

definition GetJWTSecret :: "string io" where
  "GetJWTSecret =
     andthen (SettingsStore_Get ''jwt_secret'') (\<lambda>secret.
     if secret \<noteq> [] then ret secret
     else andthen (generateRandomHex 32) (\<lambda>secret.
       andthen (SettingsStore_Save [(''jwt_secret'', secret)]) (\<lambda>_. ret secret)))"

subsection \<open>The contract of a key-value store\<close>

definition overridden :: "('k \<times> 'v) list \<Rightarrow> ('k \<Rightarrow> 'v) \<Rightarrow> 'k \<Rightarrow> 'v" where
  "overridden updates f k = (case map_of (rev updates) k of None \<Rightarrow> f k | Some v \<Rightarrow> v)"

locale key_value_store =
  fixes get :: "'k \<Rightarrow> 'v io" and save :: "('k \<times> 'v) list \<Rightarrow> unit io"
    and view :: "db \<Rightarrow> 'k \<Rightarrow> 'v"
  assumes get_reads: "reads (get k)"
    and get_view: "get k w = (Inr v, w') \<Longrightarrow> v = view (w_db w) k"
    and get_ok: "w_faults w = [] \<Longrightarrow> get k w = (Inr (view (w_db w) k), w)"
    and save_view: "save us w = (Inr u, w') \<Longrightarrow> view (w_db w') = overridden us (view (w_db w))"
    and save_atomic: "atomic (save us)"
begin

lemma get_after_save:
  "save us w = (Inr u, w1) \<Longrightarrow> w_db w2 = w_db w1 \<Longrightarrow> get k w2 = (Inr v, w3) \<Longrightarrow>
   v = overridden us (view (w_db w)) k"
  by (drule save_view, drule get_view) simp

lemma get_after_failed_save:
  "save us w = (Inl e, w1) \<Longrightarrow> w_db w2 = w_db w1 \<Longrightarrow> get k w2 = (Inr v, w3) \<Longrightarrow> v = view (w_db w) k"
  using save_atomic [of us] by (auto simp: atomic_def dest: get_view)

end


subsection \<open>The table is a key-value store\<close>

lemma map_of_put [simp]: "map_of (put k v m) k' = (if k' = k then Some v else map_of m k')"
proof -
  have "map_of (filter (\<lambda>(k', _). k' \<noteq> k) m) k' = (if k' = k then None else map_of m k')"
    by (induction m) auto
  then show ?thesis by (simp add: put_def map_add_def split: option.split)
qed

lemma save_setting_Inr:
  "save_setting k v w = (Inr u, w') \<Longrightarrow>
   w_db w' = (w_db w)\<lparr>t_settings := put k v (t_settings (w_db w))\<rparr>"
  by (auto simp: save_setting_def wrap_Inr sql_exec_def dest!: pop_fault_same
      split: prod.splits option.splits sum.splits)

lemma save_loop_Inr:
  "each (\<lambda>(k, v) _. save_setting k v) us a w = (Inr u, w') \<Longrightarrow>
   w_db w' = (w_db w)\<lparr>t_settings := fold (\<lambda>(k, v). put k v) us (t_settings (w_db w))\<rparr>"
proof (induction us arbitrary: a w)
  case (Cons kv us)
  obtain k v where kv: "kv = (k, v)" by (rule prod.exhaust)
  from Cons.prems obtain w1 where "save_setting k v w = (Inr (), w1)"
    and "each (\<lambda>(k, v) _. save_setting k v) us () w1 = (Inr u, w')"
    by (auto simp: kv elim!: andthen_InrE)
  with Cons.IH save_setting_Inr show ?case by (fastforce simp: kv)
qed simp

lemma map_of_fold_put:
  "map_of (fold (\<lambda>(k, v). put k v) us m) k =
     (case map_of (rev us) k of None \<Rightarrow> map_of m k | Some v \<Rightarrow> Some v)"
  by (induction us arbitrary: m) (auto simp: map_add_def split: option.splits)

lemma Save_Inr:
  assumes "SettingsStore_Save us w = (Inr u, w')"
  shows "w_db w' = (w_db w)\<lparr>t_settings := fold (\<lambda>(k, v). put k v) us (t_settings (w_db w))\<rparr>"
proof -
  from assms obtain w1 where w1: "w_db w1 = w_db w"
    and "andthen (wrap ''prepare'' tx_step) (\<lambda>_.
        andthen (each (\<lambda>(key, v) _. save_setting key v) us ()) (\<lambda>_. tx_step)) w1 = (Inr u, w')"
    unfolding SettingsStore_Save_def by (elim transaction_Inr)
  then obtain w2 w3 v where "wrap ''prepare'' tx_step w1 = (Inr v, w2)"
    and l: "each (\<lambda>(key, v) _. save_setting key v) us () w2 = (Inr (), w3)"
    and "tx_step w3 = (Inr u, w')"
    by (auto elim!: andthen_InrE)
  then have "w_db w2 = w_db w1" "w_db w' = w_db w3"
    using readsD [of "wrap ''prepare'' tx_step"] readsD [OF tx_step_reads] by auto
  with save_loop_Inr [OF l] w1 show ?thesis by simp
qed

lemma Get_reads [simp, intro]: "reads (SettingsStore_Get k)"
  unfolding SettingsStore_Get_def by (intro reads_andthen) (simp_all del: run_ret)

lemma Get_ok: "w_faults w = [] \<Longrightarrow> SettingsStore_Get k w = (Inr (setting (w_db w) k), w)"
  by (simp add: SettingsStore_Get_def andthen_def run_simps setting_def)

interpretation settings_table: key_value_store SettingsStore_Get SettingsStore_Save setting
proof unfold_locales
  fix k w v w'
  assume "SettingsStore_Get k w = (Inr v, w')"
  then show "v = setting (w_db w) k"
    by (auto simp: SettingsStore_Get_def sql_row_def setting_def elim!: andthen_InrE
        dest!: pop_fault_same split: prod.splits option.splits)
next
  fix us :: "(string \<times> string) list" and w u w'
  assume "SettingsStore_Save us w = (Inr u, w')"
  then show "setting (w_db w') = overridden us (setting (w_db w))"
    by (auto simp: fun_eq_iff setting_def overridden_def map_of_fold_put dest!: Save_Inr
        split: option.splits)
qed (simp_all add: Get_ok, simp add: SettingsStore_Save_def transaction_atomic)

text \<open>
  C18: the settings that \<^verbatim>\<open>Load\<close> returns are in range whatever the table holds: ports, the
  enumerations, the intervals; correcting them again changes nothing, and loading writes nothing.
\<close>

theorem load_returns_valid_settings:
  assumes "SettingsStore_Load w = (Inr s, w')"
  shows "settings_ok s \<and> Settings_Validate s = s \<and> w_db w' = w_db w"
proof -
  have "reads SettingsStore_Load"
    unfolding SettingsStore_Load_def by (intro reads_andthen) (simp_all del: run_ret)
  moreover from assms have "\<exists>kv. s = settings_of kv"
    by (auto simp: SettingsStore_Load_def elim!: andthen_InrE)
  then have "settings_ok s" by (auto simp: settings_of_def Settings_Validate_ok)
  ultimately show ?thesis using assms Settings_Validate_id readsD by blast
qed

text \<open>
  C17: after a save that succeeded, reading a key returns the value saved last for it, and for a
  key that was not saved what the table held before.
\<close>

theorem saved_settings_are_read_back:
  assumes "SettingsStore_Save us w = (Inr u, w1)" "w_db w2 = w_db w1"
    and "SettingsStore_Get k w2 = (Inr v, w3)"
  shows "v = (case map_of (rev us) k of None \<Rightarrow> setting (w_db w) k | Some x \<Rightarrow> x)"
  using settings_table.get_after_save [OF assms] by (simp add: overridden_def)

lemma generateRandomHex_length:
  "generateRandomHex n w = (Inr k, w') \<Longrightarrow> length k = 2 * n \<and> hex_decode k \<noteq> None \<and> w_db w' = w_db w"
  by (auto simp: generateRandomHex_def split: if_splits)

lemma GetJWTSecret_Inr:
  assumes "GetJWTSecret w = (Inr k, w1)"
  shows "setting (w_db w1) ''jwt_secret'' = k \<and> k \<noteq> [] \<and>
    (setting (w_db w) ''jwt_secret'' = [] \<longrightarrow> length k = 64 \<and> hex_decode k \<noteq> None)"
proof -
  from assms obtain v w' where g: "SettingsStore_Get ''jwt_secret'' w = (Inr v, w')"
    and rest: "(if v \<noteq> [] then ret v
      else andthen (generateRandomHex 32) (\<lambda>s. andthen (SettingsStore_Save [(''jwt_secret'', s)])
        (\<lambda>_. ret s))) w' = (Inr k, w1)"
    unfolding GetJWTSecret_def by (elim andthen_InrE)
  have w': "w_db w' = w_db w" by (rule readsD [OF Get_reads g])
  have v: "v = setting (w_db w) ''jwt_secret''" by (rule settings_table.get_view [OF g])
  show ?thesis
  proof (cases "v = []")
    case False
    with rest v w' show ?thesis by simp
  next
    case True
    with rest obtain x w3 w4 where r: "generateRandomHex 32 w' = (Inr k, w3)"
      and s: "SettingsStore_Save [(''jwt_secret'', k)] w3 = (Inr x, w4)" and "w1 = w4"
      by (auto elim!: andthen_InrE)
    from settings_table.save_view [OF s] generateRandomHex_length [OF r] \<open>w1 = w4\<close>
    show ?thesis by (auto simp: overridden_def)
  qed
qed

lemma GetJWTSecret_stored:
  "w_faults w = [] \<Longrightarrow> setting (w_db w) ''jwt_secret'' \<noteq> [] \<Longrightarrow>
   GetJWTSecret w = (Inr (setting (w_db w) ''jwt_secret''), w)"
  by (simp add: GetJWTSecret_def andthen_def Get_ok)


text \<open>
  On a table without rows the loaded settings are the documented defaults but for six: the
  flags that are on by default (masking, alerts, updates, the two replication flags) are read as
  off, and the list of what replication excludes is empty.
\<close>

theorem empty_table_is_not_the_defaults:
  "settings_of [] = DefaultSettings\<lparr>st_MaskingEnabled := False, st_TelegramAlertsEnabled := False,
     st_AutoUpdateEnabled := False, st_ReplicationDeleteExtra := False,
     st_ReplicationRestartOnChange := False, st_ReplicationExclude := []\<rparr>"
  by (simp add: settings_of_def getInt_def getInt64_def getString_def getBool_def getBoolDefault_def
      Settings_Validate_def DefaultSettings_def validPort_def atLeast_or_def)

end
