(* ===== verification/Upstream_Store.thy ===== *)
theory Upstream_Store
  imports Settings_Store
begin

text \<open>
  \<^verbatim>\<open>internal/store/upstream_store.go\<close>: the statements on the table \<^verbatim>\<open>upstreams\<close>.
  A row holds every field of the record, so scanning a row is the identity; a nullable flag is an
  option in both. The schema's checks of type, weight and uniqueness are errors of the insert, and
  reasons to skip the row for \<^verbatim>\<open>INSERT OR IGNORE\<close>.
\<close>

subsection \<open>Reading\<close>

abbreviation has_name :: "string \<Rightarrow> upstream \<Rightarrow> bool" where
  "has_name n \<equiv> \<lambda>u. up_Name u = n"

definition find_upstream :: "db \<Rightarrow> string \<Rightarrow> upstream option" where
  "find_upstream d name = find (has_name name) (t_upstreams d)"

definition queryUpstreams :: "(upstream \<Rightarrow> bool) \<Rightarrow> upstream list io" where
  "queryUpstreams p =
     sql_rows (stage_wrap ''query upstreams'' ''scan upstream'' ''iterate upstreams'')
       (\<lambda>d. Inr (filter p (sort_key up_ID (t_upstreams d))))"

definition UpstreamStore_List :: "upstream list io" where
  "UpstreamStore_List = queryUpstreams (\<lambda>_. True)"

definition UpstreamStore_ListEnabled :: "upstream list io" where
  "UpstreamStore_ListEnabled = queryUpstreams up_Enabled"

definition UpstreamStore_GetByName :: "string \<Rightarrow> upstream option io" where
  "UpstreamStore_GetByName name =
     sql_row (ErrWrap (''get upstream '' @ name)) (\<lambda>d. find_upstream d name)"

subsection \<open>Writing\<close>

text \<open>The columns an insert fills; the health columns take their defaults.\<close>

definition inserted_upstream :: "int \<Rightarrow> upstream \<Rightarrow> upstream" where
  "inserted_upstream i u = u\<lparr>up_ID := i, up_LastCheckAt := 0, up_LastCheckOK := None,
     up_LatencyMs := 0, up_LastError := [], up_FailCount := 0, up_AutoDisabled := False,
     up_AutoDisabledAt := 0\<rparr>"

definition upstream_row_ok :: "upstream \<Rightarrow> bool" where
  "upstream_row_ok u \<longleftrightarrow>
     up_Type u \<in> {UpstreamDirect, UpstreamSOCKS5, UpstreamSOCKS4, UpstreamShadowsocks} \<and>
     1 \<le> up_Weight u \<and> up_Weight u \<le> 100"

definition insert_upstream :: "upstream \<Rightarrow> db \<Rightarrow> error + (int \<times> db)" where
  "insert_upstream u d =
     (if \<not> upstream_row_ok u then Inl (ErrMsg ''CHECK constraint failed: upstreams'')
      else if list_ex (has_name (up_Name u)) (t_upstreams d)
      then Inl (ErrConstraint ''upstreams.name'')
      else
        (let i = t_upstreams_seq d + 1 in
         Inr (i, d\<lparr>t_upstreams := t_upstreams d @ [inserted_upstream i u], t_upstreams_seq := i\<rparr>)))"

text \<open>The value is the new row's number, which the code stores in \<^verbatim>\<open>u.ID\<close>.\<close>

definition UpstreamStore_Create :: "upstream \<Rightarrow> int io" where
  "UpstreamStore_Create u = wrap ''create upstream'' (sql_exec (insert_upstream u))"

definition UpstreamStore_Delete :: "string \<Rightarrow> unit io" where
  "UpstreamStore_Delete name =
     sql_exec (\<lambda>d. Inr ((), d\<lparr>t_upstreams := delete_where (has_name name) (t_upstreams d)\<rparr>))"

definition update_upstreams :: "string \<Rightarrow> (upstream \<Rightarrow> upstream) \<Rightarrow> int io" where
  "update_upstreams name f = sql_exec (\<lambda>d.
     Inr (int (count_where (has_name name) (t_upstreams d)),
          d\<lparr>t_upstreams := update_where (has_name name) f (t_upstreams d)\<rparr>))"

definition upstream_columns :: "upstream \<Rightarrow> upstream \<Rightarrow> upstream" where
  "upstream_columns u r = r\<lparr>up_Type := up_Type u, up_Address := up_Address u,
     up_Username := up_Username u, up_Password := up_Password u, up_URL := up_URL u,
     up_Weight := up_Weight u, up_Iface := up_Iface u, up_Enabled := up_Enabled u,
     up_IPv4 := up_IPv4 u, up_IPv6 := up_IPv6 u, up_Prefer := up_Prefer u,
     up_BindToDevice := up_BindToDevice u, up_AutoDisabled := False, up_AutoDisabledAt := 0\<rparr>"

definition UpstreamStore_Update :: "string \<Rightarrow> upstream \<Rightarrow> unit io" where
  "UpstreamStore_Update name u =
     andthen (wrap (''update upstream '' @ name) (sql_exec (\<lambda>d.
         if \<not> upstream_row_ok u \<and> list_ex (has_name name) (t_upstreams d)
         then Inl (ErrMsg ''CHECK constraint failed: upstreams'')
         else Inr (int (count_where (has_name name) (t_upstreams d)),
           d\<lparr>t_upstreams := update_where (has_name name) (upstream_columns u) (t_upstreams d)\<rparr>))))
       (\<lambda>rows. if rows = 0 then throw (ErrMsg (''upstream '' @ squote name @ '' not found'')) else ret ())"

definition health_columns :: "int \<Rightarrow> bool \<Rightarrow> int \<Rightarrow> string \<Rightarrow> upstream \<Rightarrow> upstream" where
  "health_columns checked ok latency errMsg r = r\<lparr>up_LastCheckAt := checked, up_LastCheckOK := Some ok,
     up_LatencyMs := latency, up_LastError := errMsg,
     up_FailCount := (if ok then 0 else up_FailCount r + 1)\<rparr>"

definition UpstreamStore_UpdateHealth :: "string \<Rightarrow> bool \<Rightarrow> int \<Rightarrow> string \<Rightarrow> unit io" where
  "UpstreamStore_UpdateHealth name ok latency errMsg =
     andthen clock (\<lambda>now.
     andthen (update_upstreams name (health_columns (unix now) ok latency errMsg)) (\<lambda>_. ret ()))"

definition UpstreamStore_UpdateEnabled :: "string \<Rightarrow> bool \<Rightarrow> unit io" where
  "UpstreamStore_UpdateEnabled name enabled =
     andthen (update_upstreams name
       (\<lambda>r. r\<lparr>up_Enabled := enabled, up_AutoDisabled := False, up_AutoDisabledAt := 0\<rparr>)) (\<lambda>_. ret ())"

definition DisableAutomatically :: "string \<Rightarrow> int \<Rightarrow> unit io" where
  "DisableAutomatically name timestamp =
     andthen (update_upstreams name
       (\<lambda>r. r\<lparr>up_Enabled := False, up_AutoDisabled := True, up_AutoDisabledAt := timestamp\<rparr>))
       (\<lambda>_. ret ())"

definition EnableAutomatically :: "string \<Rightarrow> unit io" where
  "EnableAutomatically name =
     andthen (update_upstreams name
       (\<lambda>r. r\<lparr>up_Enabled := True, up_AutoDisabled := False, up_AutoDisabledAt := 0, up_FailCount := 0\<rparr>))
       (\<lambda>_. ret ())"

definition ClearHealth :: "string \<Rightarrow> unit io" where
  "ClearHealth name =
     andthen (update_upstreams name (\<lambda>r. r\<lparr>up_LastCheckAt := 0, up_LastCheckOK := None,
       up_LatencyMs := 0, up_LastError := [], up_FailCount := 0\<rparr>)) (\<lambda>_. ret ())"

text \<open>\<^verbatim>\<open>INSERT OR IGNORE\<close>: the value is whether a row was inserted. The numbers of the
  inserted upstreams are not stored back into them.\<close>

definition insert_or_ignore :: "upstream \<Rightarrow> bool io" where
  "insert_or_ignore u = sql_exec (\<lambda>d.
     case insert_upstream u d of Inl _ \<Rightarrow> Inr (False, d) | Inr (_, d') \<Rightarrow> Inr (True, d'))"

definition create_one :: "upstream \<Rightarrow> upstream list \<Rightarrow> upstream list io" where
  "create_one u acc =
     (case Upstream_Validate u of
        Some e \<Rightarrow> throw (ErrWrap (''validate upstream '' @ up_Name u) (ErrMsg e))
      | None \<Rightarrow>
          andthen (wrap (''exec insert '' @ up_Name u) (insert_or_ignore u)) (\<lambda>new.
          ret (if new then acc @ [u] else acc)))"

definition CreateMultiple :: "upstream list \<Rightarrow> upstream list io" where
  "CreateMultiple us =
     transaction ''begin tx''
       (andthen (wrap ''prepare stmt'' tx_step) (\<lambda>_.
        andthen (each create_one us []) (\<lambda>inserted.
        andthen (wrap ''commit tx'' tx_step) (\<lambda>_. ret inserted))))"

subsection \<open>Facts\<close>

definition upstreams_wf :: "db \<Rightarrow> bool" where
  "upstreams_wf d \<longleftrightarrow>
     distinct (map up_Name (t_upstreams d)) \<and> distinct (map up_ID (t_upstreams d)) \<and>
     (\<forall>u \<in> set (t_upstreams d). up_ID u \<le> t_upstreams_seq d \<and> upstream_row_ok u)"

lemma upstreams_wf_empty [simp]: "upstreams_wf empty_db"
  by (simp add: upstreams_wf_def empty_db_def)

lemma queryUpstreams_reads [simp, intro]: "reads (queryUpstreams p)"
  by (simp add: queryUpstreams_def)

interpretation upstreams: repository UpstreamStore_GetByName find_upstream
proof unfold_locales
  fix name w r w'
  assume "UpstreamStore_GetByName name w = (Inr r, w')"
  then show "r = find_upstream (w_db w) name"
    by (auto simp: UpstreamStore_GetByName_def sql_row_def dest: pop_fault_same
        split: prod.splits option.splits)
qed (simp_all add: UpstreamStore_GetByName_def run_simps)

lemma update_upstreams_wf:
  assumes "\<And>r. upstream_row_ok r \<Longrightarrow> upstream_row_ok (f r)"
    and "\<And>r. up_Name (f r) = up_Name r" "\<And>r. up_ID (f r) = up_ID r"
  shows "keeps upstreams_wf (update_upstreams name f)"
  unfolding update_upstreams_def
  by (rule keeps_sql_exec)
    (auto simp: upstreams_wf_def set_update_where map_update_where_same assms)

lemma insert_upstream_wf: "insert_upstream u d = Inr (i, d') \<Longrightarrow> upstreams_wf d \<Longrightarrow> upstreams_wf d'"
  by (force simp: insert_upstream_def upstreams_wf_def inserted_upstream_def upstream_row_ok_def
      list_ex_iff Let_def split: if_splits)

lemma upstream_store_keeps_wf [keeps_intros]:
  "keeps upstreams_wf (UpstreamStore_Create u)" "keeps upstreams_wf (UpstreamStore_Delete n)"
  "keeps upstreams_wf (UpstreamStore_Update n u)" "keeps upstreams_wf (UpstreamStore_UpdateHealth n ok l e)"
  "keeps upstreams_wf (UpstreamStore_UpdateEnabled n b)" "keeps upstreams_wf (DisableAutomatically n t)"
  "keeps upstreams_wf (EnableAutomatically n)" "keeps upstreams_wf (ClearHealth n)"
  "keeps upstreams_wf (insert_or_ignore u)"
proof -
  have up: "keeps upstreams_wf (andthen (update_upstreams n f) (\<lambda>_. ret ()))"
    if "\<And>r. upstream_row_ok r \<Longrightarrow> upstream_row_ok (f r)" "\<And>r. up_Name (f r) = up_Name r"
      "\<And>r. up_ID (f r) = up_ID r" for n f
    by (intro keeps_andthen keeps_ret update_upstreams_wf that)
  show "keeps upstreams_wf (UpstreamStore_UpdateHealth n ok l e)"
    "keeps upstreams_wf (UpstreamStore_UpdateEnabled n b)" "keeps upstreams_wf (DisableAutomatically n t)"
    "keeps upstreams_wf (EnableAutomatically n)" "keeps upstreams_wf (ClearHealth n)"
    unfolding UpstreamStore_UpdateHealth_def UpstreamStore_UpdateEnabled_def DisableAutomatically_def
      EnableAutomatically_def ClearHealth_def
    by (intro keeps_andthen [OF keeps_clock] up; simp add: upstream_row_ok_def health_columns_def)+
  show "keeps upstreams_wf (UpstreamStore_Create u)"
    unfolding UpstreamStore_Create_def
    by (intro keeps_wrap keeps_sql_exec) (auto intro: insert_upstream_wf)
  show "keeps upstreams_wf (insert_or_ignore u)"
    unfolding insert_or_ignore_def
    by (intro keeps_sql_exec) (auto intro: insert_upstream_wf split: sum.splits)
  show "keeps upstreams_wf (UpstreamStore_Delete n)"
    unfolding UpstreamStore_Delete_def
    by (intro keeps_sql_exec) (auto simp: upstreams_wf_def distinct_map_delete_where)
  show "keeps upstreams_wf (UpstreamStore_Update n u)"
    unfolding UpstreamStore_Update_def
    by (intro keeps_intros keeps_sql_exec)
      (auto simp: upstreams_wf_def set_update_where map_update_where_same upstream_columns_def
        upstream_row_ok_def list_ex_iff split: if_splits)
qed

lemma CreateMultiple_keeps_wf [keeps_intros]: "keeps upstreams_wf (CreateMultiple us)"
  unfolding CreateMultiple_def create_one_def by (intro keeps_intros reads_keeps [OF tx_step_reads])

lemma CreateMultiple_atomic: "atomic (CreateMultiple us)"
  by (simp add: CreateMultiple_def transaction_atomic)

end
