(* ===== verification/Upstream_Names.thy ===== *)
theory Upstream_Names
  imports Upstream_Model "HOL-Library.Word"
begin

text \<open>
  The text side of \<^verbatim>\<open>internal/service/upstream_service.go\<close>: the proxy lines a user
  pastes, the address inside an \<^verbatim>\<open>ss://\<close> URL, and the names given to upstreams added in
  bulk, with the identity hash kept at its 32 bits.
\<close>

subsection \<open>strings.TrimPrefix, Trim, IndexAny, SplitN\<close>

definition trim_prefix :: "string \<Rightarrow> string \<Rightarrow> string" where
  "trim_prefix s p = (if has_prefix s p then drop (length p) s else s)"

definition trim_char :: "char \<Rightarrow> string \<Rightarrow> string" where
  "trim_char c s = rev (dropWhile (\<lambda>x. x = c) (rev (dropWhile (\<lambda>x. x = c) s)))"

definition until_any :: "char list \<Rightarrow> string \<Rightarrow> string" where
  "until_any cs s = takeWhile (\<lambda>c. c \<notin> set cs) s"

text \<open>At most \<open>n\<close> parts, the last one being the rest.\<close>

definition split_n :: "char \<Rightarrow> nat \<Rightarrow> string \<Rightarrow> string list" where
  "split_n c n s =
     (let parts = split_char c s in
      if length parts \<le> n then parts
      else take (n - 1) parts @ [join [c] (drop (n - 1) parts)])"

subsection \<open>Proxy lines\<close>

definition shadowsocksHostPort :: "string \<Rightarrow> string option" where
  "shadowsocksHostPort raw =
     (let s = trim_prefix (trim_space raw) ''ss://'' in
      case last_index_char CHR ''@'' s of
        None \<Rightarrow> None
      | Some i \<Rightarrow>
          (let s = until_any [CHR ''#'', CHR ''/'', CHR ''?''] (drop (i + 1) s) in
           if SplitHostPort s = None then None else Some s))"

definition parseBracketedIPv6Line :: "string \<Rightarrow> upstream \<Rightarrow> string + upstream" where
  "parseBracketedIPv6Line line u =
     (case index_char CHR '']'' line of
        None \<Rightarrow> Inl (''invalid IPv6 proxy format (missing '' @ [CHR 0x27] @ '']'' @ [CHR 0x27] @ ''): '' @ line)
      | Some end \<Rightarrow>
          (let host = take (end + 1) line;
               parts = split_n CHR '':'' 3 (trim_prefix (drop (end + 1) line) '':'')
           in if parts ! 0 = [] then Inl (''invalid IPv6 proxy format (missing port): '' @ line)
              else
                (let u = u\<lparr>up_Address := host @ '':'' @ parts ! 0\<rparr>;
                     u = (if 2 \<le> length parts then u\<lparr>up_Username := parts ! 1\<rparr> else u)
                 in Inr (if 3 \<le> length parts then u\<lparr>up_Password := parts ! 2\<rparr> else u))))"

definition parseColonFormLine :: "string \<Rightarrow> upstream \<Rightarrow> string + upstream" where
  "parseColonFormLine line u =
     (let parts = split_char CHR '':'' line in
      if 4 \<le> length parts then
        Inr (u\<lparr>up_Address := parts ! 0 @ '':'' @ parts ! 1, up_Username := parts ! 2,
               up_Password := join '':'' (drop 3 parts)\<rparr>)
      else if length parts = 3 then
        Inr (u\<lparr>up_Address := parts ! 0 @ '':'' @ parts ! 1, up_Username := parts ! 2\<rparr>)
      else if length parts = 2 then Inr (u\<lparr>up_Address := line\<rparr>)
      else Inl (''invalid proxy format: '' @ line))"

definition parse_credentials :: "string \<Rightarrow> upstream \<Rightarrow> upstream" where
  "parse_credentials creds u =
     (case index_char CHR '':'' creds of
        Some c \<Rightarrow> u\<lparr>up_Username := take c creds, up_Password := drop (c + 1) creds\<rparr>
      | None \<Rightarrow> u\<lparr>up_Username := creds\<rparr>)"

text \<open>What follows the scheme: credentials before the last \<^verbatim>\<open>@\<close>, a bracketed address, or
  parts between colons.\<close>

definition parse_authority :: "string \<Rightarrow> upstream \<Rightarrow> string + upstream" where
  "parse_authority line u =
     (case last_index_char CHR ''@'' line of
        Some idx \<Rightarrow>
          Inr (parse_credentials (take idx line) (u\<lparr>up_Address := drop (idx + 1) line\<rparr>))
      | None \<Rightarrow>
          if has_prefix line ''['' then parseBracketedIPv6Line line u
          else parseColonFormLine line u)"

definition check_address :: "upstream \<Rightarrow> string + upstream" where
  "check_address u =
     (if up_Address u = [] then Inl ''missing address''
      else if SplitHostPort (up_Address u) = None
      then Inl (''invalid host:port address: '' @ up_Address u)
      else Inr u)"

definition proxy_scheme :: "string \<Rightarrow> string \<times> string" where
  "proxy_scheme line =
     (if has_prefix line ''socks5://'' then (UpstreamSOCKS5, drop (length ''socks5://'') line)
      else if has_prefix line ''socks4://'' then (UpstreamSOCKS4, drop (length ''socks4://'') line)
      else (UpstreamSOCKS5, line))"

definition ParseProxyLine :: "string \<Rightarrow> string + upstream" where
  "ParseProxyLine line =
     (let line = trim_space line; u = empty_upstream\<lparr>up_Type := UpstreamSOCKS5, up_Weight := 10\<rparr> in
      if line = [] then Inl ''empty line''
      else if has_prefix line ''ss://''
      then Inr (u\<lparr>up_Type := UpstreamShadowsocks, up_URL := line\<rparr>)
      else
        (case proxy_scheme line of (t, line) \<Rightarrow>
           (case parse_authority line (u\<lparr>up_Type := t\<rparr>) of
              Inl e \<Rightarrow> Inl e | Inr u \<Rightarrow> check_address u)))"

subsection \<open>Names of bulk upstreams\<close>

definition bulkNamePrefix :: "string \<Rightarrow> string" where
  "bulkNamePrefix t =
     (if t = UpstreamSOCKS4 then ''s4'' else if t = UpstreamDirect then ''dir''
      else if t = UpstreamShadowsocks then ''ss'' else ''s5'')"

definition bulkNameHostPort :: "upstream \<Rightarrow> string \<times> string" where
  "bulkNameHostPort u =
     (if up_Type u = UpstreamShadowsocks then
        (case shadowsocksHostPort (up_URL u) of
           Some addr \<Rightarrow> (case SplitHostPort addr of None \<Rightarrow> ([], []) | Some hp \<Rightarrow> hp)
         | None \<Rightarrow> (''ss'', ''0''))
      else (case SplitHostPort (up_Address u) of None \<Rightarrow> (up_Address u, ''0'') | Some hp \<Rightarrow> hp))"

definition identity :: "upstream \<Rightarrow> string" where
  "identity u = join [CHR 0x00] ([up_Type u, up_Address u, up_Username u, up_Password u, up_Iface u] @
     (if up_URL u \<noteq> [] then [up_URL u] else []))"

definition hash_step :: "32 word \<Rightarrow> char \<Rightarrow> 32 word" where
  "hash_step h c = h * 31 + of_nat (byte c)"

text \<open>The verb \<^verbatim>\<open>%08x\<close>.\<close>

definition hex8 :: "32 word \<Rightarrow> string" where
  "hex8 h = map (\<lambda>i. hex_digit (unat h div 16 ^ i mod 16)) (rev [0..<8])"

definition upstreamIdentityHash :: "upstream \<Rightarrow> string" where
  "upstreamIdentityHash u = hex8 (foldl hash_step 0 (identity u))"

text \<open>One pass of \<^verbatim>\<open>ReplaceAll\<close> of two dashes by one, and the loop around it.\<close>

fun replace_dashes :: "string \<Rightarrow> string" where
  "replace_dashes (c # d # s) =
     (if c = CHR ''-'' \<and> d = CHR ''-'' then CHR ''-'' # replace_dashes s
      else c # replace_dashes (d # s))"
| "replace_dashes s = s"

fun double_dash :: "string \<Rightarrow> bool" where
  "double_dash (c # d # s) = (c = CHR ''-'' \<and> d = CHR ''-'' \<or> double_dash (d # s))"
| "double_dash s = False"

lemma replace_dashes_length: "length (replace_dashes s) \<le> length s"
  by (induction s rule: replace_dashes.induct) auto

lemma replace_dashes_shorter: "double_dash s \<Longrightarrow> length (replace_dashes s) < length s"
  by (induction s rule: replace_dashes.induct) (auto simp: less_Suc_eq_le replace_dashes_length le_SucI)

function collapseDashes :: "string \<Rightarrow> string" where
  "collapseDashes s = (if double_dash s then collapseDashes (replace_dashes s) else s)"
  by pat_completeness auto
termination
  by (relation "measure length") (auto simp: replace_dashes_shorter)

declare collapseDashes.simps [simp del]

definition alnum :: "char \<Rightarrow> bool" where
  "alnum c \<longleftrightarrow> is_alpha c \<or> is_digit c"

definition sanitize_rune :: "string \<Rightarrow> char" where
  "sanitize_rune r = (case r of [c] \<Rightarrow> if alnum c then c else CHR ''-'' | _ \<Rightarrow> CHR ''-'')"

definition sanitizeHostSegment :: "string \<Rightarrow> string" where
  "sanitizeHostSegment host =
     trim_char CHR ''-'' (collapseDashes (map sanitize_rune (chunks host)))"

definition GenerateBulkUpstreamName :: "upstream \<Rightarrow> string" where
  "GenerateBulkUpstreamName u =
     (let prefix = bulkNamePrefix (up_Type u); (host, port) = bulkNameHostPort u;
          hashStr = upstreamIdentityHash u; cleanedHost = sanitizeHostSegment host;
          maxHostLen = max 0 (32 - int (length prefix) - 3 - int (length port) - int (length hashStr));
          cleanedHost = (if maxHostLen < int (length cleanedHost) then take (nat maxHostLen) cleanedHost
                         else cleanedHost);
          cleanedHost = trim_char CHR ''-'' cleanedHost;
          name = prefix @ ''-'' @ cleanedHost @ ''-'' @ port @ ''-'' @ hashStr
      in trim_char CHR ''-'' (collapseDashes name))"

end
