(* ===== verification/Upstream_Service.thy ===== *)
theory Upstream_Service
  imports Upstream_Store Upstream_Names
begin

text \<open>
  \<^verbatim>\<open>internal/service/upstream_service.go\<close>: upstreams with their rule on shadowsocks
  (ADR-001), the connectivity tests, and the health checks that disable and re-enable them. The
  network is a parameter: what a TCP connection and an HTTP request through a proxy return, and how
  long a test took. The container service and the notifier are events of the world.
\<close>

subsection \<open>What the service is wired to\<close>

record wiring =
  wi_settings :: bool
  wi_containerSvc :: bool
  wi_notify :: bool
  wi_notifyWithBtns :: bool

record network =
  net_dial :: "string \<Rightarrow> string + int"
  net_get :: "(string \<times> string \<times> string) option \<Rightarrow> string \<Rightarrow> string + (int \<times> string)"
  net_took :: "string \<Rightarrow> int"

subsection \<open>Shadowsocks and the Middle-Proxy mode\<close>

definition middleProxyEnabled :: "wiring \<Rightarrow> bool io" where
  "middleProxyEnabled wi =
     (if \<not> wi_settings wi then ret True
      else andthen (attempt (SettingsStore_Get ''use_middle_proxy'')) (\<lambda>r.
        ret (case r of Inl _ \<Rightarrow> True | Inr v \<Rightarrow> v \<noteq> ''false'')))"

definition shadowsocks_error :: error where
  "shadowsocks_error = ErrMsg (''shadowsocks upstream requires Middle-Proxy mode disabled: '' @
     ''set use_middle_proxy=false (note: this turns off ad_tag / promoted-channel support)'')"

definition ensureShadowsocksAllowed :: "wiring \<Rightarrow> upstream \<Rightarrow> unit io" where
  "ensureShadowsocksAllowed wi u =
     (if up_Type u \<noteq> UpstreamShadowsocks then ret ()
      else andthen (middleProxyEnabled wi) (\<lambda>on. if on then throw shadowsocks_error else ret ()))"

subsection \<open>Connectivity tests\<close>

fun detectIP :: "(string \<Rightarrow> string + (int \<times> string)) \<Rightarrow> string list \<Rightarrow> string \<Rightarrow> string + string" where
  "detectIP get [] lastErr = Inl lastErr"
| "detectIP get (ep # eps) lastErr =
     (case get ep of
        Inl e \<Rightarrow> detectIP get eps e
      | Inr (status, body) \<Rightarrow>
          (let body = take 1024 body in
           if status = 200 \<and> body \<noteq> [] then Inr (trim_space body)
           else detectIP get eps (ep @ '' returned '' @ show_int status)))"

definition ip_services :: "string list" where
  "ip_services = [''https://api.ipify.org'', ''https://checkip.amazonaws.com'', ''https://icanhazip.com'']"

definition failed_test :: "string \<Rightarrow> test_result" where
  "failed_test e = \<lparr>tr_OK = False, tr_ExitIP = [], tr_LatencyMs = 0, tr_Error = e\<rparr>"

definition passed_test :: "string \<Rightarrow> int \<Rightarrow> test_result" where
  "passed_test ip ms = \<lparr>tr_OK = True, tr_ExitIP = ip, tr_LatencyMs = ms, tr_Error = []\<rparr>"

definition tcpProbe :: "network \<Rightarrow> string \<Rightarrow> test_result" where
  "tcpProbe n addr =
     (case net_dial n addr of
        Inl e \<Rightarrow> failed_test (''TCP connect to '' @ addr @ '' failed: '' @ e)
      | Inr ms \<Rightarrow> passed_test [] ms)"

definition testShadowsocks :: "network \<Rightarrow> upstream \<Rightarrow> test_result" where
  "testShadowsocks n u =
     (case shadowsocksHostPort (up_URL u) of
        None \<Rightarrow> passed_test [] 0
      | Some addr \<Rightarrow> tcpProbe n addr)"

definition testDirect :: "network \<Rightarrow> test_result" where
  "testDirect n =
     (case detectIP (net_get n None) ip_services [] of
        Inl e \<Rightarrow> failed_test e
      | Inr ip \<Rightarrow> passed_test ip (net_took n []))"

definition testSOCKS5 :: "network \<Rightarrow> upstream \<Rightarrow> test_result" where
  "testSOCKS5 n u =
     (case net_dial n (up_Address u) of
        Inl e \<Rightarrow> failed_test (''TCP connect to '' @ up_Address u @ '' failed: '' @ e)
      | Inr ms \<Rightarrow>
          (let creds = (if up_Username u \<noteq> [] then (up_Username u, up_Password u) else ([], [])) in
           case detectIP (net_get n (Some (up_Address u, creds))) ip_services [] of
             Inl e \<Rightarrow> failed_test (''proxy reachable (TCP '' @ show_int ms @ ''ms) but HTTP request failed: '' @ e)
           | Inr ip \<Rightarrow> passed_test ip (net_took n (up_Address u))))"

definition testSOCKS4 :: "network \<Rightarrow> upstream \<Rightarrow> test_result" where
  "testSOCKS4 n u = tcpProbe n (up_Address u)"

definition testUpstream :: "network \<Rightarrow> upstream \<Rightarrow> error + test_result" where
  "testUpstream n u =
     (if up_Type u = UpstreamDirect then Inr (testDirect n)
      else if up_Type u = UpstreamSOCKS5 then Inr (testSOCKS5 n u)
      else if up_Type u = UpstreamSOCKS4 then Inr (testSOCKS4 n u)
      else if up_Type u = UpstreamShadowsocks then Inr (testShadowsocks n u)
      else Inl (ErrMsg (''unsupported upstream type: '' @ up_Type u)))"

definition resolveTestResult :: "error + test_result \<Rightarrow> bool \<times> int \<times> string" where
  "resolveTestResult r =
     (case r of
        Inl e \<Rightarrow> (False, 0, err_text e)
      | Inr res \<Rightarrow> (tr_OK res, tr_LatencyMs res, if tr_OK res then [] else tr_Error res))"

subsection \<open>Failover and recovery\<close>

text \<open>The link of the notification's button, when the settings can be read and hold a URL.\<close>

definition upstreams_url :: "wiring \<Rightarrow> string option io" where
  "upstreams_url wi =
     (if \<not> wi_settings wi then ret None
      else andthen (attempt SettingsStore_Load) (\<lambda>r.
        ret (case r of
               Inl _ \<Rightarrow> None
             | Inr s \<Rightarrow> if st_WebURL s \<noteq> [] then Some (st_WebURL s @ ''/upstreams'') else None)))"

definition notify_upstream :: "wiring \<Rightarrow> (string option \<Rightarrow> event) \<Rightarrow> unit io" where
  "notify_upstream wi ev =
     andthen (upstreams_url wi) (\<lambda>url.
     if wi_notifyWithBtns wi \<and> url \<noteq> None then tell (ev url)
     else if wi_notify wi then tell (ev None) else ret ())"

definition handleFailover :: "wiring \<Rightarrow> string \<Rightarrow> string \<Rightarrow> unit io" where
  "handleFailover wi name errMsg =
     andthen (attempt (UpstreamStore_GetByName name)) (\<lambda>r.
     case r of
       Inl _ \<Rightarrow> ret ()
     | Inr None \<Rightarrow> ret ()
     | Inr (Some latest) \<Rightarrow>
         if up_FailCount latest < 3 \<or> \<not> up_Enabled latest then ret ()
         else andthen clock (\<lambda>now.
           andthen (attempt (DisableAutomatically name (unix now))) (\<lambda>r.
           case r of
             Inl _ \<Rightarrow> ret ()
           | Inr _ \<Rightarrow>
               andthen (when_do (wi_containerSvc wi)
                 (tell (EvReload (''upstream '' @ name @ '' auto-disabled'')))) (\<lambda>_.
               notify_upstream wi (\<lambda>url. EvUpstreamDown url name errMsg)))))"

definition handleAutoRecovery :: "wiring \<Rightarrow> upstream \<Rightarrow> int \<Rightarrow> unit io" where
  "handleAutoRecovery wi u latency =
     andthen (attempt (ensureShadowsocksAllowed wi u)) (\<lambda>r.
     case r of
       Inl _ \<Rightarrow> ret ()
     | Inr _ \<Rightarrow>
         andthen (attempt (EnableAutomatically (up_Name u))) (\<lambda>r.
         case r of
           Inl _ \<Rightarrow> ret ()
         | Inr _ \<Rightarrow>
             andthen (when_do (wi_containerSvc wi)
               (tell (EvReload (''upstream '' @ up_Name u @ '' auto-recovered'')))) (\<lambda>_.
             notify_upstream wi (\<lambda>url. EvUpstreamUp url (up_Name u) latency))))"

definition checkUpstream :: "wiring \<Rightarrow> network \<Rightarrow> upstream \<Rightarrow> unit io" where
  "checkUpstream wi n u =
     (case resolveTestResult (testUpstream n u) of (ok, latency, errMsg) \<Rightarrow>
        andthen (attempt (UpstreamStore_UpdateHealth (up_Name u) ok latency errMsg)) (\<lambda>_.
        if \<not> ok then handleFailover wi (up_Name u) errMsg
        else if up_AutoDisabled u then handleAutoRecovery wi u latency
        else ret ()))"

definition CheckAllUpstreams :: "wiring \<Rightarrow> network \<Rightarrow> unit io" where
  "CheckAllUpstreams wi n =
     andthen UpstreamStore_List (\<lambda>us.
     each (\<lambda>u _.
       if \<not> up_Enabled u \<and> \<not> up_AutoDisabled u then ret () else checkUpstream wi n u) us ())"

subsection \<open>Operations\<close>

definition upstream_check :: "upstream \<Rightarrow> unit io" where
  "upstream_check u = (case Upstream_Validate u of Some e \<Rightarrow> throw (ErrMsg e) | None \<Rightarrow> ret ())"

abbreviation no_upstream :: "string \<Rightarrow> error" where
  "no_upstream name \<equiv> ErrMsg (''upstream '' @ squote name @ '' not found'')"

text \<open>The value is the upstream with its flag and number set.\<close>

definition UpstreamService_Add :: "wiring \<Rightarrow> upstream \<Rightarrow> upstream io" where
  "UpstreamService_Add wi u =
     andthen (upstream_check u) (\<lambda>_.
     andthen (ensureShadowsocksAllowed wi u) (\<lambda>_.
     must_not_exist (UpstreamStore_GetByName (up_Name u))
       (ErrMsg (''upstream '' @ squote (up_Name u) @ '' already exists''))
       (let u = u\<lparr>up_Enabled := True\<rparr> in
        andthen (UpstreamStore_Create u) (\<lambda>i. ret (u\<lparr>up_ID := i\<rparr>)))))"

text \<open>The health check that \<^verbatim>\<open>Add\<close> starts in the background.\<close>

definition runInitialHealthCheck :: "network \<Rightarrow> string \<Rightarrow> upstream \<Rightarrow> unit io" where
  "runInitialHealthCheck n name u =
     (case resolveTestResult (testUpstream n u) of (ok, latency, errMsg) \<Rightarrow>
        andthen (attempt (UpstreamStore_UpdateHealth name ok latency errMsg)) (\<lambda>_. ret ()))"

definition UpstreamService_Update :: "wiring \<Rightarrow> string \<Rightarrow> upstream \<Rightarrow> unit io" where
  "UpstreamService_Update wi name u =
     andthen (upstream_check u) (\<lambda>_.
     andthen (ensureShadowsocksAllowed wi u) (\<lambda>_.
     must_exist (UpstreamStore_GetByName name) (no_upstream name) (\<lambda>existing.
       UpstreamStore_Update name
         (u\<lparr>up_Name := up_Name existing, up_Enabled := up_Enabled existing\<rparr>))))"

definition UpstreamService_Remove :: "string \<Rightarrow> unit io" where
  "UpstreamService_Remove name =
     must_exist (UpstreamStore_GetByName name) (no_upstream name) (\<lambda>_. UpstreamStore_Delete name)"

definition UpstreamService_Toggle :: "wiring \<Rightarrow> string \<Rightarrow> bool \<Rightarrow> unit io" where
  "UpstreamService_Toggle wi name enable =
     must_exist (UpstreamStore_GetByName name) (no_upstream name) (\<lambda>existing.
       andthen (if enable then ensureShadowsocksAllowed wi existing else ret ()) (\<lambda>_.
       andthen (UpstreamStore_UpdateEnabled name enable) (\<lambda>_.
       if \<not> enable then andthen (attempt (ClearHealth name)) (\<lambda>_. ret ()) else ret ())))"

definition UpstreamService_Test :: "network \<Rightarrow> string \<Rightarrow> test_result io" where
  "UpstreamService_Test n name =
     must_exist (UpstreamStore_GetByName name) (no_upstream name) (\<lambda>u.
       case resolveTestResult (testUpstream n u) of (ok, latency, errMsg) \<Rightarrow>
         andthen (attempt (UpstreamStore_UpdateHealth name ok latency errMsg)) (\<lambda>_.
         case testUpstream n u of Inl e \<Rightarrow> throw e | Inr res \<Rightarrow> ret res))"

text \<open>What a batch adds and which shadowsocks entries it skips; the first invalid entry is an
  error.\<close>

fun sort_batch :: "bool \<Rightarrow> upstream list \<Rightarrow> string + (upstream list \<times> string list)" where
  "sort_batch middleProxyOn [] = Inr ([], [])"
| "sort_batch middleProxyOn (u # us) =
     (case Upstream_Validate u of
        Some e \<Rightarrow> Inl e
      | None \<Rightarrow>
          (case sort_batch middleProxyOn us of
             Inl e \<Rightarrow> Inl e
           | Inr (toAdd, skipped) \<Rightarrow>
               if up_Type u = UpstreamShadowsocks \<and> middleProxyOn then Inr (toAdd, up_Name u # skipped)
               else Inr (u\<lparr>up_Enabled := True\<rparr> # toAdd, skipped)))"

definition AddMultiple :: "wiring \<Rightarrow> upstream list \<Rightarrow> (upstream list \<times> string list) io" where
  "AddMultiple wi us =
     andthen (middleProxyEnabled wi) (\<lambda>middleProxyOn.
     case sort_batch middleProxyOn us of
       Inl e \<Rightarrow> throw (ErrMsg e)
     | Inr (toAdd, skipped) \<Rightarrow>
         if toAdd = [] then ret ([], skipped)
         else andthen (CreateMultiple toAdd) (\<lambda>inserted. ret (inserted, skipped)))"

end
