(* ===== verification/Upstream_Service_Laws.thy ===== *)
theory Upstream_Service_Laws
  imports Upstream_Service
begin

text \<open>
  Every operation of the upstream service keeps the rule that the engine is never configured with
  an enabled shadowsocks upstream while the Middle-Proxy mode is on; the tests and health checks
  keep it as well.
\<close>

subsection \<open>ADR-001\<close>

text \<open>What the engine is configured with: the loaded setting, and the enabled upstreams.\<close>

definition engine_middle_proxy :: "db \<Rightarrow> bool" where
  "engine_middle_proxy d \<longleftrightarrow> st_UseMiddleProxy (settings_of (rev (t_settings d)))"

definition no_shadowsocks :: "db \<Rightarrow> bool" where
  "no_shadowsocks d \<longleftrightarrow> (\<forall>u \<in> set (t_upstreams d). up_Enabled u \<longrightarrow> up_Type u \<noteq> UpstreamShadowsocks)"

definition tables_wf :: "db \<Rightarrow> bool" where
  "tables_wf d \<longleftrightarrow> distinct (map fst (t_settings d)) \<and> upstreams_wf d"

definition adr001 :: "db \<Rightarrow> bool" where
  "adr001 d \<longleftrightarrow> tables_wf d \<and> (engine_middle_proxy d \<longrightarrow> no_shadowsocks d)"

definition mp_off :: "db \<Rightarrow> bool" where
  "mp_off d \<longleftrightarrow> setting d ''use_middle_proxy'' = ''false''"

lemma map_of_rev_distinct: "distinct (map fst m) \<Longrightarrow> map_of (rev m) = map_of m"
proof
  fix k
  assume "distinct (map fst m)"
  then show "map_of (rev m) k = map_of m k"
    by (metis (no_types, lifting) distinct_rev map_of_eq_Some_iff not_Some_eq rev_map set_rev)
qed

lemma engine_middle_proxy_value:
  assumes "distinct (map fst (t_settings d))"
  shows "engine_middle_proxy d \<longleftrightarrow>
    (case map_of (t_settings d) ''use_middle_proxy'' of None \<Rightarrow> True | Some v \<Rightarrow> v = ''true'')"
proof -
  have "map_of (rev (t_settings d)) = map_of (t_settings d)"
    using assms by (rule map_of_rev_distinct)
  then show ?thesis
    by (simp add: engine_middle_proxy_def settings_of_def Settings_Validate_def getBoolDefault_def)
qed

lemma mp_off_engine:
  assumes "mp_off d" "tables_wf d"
  shows "\<not> engine_middle_proxy d"
proof -
  from assms(1) have "map_of (t_settings d) ''use_middle_proxy'' = Some ''false''"
    by (simp add: mp_off_def setting_def split: option.splits)
  with assms(2) show ?thesis by (simp add: tables_wf_def engine_middle_proxy_value)
qed

text \<open>The tables that an operation on upstreams leaves alone.\<close>

lemma same_settings:
  "t_settings d' = t_settings d \<Longrightarrow> engine_middle_proxy d' = engine_middle_proxy d \<and> mp_off d' = mp_off d"
  by (simp add: engine_middle_proxy_def mp_off_def setting_def)

text \<open>The state in which an upstream may be enabled.\<close>

definition may_enable :: "upstream \<Rightarrow> db \<Rightarrow> bool" where
  "may_enable u d \<longleftrightarrow> adr001 d \<and> (up_Type u = UpstreamShadowsocks \<longrightarrow> mp_off d)"

lemma middleProxyEnabled_hoare:
  assumes "\<And>d. P d \<Longrightarrow> E d"
  shows "hoare P (middleProxyEnabled wi) (\<lambda>on d. P d \<and> (\<not> on \<longrightarrow> mp_off d)) E"
  unfolding middleProxyEnabled_def
proof (rule hoare_if)
  have g: "hoare P (SettingsStore_Get ''use_middle_proxy'')
      (\<lambda>v d. P d \<and> v = setting d ''use_middle_proxy'') P"
    by (rule hoareI) (simp_all add: settings_table.get_view readsD [OF Get_reads])
  show "hoare P (andthen (attempt (SettingsStore_Get ''use_middle_proxy''))
      (\<lambda>r. ret (case r of Inl _ \<Rightarrow> True | Inr v \<Rightarrow> v \<noteq> ''false'')))
    (\<lambda>on d. P d \<and> (\<not> on \<longrightarrow> mp_off d)) E"
    by (rule hoare_andthen [OF hoare_attempt [OF g]], rule hoare_ret)
      (simp add: mp_off_def split: sum.splits)
qed (auto intro: hoare_ret)

lemma ensure_hoare:
  assumes "\<And>d. P d \<Longrightarrow> E d"
  shows "hoare P (ensureShadowsocksAllowed wi u)
    (\<lambda>_ d. P d \<and> (up_Type u = UpstreamShadowsocks \<longrightarrow> mp_off d)) E"
  unfolding ensureShadowsocksAllowed_def
proof (rule hoare_if)
  assume "\<not> up_Type u \<noteq> UpstreamShadowsocks"
  show "hoare P (andthen (middleProxyEnabled wi) (\<lambda>on. if on then throw shadowsocks_error else ret ()))
    (\<lambda>_ d. P d \<and> (up_Type u = UpstreamShadowsocks \<longrightarrow> mp_off d)) E"
    by (rule hoare_andthen [OF middleProxyEnabled_hoare [OF assms]])
      (auto intro: hoare_throw hoare_ret assms)
qed (auto intro: hoare_ret)


text \<open>The invariant, with the types of some upstreams pinned: what a check knows of the upstreams
  it listed.\<close>

definition typed :: "upstream list \<Rightarrow> db \<Rightarrow> bool" where
  "typed us d \<longleftrightarrow> adr001 d \<and>
     (\<forall>u \<in> set us. \<forall>r \<in> set (t_upstreams d). up_Name r = up_Name u \<longrightarrow> up_Type r = up_Type u)"

lemma typed_Nil [simp]: "typed [] = adr001"
  by (simp add: typed_def fun_eq_iff)

lemma typed_adr001: "typed us d \<Longrightarrow> adr001 d"
  by (simp add: typed_def)

lemma update_typed:
  assumes f: "\<And>r. upstream_row_ok r \<Longrightarrow> upstream_row_ok (f r)" "\<And>r. up_Name (f r) = up_Name r"
      "\<And>r. up_ID (f r) = up_ID r"
    and t: "us = [] \<or> (\<forall>r. up_Type (f r) = up_Type r)"
    and e: "\<And>d r. P d \<Longrightarrow> r \<in> set (t_upstreams d) \<Longrightarrow> up_Name r = n \<Longrightarrow> up_Enabled (f r) \<Longrightarrow>
      up_Type (f r) = UpstreamShadowsocks \<Longrightarrow>
      up_Enabled r \<and> up_Type r = UpstreamShadowsocks \<or> \<not> engine_middle_proxy d"
    and P: "\<And>d. P d \<Longrightarrow> typed us d"
  shows "hoare P (update_upstreams n f) (\<lambda>_. typed us) (typed us)"
  unfolding update_upstreams_def
proof (rule hoare_sql_exec)
  fix d d' :: db and x
  assume d: "P d" and r: "Inr (int (count_where (has_name n) (t_upstreams d)),
      d\<lparr>t_upstreams := update_where (has_name n) f (t_upstreams d)\<rparr>) = (Inr (x, d') :: error + int \<times> db)"
  then have d': "d' = d\<lparr>t_upstreams := update_where (has_name n) f (t_upstreams d)\<rparr>" by simp
  have w: "upstreams_wf d'"
    using P [OF d] f by (auto simp: d' typed_def adr001_def tables_wf_def upstreams_wf_def
        set_update_where map_update_where_same)
  have "engine_middle_proxy d' \<longrightarrow> no_shadowsocks d'"
  proof
    assume on: "engine_middle_proxy d'"
    then have on: "engine_middle_proxy d" using same_settings [of d' d] by (simp add: d')
    with P [OF d] have "no_shadowsocks d" by (simp add: typed_def adr001_def)
    with e [OF d] on show "no_shadowsocks d'"
      by (fastforce simp: no_shadowsocks_def d' set_update_where)
  qed
  moreover have "\<forall>u \<in> set us. \<forall>r \<in> set (t_upstreams d'). up_Name r = up_Name u \<longrightarrow> up_Type r = up_Type u"
    using P [OF d] t f(2) by (auto simp: typed_def d' set_update_where)
  ultimately show "typed us d'"
    using w P [OF d] by (simp add: typed_def adr001_def tables_wf_def d')
qed (rule P)

text \<open>Operations that enable nothing keep it.\<close>

lemma update_keeps_typed:
  assumes "\<And>r. upstream_row_ok r \<Longrightarrow> upstream_row_ok (f r)" "\<And>r. up_Name (f r) = up_Name r"
    "\<And>r. up_ID (f r) = up_ID r" "\<And>r. up_Type (f r) = up_Type r" "\<And>r. up_Enabled (f r) \<Longrightarrow> up_Enabled r"
  shows "keeps (typed us) (update_upstreams n f)"
  by (rule hoare_keeps, rule update_typed) (use assms in auto)

lemma store_keeps_typed [keeps_intros]:
  "keeps (typed us) (UpstreamStore_UpdateHealth n ok l e)" "keeps (typed us) (DisableAutomatically n t)"
  "keeps (typed us) (ClearHealth n)"
  unfolding UpstreamStore_UpdateHealth_def DisableAutomatically_def ClearHealth_def
  by (intro keeps_andthen keeps_clock keeps_ret update_keeps_typed; simp add: upstream_row_ok_def health_columns_def)+

lemma notify_reads [simp, intro]: "reads (notify_upstream wi ev)"
proof -
  have "reads SettingsStore_Load"
    unfolding SettingsStore_Load_def by (intro reads_andthen) (simp_all del: run_ret)
  then show ?thesis
    unfolding notify_upstream_def upstreams_url_def
    by (auto intro!: reads_andthen simp del: run_ret)
qed

lemma when_tell_reads [simp, intro]: "reads (when_do c (tell e))"
  by (auto simp: when_do_def simp del: run_ret)

lemma keeps_events [keeps_intros]: "keeps P (notify_upstream wi ev)" "keeps P (when_do c (tell e))"
  by (rule reads_keeps, simp)+

lemma handleFailover_keeps [keeps_intros]: "keeps (typed us) (handleFailover wi n e)"
  unfolding handleFailover_def UpstreamStore_GetByName_def by (intro keeps_intros)

lemma handleAutoRecovery_keeps:
  assumes "u \<in> set us"
  shows "keeps (typed us) (handleAutoRecovery wi u l)"
proof (rule hoare_keeps)
  let ?P = "\<lambda>d. typed us d \<and> (up_Type u = UpstreamShadowsocks \<longrightarrow> mp_off d)"
  have en: "hoare ?P (EnableAutomatically (up_Name u)) (\<lambda>_. typed us) (typed us)"
    unfolding EnableAutomatically_def
  proof (rule hoare_andthen [OF update_typed hoare_ret])
    fix d r
    assume d: "?P d" and r: "r \<in> set (t_upstreams d)" "up_Name r = up_Name u"
      and ss: "up_Type (r\<lparr>up_Enabled := True, up_AutoDisabled := False, up_AutoDisabledAt := 0,
        up_FailCount := 0\<rparr>) = UpstreamShadowsocks"
    with assms have "up_Type u = UpstreamShadowsocks" by (simp add: typed_def)
    with d have "\<not> engine_middle_proxy d" by (intro mp_off_engine) (simp_all add: typed_def adr001_def)
    then show "up_Enabled r \<and> up_Type r = UpstreamShadowsocks \<or> \<not> engine_middle_proxy d" by simp
  qed (simp_all add: upstream_row_ok_def)
  have ens: "hoare (typed us) (ensureShadowsocksAllowed wi u) (\<lambda>_. ?P) (typed us)"
    by (rule ensure_hoare)
  show "hoare (typed us) (handleAutoRecovery wi u l) (\<lambda>_. typed us) (typed us)"
    unfolding handleAutoRecovery_def
  proof (rule hoare_andthen [OF hoare_attempt [OF ens]])
    fix r :: "error + unit"
    show "hoare (\<lambda>d. case r of Inl _ \<Rightarrow> typed us d | Inr x \<Rightarrow> ?P d)
      (case r of Inl _ \<Rightarrow> ret ()
       | Inr _ \<Rightarrow> andthen (attempt (EnableAutomatically (up_Name u))) (\<lambda>r.
           case r of Inl _ \<Rightarrow> ret ()
           | Inr _ \<Rightarrow> andthen (when_do (wi_containerSvc wi)
               (tell (EvReload (''upstream '' @ up_Name u @ '' auto-recovered'')))) (\<lambda>_.
             notify_upstream wi (\<lambda>url. EvUpstreamUp url (up_Name u) l)))) (\<lambda>_. typed us) (typed us)"
    proof (cases r)
      case (Inr x)
      show ?thesis unfolding Inr sum.case
      proof (rule hoare_andthen [OF hoare_attempt [OF en]])
        fix q :: "error + unit"
        show "hoare (\<lambda>d. case q of Inl _ \<Rightarrow> typed us d | Inr x \<Rightarrow> typed us d)
          (case q of Inl _ \<Rightarrow> ret ()
           | Inr _ \<Rightarrow> andthen (when_do (wi_containerSvc wi)
               (tell (EvReload (''upstream '' @ up_Name u @ '' auto-recovered'')))) (\<lambda>_.
             notify_upstream wi (\<lambda>url. EvUpstreamUp url (up_Name u) l))) (\<lambda>_. typed us) (typed us)"
          by (cases q) (simp_all add: hoare_ret keeps_hoare keeps_intros del: run_ret)
      qed
    qed (simp add: hoare_ret del: run_ret)
  qed
qed

lemma checkUpstream_keeps: "u \<in> set us \<Longrightarrow> keeps (typed us) (checkUpstream wi n u)"
  unfolding checkUpstream_def
  by (auto split: prod.split intro!: keeps_intros handleAutoRecovery_keeps)

lemma keeps_each_mem:
  "(\<And>x a. x \<in> set xs \<Longrightarrow> keeps P (f x a)) \<Longrightarrow> keeps P (each f xs a)"
  by (induction xs arbitrary: a) (auto intro!: keeps_ret keeps_andthen simp del: run_ret)

lemma sql_rows_value: "sql_rows wr f w = (Inr rs, w') \<Longrightarrow> f (w_db w) = Inr rs"
  by (auto simp: sql_rows_def dest!: pop_fault_same split: prod.splits option.splits fault.splits
      sum.splits if_splits)

lemma CheckAllUpstreams_keeps: "keeps adr001 (CheckAllUpstreams wi n)"
proof (rule hoare_keeps)
  have l: "hoare adr001 UpstreamStore_List (\<lambda>us. typed us) adr001"
  proof (rule hoareI)
    fix w us w'
    assume a: "adr001 (w_db w)" and r: "UpstreamStore_List w = (Inr us, w')"
    have "w_db w' = w_db w"
      using r readsD [OF queryUpstreams_reads] by (auto simp: UpstreamStore_List_def)
    moreover have "set us = set (t_upstreams (w_db w))"
      using r sql_rows_value by (fastforce simp: UpstreamStore_List_def queryUpstreams_def)
    moreover have "distinct (map up_Name (t_upstreams (w_db w)))"
      using a by (simp add: adr001_def tables_wf_def upstreams_wf_def)
    ultimately show "typed us (w_db w')"
      using a by (auto simp: typed_def distinct_map dest: inj_onD)
  qed (use readsD [OF queryUpstreams_reads] in \<open>auto simp: UpstreamStore_List_def\<close>)
  show "hoare adr001 (CheckAllUpstreams wi n) (\<lambda>_. adr001) adr001"
    unfolding CheckAllUpstreams_def
  proof (rule hoare_andthen [OF l])
    fix us
    have "keeps (typed us) (each (\<lambda>u _. if \<not> up_Enabled u \<and> \<not> up_AutoDisabled u then ret ()
        else checkUpstream wi n u) us ())"
      by (intro keeps_each_mem keeps_if keeps_ret checkUpstream_keeps)
    then show "hoare (typed us) (each (\<lambda>u _. if \<not> up_Enabled u \<and> \<not> up_AutoDisabled u then ret ()
        else checkUpstream wi n u) us ()) (\<lambda>_. adr001) adr001"
      by (rule hoare_conseq [OF keeps_hoare]) (auto dest: typed_adr001)
  qed
qed


lemma upstream_check_reads [simp, intro]: "reads (upstream_check u)"
  by (auto simp: upstream_check_def simp del: run_ret split: option.splits)

lemma keeps_upstream_check [keeps_intros]: "keeps P (upstream_check u)"
  by (rule reads_keeps) simp

lemma insert_upstream_adr:
  assumes "insert_upstream u d = Inr (i, d')" "adr001 d" "up_Type u = UpstreamShadowsocks \<longrightarrow> mp_off d"
  shows "adr001 d'"
proof -
  from assms(1) have d': "t_settings d' = t_settings d"
    "set (t_upstreams d') = insert (inserted_upstream (t_upstreams_seq d + 1) u) (set (t_upstreams d))"
    by (auto simp: insert_upstream_def Let_def split: if_splits)
  have "upstreams_wf d'" using insert_upstream_wf [OF assms(1)] assms(2)
    by (simp add: adr001_def tables_wf_def)
  moreover have "engine_middle_proxy d' \<longrightarrow> no_shadowsocks d'"
    using assms(2,3) same_settings [OF d'(1)] mp_off_engine [of d] d'(2)
    by (auto simp: adr001_def no_shadowsocks_def inserted_upstream_def)
  ultimately show ?thesis using assms(2) d'(1) by (simp add: adr001_def tables_wf_def)
qed

lemma Add_keeps: "keeps adr001 (UpstreamService_Add wi u)"
proof (rule hoare_keeps)
  let ?P = "\<lambda>d. adr001 d \<and> (up_Type u = UpstreamShadowsocks \<longrightarrow> mp_off d)"
  have c: "hoare ?P (UpstreamStore_Create (u\<lparr>up_Enabled := True\<rparr>)) (\<lambda>_. adr001) adr001"
    unfolding UpstreamStore_Create_def
    by (intro hoare_wrap hoare_sql_exec) (auto intro: insert_upstream_adr)
  have m: "hoare ?P (must_not_exist (UpstreamStore_GetByName (up_Name u)) e
      (andthen (UpstreamStore_Create (u\<lparr>up_Enabled := True\<rparr>)) (\<lambda>i. ret (u\<lparr>up_Enabled := True, up_ID := i\<rparr>))))
      (\<lambda>_. adr001) adr001" for e
  proof (rule upstreams.must_not_exist_hoare)
    show "hoare (\<lambda>d. ?P d \<and> find_upstream d (up_Name u) = None)
      (andthen (UpstreamStore_Create (u\<lparr>up_Enabled := True\<rparr>)) (\<lambda>i. ret (u\<lparr>up_Enabled := True, up_ID := i\<rparr>)))
      (\<lambda>_. adr001) adr001"
      by (rule hoare_andthen [where R = "\<lambda>_. adr001"], rule hoare_conseq [OF c]) (auto intro: hoare_ret)
  qed simp
  show "hoare adr001 (UpstreamService_Add wi u) (\<lambda>_. adr001) adr001"
    unfolding UpstreamService_Add_def Let_def
    by (rule hoare_reads_then [OF upstream_check_reads], assumption,
        rule hoare_andthen [OF ensure_hoare], assumption, rule m)
qed

lemma Update_keeps: "keeps adr001 (UpstreamService_Update wi n u)"
proof (rule hoare_keeps)
  let ?P = "\<lambda>d. adr001 d \<and> (up_Type u = UpstreamShadowsocks \<longrightarrow> mp_off d)"
  have c: "hoare ?P (UpstreamStore_Update n (u\<lparr>up_Name := a, up_Enabled := b\<rparr>)) (\<lambda>_. adr001) adr001" for a b
    unfolding UpstreamStore_Update_def
  proof (rule hoare_andthen [OF hoare_wrap [OF hoare_sql_exec]])
    fix d d' :: db and x
    assume d: "?P d" and r: "(if \<not> upstream_row_ok (u\<lparr>up_Name := a, up_Enabled := b\<rparr>) \<and>
        list_ex (has_name n) (t_upstreams d) then Inl (ErrMsg ''CHECK constraint failed: upstreams'')
      else Inr (int (count_where (has_name n) (t_upstreams d)), d\<lparr>t_upstreams := update_where (has_name n)
        (upstream_columns (u\<lparr>up_Name := a, up_Enabled := b\<rparr>)) (t_upstreams d)\<rparr>)) = Inr (x, d')"
    let ?f = "upstream_columns (u\<lparr>up_Name := a, up_Enabled := b\<rparr>)"
    from r have d': "d' = d\<lparr>t_upstreams := update_where (has_name n) ?f (t_upstreams d)\<rparr>"
      and ok: "upstream_row_ok (u\<lparr>up_Name := a, up_Enabled := b\<rparr>) \<or> \<not> list_ex (has_name n) (t_upstreams d)"
      by (auto split: if_splits)
    have "upstreams_wf d'"
      using d ok by (auto simp: d' adr001_def tables_wf_def upstreams_wf_def set_update_where
          map_update_where_same upstream_columns_def upstream_row_ok_def list_ex_iff)
    moreover have "engine_middle_proxy d' \<longrightarrow> no_shadowsocks d'"
      using d mp_off_engine [of d] same_settings [of d' d]
      by (auto simp: adr001_def no_shadowsocks_def d' set_update_where upstream_columns_def)
    ultimately show "adr001 d'" using d by (simp add: adr001_def tables_wf_def d')
  next
    fix rows :: int
    show "hoare (\<lambda>d. adr001 d) (if rows = 0 then throw (no_upstream n) else ret ()) (\<lambda>_. adr001) adr001"
      by (auto intro: hoare_ret hoare_throw)
  qed simp
  show "hoare adr001 (UpstreamService_Update wi n u) (\<lambda>_. adr001) adr001"
    unfolding UpstreamService_Update_def
    by (rule hoare_reads_then [OF upstream_check_reads], assumption,
        rule hoare_andthen [OF ensure_hoare], assumption,
        rule upstreams.must_exist_hoare, rule hoare_conseq [OF c]) auto
qed

lemma Toggle_keeps: "keeps adr001 (UpstreamService_Toggle wi n b)"
proof (rule hoare_keeps)
  have tail: "hoare adr001 (if \<not> b then andthen (attempt (ClearHealth n)) (\<lambda>_. ret ()) else ret ())
      (\<lambda>_. adr001) adr001"
    by (rule keeps_hoare, fold typed_Nil) (intro keeps_intros)
  show "hoare adr001 (UpstreamService_Toggle wi n b) (\<lambda>_. adr001) adr001"
    unfolding UpstreamService_Toggle_def
  proof (rule upstreams.must_exist_hoare)
    fix u
    let ?P = "\<lambda>d. adr001 d \<and> find_upstream d n = Some u"
    let ?Q = "\<lambda>d. ?P d \<and> (b \<longrightarrow> up_Type u = UpstreamShadowsocks \<longrightarrow> mp_off d)"
    have e: "hoare ?P (if b then ensureShadowsocksAllowed wi u else ret ()) (\<lambda>_. ?Q) adr001"
      by (cases b) (auto intro: hoare_conseq [OF ensure_hoare [where P = ?P and E = adr001]] hoare_ret simp del: run_ret)
    have up: "hoare ?Q (UpstreamStore_UpdateEnabled n b) (\<lambda>_. adr001) adr001"
      unfolding UpstreamStore_UpdateEnabled_def
    proof (rule hoare_andthen [OF update_typed [where us = "[]", unfolded typed_Nil] hoare_ret])
      fix d r
      assume d: "?Q d" and r: "r \<in> set (t_upstreams d)" "up_Name r = n"
        "up_Enabled (r\<lparr>up_Enabled := b, up_AutoDisabled := False, up_AutoDisabledAt := 0\<rparr>)"
        "up_Type (r\<lparr>up_Enabled := b, up_AutoDisabled := False, up_AutoDisabledAt := 0\<rparr>) = UpstreamShadowsocks"
      from d have "distinct (map up_Name (t_upstreams d))"
        by (simp add: adr001_def tables_wf_def upstreams_wf_def)
      from find_key_unique [OF this r(1,2)] d have "r = u" by (simp add: find_upstream_def)
      with d r have "\<not> engine_middle_proxy d"
        by (intro mp_off_engine) (simp_all add: adr001_def)
      then show "up_Enabled r \<and> up_Type r = UpstreamShadowsocks \<or> \<not> engine_middle_proxy d" by simp
    qed (simp_all add: upstream_row_ok_def)
    show "hoare ?P (andthen (if b then ensureShadowsocksAllowed wi u else ret ()) (\<lambda>_.
       andthen (UpstreamStore_UpdateEnabled n b) (\<lambda>_.
       if \<not> b then andthen (attempt (ClearHealth n)) (\<lambda>_. ret ()) else ret ()))) (\<lambda>_. adr001) adr001"
      by (rule hoare_andthen [OF e hoare_andthen [OF up tail]])
  qed
qed


lemma Remove_keeps: "keeps adr001 (UpstreamService_Remove n)"
proof -
  have "keeps adr001 (UpstreamStore_Delete n)"
    unfolding UpstreamStore_Delete_def
  proof (rule keeps_sql_exec)
    fix d d' :: db and x
    assume d: "adr001 d" and "(Inr ((), d\<lparr>t_upstreams := delete_where (has_name n) (t_upstreams d)\<rparr>)
      :: error + unit \<times> db) = Inr (x, d')"
    then have d': "d' = d\<lparr>t_upstreams := delete_where (has_name n) (t_upstreams d)\<rparr>" by simp
    from d show "adr001 d'"
      using same_settings [of d' d]
      by (auto simp: d' adr001_def tables_wf_def upstreams_wf_def no_shadowsocks_def distinct_map_delete_where)
  qed
  then show ?thesis
    unfolding UpstreamService_Remove_def UpstreamStore_GetByName_def by (intro keeps_intros)
qed

lemma UpdateHealth_keeps [keeps_intros]: "keeps adr001 (UpstreamStore_UpdateHealth n ok l e)"
  using store_keeps_typed(1) [of "[]"] by simp

lemma Test_keeps: "keeps adr001 (UpstreamService_Test net n)"
  unfolding UpstreamService_Test_def UpstreamStore_GetByName_def
  by (intro keeps_intros) (auto split: prod.split intro!: keeps_intros)

lemma runInitialHealthCheck_keeps: "keeps adr001 (runInitialHealthCheck net n u)"
  unfolding runInitialHealthCheck_def by (auto split: prod.split intro!: keeps_intros)

lemma sort_batch_allowed:
  "sort_batch on us = Inr (toAdd, skipped) \<Longrightarrow> u \<in> set toAdd \<Longrightarrow> up_Type u = UpstreamShadowsocks \<Longrightarrow> \<not> on"
proof (induction us arbitrary: toAdd skipped)
  case (Cons v vs)
  then show ?case by (auto split: option.splits sum.splits if_splits prod.splits)
qed auto

lemma CreateMultiple_keeps_adr:
  assumes "\<And>u. u \<in> set us \<Longrightarrow> up_Type u = UpstreamShadowsocks \<Longrightarrow> ss"
  shows "keeps (\<lambda>d. adr001 d \<and> (ss \<longrightarrow> mp_off d)) (CreateMultiple us)"
proof -
  have "keeps (\<lambda>d. adr001 d \<and> (ss \<longrightarrow> mp_off d)) (insert_or_ignore u)" if "u \<in> set us" for u
    unfolding insert_or_ignore_def
  proof (rule keeps_sql_exec)
    fix d d' :: db and x
    assume d: "adr001 d \<and> (ss \<longrightarrow> mp_off d)"
      and i: "(case insert_upstream u d of Inl _ \<Rightarrow> Inr (False, d) | Inr (_, d') \<Rightarrow> Inr (True, d'))
        = (Inr (x, d') :: error + bool \<times> db)"
    show "adr001 d' \<and> (ss \<longrightarrow> mp_off d')"
    proof (cases "insert_upstream u d")
      case (Inr p)
      with i obtain k where k: "insert_upstream u d = Inr (k, d')" by (cases p) auto
      have "mp_off d' = mp_off d" using same_settings [of d' d] k
        by (auto simp: insert_upstream_def Let_def split: if_splits)
      with insert_upstream_adr [OF k] d assms [OF that] show ?thesis by auto
    qed (use i d in auto)
  qed
  then show ?thesis
    unfolding CreateMultiple_def create_one_def
    by (intro keeps_intros keeps_each_mem reads_keeps [OF tx_step_reads]) auto
qed

lemma AddMultiple_keeps: "keeps adr001 (AddMultiple wi us)"
proof (rule hoare_keeps)
  show "hoare adr001 (AddMultiple wi us) (\<lambda>_. adr001) adr001"
    unfolding AddMultiple_def
  proof (rule hoare_andthen [OF middleProxyEnabled_hoare])
    fix on
    let ?P = "\<lambda>d. adr001 d \<and> (\<not> on \<longrightarrow> mp_off d)"
    show "hoare ?P (case sort_batch on us of Inl e \<Rightarrow> throw (ErrMsg e)
      | Inr (toAdd, skipped) \<Rightarrow> if toAdd = [] then ret ([], skipped)
         else andthen (CreateMultiple toAdd) (\<lambda>inserted. ret (inserted, skipped))) (\<lambda>_. adr001) adr001"
    proof (cases "sort_batch on us")
      case (Inl e)
      show ?thesis unfolding Inl sum.case by (rule hoare_throw) simp
    next
      case (Inr p)
      obtain toAdd skipped where p: "p = (toAdd, skipped)" by (rule prod.exhaust)
      have "keeps ?P (CreateMultiple toAdd)"
        by (rule CreateMultiple_keeps_adr) (use sort_batch_allowed Inr p in blast)
      then have "hoare ?P (CreateMultiple toAdd) (\<lambda>_. adr001) adr001"
        by (rule hoare_conseq [OF keeps_hoare]) auto
      then have "hoare ?P (andthen (CreateMultiple toAdd) (\<lambda>inserted. ret (inserted, skipped)))
          (\<lambda>_. adr001) adr001"
        by (rule hoare_andthen) (rule hoare_ret)
      then show ?thesis
        unfolding Inr p sum.case prod.case by (intro hoare_if hoare_ret) simp_all
    qed
  qed
qed

end
