(* ===== verification/Config_Handler.thy ===== *)
theory Config_Handler
  imports Upstream_Service_Laws Go_Float
begin

text \<open>
  \<^verbatim>\<open>internal/api/handler/config_handler.go\<close>: the endpoint that changes settings, with its
  whitelist of keys, its side of ADR-001 and the choice between recreating containers and a reload.
  A response is its status with what the body says; the audit log is not modelled, a reload or
  restart is an event of the world.
\<close>

subsection \<open>The keys\<close>

definition allowedConfigKeys :: "string list" where
  "allowedConfigKeys =
     [''proxy_port'', ''proxy_metrics_port'', ''proxy_domain'', ''proxy_concurrency'', ''proxy_cpus'',
      ''proxy_memory'', ''custom_ip'', ''fake_cert_len'', ''proxy_protocol'',
      ''proxy_protocol_trusted_cidrs'', ''ad_tag'', ''use_middle_proxy'', ''geoblock_mode'',
      ''blocklist_countries'', ''masking_enabled'', ''masking_host'', ''masking_port'',
      ''masking_relay_max_bytes'', ''unknown_sni_action'', ''proxy_secret_url'',
      ''proxy_config_v4_url'', ''proxy_config_v6_url'', ''telegram_enabled'', ''telegram_bot_token'',
      ''telegram_chat_id'', ''telegram_interval'', ''telegram_alerts_enabled'',
      ''telegram_server_label'', ''web_url'', ''auto_update_enabled'', ''secret_auto_rotate_days'',
      ''maintenance_mode'', ''replication_enabled'', ''replication_role'',
      ''replication_sync_interval'', ''replication_ssh_port'', ''replication_ssh_user'',
      ''replication_delete_extra'', ''replication_ssh_key_path'', ''replication_exclude'',
      ''replication_restart_on_change'', ''replication_log'', ''debug'', ''synlimit_enabled'',
      ''synlimit_backend'', ''synlimit_seconds'', ''synlimit_hitcount'', ''synlimit_burst'',
      ''backup_retention_days'', ''telemt_version'', ''telemt_commit'', ''telemt_repo'']"

definition sensitiveKeys :: "string list" where
  "sensitiveKeys = [''jwt_secret'', ''auth_password_hash'']"

subsection \<open>Updates\<close>

record response =
  re_status :: int
  re_error :: string
  re_applied :: "string list"
  re_rejected :: "string list"

definition refused :: "int \<Rightarrow> string \<Rightarrow> response" where
  "refused status msg = \<lparr>re_status = status, re_error = msg, re_applied = [], re_rejected = []\<rparr>"

text \<open>\<^verbatim>\<open>HandleError\<close> with an error: the message and the error's text.\<close>

definition handle_error :: "int \<Rightarrow> string \<Rightarrow> error \<Rightarrow> response" where
  "handle_error status msg e = refused status (msg @ '': '' @ err_text e)"

definition config_value :: "json \<Rightarrow> string option" where
  "config_value v =
     (case v of
        JBool b \<Rightarrow> Some (show_bool b)
      | JNum n \<Rightarrow> Some (case ParseFloat n of None \<Rightarrow> [] | Some x \<Rightarrow> FormatFloat x)
      | JStr s \<Rightarrow> Some s
      | _ \<Rightarrow> None)"

text \<open>The accepted settings and the rejected keys, in the order of the iteration.\<close>

definition filterAllowedConfigUpdates ::
    "(string \<times> json) list \<Rightarrow> (string \<times> string) list \<times> string list" where
  "filterAllowedConfigUpdates updates =
     (List.map_filter (\<lambda>(k, v). if k \<notin> set allowedConfigKeys then None
        else map_option (Pair k) (config_value v)) updates,
      map fst (filter (\<lambda>(k, v). k \<notin> set allowedConfigKeys) updates))"

definition synlimitChanged :: "settings option \<Rightarrow> (string \<times> string) list \<Rightarrow> bool" where
  "synlimitChanged prev strUpdates =
     (case prev of
        None \<Rightarrow> list_ex (\<lambda>(k, _). has_prefix k ''synlimit_'') strUpdates
      | Some s \<Rightarrow>
          list_ex (\<lambda>(k, curVal). case map_of strUpdates k of None \<Rightarrow> False | Some v \<Rightarrow> v \<noteq> curVal)
            [(''synlimit_enabled'', show_bool (st_SynlimitEnabled s)),
             (''synlimit_backend'', st_SynlimitBackend s),
             (''synlimit_seconds'', show_int (st_SynlimitSeconds s)),
             (''synlimit_hitcount'', show_int (st_SynlimitHitcount s)),
             (''synlimit_burst'', show_int (st_SynlimitBurst s))])"

text \<open>\<open>Some\<close> response when the update must be rejected. \<open>wired\<close>: the upstream store is set.\<close>

definition middleProxyGuardPasses :: "bool \<Rightarrow> (string \<times> string) list \<Rightarrow> response option io" where
  "middleProxyGuardPasses wired strUpdates =
     (if map_of strUpdates ''use_middle_proxy'' \<noteq> Some ''true'' \<or> \<not> wired then ret None
      else andthen (attempt UpstreamStore_ListEnabled) (\<lambda>r.
        ret (case r of
               Inl e \<Rightarrow> Some (handle_error 500 ''failed to check upstreams'' e)
             | Inr ups \<Rightarrow>
                 (case find (\<lambda>u. up_Type u = UpstreamShadowsocks) ups of
                    None \<Rightarrow> None
                  | Some u \<Rightarrow> Some (refused 400 (''cannot enable Middle-Proxy mode while shadowsocks upstream ''
                      @ squote (up_Name u) @ '' is enabled; disable it first''))))))"

text \<open>The body bound into a map: the last member with a key counts; \<open>None\<close> is a binding error.\<close>

definition bind_map :: "string \<Rightarrow> (string \<times> json) list option" where
  "bind_map body =
     (case json_parse body of
        Some (JObj kvs) \<Rightarrow> Some (fold (\<lambda>(k, v). put k v) kvs [])
      | Some JNull \<Rightarrow> Some []
      | _ \<Rightarrow> None)"

definition ConfigHandler_Update :: "bool \<Rightarrow> bool \<Rightarrow> string \<Rightarrow> response io" where
  "ConfigHandler_Update wired container body =
     (case bind_map body of
        None \<Rightarrow> ret (refused 400 ''invalid request body'')
      | Some updates \<Rightarrow>
          (case filterAllowedConfigUpdates updates of (strUpdates, rejected) \<Rightarrow>
           if strUpdates = [] then
             ret (refused 400 ''no valid settings provided''\<lparr>re_rejected := rejected\<rparr>)
           else
             andthen (middleProxyGuardPasses wired strUpdates) (\<lambda>g.
             case g of
               Some resp \<Rightarrow> ret resp
             | None \<Rightarrow>
                 andthen (attempt SettingsStore_Load) (\<lambda>prev.
                 andthen (attempt (SettingsStore_Save strUpdates)) (\<lambda>r.
                 case r of
                   Inl e \<Rightarrow> ret (handle_error 500 ''failed to save settings'' e)
                 | Inr _ \<Rightarrow>
                     andthen (when_do container
                       (if synlimitChanged (case prev of Inl _ \<Rightarrow> None | Inr s \<Rightarrow> Some s) strUpdates
                        then tell EvRestart else tell (EvReload ''settings updated''))) (\<lambda>_.
                     ret \<lparr>re_status = 200, re_error = [], re_applied = map fst strUpdates,
                          re_rejected = rejected\<rparr>))))))"

definition ConfigHandler_GetKey :: "string \<Rightarrow> (response + string) io" where
  "ConfigHandler_GetKey key =
     (if key \<in> set sensitiveKeys then ret (Inl (refused 403 ''access denied for this key''))
      else andthen (attempt (SettingsStore_Get key)) (\<lambda>r.
        ret (case r of Inl e \<Rightarrow> Inl (handle_error 500 ''failed to get setting'' e) | Inr v \<Rightarrow> Inr v)))"

subsection \<open>Facts\<close>

lemma filter_allowed:
  "set (map fst (fst (filterAllowedConfigUpdates us))) \<subseteq> set allowedConfigKeys"
  by (auto simp: filterAllowedConfigUpdates_def List.map_filter_def split: if_splits)

lemma sensitive_not_allowed: "set sensitiveKeys \<inter> set allowedConfigKeys = {}"
  by (simp add: sensitiveKeys_def allowedConfigKeys_def)

lemma fold_put_distinct:
  "distinct (map fst m) \<Longrightarrow> distinct (map fst (fold (\<lambda>(k, v). put k v) us m))"
  by (induction us arbitrary: m) (auto simp: distinct_put)

lemma filter_distinct:
  "distinct (map fst us) \<Longrightarrow> distinct (map fst (fst (filterAllowedConfigUpdates us)))"
  unfolding filterAllowedConfigUpdates_def fst_conv
  by (rule map_filter_keys(2)) (auto split: if_splits option.splits)

lemma bind_distinct: "bind_map body = Some us \<Longrightarrow> distinct (map fst us)"
  by (auto simp: bind_map_def fold_put_distinct split: option.splits json.splits)

end
