(* ===== verification/Upstream_System.thy ===== *)
theory Upstream_System
  imports Config_Handler
begin

text \<open>
  Upstreams and settings together, as a transition system: the operations of the upstream service,
  its health checks, the settings endpoint and the environment. The engine never gets a
  configuration with the Middle-Proxy mode on and an enabled shadowsocks upstream. Then the
  life of one upstream under health checks.
\<close>

subsection \<open>Saving settings keeps ADR-001\<close>

lemma Save_keeps_adr:
  assumes us: "distinct (map fst us)"
  shows "hoare (\<lambda>d. adr001 d \<and> (map_of us ''use_middle_proxy'' = Some ''true'' \<longrightarrow> no_shadowsocks d))
    (SettingsStore_Save us) (\<lambda>_. adr001) adr001"
proof (rule hoareI)
  fix w x w'
  assume P: "adr001 (w_db w) \<and> (map_of us ''use_middle_proxy'' = Some ''true'' \<longrightarrow> no_shadowsocks (w_db w))"
    and run: "SettingsStore_Save us w = (Inr x, w')"
  let ?m = "fold (\<lambda>(k, v). put k v) us (t_settings (w_db w))"
  have d': "w_db w' = (w_db w)\<lparr>t_settings := ?m\<rparr>" by (rule Save_Inr [OF run])
  have dist: "distinct (map fst ?m)"
    using P by (intro fold_put_distinct) (simp add: adr001_def tables_wf_def)
  have wf: "tables_wf (w_db w')"
    using P dist by (simp add: d' adr001_def tables_wf_def upstreams_wf_def)
  have val: "map_of ?m ''use_middle_proxy'' = (case map_of us ''use_middle_proxy'' of
      None \<Rightarrow> map_of (t_settings (w_db w)) ''use_middle_proxy'' | Some v \<Rightarrow> Some v)"
    by (simp add: map_of_fold_put map_of_rev_distinct [OF us])
  have "engine_middle_proxy (w_db w') \<longrightarrow> no_shadowsocks (w_db w')"
  proof
    assume "engine_middle_proxy (w_db w')"
    then have on: "case map_of ?m ''use_middle_proxy'' of None \<Rightarrow> True | Some v \<Rightarrow> v = ''true''"
      using dist by (simp add: engine_middle_proxy_value d')
    have "no_shadowsocks (w_db w)"
    proof (cases "map_of us ''use_middle_proxy''")
      case None
      with on val P show ?thesis by (simp add: adr001_def tables_wf_def engine_middle_proxy_value)
    next
      case (Some v)
      with on val P show ?thesis by simp
    qed
    then show "no_shadowsocks (w_db w')" by (simp add: d' no_shadowsocks_def)
  qed
  with wf show "adr001 (w_db w')" by (simp add: adr001_def)
next
  fix w e w'
  assume "adr001 (w_db w) \<and> (map_of us ''use_middle_proxy'' = Some ''true'' \<longrightarrow> no_shadowsocks (w_db w))"
    and "SettingsStore_Save us w = (Inl e, w')"
  then show "adr001 (w_db w')"
    using settings_table.save_atomic [of us] by (auto simp: atomic_def)
qed

lemma sql_rows_list:
  "sql_rows wr (\<lambda>d. Inr (g d)) w = (Inr rs, w') \<Longrightarrow> rs = g (w_db w) \<and> w_db w' = w_db w"
  using sql_rows_value [of wr "\<lambda>d. Inr (g d)" w rs w'] readsD [OF sql_rows_reads] by auto

lemma guard_hoare:
  "hoare adr001 (middleProxyGuardPasses True us)
    (\<lambda>g d. adr001 d \<and> (g = None \<longrightarrow> map_of us ''use_middle_proxy'' = Some ''true'' \<longrightarrow> no_shadowsocks d)) adr001"
  unfolding middleProxyGuardPasses_def
proof (rule hoare_if)
  have "hoare adr001 UpstreamStore_ListEnabled
      (\<lambda>ups d. adr001 d \<and> set ups = {u \<in> set (t_upstreams d). up_Enabled u}) adr001"
    by (rule hoareI)
      (auto simp: UpstreamStore_ListEnabled_def queryUpstreams_def
        dest!: sql_rows_list dest: readsD [OF sql_rows_reads])
  then have l: "hoare adr001 (attempt UpstreamStore_ListEnabled) (\<lambda>r d. case r of Inl _ \<Rightarrow> adr001 d
      | Inr ups \<Rightarrow> adr001 d \<and> set ups = {u \<in> set (t_upstreams d). up_Enabled u}) adr001"
    by (rule hoare_attempt)
  let ?resp = "\<lambda>r. case r of Inl e \<Rightarrow> Some (handle_error 500 ''failed to check upstreams'' e)
     | Inr ups \<Rightarrow> (case find (\<lambda>u. up_Type u = UpstreamShadowsocks) ups of None \<Rightarrow> None
        | Some u \<Rightarrow> Some (refused 400 (''cannot enable Middle-Proxy mode while shadowsocks upstream ''
            @ squote (up_Name u) @ '' is enabled; disable it first'')))"
  show "hoare adr001 (andthen (attempt UpstreamStore_ListEnabled) (\<lambda>r. ret (?resp r)))
    (\<lambda>g d. adr001 d \<and> (g = None \<longrightarrow> map_of us ''use_middle_proxy'' = Some ''true'' \<longrightarrow> no_shadowsocks d)) adr001"
    by (rule hoare_andthen [OF l], rule hoare_ret)
      (auto simp: no_shadowsocks_def find_None_iff split: sum.splits option.splits)
qed (auto intro: hoare_ret)

lemma ConfigHandler_Update_keeps: "keeps adr001 (ConfigHandler_Update True c body)"
proof (rule hoare_keeps)
  show "hoare adr001 (ConfigHandler_Update True c body) (\<lambda>_. adr001) adr001"
  proof (cases "bind_map body")
    case (Some updates)
    obtain us rej where f: "filterAllowedConfigUpdates updates = (us, rej)" by (rule prod.exhaust)
    have us: "distinct (map fst us)"
      using filter_distinct [OF bind_distinct [OF Some]] by (simp add: f)
    have load: "reads (attempt SettingsStore_Load)"
      unfolding SettingsStore_Load_def by (auto intro!: reads_andthen simp del: run_ret)
    let ?P = "\<lambda>d. adr001 d \<and> (map_of us ''use_middle_proxy'' = Some ''true'' \<longrightarrow> no_shadowsocks d)"
    have save: "hoare ?P (attempt (SettingsStore_Save us)) (\<lambda>r d. case r of Inl _ \<Rightarrow> adr001 d | Inr _ \<Rightarrow> adr001 d) adr001"
      by (rule hoare_attempt [OF Save_keeps_adr [OF us]])
    have rest: "keeps adr001 (case r of Inl e \<Rightarrow> ret (handle_error 500 ''failed to save settings'' e)
       | Inr _ \<Rightarrow> andthen (when_do c (if synlimitChanged p us then tell EvRestart
            else tell (EvReload ''settings updated''))) (\<lambda>_.
           ret \<lparr>re_status = 200, re_error = [], re_applied = map fst us, re_rejected = rej\<rparr>))"
      for r :: "error + unit" and p
      by (intro keeps_intros) (simp add: when_do_def reads_keeps del: run_ret split: if_split)
    show ?thesis
      unfolding ConfigHandler_Update_def Some option.case f prod.case
    proof (rule hoare_if [OF hoare_ret hoare_andthen [OF guard_hoare]])
      fix g
      show "hoare (\<lambda>d. adr001 d \<and> (g = None \<longrightarrow> map_of us ''use_middle_proxy'' = Some ''true'' \<longrightarrow> no_shadowsocks d))
        (case g of None \<Rightarrow> andthen (attempt SettingsStore_Load) (\<lambda>prev.
             andthen (attempt (SettingsStore_Save us)) (\<lambda>r. case r of
               Inl e \<Rightarrow> ret (handle_error 500 ''failed to save settings'' e)
             | Inr _ \<Rightarrow> andthen (when_do c (if synlimitChanged (case prev of Inl _ \<Rightarrow> None | Inr s \<Rightarrow> Some s) us
                  then tell EvRestart else tell (EvReload ''settings updated''))) (\<lambda>_.
                ret \<lparr>re_status = 200, re_error = [], re_applied = map fst us, re_rejected = rej\<rparr>)))
         | Some resp \<Rightarrow> ret resp) (\<lambda>_. adr001) adr001"
      proof (cases g)
        case None
        show ?thesis unfolding None option.case
          by (rule hoare_reads_then [OF load], simp, rule hoare_conseq [OF hoare_andthen [OF save
              hoare_conseq [OF keeps_hoare [OF rest]]]]) (auto split: sum.splits)
      next
        case (Some r)
        show ?thesis unfolding Some option.case by (rule hoare_ret) simp
      qed
    qed simp
  qed (simp add: ConfigHandler_Update_def hoare_ret del: run_ret)
qed


subsection \<open>The system\<close>

inductive upstream_step :: "world \<Rightarrow> world \<Rightarrow> bool" where
  add: "UpstreamService_Add wi u w = (r, w') \<Longrightarrow> upstream_step w w'"
| update: "UpstreamService_Update wi n u w = (q, w') \<Longrightarrow> upstream_step w w'"
| remove: "UpstreamService_Remove n w = (q, w') \<Longrightarrow> upstream_step w w'"
| toggle: "UpstreamService_Toggle wi n b w = (q, w') \<Longrightarrow> upstream_step w w'"
| test: "UpstreamService_Test net n w = (t, w') \<Longrightarrow> upstream_step w w'"
| first_check: "runInitialHealthCheck net n u w = (q, w') \<Longrightarrow> upstream_step w w'"
| batch: "AddMultiple wi us w = (a, w') \<Longrightarrow> upstream_step w w'"
| check_all: "CheckAllUpstreams wi net w = (q, w') \<Longrightarrow> upstream_step w w'"
| configure: "ConfigHandler_Update True c body w = (p, w') \<Longrightarrow> upstream_step w w'"
| environment: "w_db w' = w_db w \<Longrightarrow> upstream_step w w'"

lemma step_adr001: "upstream_step w w' \<Longrightarrow> adr001 (w_db w) \<Longrightarrow> adr001 (w_db w')"
  by (induction rule: upstream_step.induct)
    (auto dest: keepsD' [OF Add_keeps] keepsD' [OF Update_keeps] keepsD' [OF Remove_keeps]
      keepsD' [OF Toggle_keeps] keepsD' [OF Test_keeps] keepsD' [OF runInitialHealthCheck_keeps]
      keepsD' [OF AddMultiple_keeps] keepsD' [OF CheckAllUpstreams_keeps]
      keepsD' [OF ConfigHandler_Update_keeps])

text \<open>
  C14: in every state reached by operations on upstreams, health checks and settings updates, whatever
  statements fail, no enabled upstream is a shadowsocks one while the engine is configured with the
  Middle-Proxy mode; names and numbers of upstreams stay unique and their rows legal.
\<close>

theorem adr001_invariant:
  assumes "upstream_step\<^sup>*\<^sup>* w w'" "adr001 (w_db w)"
  shows "adr001 (w_db w')"
  using assms by (induction rule: rtranclp_induct) (auto dest: step_adr001)

subsection \<open>One upstream under health checks\<close>

lemma ensure_reads [simp, intro]: "reads (ensureShadowsocksAllowed wi u)"
  unfolding ensureShadowsocksAllowed_def middleProxyEnabled_def
  by (auto intro!: reads_andthen simp del: run_ret run_throw)

lemma find_update_row:
  assumes "\<And>r. up_Name (f r) = up_Name r"
  shows "find (has_name n) (update_where (has_name m) f us) =
    map_option (\<lambda>u. if n = m then f u else u) (find (has_name n) us)"
  using assms by (induction us) auto

lemma update_upstreams_ok [run_simps]:
  "w_faults w = [] \<Longrightarrow> update_upstreams n f w =
     (Inr (int (count_where (has_name n) (t_upstreams (w_db w)))),
      w\<lparr>w_db := (w_db w)\<lparr>t_upstreams := update_where (has_name n) f (t_upstreams (w_db w))\<rparr>\<rparr>)"
  by (simp add: update_upstreams_def run_simps)

lemma GetByName_ok:
  "w_faults w = [] \<Longrightarrow> UpstreamStore_GetByName n w = (Inr (find_upstream (w_db w) n), w)"
  by (simp add: UpstreamStore_GetByName_def run_simps)

definition failed_row :: "int \<Rightarrow> int \<Rightarrow> string \<Rightarrow> upstream \<Rightarrow> upstream" where
  "failed_row now l e u =
     (let r = health_columns (unix now) False l e u in
      if up_FailCount u + 1 < 3 then r
      else r\<lparr>up_Enabled := False, up_AutoDisabled := True, up_AutoDisabledAt := unix now\<rparr>)"

lemma notify_same_db: "w_db (snd (notify_upstream wi ev w)) = w_db w"
  using notify_reads [of wi ev] by (simp add: reads_def)

lemma tell_run: "tell e w = (Inr (), w\<lparr>w_events := w_events w @ [e]\<rparr>)"
  by (simp add: tell_def)

lemma handleFailover_db:
  assumes "w_faults w = []" "find_upstream (w_db w) n = Some u" "up_Enabled u"
  shows "w_db (snd (handleFailover wi n e w)) =
    (if up_FailCount u < 3 then w_db w
     else (w_db w)\<lparr>t_upstreams := update_where (has_name n) (\<lambda>r. r\<lparr>up_Enabled := False,
            up_AutoDisabled := True, up_AutoDisabledAt := unix (w_now w)\<rparr>) (t_upstreams (w_db w))\<rparr>)"
proof -
  have d: "DisableAutomatically n (unix (w_now w)) w = (Inr (), w\<lparr>w_db := (w_db w)\<lparr>t_upstreams :=
      update_where (has_name n) (\<lambda>r. r\<lparr>up_Enabled := False,
            up_AutoDisabled := True, up_AutoDisabledAt := unix (w_now w)\<rparr>) (t_upstreams (w_db w))\<rparr>\<rparr>)"
    using assms(1) by (simp add: DisableAutomatically_def andthen_def run_simps)
  show ?thesis
    using assms by (auto simp: handleFailover_def andthen_def attempt_def GetByName_ok d when_do_def
        tell_run notify_same_db)
qed

lemma failing_check_rows:
  assumes "w_faults w = []" "upstreams_wf (w_db w)" "find_upstream (w_db w) n = Some u" "up_Enabled u"
    and "resolveTestResult (testUpstream net u) = (False, l, e)"
  shows "w_db (snd (checkUpstream wi net u w)) = (w_db w)\<lparr>t_upstreams :=
    update_where (has_name n) (failed_row (w_now w) l e) (t_upstreams (w_db w))\<rparr>"
proof -
  have n: "up_Name u = n" using assms(3) by (auto simp: find_upstream_def dest: find_SomeD)
  let ?f = "health_columns (unix (w_now w)) False l e"
  let ?w = "w\<lparr>w_db := (w_db w)\<lparr>t_upstreams := update_where (has_name n) ?f (t_upstreams (w_db w))\<rparr>\<rparr>"
  have h: "UpstreamStore_UpdateHealth n False l e w = (Inr (), ?w)"
    using assms(1) by (simp add: UpstreamStore_UpdateHealth_def andthen_def run_simps)
  have find: "find_upstream (w_db ?w) n = Some (?f u)"
    using assms(3) by (simp add: find_upstream_def find_update_row health_columns_def)
  have row: "r = u" if "r \<in> set (t_upstreams (w_db w))" "up_Name r = n" for r
    using assms(2,3) that find_key_unique [of up_Name "t_upstreams (w_db w)" r n]
    by (simp add: upstreams_wf_def find_upstream_def)
  have "w_db (snd (checkUpstream wi net u w)) = w_db (snd (handleFailover wi n e ?w))"
    by (simp add: checkUpstream_def assms(5) n andthen_def attempt_def h)
  also have "\<dots> = (if up_FailCount (?f u) < 3 then w_db ?w
     else (w_db ?w)\<lparr>t_upstreams := update_where (has_name n) (\<lambda>r. r\<lparr>up_Enabled := False,
            up_AutoDisabled := True, up_AutoDisabledAt := unix (w_now ?w)\<rparr>) (t_upstreams (w_db ?w))\<rparr>)"
    by (rule handleFailover_db [OF _ find]) (simp_all add: assms(1,4) health_columns_def)
  also have "\<dots> = (w_db w)\<lparr>t_upstreams :=
      update_where (has_name n) (failed_row (w_now w) l e) (t_upstreams (w_db w))\<rparr>"
  proof (cases "up_FailCount (?f u) < 3")
    case True
    then have "failed_row (w_now w) l e u = ?f u" by (simp add: failed_row_def health_columns_def)
    then have "update_where (has_name n) ?f (t_upstreams (w_db w)) =
        update_where (has_name n) (failed_row (w_now w) l e) (t_upstreams (w_db w))"
      by (intro update_where_cong) (auto dest: row)
    with True show ?thesis by simp
  next
    case False
    let ?g = "\<lambda>r. r\<lparr>up_Enabled := False, up_AutoDisabled := True, up_AutoDisabledAt := unix (w_now w)\<rparr>"
    from False have "failed_row (w_now w) l e u = ?g (?f u)"
      by (simp add: failed_row_def health_columns_def)
    then have "update_where (has_name n) (\<lambda>r. ?g (?f r)) (t_upstreams (w_db w)) =
        update_where (has_name n) (failed_row (w_now w) l e) (t_upstreams (w_db w))"
      by (intro update_where_cong) (auto dest: row)
    moreover have "update_where (has_name n) ?g (update_where (has_name n) ?f (t_upstreams (w_db w))) =
        update_where (has_name n) (\<lambda>r. ?g (?f r)) (t_upstreams (w_db w))"
      by (rule update_where_twice) (simp add: health_columns_def)
    ultimately show ?thesis using False by simp
  qed
  finally show ?thesis .
qed


text \<open>
  C15: a health check that fails adds one to an enabled upstream's count of failures, and at the
  third the upstream is disabled and marked for automatic recovery; no other upstream changes.
\<close>

theorem failing_check:
  assumes "w_faults w = []" "upstreams_wf (w_db w)" "find_upstream (w_db w) n = Some u" "up_Enabled u"
    and "resolveTestResult (testUpstream net u) = (False, l, e)"
  shows "w_db (snd (checkUpstream wi net u w)) = (w_db w)\<lparr>t_upstreams :=
    update_where (has_name n) (failed_row (w_now w) l e) (t_upstreams (w_db w))\<rparr>"
  by (rule failing_check_rows [OF assms])

text \<open>
  Enabling an automatically disabled upstream by hand does not reset its count of failures: the
  next check that fails disables it again at once, instead of at the third failure.
\<close>

theorem reenabled_upstream_fails_at_once:
  assumes "w_faults w = []" "upstreams_wf (w_db w)" "find_upstream (w_db w) n = Some u"
    and "up_Type u \<noteq> UpstreamShadowsocks" "2 \<le> up_FailCount u"
    and "UpstreamService_Toggle wi n True w = (Inr x, w1)" "find_upstream (w_db w1) n = Some v"
    and "resolveTestResult (testUpstream net v) = (False, l, e)"
  shows "up_Enabled v \<and> up_FailCount v = up_FailCount u \<and>
    (\<exists>r. find_upstream (w_db (snd (checkUpstream wi net v w1))) n = Some r \<and>
       \<not> up_Enabled r \<and> up_AutoDisabled r)"
proof -
  let ?f = "\<lambda>r. r\<lparr>up_Enabled := True, up_AutoDisabled := False, up_AutoDisabledAt := 0\<rparr>"
  have "UpstreamService_Toggle wi n True w =
      (Inr (), w\<lparr>w_db := (w_db w)\<lparr>t_upstreams := update_where (has_name n) ?f (t_upstreams (w_db w))\<rparr>\<rparr>)"
    using assms(1,3,4) by (simp add: UpstreamService_Toggle_def upstreams.found_runs
        ensureShadowsocksAllowed_def UpstreamStore_UpdateEnabled_def andthen_def run_simps)
  with assms(6) have w1: "w1 = w\<lparr>w_db := (w_db w)\<lparr>t_upstreams :=
      update_where (has_name n) ?f (t_upstreams (w_db w))\<rparr>\<rparr>" by simp
  with assms(3,7) have v: "v = ?f u" by (simp add: find_upstream_def find_update_row)
  have "w_faults w1 = []" using assms(1) by (simp add: w1)
  moreover have "upstreams_wf (w_db w1)"
    using assms(2) by (auto simp: w1 upstreams_wf_def set_update_where map_update_where_same upstream_row_ok_def)
  ultimately have "w_db (snd (checkUpstream wi net v w1)) = (w_db w1)\<lparr>t_upstreams :=
      update_where (has_name n) (failed_row (w_now w1) l e) (t_upstreams (w_db w1))\<rparr>"
    by (rule failing_check_rows [OF _ _ assms(7) _ assms(8)]) (simp add: v)
  then have "find_upstream (w_db (snd (checkUpstream wi net v w1))) n = Some (failed_row (w_now w1) l e v)"
    using assms(7) by (simp add: find_upstream_def find_update_row failed_row_def health_columns_def Let_def)
  then show ?thesis
    using assms(5) by (simp add: v failed_row_def health_columns_def)
qed

text \<open>What no operation but one on the upstream itself changes.\<close>

lemma update_other_row:
  assumes "n \<noteq> m" "\<And>r. up_Name (f r) = up_Name r"
  shows "keeps (\<lambda>d. find_upstream d n = o') (update_upstreams m f)"
  unfolding update_upstreams_def
  by (rule keeps_sql_exec) (auto simp: find_upstream_def find_update_row assms option.map_ident)

lemma checkUpstream_other_row:
  assumes "n \<noteq> up_Name u"
  shows "keeps (\<lambda>d. find_upstream d n = o') (checkUpstream wi net u)"
proof -
  note upd = update_other_row [OF assms]
  have "keeps (\<lambda>d. find_upstream d n = o') (UpstreamStore_UpdateHealth (up_Name u) ok l e)"
    "keeps (\<lambda>d. find_upstream d n = o') (DisableAutomatically (up_Name u) t)"
    "keeps (\<lambda>d. find_upstream d n = o') (EnableAutomatically (up_Name u))" for ok l e t
    unfolding UpstreamStore_UpdateHealth_def DisableAutomatically_def EnableAutomatically_def
    by (intro keeps_intros upd; simp add: health_columns_def)+
  moreover have "keeps (\<lambda>d. find_upstream d n = o') (ensureShadowsocksAllowed wi u)"
    by (rule reads_keeps) simp
  ultimately show ?thesis
    unfolding checkUpstream_def handleFailover_def handleAutoRecovery_def UpstreamStore_GetByName_def
    by (auto split: prod.split intro!: keeps_intros)
qed

lemma upstream_Update_Inr:
  assumes "UpstreamStore_Update n u w = (Inr y, w')"
  shows "w_db w' = (w_db w)\<lparr>t_upstreams :=
    update_where (has_name n) (upstream_columns u) (t_upstreams (w_db w))\<rparr>"
proof -
  let ?f = "\<lambda>d. if \<not> upstream_row_ok u \<and> list_ex (has_name n) (t_upstreams d)
    then Inl (ErrMsg ''CHECK constraint failed: upstreams'')
    else Inr (int (count_where (has_name n) (t_upstreams d)),
       d\<lparr>t_upstreams := update_where (has_name n) (upstream_columns u) (t_upstreams d)\<rparr>)"
  from assms obtain k w1 where e: "sql_exec ?f w = (Inr k, w1)"
    and "(if k = 0 then throw (no_upstream n) else ret ()) w1 = (Inr y, w')"
    unfolding UpstreamStore_Update_def by (auto simp: wrap_Inr elim!: andthen_InrE)
  then have "w' = w1" by (auto split: if_splits)
  moreover have "w_db w1 = (w_db w)\<lparr>t_upstreams :=
    update_where (has_name n) (upstream_columns u) (t_upstreams (w_db w))\<rparr>"
    using e by (auto simp: sql_exec_def dest!: pop_fault_same split: prod.splits option.splits sum.splits if_splits)
  ultimately show ?thesis by simp
qed

lemma service_Update_Inr:
  assumes "UpstreamService_Update wi n new w = (Inr x, w')" "find_upstream (w_db w) n = Some u"
  shows "w_db w' = (w_db w)\<lparr>t_upstreams := update_where (has_name n)
    (upstream_columns (new\<lparr>up_Name := up_Name u, up_Enabled := up_Enabled u\<rparr>)) (t_upstreams (w_db w))\<rparr>"
proof -
  from assms(1) obtain w0 y where w0: "w_db w0 = w_db w"
    and m: "must_exist (UpstreamStore_GetByName n) (no_upstream n) (\<lambda>existing. UpstreamStore_Update n
         (new\<lparr>up_Name := up_Name existing, up_Enabled := up_Enabled existing\<rparr>)) w0 = (Inr y, w')"
    unfolding UpstreamService_Update_def
    by (auto elim!: andthen_InrE dest!: readsD [OF upstream_check_reads] readsD [OF ensure_reads])
  from m obtain u' w2 where u': "find_upstream (w_db w0) n = Some u'" "w_db w2 = w_db w0"
    and run: "UpstreamStore_Update n (new\<lparr>up_Name := up_Name u', up_Enabled := up_Enabled u'\<rparr>) w2 = (Inr y, w')"
    by (rule upstreams.must_exist_InrE)
  with assms(2) w0 have "u' = u" "w_db w2 = w_db w" by simp_all
  with upstream_Update_Inr [OF run] show ?thesis by simp
qed

text \<open>The checks do not touch an upstream that is off by hand.\<close>

lemma checks_spare_manual:
  assumes dist: "distinct (map up_Name (t_upstreams (w_db w)))"
    and v: "find_upstream (w_db w) n = Some v" and off: "\<not> up_Enabled v" "\<not> up_AutoDisabled v"
  shows "find_upstream (w_db (snd (CheckAllUpstreams wi net w))) n = Some v"
proof (cases "UpstreamStore_List w")
  case (Pair r w3)
  show ?thesis
  proof (cases r)
    case (Inl e)
    with Pair v readsD [OF queryUpstreams_reads] show ?thesis
      by (auto simp: CheckAllUpstreams_def andthen_def UpstreamStore_List_def)
  next
    case (Inr us)
    with Pair have us: "us = sort_key up_ID (t_upstreams (w_db w))" "w_db w3 = w_db w"
      by (auto simp: UpstreamStore_List_def queryUpstreams_def dest!: sql_rows_list)
    have "keeps (\<lambda>d. find_upstream d n = Some v) (if \<not> up_Enabled u \<and> \<not> up_AutoDisabled u then ret ()
        else checkUpstream wi net u)" if "u \<in> set us" for u
    proof (cases "up_Name u = n")
      case True
      with that dist v have "u = v"
        by (simp add: us find_upstream_def find_key_unique)
      with off show ?thesis by (simp add: keeps_ret del: run_ret)
    next
      case False
      then show ?thesis by (intro keeps_if keeps_ret checkUpstream_other_row) simp
    qed
    then have "keeps (\<lambda>d. find_upstream d n = Some v) (each (\<lambda>u _. if \<not> up_Enabled u \<and> \<not> up_AutoDisabled u
        then ret () else checkUpstream wi net u) us ())"
      by (rule keeps_each_mem)
    from keepsD [OF this, of w3] v us(2) Pair Inr show ?thesis
      by (simp add: CheckAllUpstreams_def andthen_Inr)
  qed
qed

text \<open>
  Editing an automatically disabled upstream makes it a manually disabled one: the edit keeps it
  disabled but clears the mark, and the health checks, which would have enabled it again, leave it
  alone from then on.
\<close>

theorem edit_ends_auto_recovery:
  assumes "w_faults w = []" "upstreams_wf (w_db w)" "find_upstream (w_db w) n = Some u"
    and "\<not> up_Enabled u" "up_AutoDisabled u"
    and "UpstreamService_Update wi n new w = (Inr x, w1)"
  shows "\<exists>v. find_upstream (w_db w1) n = Some v \<and> \<not> up_Enabled v \<and> \<not> up_AutoDisabled v \<and>
    find_upstream (w_db (snd (CheckAllUpstreams wi net w1))) n = Some v"
proof -
  let ?v = "upstream_columns (new\<lparr>up_Name := up_Name u, up_Enabled := up_Enabled u\<rparr>) u"
  note d1 = service_Update_Inr [OF assms(6,3)]
  have "up_Name u = n" using assms(3) by (auto simp: find_upstream_def dest: find_SomeD)
  then have v: "find_upstream (w_db w1) n = Some ?v"
    using assms(3) by (simp add: d1 find_upstream_def find_update_row upstream_columns_def)
  have off: "\<not> up_Enabled ?v" "\<not> up_AutoDisabled ?v"
    using assms(4) by (simp_all add: upstream_columns_def)
  have "distinct (map up_Name (t_upstreams (w_db w1)))"
    using assms(2) by (simp add: d1 upstreams_wf_def map_update_where_same upstream_columns_def)
  from checks_spare_manual [OF this v off] v off show ?thesis by blast
qed

end
