(* ===== verification/Upstream_Names_Laws.thy ===== *)
theory Upstream_Names_Laws
  imports Upstream_Names
begin

text \<open>
  What the names of bulk upstreams look like, when they fit, and the round trips of proxy lines.
\<close>

subsection \<open>Facts on dashes\<close>

lemma replace_dashes_append:
  "h = [] \<or> hd h \<noteq> CHR ''-'' \<Longrightarrow> replace_dashes (x @ h) = replace_dashes x @ replace_dashes h"
  by (induction x rule: replace_dashes.induct) (cases h; auto)+

lemma double_dash_append:
  "h = [] \<or> hd h \<noteq> CHR ''-'' \<Longrightarrow> double_dash (x @ h) \<longleftrightarrow> double_dash x \<or> double_dash h"
  by (induction x rule: double_dash.induct) (cases h; auto)+

lemma no_dash: "CHR ''-'' \<notin> set h \<Longrightarrow> replace_dashes h = h \<and> \<not> double_dash h"
  by (induction h rule: replace_dashes.induct) auto

lemma collapse_suffix:
  "CHR ''-'' \<notin> set h \<Longrightarrow> collapseDashes (x @ h) = collapseDashes x @ h"
proof (induction x rule: collapseDashes.induct)
  case (1 x)
  have h: "h = [] \<or> hd h \<noteq> CHR ''-''" using 1(2) by (cases h) auto
  show ?case
  proof (cases "double_dash x")
    case True
    then have "collapseDashes (x @ h) = collapseDashes (replace_dashes x @ h)"
      using double_dash_append [OF h, of x] replace_dashes_append [OF h, of x] no_dash [OF 1(2)]
      by (subst collapseDashes.simps) simp
    with 1 True show ?thesis by (simp add: collapseDashes.simps [of x])
  next
    case False
    with double_dash_append [OF h, of x] no_dash [OF 1(2)] show ?thesis
      by (simp add: collapseDashes.simps)
  qed
qed

lemma replace_dashes_prefix: "c \<noteq> CHR ''-'' \<Longrightarrow> replace_dashes (c # s) = c # replace_dashes s"
  and double_dash_prefix: "c \<noteq> CHR ''-'' \<Longrightarrow> double_dash (c # s) = double_dash s"
  by (cases s; simp)+

lemma collapse_cons:
  "c \<noteq> CHR ''-'' \<Longrightarrow> collapseDashes (c # s) = c # collapseDashes s"
proof (induction s rule: collapseDashes.induct)
  case (1 s)
  show ?case
  proof (cases "double_dash s")
    case True
    with 1 show ?thesis
      by (simp add: collapseDashes.simps [of s] collapseDashes.simps [of "c # s"]
          replace_dashes_prefix double_dash_prefix)
  next
    case False
    with 1(2) show ?thesis by (simp add: collapseDashes.simps double_dash_prefix)
  qed
qed

lemma collapse_prefix: "CHR ''-'' \<notin> set p \<Longrightarrow> collapseDashes (p @ s) = p @ collapseDashes s"
  by (induction p) (auto simp: collapse_cons)

lemma collapse_length: "length (collapseDashes s) \<le> length s"
proof (induction s rule: collapseDashes.induct)
  case (1 s)
  then show ?case
    using replace_dashes_length [of s] by (subst collapseDashes.simps) (auto intro: order_trans)
qed

lemma collapse_single: "\<not> double_dash (collapseDashes s)"
proof (induction s rule: collapseDashes.induct)
  case (1 s)
  then show ?case by (subst collapseDashes.simps) auto
qed

lemma trim_char_length: "length (trim_char c s) \<le> length s"
  using length_dropWhile_le [of "\<lambda>x. x = c" s]
    length_dropWhile_le [of "\<lambda>x. x = c" "rev (dropWhile (\<lambda>x. x = c) s)"]
  by (simp add: trim_char_def)

lemma trim_char_id:
  assumes "s \<noteq> []" "hd s \<noteq> c" "last s \<noteq> c"
  shows "trim_char c s = s"
proof -
  have d: "dropWhile (\<lambda>x. x = c) t = t" if "t \<noteq> []" "hd t \<noteq> c" for t
    using that by (cases t) auto
  from assms show ?thesis by (simp add: trim_char_def d hd_rev)
qed

lemma hex8_length [simp]: "length (hex8 h) = 8"
  by (simp add: hex8_def)

lemma hex_digit_no_dash: "n < 16 \<Longrightarrow> hex_digit n \<noteq> CHR ''-''"
  using unhex_hex_digit [of n] by (auto simp: unhex_def)

lemma hex8_no_dash: "CHR ''-'' \<notin> set (hex8 h)"
  using hex_digit_no_dash [of "unat h div 16 ^ i mod 16" for i] by (force simp: hex8_def)

lemma prefix_cases: "bulkNamePrefix t \<in> {''s4'', ''dir'', ''ss'', ''s5''}"
  by (simp add: bulkNamePrefix_def)

text \<open>The name starts with the prefix of the type, ends with the identity hash, and contains no
  two dashes in a row.\<close>

lemma bulk_name_shape:
  obtains mid where "GenerateBulkUpstreamName u =
      bulkNamePrefix (up_Type u) @ mid @ upstreamIdentityHash u"
    and "\<not> double_dash (GenerateBulkUpstreamName u)"
    and "length (snd (bulkNameHostPort u)) \<le> 18 \<longrightarrow> length (GenerateBulkUpstreamName u) \<le> 32"
proof -
  let ?p = "bulkNamePrefix (up_Type u)" and ?h = "upstreamIdentityHash u"
  obtain host port where hp: "bulkNameHostPort u = (host, port)" by (rule prod.exhaust)
  define room where "room = max 0 (32 - int (length ?p) - 3 - int (length port) - int (length ?h))"
  define host' where "host' = trim_char CHR ''-''
    (if room < int (length (sanitizeHostSegment host)) then take (nat room) (sanitizeHostSegment host)
     else sanitizeHostSegment host)"
  define mid where "mid = ''-'' @ host' @ ''-'' @ port @ ''-''"
  have host': "int (length host') \<le> room"
  proof -
    have "0 \<le> room" by (simp add: room_def)
    let ?x = "if room < int (length (sanitizeHostSegment host))
       then take (nat room) (sanitizeHostSegment host) else sanitizeHostSegment host"
    have "int (length ?x) \<le> room" using \<open>0 \<le> room\<close> by (auto simp: min_def le_nat_iff)
    moreover have "length host' \<le> length ?x" unfolding host'_def by (rule trim_char_length)
    ultimately show ?thesis by linarith
  qed
  have pd: "CHR ''-'' \<notin> set ?p" and p2: "2 \<le> length ?p" "length ?p \<le> 3"
    using prefix_cases [of "up_Type u"] by auto
  have hd: "CHR ''-'' \<notin> set ?h" "length ?h = 8"
    by (simp_all add: upstreamIdentityHash_def hex8_no_dash)
  have c: "collapseDashes (?p @ mid @ ?h) = ?p @ collapseDashes mid @ ?h"
    using collapse_prefix [OF pd, of "mid @ ?h"] collapse_suffix [OF hd(1), of mid] by simp
  have t: "trim_char CHR ''-'' (?p @ collapseDashes mid @ ?h) = ?p @ collapseDashes mid @ ?h"
  proof (rule trim_char_id)
    show "?p @ collapseDashes mid @ ?h \<noteq> []" using p2 by auto
    show "hd (?p @ collapseDashes mid @ ?h) \<noteq> CHR ''-''"
      using pd p2 by (cases ?p) auto
    have "?h \<noteq> []" using hd(2) by auto
    moreover from this have "last ?h \<noteq> CHR ''-''" using hd(1) last_in_set by metis
    ultimately show "last (?p @ collapseDashes mid @ ?h) \<noteq> CHR ''-''" by simp
  qed
  have n: "GenerateBulkUpstreamName u = ?p @ collapseDashes mid @ ?h"
    unfolding c [THEN arg_cong [where f = "trim_char CHR ''-''"], unfolded t, symmetric]
    by (simp only: GenerateBulkUpstreamName_def Let_def hp prod.case host'_def room_def mid_def append_assoc)
  show thesis
  proof (rule that [OF n])
    show "\<not> double_dash (GenerateBulkUpstreamName u)"
      unfolding n c [symmetric] by (rule collapse_single)
    show "length (snd (bulkNameHostPort u)) \<le> 18 \<longrightarrow> length (GenerateBulkUpstreamName u) \<le> 32"
    proof
      assume "length (snd (bulkNameHostPort u)) \<le> 18"
      then have "room = 32 - int (length ?p) - 3 - int (length port) - 8"
        using p2 by (simp add: room_def hp hd(2))
      with host' have "int (length ?p + length mid + length ?h) \<le> 32"
        by (simp add: mid_def hd(2))
      then show "length (GenerateBulkUpstreamName u) \<le> 32"
        using collapse_length [of mid] by (simp add: n)
    qed
  qed
qed


text \<open>
  The name of a bulk upstream ends with the hash of its identity and starts with the prefix of
  its type, and when the port has at most 18 characters it has the 1 to 32 characters that an
  upstream's name may have.
\<close>

theorem bulk_name_fits:
  assumes "length (snd (bulkNameHostPort u)) \<le> 18"
  shows "1 \<le> length (GenerateBulkUpstreamName u) \<and> length (GenerateBulkUpstreamName u) \<le> 32 \<and>
    has_prefix (GenerateBulkUpstreamName u) (bulkNamePrefix (up_Type u)) \<and>
    drop (length (GenerateBulkUpstreamName u) - 8) (GenerateBulkUpstreamName u) = upstreamIdentityHash u"
proof -
  obtain mid where n: "GenerateBulkUpstreamName u =
      bulkNamePrefix (up_Type u) @ mid @ upstreamIdentityHash u"
    and "\<not> double_dash (GenerateBulkUpstreamName u)"
    and "length (snd (bulkNameHostPort u)) \<le> 18 \<longrightarrow> length (GenerateBulkUpstreamName u) \<le> 32"
    by (rule bulk_name_shape [of u])
  with assms have "length (GenerateBulkUpstreamName u) \<le> 32" by simp
  moreover have "length (upstreamIdentityHash u) = 8" by (simp add: upstreamIdentityHash_def)
  ultimately show ?thesis by (auto simp: n has_prefix_iff)
qed

text \<open>
  Two upstreams get the same bulk name only when their identity hashes are equal, so that
  proxies on one address with different credentials are not taken for duplicates.
\<close>

theorem bulk_names_distinguish:
  assumes "GenerateBulkUpstreamName u = GenerateBulkUpstreamName v"
  shows "upstreamIdentityHash u = upstreamIdentityHash v"
proof -
  have "drop (length (GenerateBulkUpstreamName x) - 8) (GenerateBulkUpstreamName x) = upstreamIdentityHash x" for x
  proof -
    obtain mid where n: "GenerateBulkUpstreamName x =
        bulkNamePrefix (up_Type x) @ mid @ upstreamIdentityHash x"
      by (rule bulk_name_shape [of x])
    have "length (upstreamIdentityHash x) = 8" by (simp add: upstreamIdentityHash_def)
    then show ?thesis by (simp add: n)
  qed
  with assms show ?thesis by metis
qed

subsection \<open>Round trips of proxy lines\<close>

text \<open>Text without the characters that separate the parts.\<close>

definition printable :: "char \<Rightarrow> bool" where
  "printable c \<longleftrightarrow> 33 \<le> byte c \<and> byte c < 127"

definition plain :: "string \<Rightarrow> bool" where
  "plain s \<longleftrightarrow> s \<noteq> [] \<and>
     list_all (\<lambda>c. printable c \<and> c \<notin> {CHR '':'', CHR ''@'', CHR ''['', CHR '']''}) s"

definition port_text :: "string \<Rightarrow> bool" where
  "port_text s \<longleftrightarrow> s \<noteq> [] \<and> list_all is_digit s"

definition password_text :: "string \<Rightarrow> bool" where
  "password_text s \<longleftrightarrow> s \<noteq> [] \<and> list_all (\<lambda>c. printable c \<and> c \<noteq> CHR ''@'') s"

lemma printable_trim:
  assumes "s \<noteq> []" "list_all printable s"
  shows "trim_space s = s"
proof (rule trim_space_ascii)
  have p: "\<not> is_space (byte c)" if "c \<in> set s" for c
    using assms(2) that by (auto simp: list_all_iff printable_def is_space_def)
  from assms(1) show "\<not> is_space (byte (hd s))" "\<not> is_space (byte (last s))"
    using p hd_in_set last_in_set by blast+
  from assms(2) show "list_all (\<lambda>c. byte c < 128) s" by (auto simp: list_all_iff printable_def)
qed (rule assms(1))

lemma digit_printable: "is_digit c \<Longrightarrow> printable c \<and> c \<notin> {CHR '':'', CHR ''@'', CHR ''['', CHR '']''}"
  by (auto simp: is_digit_def printable_def)

lemma plainD:
  assumes "plain s"
  shows "s \<noteq> []" "list_all printable s" "CHR '':'' \<notin> set s" "CHR ''@'' \<notin> set s"
    "CHR ''['' \<notin> set s" "CHR '']'' \<notin> set s"
  using assms by (auto simp: plain_def list_all_iff)

lemma port_plain: "port_text s \<Longrightarrow> plain s"
  by (auto simp: port_text_def plain_def list_all_iff dest: digit_printable)

lemma password_textD:
  assumes "password_text s"
  shows "s \<noteq> []" "list_all printable s" "CHR ''@'' \<notin> set s"
  using assms by (auto simp: password_text_def list_all_iff)

definition parsed :: "string \<Rightarrow> string \<Rightarrow> string \<Rightarrow> string \<Rightarrow> string \<Rightarrow> upstream" where
  "parsed t h p user pw = empty_upstream\<lparr>up_Weight := 10, up_Type := t, up_Address := h @ '':'' @ p,
     up_Username := user, up_Password := pw\<rparr>"

lemma check_parsed: "plain h \<Longrightarrow> port_text p \<Longrightarrow> check_address (parsed t h p user pw) = Inr (parsed t h p user pw)"
  using SplitHostPort_plain [of h p] plainD [of h] plainD [OF port_plain, of p]
  by (simp add: check_address_def parsed_def)

lemma index_char_append: "d \<notin> set s \<Longrightarrow> index_char d (s @ d # t) = Some (length s)"
  by (induction s) auto

text \<open>
  A proxy written as a URL with credentials is parsed into its type, address, user and password;
  the password may contain colons.
\<close>

theorem parse_url_form:
  assumes "plain user" "password_text pw" "plain h" "port_text p"
  shows "ParseProxyLine (''socks5://'' @ user @ '':'' @ pw @ ''@'' @ h @ '':'' @ p) =
      Inr (parsed UpstreamSOCKS5 h p user pw) \<and>
    ParseProxyLine (''socks4://'' @ user @ '':'' @ pw @ ''@'' @ h @ '':'' @ p) =
      Inr (parsed UpstreamSOCKS4 h p user pw)"
proof -
  have line: "list_all printable (user @ '':'' @ pw @ ''@'' @ h @ '':'' @ p)"
    using plainD(2) [OF assms(1)] password_textD(2) [OF assms(2)] plainD(2) [OF assms(3)]
      plainD(2) [OF port_plain [OF assms(4)]] by (simp add: printable_def)
  have at: "last_index_char CHR ''@'' (user @ CHR '':'' # pw @ CHR ''@'' # h @ CHR '':'' # p)
      = Some (length user + length pw + 1)"
    using last_index_char_append [of "CHR ''@''" "h @ CHR '':'' # p" "user @ CHR '':'' # pw"]
      plainD(4) [OF assms(3)] plainD(4) [OF port_plain [OF assms(4)]] by simp
  have colon: "index_char CHR '':'' (user @ CHR '':'' # pw) = Some (length user)"
    by (rule index_char_append) (rule plainD(3) [OF assms(1)])
  have *: "parse_authority (user @ CHR '':'' # pw @ CHR ''@'' # h @ CHR '':'' # p)
      (empty_upstream\<lparr>up_Weight := 10, up_Type := t\<rparr>) = Inr (parsed t h p user pw)" for t
    using colon by (simp add: parse_authority_def at parse_credentials_def parsed_def)
  show ?thesis
    using line check_parsed [OF assms(3,4)]
    by (simp add: ParseProxyLine_def printable_trim proxy_scheme_def * printable_def)
qed

text \<open>
  The colon-separated form without a scheme gives the same upstream as the URL form.
\<close>

theorem parse_colon_form:
  assumes "plain user" "password_text pw" "plain h" "port_text p"
  shows "ParseProxyLine (h @ '':'' @ p @ '':'' @ user @ '':'' @ pw) =
    ParseProxyLine (''socks5://'' @ user @ '':'' @ pw @ ''@'' @ h @ '':'' @ p)"
proof -
  let ?line = "h @ CHR '':'' # p @ CHR '':'' # user @ CHR '':'' # pw"
  have line: "list_all printable ?line"
    using plainD(2) [OF assms(1)] password_textD(2) [OF assms(2)] plainD(2) [OF assms(3)]
      plainD(2) [OF port_plain [OF assms(4)]] by (simp add: printable_def)
  have at: "last_index_char CHR ''@'' ?line = None"
    unfolding last_index_char_None
    using plainD(4) [OF assms(1)] password_textD(3) [OF assms(2)] plainD(4) [OF assms(3)]
      plainD(4) [OF port_plain [OF assms(4)]] by simp
  have br: "\<not> has_prefix ?line ''[''"
    using plainD(1,5) [OF assms(3)] by (cases h) auto
  have slash: "CHR ''/'' \<notin> set p"
    using assms(4) by (auto simp: port_text_def list_all_iff is_digit_def)
  have noscheme: "\<not> has_prefix ?line (sch @ ''://'')" if "CHR '':'' \<notin> set sch" for sch
  proof
    assume "has_prefix ?line (sch @ ''://'')"
    then obtain t where "?line = sch @ CHR '':'' # CHR ''/'' # CHR ''/'' # t"
      by (auto simp: has_prefix_iff)
    then have eq: "h @ CHR '':'' # p @ CHR '':'' # user @ CHR '':'' # pw = sch @ CHR '':'' # CHR ''/'' # CHR ''/'' # t" .
    with plainD(3) [OF assms(3)] that have "length h = length sch"
      by (metis index_char_append option.inject)
    with eq have "p @ CHR '':'' # user @ CHR '':'' # pw = CHR ''/'' # CHR ''/'' # t" by simp
    with slash plainD(1) [OF port_plain [OF assms(4)]] show False by (cases p) auto
  qed
  have split: "split_char CHR '':'' ?line = h # p # user # split_char CHR '':'' pw"
    using plainD(3) [OF assms(1)] plainD(3) [OF assms(3)] plainD(3) [OF port_plain [OF assms(4)]]
    by (simp add: split_char_append)
  have four: "4 \<le> length (split_char CHR '':'' ?line)"
    using split_char_nonempty [of "CHR '':''" pw] by (cases "split_char CHR '':'' pw") (auto simp: split)
  have "parseColonFormLine ?line u = Inr (u\<lparr>up_Address := h @ '':'' @ p, up_Username := user, up_Password := pw\<rparr>)" for u
    using four by (simp add: parseColonFormLine_def Let_def split)
  moreover have "?line \<noteq> []" by simp
  ultimately have "ParseProxyLine ?line = Inr (parsed UpstreamSOCKS5 h p user pw)"
    using line check_parsed [OF assms(3,4)] noscheme [of "''ss''"] noscheme [of "''socks5''"]
      noscheme [of "''socks4''"] at br
    by (simp add: ParseProxyLine_def printable_trim proxy_scheme_def parse_authority_def parsed_def
        del: has_prefix.simps)
  with parse_url_form [OF assms] show ?thesis by simp
qed


lemma replace_dashes_text:
  "filter (\<lambda>c. c \<noteq> CHR ''-'') (replace_dashes s) = filter (\<lambda>c. c \<noteq> CHR ''-'') s"
  by (induction s rule: replace_dashes.induct) auto

lemma collapse_text: "filter (\<lambda>c. c \<noteq> CHR ''-'') (collapseDashes s) = filter (\<lambda>c. c \<noteq> CHR ''-'') s"
proof (induction s rule: collapseDashes.induct)
  case (1 s)
  then show ?case by (subst collapseDashes.simps) (simp add: replace_dashes_text)
qed

lemma trim_char_text: "filter (\<lambda>x. x \<noteq> c) (trim_char c s) = filter (\<lambda>x. x \<noteq> c) s"
proof -
  have "filter (\<lambda>x. x \<noteq> c) (dropWhile (\<lambda>x. x = c) t) = filter (\<lambda>x. x \<noteq> c) t" for t
    by (induction t) auto
  then show ?thesis by (simp add: trim_char_def flip: rev_filter)
qed

lemma bulk_name_text:
  "10 + length (filter (\<lambda>c. c \<noteq> CHR ''-'') (snd (bulkNameHostPort u))) \<le> length (GenerateBulkUpstreamName u)"
proof -
  obtain host port where hp: "bulkNameHostPort u = (host, port)" by (rule prod.exhaust)
  obtain x where "GenerateBulkUpstreamName u = trim_char CHR ''-'' (collapseDashes
      (bulkNamePrefix (up_Type u) @ ''-'' @ x @ ''-'' @ port @ ''-'' @ upstreamIdentityHash u))"
    by (simp only: GenerateBulkUpstreamName_def Let_def hp prod.case)
  then have t: "filter (\<lambda>c. c \<noteq> CHR ''-'') (GenerateBulkUpstreamName u) =
      filter (\<lambda>c. c \<noteq> CHR ''-'') (bulkNamePrefix (up_Type u) @ x @ port @ upstreamIdentityHash u)"
    by (simp add: trim_char_text collapse_text)
  have "filter (\<lambda>c. c \<noteq> CHR ''-'') (upstreamIdentityHash u) = upstreamIdentityHash u"
    by (rule filter_True) (use hex8_no_dash in \<open>force simp: upstreamIdentityHash_def\<close>)
  moreover have "2 \<le> length (filter (\<lambda>c. c \<noteq> CHR ''-'') (bulkNamePrefix (up_Type u)))"
    using prefix_cases [of "up_Type u"] by auto
  ultimately have "10 + length (filter (\<lambda>c. c \<noteq> CHR ''-'') port)
      \<le> length (filter (\<lambda>c. c \<noteq> CHR ''-'') (GenerateBulkUpstreamName u))"
    unfolding t by (simp add: upstreamIdentityHash_def)
  also have "\<dots> \<le> length (GenerateBulkUpstreamName u)" by (rule length_filter_le)
  finally show ?thesis by (simp add: hp)
qed

text \<open>
  The port of an address is whatever follows the colon: a line with a long one is accepted, and
  the name made for it is longer than a name may be.
\<close>

theorem bulk_name_can_be_too_long:
  "\<exists>line u. ParseProxyLine line = Inr u \<and>
     Upstream_Validate (u\<lparr>up_Name := GenerateBulkUpstreamName u\<rparr>) = Some ''name must be 1-32 characters''"
proof (intro exI conjI)
  let ?port = "replicate 30 CHR ''1''"
  let ?u = "parsed UpstreamSOCKS5 ''h'' ?port ''u'' ''p''"
  have pre: "plain ''u''" "password_text ''p''" "plain ''h''" "port_text ?port"
    by (simp_all add: plain_def port_text_def password_text_def printable_def is_digit_def list_all_iff)
  show "ParseProxyLine (''h'' @ '':'' @ ?port @ '':'' @ ''u'' @ '':'' @ ''p'') = Inr ?u"
    by (rule trans [OF parse_colon_form [OF pre] conjunct1 [OF parse_url_form [OF pre]]])
  have "bulkNameHostPort ?u = (''h'', ?port)"
    using SplitHostPort_plain [of "''h''" ?port] plainD [OF pre(3)] plainD [OF port_plain [OF pre(4)]]
    by (simp add: bulkNameHostPort_def parsed_def upstream_types)
  then have "32 < length (GenerateBulkUpstreamName ?u)"
    using bulk_name_text [of ?u] by (simp)
  then show "Upstream_Validate (?u\<lparr>up_Name := GenerateBulkUpstreamName ?u\<rparr>) = Some ''name must be 1-32 characters''"
    by (simp add: Upstream_Validate_def)
qed

end
