(* ===== verification/Upstream_Witnesses.thy ===== *)
theory Upstream_Witnesses
  imports Witnesses Upstream_System Upstream_Names_Laws
begin

text \<open>
  The properties of settings and upstreams at concrete states of the panel.
\<close>

subsection \<open>Settings\<close>

theorem load_returns_valid_settings_witness:
  "settings_ok (case SettingsStore_Load sample_world of (Inr s, _) \<Rightarrow> s | _ \<Rightarrow> DefaultSettings)"
proof -
  have run: "SettingsStore_Load sample_world = (Inr (settings_of []), sample_world)"
    by (simp add: SettingsStore_Load_def andthen_def run_simps) (simp add: sample_defs)
  from load_returns_valid_settings [OF run] show ?thesis by (simp add: run)
qed

lemma sample_save:
  "SettingsStore_Save [(k, v)] sample_world = (Inr (), sample_world\<lparr>w_db := sample_db\<lparr>t_settings := [(k, v)]\<rparr>\<rparr>)"
  by (simp add: SettingsStore_Save_def transaction_def save_setting_def andthen_def wrap_def run_simps)
    (simp add: sample_defs put_def)

theorem saved_settings_are_read_back_witness:
  "fst (SettingsStore_Get ''web_url'' (snd (SettingsStore_Save [(''web_url'', ''u'')] sample_world))) = Inr ''u''"
proof -
  let ?w = "sample_world\<lparr>w_db := sample_db\<lparr>t_settings := [(''web_url'', ''u'')]\<rparr>\<rparr>"
  have g: "SettingsStore_Get ''web_url'' ?w = (Inr (setting (w_db ?w) ''web_url''), ?w)"
    by (rule Get_ok) simp
  from saved_settings_are_read_back [OF sample_save refl g] g show ?thesis
    by (simp add: sample_save)
qed

definition sample_signed :: world where
  "sample_signed = sample_world\<lparr>w_db := sample_db\<lparr>t_settings := [(''jwt_secret'', ''k'')]\<rparr>\<rparr>"


subsection \<open>Names and lines\<close>

theorem bulk_name_fits_witness:
  "length (GenerateBulkUpstreamName (parsed UpstreamSOCKS5 ''h'' ''1'' ''u'' ''p'')) \<le> 32"
proof -
  have "bulkNameHostPort (parsed UpstreamSOCKS5 ''h'' ''1'' ''u'' ''p'') = (''h'', ''1'')"
    using SplitHostPort_plain [of "''h''" "''1''"]
    by (simp add: bulkNameHostPort_def parsed_def upstream_types)
  then show ?thesis
    using bulk_name_fits [of "parsed UpstreamSOCKS5 ''h'' ''1'' ''u'' ''p''"] by simp
qed

theorem bulk_names_distinguish_witness:
  "upstreamIdentityHash (empty_upstream\<lparr>up_FailCount := 1\<rparr>) = upstreamIdentityHash empty_upstream"
proof (rule bulk_names_distinguish)
  let ?u = "empty_upstream\<lparr>up_FailCount := 1\<rparr>"
  have "bulkNameHostPort ?u = bulkNameHostPort empty_upstream"
    by (simp add: bulkNameHostPort_def cong: option.case_cong)
  moreover have "upstreamIdentityHash ?u = upstreamIdentityHash empty_upstream"
    by (simp add: upstreamIdentityHash_def identity_def)
  ultimately show "GenerateBulkUpstreamName ?u = GenerateBulkUpstreamName empty_upstream"
    by (simp add: GenerateBulkUpstreamName_def)
qed

lemma sample_texts: "plain ''u''" "password_text ''p:q''" "plain ''h''" "port_text ''1080''"
  by (simp_all add: plain_def port_text_def password_text_def printable_def is_digit_def)

theorem parse_url_form_witness:
  "ParseProxyLine (''socks5://'' @ ''u'' @ '':'' @ ''p:q'' @ ''@'' @ ''h'' @ '':'' @ ''1080'') =
     Inr (parsed UpstreamSOCKS5 ''h'' ''1080'' ''u'' ''p:q'')"
  by (rule conjunct1 [OF parse_url_form [OF sample_texts]])

theorem parse_colon_form_witness:
  "ParseProxyLine (''h'' @ '':'' @ ''1080'' @ '':'' @ ''u'' @ '':'' @ ''p:q'') =
     ParseProxyLine (''socks5://'' @ ''u'' @ '':'' @ ''p:q'' @ ''@'' @ ''h'' @ '':'' @ ''1080'')"
  by (rule parse_colon_form [OF sample_texts])

subsection \<open>Upstreams\<close>

definition sample_upstream :: upstream where
  "sample_upstream = empty_upstream\<lparr>up_ID := 1, up_Name := ''u1'', up_Type := UpstreamSOCKS4,
     up_Address := ''h:1'', up_Weight := 10, up_Enabled := True, up_FailCount := 2\<rparr>"

definition sample_wiring :: wiring where
  "sample_wiring = \<lparr>wi_settings = True, wi_containerSvc = True, wi_notify = False, wi_notifyWithBtns = False\<rparr>"

definition sample_panel :: "upstream \<Rightarrow> world" where
  "sample_panel u = sample_world\<lparr>w_db := sample_db\<lparr>t_upstreams := [u], t_upstreams_seq := 1\<rparr>\<rparr>"

definition dead_network :: network where
  "dead_network = \<lparr>net_dial = \<lambda>_. Inl ''refused'', net_get = \<lambda>_ _. Inl ''refused'', net_took = \<lambda>_. 0\<rparr>"

lemma sample_panel_simps [simp]:
  "w_faults (sample_panel u) = []" "find_upstream (w_db (sample_panel u)) (up_Name u) = Some u"
  "t_upstreams (w_db (sample_panel u)) = [u]" "t_settings (w_db (sample_panel u)) = []"
  "t_upstreams_seq (w_db (sample_panel u)) = 1"
  by (simp_all add: sample_panel_def find_upstream_def sample_db_def empty_db_def)

lemma sample_upstream_simps [simp]:
  "up_Name sample_upstream = ''u1''" "up_Type sample_upstream = UpstreamSOCKS4"
  "up_ID sample_upstream = 1" "up_Weight sample_upstream = 10" "up_FailCount sample_upstream = 2"
  "up_Enabled sample_upstream" "up_Address sample_upstream = ''h:1''"
  by (simp_all add: sample_upstream_def empty_upstream_def)

lemma sample_panel_wf:
  "upstreams_wf (w_db (sample_panel (sample_upstream\<lparr>up_Enabled := e, up_AutoDisabled := a\<rparr>)))"
  by (simp add: upstreams_wf_def upstream_row_ok_def)

lemma sample_panel_adr001: "adr001 (w_db (sample_panel sample_upstream))"
  by (simp add: adr001_def tables_wf_def no_shadowsocks_def upstreams_wf_def upstream_row_ok_def
      upstream_types)

theorem adr001_invariant_witness:
  "adr001 (w_db (snd (UpstreamService_Toggle sample_wiring ''u1'' False (sample_panel sample_upstream))))"
  by (rule adr001_invariant [OF r_into_rtranclp sample_panel_adr001])
    (rule upstream_step.toggle [OF prod.collapse [symmetric]])

lemma sample_dead: "up_Type u = UpstreamSOCKS4 \<Longrightarrow> up_Address u = ''h:1'' \<Longrightarrow>
  resolveTestResult (testUpstream dead_network u) =
    (False, 0, ''TCP connect to h:1 failed: refused'')"
  by (simp add: testUpstream_def testSOCKS4_def tcpProbe_def dead_network_def failed_test_def
      resolveTestResult_def upstream_types)

theorem failing_check_witness:
  "map up_AutoDisabled (t_upstreams (w_db (snd (checkUpstream sample_wiring dead_network sample_upstream
     (sample_panel sample_upstream))))) = [True]"
proof -
  have "upstreams_wf (w_db (sample_panel sample_upstream))"
    using sample_panel_adr001 by (simp add: adr001_def tables_wf_def)
  from failing_check [OF _ this, of "''u1''" sample_upstream dead_network 0] sample_dead [of sample_upstream]
    sample_panel_simps(2) [of sample_upstream]
  show ?thesis by (simp add: failed_row_def health_columns_def)
qed

text \<open>An upstream that the health checks have disabled.\<close>

definition sample_auto :: upstream where
  "sample_auto = sample_upstream\<lparr>up_FailCount := 3, up_Enabled := False, up_AutoDisabled := True\<rparr>"

lemma sample_auto_simps [simp]:
  "up_Name sample_auto = ''u1''" "up_Type sample_auto = UpstreamSOCKS4" "up_FailCount sample_auto = 3"
  "\<not> up_Enabled sample_auto" "up_AutoDisabled sample_auto" "up_Address sample_auto = ''h:1''"
  by (simp_all add: sample_auto_def)

lemma sample_auto_wf: "upstreams_wf (w_db (sample_panel sample_auto))"
  using sample_panel_wf [of False True] by (simp add: sample_auto_def upstreams_wf_def upstream_row_ok_def)

lemma sample_auto_find: "find_upstream (w_db (sample_panel sample_auto)) ''u1'' = Some sample_auto"
  using sample_panel_simps(2) [of sample_auto] by simp

theorem reenabled_upstream_fails_at_once_witness:
  "\<exists>v w1. UpstreamService_Toggle sample_wiring ''u1'' True (sample_panel sample_auto) = (Inr (), w1) \<and>
     up_Enabled v \<and> find_upstream (w_db w1) ''u1'' = Some v \<and>
     (\<exists>r. find_upstream (w_db (snd (checkUpstream sample_wiring dead_network v w1))) ''u1'' = Some r \<and>
       \<not> up_Enabled r)"
proof -
  let ?f = "\<lambda>r. r\<lparr>up_Enabled := True, up_AutoDisabled := False, up_AutoDisabledAt := 0\<rparr>"
  let ?w = "sample_panel (?f sample_auto)"
  have t: "UpstreamService_Toggle sample_wiring ''u1'' True (sample_panel sample_auto) = (Inr (), ?w)"
    by (simp add: UpstreamService_Toggle_def upstreams.found_runs [OF _ sample_auto_find]
        ensureShadowsocksAllowed_def UpstreamStore_UpdateEnabled_def andthen_def run_simps upstream_types)
      (simp add: sample_panel_def)
  have v: "find_upstream (w_db ?w) ''u1'' = Some (?f sample_auto)"
    using sample_panel_simps(2) [of "?f sample_auto"] by simp
  show ?thesis
    using reenabled_upstream_fails_at_once [OF _ sample_auto_wf sample_auto_find _ _ t v
        sample_dead [of "?f sample_auto"]] t v
    by (auto simp: upstream_types)
qed

lemma sample_upstream_valid: "Upstream_Validate sample_upstream = None"
  by (simp add: Upstream_Validate_def upstream_type_error_def upstream_types)
    (simp add: sample_upstream_def empty_upstream_def)

theorem edit_ends_auto_recovery_witness:
  "\<exists>v w1. UpstreamService_Update sample_wiring ''u1'' sample_upstream (sample_panel sample_auto) = (Inr (), w1) \<and>
     find_upstream (w_db (snd (CheckAllUpstreams sample_wiring dead_network w1))) ''u1'' = Some v \<and>
     \<not> up_Enabled v \<and> \<not> up_AutoDisabled v"
proof -
  have "UpstreamService_Update sample_wiring ''u1'' sample_upstream (sample_panel sample_auto) =
      (Inr (), sample_panel (upstream_columns (sample_upstream\<lparr>up_Enabled := False\<rparr>) sample_auto))"
    by (simp add: UpstreamService_Update_def upstreams.found_runs [OF _ sample_auto_find]
        upstream_check_def sample_upstream_valid upstream_row_ok_def
        ensureShadowsocksAllowed_def UpstreamStore_Update_def andthen_def wrap_def run_simps upstream_types)
      (simp add: sample_panel_def sample_upstream_def upstream_columns_def)
  from edit_ends_auto_recovery [OF _ sample_auto_wf sample_auto_find _ _ this] this
  show ?thesis by auto
qed

end
