(* ===== verification/Dockerutil.thy ===== *)
theory Dockerutil
  imports Database
begin

text \<open>
  \<^verbatim>\<open>pkg/dockerutil/client.go\<close>: the calls on containers of instances. The calls on the
  single container of the legacy mode, on images and logs, and the detection of the path of the data
  volume on the host are left out; \<open>dk_host_path\<close> stands for the latter.
\<close>

record run_options =
  ro_Image :: string
  ro_ConfigPath :: string
  ro_CPUs :: string
  ro_Memory :: string
  ro_Name :: string
  ro_Port :: int
  ro_TLSFrontDir :: string
  ro_CapAdd :: "string list"

definition instance_container :: "daemon \<Rightarrow> run_options \<Rightarrow> container" where
  "instance_container dk opts =
     \<lparr>ct_Image = ro_Image opts,
      ct_Binds = [dk_host_path dk (ro_ConfigPath opts) @ '':/etc/telemt.toml:ro''] @
        (if ro_TLSFrontDir opts \<noteq> [] then [dk_host_path dk (ro_TLSFrontDir opts) @ '':/tlsfront:ro''] else []),
      ct_CapAdd = ro_CapAdd opts, ct_Running = False\<rparr>"

definition RunInstance :: "daemon \<Rightarrow> run_options \<Rightarrow> string io" where
  "RunInstance dk opts =
     andthen (tell (EvRun (ro_Name opts))) (\<lambda>_.
     andthen (attempt (on_host (dk_remove dk (ro_Name opts)))) (\<lambda>_.
     andthen (wrap (''create instance '' @ ro_Name opts)
       (from_host (dk_create dk (ro_Name opts) (instance_container dk opts)))) (\<lambda>i.
     andthen (wrap (''start instance '' @ ro_Name opts) (on_host (dk_start dk i))) (\<lambda>_. ret i))))"

definition docker_StopInstance :: "daemon \<Rightarrow> string \<Rightarrow> unit io" where
  "docker_StopInstance dk name = andthen (tell (EvStop name)) (\<lambda>_. on_host (dk_stop dk name))"

definition RemoveInstance :: "daemon \<Rightarrow> string \<Rightarrow> unit io" where
  "RemoveInstance dk name = on_host (dk_remove dk name)"

definition KillSignalInstance :: "daemon \<Rightarrow> string \<Rightarrow> string \<Rightarrow> unit io" where
  "KillSignalInstance dk name signal =
     andthen (tell (EvSignal name signal)) (\<lambda>_. on_host (dk_kill dk name signal))"

text \<open>Docker lists names with a slash in front; a name that is not listed is not running.\<close>

definition IsInstanceRunning :: "daemon \<Rightarrow> string \<Rightarrow> bool io" where
  "IsInstanceRunning dk name =
     from_host (\<lambda>h. (case dk_list dk h of
        Inl e \<Rightarrow> Inl e
      | Inr l \<Rightarrow> Inr (case map_of l name of None \<Rightarrow> False | Some state \<Rightarrow> state), h))"

definition ListRunningContainerNames :: "daemon \<Rightarrow> string list io" where
  "ListRunningContainerNames dk =
     from_host (\<lambda>h. (case dk_list dk h of
        Inl e \<Rightarrow> Inl e | Inr l \<Rightarrow> Inr (map fst (filter (\<lambda>(_, state). state) l)), h))"

end
