(* ===== verification/Go_Quote.thy ===== *)
theory Go_Quote
  imports Go_Json Go_Net
begin

text \<open>
  \<^verbatim>\<open>strconv.Quote\<close>, the verb \<^verbatim>\<open>%q\<close> of \<^verbatim>\<open>fmt\<close>, and the reader
  of such a literal. Which runes above U+007F are printable is decided by tables of package
  \<^verbatim>\<open>strconv\<close>; the argument \<open>pr\<close> stands for them.
\<close>

subsection \<open>Quoting\<close>

text \<open>\<open>n\<close> digits of a number in base 16.\<close>

fun hexn :: "nat \<Rightarrow> nat \<Rightarrow> string" where
  "hexn 0 r = []"
| "hexn (Suc n) r = hexn n (r div 16) @ [hex_digit (r mod 16)]"

definition escape_byte :: "char \<Rightarrow> string" where
  "escape_byte c =
     (if c = dquote \<or> c = backslash then [backslash, c]
      else if 0x20 \<le> byte c \<and> byte c < 0x7F then [c]
      else if c = CHR 0x07 then [backslash, CHR ''a'']
      else if c = CHR 0x08 then [backslash, CHR ''b'']
      else if c = CHR 0x0C then [backslash, CHR ''f'']
      else if c = CHR 0x0A then [backslash, CHR ''n'']
      else if c = CHR 0x0D then [backslash, CHR ''r'']
      else if c = CHR 0x09 then [backslash, CHR ''t'']
      else if c = CHR 0x0B then [backslash, CHR ''v'']
      else [backslash, CHR ''x''] @ hexn 2 (byte c))"

text \<open>One rune: a byte alone is ASCII or not valid UTF-8, and more bytes are the encoding of a rune.\<close>

definition quote_chunk :: "(nat \<Rightarrow> bool) \<Rightarrow> string \<Rightarrow> string" where
  "quote_chunk pr ch =
     (case ch of
        [c] \<Rightarrow> escape_byte c
      | _ \<Rightarrow>
          (let r = fst (decode_rune ch) in
           if pr r then ch
           else if r < 0x10000 then [backslash, CHR ''u''] @ hexn 4 r
           else [backslash, CHR ''U''] @ hexn 8 r))"

definition quote_body :: "(nat \<Rightarrow> bool) \<Rightarrow> string \<Rightarrow> string" where
  "quote_body pr s = concat (map (quote_chunk pr) (chunks s))"

definition go_quote :: "(nat \<Rightarrow> bool) \<Rightarrow> string \<Rightarrow> string" where
  "go_quote pr s = [dquote] @ quote_body pr s @ [dquote]"

subsection \<open>Reading a literal\<close>

fun unhexn :: "nat \<Rightarrow> string \<Rightarrow> nat option" where
  "unhexn acc [] = Some acc"
| "unhexn acc (c # s) = (case unhex c of None \<Rightarrow> None | Some d \<Rightarrow> unhexn (16 * acc + d) s)"

definition letter_escape :: "char \<Rightarrow> char option" where
  "letter_escape e =
     (if e = dquote \<or> e = backslash then Some e
      else if e = CHR ''a'' then Some (CHR 0x07)
      else if e = CHR ''b'' then Some (CHR 0x08)
      else if e = CHR ''f'' then Some (CHR 0x0C)
      else if e = CHR ''n'' then Some (CHR 0x0A)
      else if e = CHR ''r'' then Some (CHR 0x0D)
      else if e = CHR ''t'' then Some (CHR 0x09)
      else if e = CHR ''v'' then Some (CHR 0x0B)
      else None)"

text \<open>What an escape stands for, after its backslash, and the rest of the text.\<close>

definition read_escape :: "string \<Rightarrow> (string \<times> string) option" where
  "read_escape s =
     (case s of
        [] \<Rightarrow> None
      | e # t \<Rightarrow>
          if e = CHR ''x'' then
            (if length t < 2 then None
             else map_option (\<lambda>n. ([chr n], drop 2 t)) (unhexn 0 (take 2 t)))
          else if e = CHR ''u'' then
            (if length t < 4 then None
             else map_option (\<lambda>n. (encode_rune n, drop 4 t)) (unhexn 0 (take 4 t)))
          else if e = CHR ''U'' then
            (if length t < 8 then None
             else map_option (\<lambda>n. (encode_rune n, drop 8 t)) (unhexn 0 (take 8 t)))
          else map_option (\<lambda>c. ([c], t)) (letter_escape e))"

lemma read_escape_shorter: "read_escape s = Some (out, t) \<Longrightarrow> length t < length s"
  by (auto simp: read_escape_def split: list.splits if_splits option.splits)

text \<open>The value of a literal after its opening quote, and what follows the closing one.\<close>

function read_literal :: "string \<Rightarrow> (string \<times> string) option" where
  "read_literal [] = None"
| "read_literal (c # s) =
     (if c = dquote then Some ([], s)
      else if c = backslash then
        (case read_escape s of
           None \<Rightarrow> None
         | Some (out, t) \<Rightarrow> map_option (\<lambda>(r, u). (out @ r, u)) (read_literal t))
      else if c = newline then None
      else map_option (\<lambda>(r, u). (c # r, u)) (read_literal s))"
  by pat_completeness auto
termination
  by (relation "measure length") (auto dest: read_escape_shorter)

declare read_literal.simps [simp del]

lemma read_literal_Cons:
  "c \<noteq> dquote \<Longrightarrow> c \<noteq> backslash \<Longrightarrow> c \<noteq> newline \<Longrightarrow>
   read_literal (c # s) = map_option (\<lambda>(r, u). (c # r, u)) (read_literal s)"
  by (simp add: read_literal.simps)

lemma read_literal_close: "read_literal (dquote # s) = Some ([], s)"
  by (simp add: read_literal.simps)

lemma read_literal_escape:
  "read_escape s = Some (out, t) \<Longrightarrow>
   read_literal (backslash # s) = map_option (\<lambda>(r, u). (out @ r, u)) (read_literal t)"
  by (simp add: read_literal.simps) (simp add: backslash_def dquote_def)

subsection \<open>What is quoted is read back\<close>

lemma length_hexn [simp]: "length (hexn n r) = n"
  by (induction n arbitrary: r) auto

lemma unhexn_append: "unhexn acc (s @ t) = (case unhexn acc s of None \<Rightarrow> None | Some n \<Rightarrow> unhexn n t)"
  by (induction acc s rule: unhexn.induct) (auto split: option.splits)

lemma unhexn_hexn: "r < 16 ^ n \<Longrightarrow> unhexn acc (hexn n r) = Some (acc * 16 ^ n + r)"
proof (induction n arbitrary: r)
  case (Suc n)
  then have "r div 16 < 16 ^ n" by (simp add: less_mult_imp_div_less mult.commute)
  with Suc.IH show ?case by (simp add: unhexn_append algebra_simps)
qed simp

lemma read_hexn:
  "r < 16 ^ n \<Longrightarrow> unhexn 0 (take n (hexn n r @ t)) = Some r"
  by (simp add: unhexn_hexn)

lemma split_base64:
  "y < 64 \<Longrightarrow> (x * 64 + y) div 64 = (x::nat)" "y < 64 \<Longrightarrow> (x * 64 + y) mod 64 = (y::nat)"
  by simp_all

lemma encode2:
  assumes "2 \<le> x" "x < 32" "y < 64"
  shows "encode_rune (x * 64 + y) = [chr (192 + x), chr (128 + y)]"
proof -
  have "0x80 \<le> x * 64 + y" "x * 64 + y < 0x800" using assms by linarith+
  then show ?thesis using assms by (simp add: encode_rune_def Let_def)
qed

lemma encode3:
  assumes "x < 16" "y < 64" "z < 64"
    and "0x800 \<le> x * 4096 + y * 64 + z"
    and "\<not> (0xD800 \<le> x * 4096 + y * 64 + z \<and> x * 4096 + y * 64 + z \<le> 0xDFFF)"
  shows "encode_rune (x * 4096 + y * 64 + z) = [chr (224 + x), chr (128 + y), chr (128 + z)]"
proof -
  let ?r = "x * 4096 + y * 64 + z"
  have r: "?r = (x * 64 + y) * 64 + z" by simp
  have "?r div 64 = x * 64 + y" "?r mod 64 = z"
    unfolding r using split_base64 [OF assms(3)] by blast+
  moreover have "?r div 4096 = ?r div 64 div 64" by (simp add: div_mult2_eq [symmetric])
  ultimately have "?r div 4096 = x" "?r div 64 mod 64 = y" "?r mod 64 = z"
    using split_base64 [OF assms(2)] by simp_all
  moreover have "?r < 0x10000" using assms(1-3) by linarith
  ultimately show ?thesis using assms(4,5) by (auto simp: encode_rune_def Let_def)
qed

lemma encode4:
  assumes "w < 8" "x < 64" "y < 64" "z < 64"
    and "0x10000 \<le> w * 262144 + x * 4096 + y * 64 + z" "w * 262144 + x * 4096 + y * 64 + z \<le> 0x10FFFF"
  shows "encode_rune (w * 262144 + x * 4096 + y * 64 + z) =
    [chr (240 + w), chr (128 + x), chr (128 + y), chr (128 + z)]"
proof -
  let ?r = "w * 262144 + x * 4096 + y * 64 + z"
  have r: "?r = ((w * 64 + x) * 64 + y) * 64 + z" by simp
  have 1: "?r div 64 = (w * 64 + x) * 64 + y" "?r mod 64 = z"
    unfolding r using split_base64 [OF assms(4)] by blast+
  have 2: "((w * 64 + x) * 64 + y) div 64 = w * 64 + x" "((w * 64 + x) * 64 + y) mod 64 = y"
    using split_base64 [OF assms(3)] by blast+
  have 3: "(w * 64 + x) div 64 = w" "(w * 64 + x) mod 64 = x"
    using split_base64 [OF assms(2)] by blast+
  have "?r div 4096 = ?r div 64 div 64" "?r div 262144 = ?r div 64 div 64 div 64"
    by (simp_all only: div_mult2_eq [symmetric]) simp_all
  then have "?r div 262144 = w" "?r div 4096 mod 64 = x" "?r div 64 mod 64 = y" "?r mod 64 = z"
    by (simp_all only: 1 2 3)
  then show ?thesis using assms(5,6) by (auto simp: encode_rune_def Let_def)
qed

lemma byte_of: "base \<le> byte c \<Longrightarrow> c = chr (base + (byte c - base))"
  by simp

lemma decode_wide:
  assumes "s \<noteq> []" "decode_rune s = (r, n)" "n \<noteq> 1"
  shows "encode_rune r = take n s \<and> (\<forall>c \<in> set (take n s). 128 \<le> byte c) \<and>
    decode_rune (take n s) = (r, n) \<and> 1 < n"
proof -
  from assms obtain c0 t where s: "s = c0 # t" by (cases s) auto
  have wide: "194 \<le> byte c0" "byte c0 < 245"
    using assms by (auto simp: decode_rune_def s Let_def split: if_splits)
  consider "byte c0 < 224" | "224 \<le> byte c0" "byte c0 < 240" | "240 \<le> byte c0" by linarith
  then show ?thesis
  proof cases
    case 1
    with assms wide obtain c1 t1 where t: "t = c1 # t1" "is_cont c1"
      and r: "r = (byte c0 - 192) * 64 + (byte c1 - 128)" "n = 2"
      by (auto simp: decode_rune_def decode2_def s Let_def split: list.splits if_splits)
    have "encode_rune r = [chr (192 + (byte c0 - 192)), chr (128 + (byte c1 - 128))]"
      unfolding r using 1 wide t(2) by (intro encode2) (auto simp: is_cont_def)
    with 1 wide t show ?thesis by (simp add: s r is_cont_def decode_rune_def decode2_def)
  next
    case 2
    with assms obtain c1 c2 t1 where t: "t = c1 # c2 # t1" "is_cont c1" "is_cont c2"
      and r: "r = (byte c0 - 224) * 4096 + (byte c1 - 128) * 64 + (byte c2 - 128)" "n = 3"
      and ok: "0x800 \<le> r" "\<not> (0xD800 \<le> r \<and> r \<le> 0xDFFF)"
      by (auto simp: decode_rune_def decode3_def s Let_def split: list.splits if_splits)
    have "encode_rune r = [chr (224 + (byte c0 - 224)), chr (128 + (byte c1 - 128)), chr (128 + (byte c2 - 128))]"
      using ok unfolding r using 2 t by (intro encode3) (auto simp: is_cont_def)
    with 2 t ok show ?thesis by (simp add: s r is_cont_def decode_rune_def decode3_def Let_def)
  next
    case 3
    with assms wide obtain c1 c2 c3 t1 where t: "t = c1 # c2 # c3 # t1" "is_cont c1" "is_cont c2" "is_cont c3"
      and r: "r = (byte c0 - 240) * 262144 + (byte c1 - 128) * 4096 + (byte c2 - 128) * 64 + (byte c3 - 128)" "n = 4"
      and ok: "0x10000 \<le> r" "r \<le> 0x10FFFF"
      by (auto simp: decode_rune_def decode4_def s Let_def split: list.splits if_splits)
    have "encode_rune r = [chr (240 + (byte c0 - 240)), chr (128 + (byte c1 - 128)), chr (128 + (byte c2 - 128)),
        chr (128 + (byte c3 - 128))]"
      using ok unfolding r using 3 wide t by (intro encode4) (auto simp: is_cont_def)
    with 3 wide t ok show ?thesis by (simp add: s r is_cont_def decode_rune_def decode4_def Let_def)
  qed
qed

lemma decode_rune_bound: "fst (decode_rune s) < 0x110000"
proof -
  have b: "byte c - 128 < 128" for c using byte_less [of c] by linarith
  have "(a - 192) * 64 + (byte b - 128) < 0x110000" if "a < 224" for a b
    using that b [of b] by linarith
  moreover have "(a - 224) * 4096 + (byte b - 128) * 64 + (byte c - 128) < 0x110000" if "a < 240" for a b c
    using that b [of b] b [of c] by linarith
  ultimately show ?thesis
    by (auto simp: decode_rune_def decode2_def decode3_def decode4_def Let_def rune_error_def split: list.splits)
qed

lemma chunks_wide:
  "ch \<in> set (chunks s) \<Longrightarrow> length ch \<noteq> 1 \<Longrightarrow>
   encode_rune (fst (decode_rune ch)) = ch \<and> (\<forall>c \<in> set ch. 128 \<le> byte c)"
proof (induction s rule: chunks.induct)
  case (1 s)
  show ?case
  proof (cases "s = []")
    case False
    obtain r n where d: "decode_rune s = (r, n)" by (rule prod.exhaust)
    have n: "1 \<le> n" "n \<le> length s" using decode_rune_width [OF False] by (simp_all add: d)
    have "chunks s = take n s # chunks (drop n s)" by (simp add: chunks_nonempty [OF False] d)
    with 1(2) consider "ch = take n s" | "ch \<in> set (chunks (drop n s))" by auto
    then show ?thesis
    proof cases
      case first: 1
      with n 1(3) have "n \<noteq> 1" by simp
      with decode_wide [OF False d] first show ?thesis by simp
    next
      case later: 2
      with 1(1) [OF False _ later] 1(3) d show ?thesis by simp
    qed
  qed (use 1(2) in simp)
qed

lemma chunks_nonempty_elem: "ch \<in> set (chunks s) \<Longrightarrow> ch \<noteq> []"
proof (induction s rule: chunks.induct)
  case (1 s)
  show ?case
  proof (cases "s = []")
    case False
    with 1(2) decode_rune_width [OF False] 1(1) [OF False refl]
    show ?thesis by (auto simp: chunks_nonempty)
  qed (use 1(2) in simp)
qed

lemma dquote_byte: "byte dquote = 34" and backslash_byte: "byte backslash = 92" and newline_byte: "byte newline = 10"
  by (simp_all add: dquote_def backslash_def newline_def)

lemma read_wide:
  "\<forall>c \<in> set ch. 128 \<le> byte c \<Longrightarrow> read_literal (ch @ t) = map_option (\<lambda>(r, u). (ch @ r, u)) (read_literal t)"
proof (induction ch)
  case Nil
  show ?case by (simp add: option.map_ident)
next
  case (Cons c ch)
  then have "c \<noteq> dquote" "c \<noteq> backslash" "c \<noteq> newline"
    using dquote_byte backslash_byte newline_byte by auto
  with Cons show ?case by (simp add: read_literal_Cons option.map_comp comp_def case_prod_unfold)
qed

lemma read_escape_byte:
  "read_literal (escape_byte c @ t) = map_option (\<lambda>(r, u). (c # r, u)) (read_literal t)"
proof -
  have n: "newline \<noteq> c" if "0x20 \<le> byte c" using that newline_byte by auto
  have hex: "unhexn 0 (take 2 (hexn 2 (byte c) @ t)) = Some (byte c)"
    using byte_less [of c] by (intro read_hexn) simp
  consider "c = dquote \<or> c = backslash" | "0x20 \<le> byte c" "byte c < 0x7F" "c \<noteq> dquote" "c \<noteq> backslash"
    | "c \<in> {CHR 0x07, CHR 0x08, CHR 0x0C, CHR 0x0A, CHR 0x0D, CHR 0x09, CHR 0x0B}"
    | "c \<noteq> dquote" "c \<noteq> backslash" "\<not> (0x20 \<le> byte c \<and> byte c < 0x7F)"
      "c \<notin> {CHR 0x07, CHR 0x08, CHR 0x0C, CHR 0x0A, CHR 0x0D, CHR 0x09, CHR 0x0B}"
    by blast
  then show ?thesis
  proof cases
    case 1
    then have "read_escape (c # t) = Some ([c], t)"
      by (auto simp: read_escape_def letter_escape_def dquote_def backslash_def)
    with 1 show ?thesis by (simp add: escape_byte_def read_literal_escape)
  next
    case 2
    with n show ?thesis by (simp add: escape_byte_def read_literal_Cons)
  next
    case 3
    then show ?thesis
      by (auto simp: escape_byte_def dquote_def backslash_def read_literal_escape read_escape_def letter_escape_def
          read_literal_escape [unfolded backslash_def])
  next
    case 4
    have "read_escape (CHR ''x'' # hexn 2 (byte c) @ t) = Some ([c], t)"
      using hex by (simp add: read_escape_def)
    moreover have "escape_byte c = [backslash, CHR ''x''] @ hexn 2 (byte c)"
      using 4 by (simp add: escape_byte_def)
    ultimately show ?thesis by (simp add: read_literal_escape)
  qed
qed

lemma read_quote_chunk:
  assumes "ch \<in> set (chunks s)"
  shows "read_literal (quote_chunk pr ch @ t) = map_option (\<lambda>(r, u). (ch @ r, u)) (read_literal t)"
proof (cases "length ch = 1")
  case True
  then obtain c where "ch = [c]" by (auto simp: length_Suc_conv)
  then show ?thesis by (simp add: quote_chunk_def read_escape_byte)
next
  case False
  let ?r = "fst (decode_rune ch)"
  have q: "quote_chunk pr ch = (if pr ?r then ch
      else if ?r < 0x10000 then [backslash, CHR ''u''] @ hexn 4 ?r else [backslash, CHR ''U''] @ hexn 8 ?r)"
    using False by (auto simp: quote_chunk_def Let_def split: list.split)
  note w = chunks_wide [OF assms False]
  have "?r < 16 ^ 8" using decode_rune_bound [of ch] by simp
  then have "unhexn 0 (take 8 (hexn 8 ?r @ t)) = Some ?r" by (rule read_hexn)
  then have "read_escape (CHR ''U'' # hexn 8 ?r @ t) = Some (ch, t)"
    using w by (simp add: read_escape_def)
  moreover have "read_escape (CHR ''u'' # hexn 4 ?r @ t) = Some (ch, t)" if "?r < 0x10000"
  proof -
    from that have "unhexn 0 (take 4 (hexn 4 ?r @ t)) = Some ?r" by (intro read_hexn) simp
    with w show ?thesis by (simp add: read_escape_def)
  qed
  ultimately show ?thesis
    using w by (auto simp: q read_wide read_literal_escape)
qed

lemma read_quote_chunks:
  "set cs \<subseteq> set (chunks s) \<Longrightarrow>
   read_literal (concat (map (quote_chunk pr) cs) @ t) = map_option (\<lambda>(r, u). (concat cs @ r, u)) (read_literal t)"
  by (induction cs)
    (auto simp: read_quote_chunk option.map_comp comp_def case_prod_unfold option.map_ident)

theorem read_quoted: "read_literal (quote_body pr s @ dquote # t) = Some (s, t)"
  using read_quote_chunks [of "chunks s" s pr "dquote # t"]
  by (simp add: quote_body_def read_literal_close)

text \<open>A literal stays on its line.\<close>

lemma hex_digit_range: "n < 16 \<Longrightarrow> 48 \<le> byte (hex_digit n)"
  by (simp add: hex_digit_def)

lemma hexn_no_newline: "newline \<notin> set (hexn n r)"
proof -
  have "c \<in> set (hexn n r) \<Longrightarrow> 48 \<le> byte c" for c
    by (induction n arbitrary: r) (auto simp: hex_digit_range)
  then show ?thesis using newline_byte by force
qed

lemma quote_no_newline: "newline \<notin> set (go_quote pr s)"
proof -
  have "newline \<notin> set (quote_chunk pr ch)" if "ch \<in> set (chunks s)" for ch
  proof (cases "length ch = 1")
    case True
    then obtain c where "ch = [c]" by (auto simp: length_Suc_conv)
    then show ?thesis using hexn_no_newline [of 2 "byte c"]
      by (auto simp: quote_chunk_def escape_byte_def newline_def dquote_def backslash_def)
  next
    case False
    with chunks_wide [OF that] have "newline \<notin> set ch" using newline_byte by fastforce
    with False show ?thesis
      by (auto simp: quote_chunk_def Let_def hexn_no_newline split: list.splits)
        (auto simp: newline_def backslash_def)
  qed
  then show ?thesis by (auto simp: go_quote_def quote_body_def) (simp_all add: newline_def dquote_def)
qed

end
