(* ===== verification/Telemt_Config.thy ===== *)
theory Telemt_Config
  imports Go_Quote Go_Time Instance_Model Settings_Model Upstream_Model Secret_Model
begin

text \<open>
  \<^verbatim>\<open>pkg/telemt/config.go\<close>: the configuration of the engine as records with the source's
  fields, its construction from the settings, an instance, secrets and upstreams, and its text.
  A Go map is an association list with distinct keys, updated by \<open>put\<close>; a map is printed in the
  order of its sorted keys. The argument \<open>pr\<close> of the printing functions is that of
  \<open>go_quote\<close>.
\<close>

subsection \<open>The configuration\<close>

record modes_config =
  mc_Classic :: bool
  mc_Secure :: bool
  mc_TLS :: bool

record general_config =
  gc_PreferIPv6 :: bool
  gc_FastMode :: bool
  gc_UseMiddleProxy :: bool
  gc_LogLevel :: string
  gc_AdTag :: string
  gc_Modes :: modes_config
  gc_Show :: "string list"

record server_config =
  sc_Port :: int
  sc_ListenAddrIPv4 :: string
  sc_ListenAddrIPv6 :: string
  sc_ProxyProtocol :: bool
  sc_TrustedCIDRs :: "string list"
  sc_MetricsListen :: string
  sc_MetricsWhitelist :: "string list"
  sc_ClientMSS :: int
  sc_ClientMSSBulk :: int
  sc_Synlimit :: string
  sc_SynlimitSeconds :: int
  sc_SynlimitHitcount :: int
  sc_SynlimitBurst :: int
  sc_APIPort :: int

record timeouts_config =
  tc_ClientHandshake :: int
  tc_TGConnect :: int
  tc_ClientKeepalive :: int
  tc_ClientAck :: int

record censorship_config =
  cc_TLSDomain :: string
  cc_TLSDomains :: "string list"
  cc_UnknownSNIAction :: string
  cc_Mask :: bool
  cc_MaskPort :: int
  cc_MaskHost :: string
  cc_MaskRelayMaxBytes :: int
  cc_FakeCertLen :: int
  cc_TLSEmulation :: bool
  cc_TLSFrontDir :: string
  cc_ExclusiveMask :: "(string \<times> string) list"

record telegram_config =
  tg_ProxySecretURL :: string
  tg_ProxyConfigV4URL :: string
  tg_ProxyConfigV6URL :: string

text \<open>A rate limit is the pair of its two speeds.\<close>

record access_config =
  ac_ReplayCheckLen :: int
  ac_ReplayWindowSecs :: int
  ac_IgnoreTimeSkew :: bool
  ac_Users :: "(string \<times> string) list"
  ac_UserMaxTCPConns :: "(string \<times> int) list"
  ac_UserMaxUniqueIPs :: "(string \<times> int) list"
  ac_UserDataQuota :: "(string \<times> int) list"
  ac_UserExpirations :: "(string \<times> string) list"
  ac_UserRateLimits :: "(string \<times> int \<times> int) list"
  ac_UserEnabled :: "(string \<times> bool) list"

record upstream_config =
  uc_Type :: string
  uc_Weight :: int
  uc_Address :: string
  uc_Username :: string
  uc_Password :: string
  uc_UserID :: string
  uc_URL :: string
  uc_Interface :: string
  uc_IPv4 :: "bool option"
  uc_IPv6 :: "bool option"
  uc_Prefer :: int
  uc_BindToDevice :: string

record telemt_config =
  cf_General :: general_config
  cf_Server :: server_config
  cf_Timeouts :: timeouts_config
  cf_Censorship :: censorship_config
  cf_Access :: access_config
  cf_Upstreams :: "upstream_config list"
  cf_Telegram :: telegram_config

subsection \<open>The parameters\<close>

record secret_entry =
  se_Label :: string
  se_SecretKey :: string
  se_Enabled :: bool
  se_MaxConns :: int
  se_MaxIPs :: int
  se_QuotaBytes :: int
  se_RateLimitUpBps :: int
  se_RateLimitDownBps :: int
  se_ExpiresAt :: string

record upstream_entry =
  ue_Type :: string
  ue_Address :: string
  ue_Username :: string
  ue_Password :: string
  ue_URL :: string
  ue_Weight :: int
  ue_Iface :: string
  ue_Enabled :: bool
  ue_IPv4 :: "bool option"
  ue_IPv6 :: "bool option"
  ue_Prefer :: int
  ue_BindToDevice :: string

record config_params =
  cp_Settings :: settings
  cp_Secrets :: "secret_entry list"
  cp_Upstreams :: "upstream_entry list"
  cp_ExtraMetricsWhitelist :: "string list"

record instance_params =
  ip_Instance :: inst
  ip_FakeCertLen :: int
  ip_UseMiddleProxy :: bool
  ip_AdTag :: string
  ip_ProxyProtocol :: bool
  ip_ProxyProtocolCIDRs :: "string list"
  ip_Telegram :: telegram_config
  ip_Secrets :: "secret_entry list"
  ip_Upstreams :: "upstream_entry list"
  ip_ExtraMetricsWhitelist :: "string list"
  ip_SynlimitBackend :: string
  ip_SynlimitSeconds :: int
  ip_SynlimitHitcount :: int
  ip_SynlimitBurst :: int

subsection \<open>Users\<close>

definition newEmptyAccess :: access_config where
  "newEmptyAccess = \<lparr>ac_ReplayCheckLen = 65536, ac_ReplayWindowSecs = 1800, ac_IgnoreTimeSkew = False,
     ac_Users = [], ac_UserMaxTCPConns = [], ac_UserMaxUniqueIPs = [], ac_UserDataQuota = [],
     ac_UserExpirations = [], ac_UserRateLimits = [], ac_UserEnabled = []\<rparr>"

text \<open>Assigning an element of a Go map under a condition.\<close>

definition put_if :: "bool \<Rightarrow> 'k \<Rightarrow> 'v \<Rightarrow> ('k \<times> 'v) list \<Rightarrow> ('k \<times> 'v) list" where
  "put_if c k v m = (if c then put k v m else m)"

definition access_limits :: "secret_entry \<Rightarrow> access_config \<Rightarrow> access_config" where
  "access_limits sec a =
     (let l = se_Label sec in
      a\<lparr>ac_UserMaxTCPConns := put_if (0 < se_MaxConns sec) l (se_MaxConns sec) (ac_UserMaxTCPConns a),
        ac_UserMaxUniqueIPs := put_if (0 < se_MaxIPs sec) l (se_MaxIPs sec) (ac_UserMaxUniqueIPs a),
        ac_UserDataQuota := put_if (0 < se_QuotaBytes sec) l (se_QuotaBytes sec) (ac_UserDataQuota a),
        ac_UserRateLimits := put_if (0 < se_RateLimitUpBps sec \<or> 0 < se_RateLimitDownBps sec) l
          (se_RateLimitUpBps sec, se_RateLimitDownBps sec) (ac_UserRateLimits a),
        ac_UserExpirations := put_if (se_ExpiresAt sec \<noteq> [] \<and> se_ExpiresAt sec \<noteq> ''0'') l (se_ExpiresAt sec)
          (ac_UserExpirations a)\<rparr>)"

definition apply_secret :: "secret_entry \<Rightarrow> access_config \<Rightarrow> access_config" where
  "apply_secret sec a =
     (let l = se_Label sec; a = a\<lparr>ac_Users := put l (se_SecretKey sec) (ac_Users a)\<rparr> in
      if \<not> se_Enabled sec then a\<lparr>ac_UserEnabled := put l False (ac_UserEnabled a)\<rparr>
      else access_limits sec a)"

definition applySecretsToAccess :: "access_config \<Rightarrow> secret_entry list \<Rightarrow> access_config" where
  "applySecretsToAccess access secrets = fold apply_secret secrets access"

subsection \<open>Upstreams\<close>

definition empty_upstream_config :: upstream_config where
  "empty_upstream_config = \<lparr>uc_Type = [], uc_Weight = 0, uc_Address = [], uc_Username = [],
     uc_Password = [], uc_UserID = [], uc_URL = [], uc_Interface = [], uc_IPv4 = None, uc_IPv6 = None,
     uc_Prefer = 0, uc_BindToDevice = []\<rparr>"

definition buildUpstreamConfig :: "upstream_entry \<Rightarrow> upstream_config" where
  "buildUpstreamConfig up =
     (let uc = empty_upstream_config\<lparr>uc_Type := ue_Type up, uc_Weight := ue_Weight up\<rparr>;
          uc = (if ue_Type up = UpstreamDirect then uc
                else if ue_Type up = UpstreamShadowsocks then uc\<lparr>uc_URL := ue_URL up\<rparr>
                else if ue_Type up = UpstreamSOCKS5
                then uc\<lparr>uc_Address := ue_Address up, uc_Username := ue_Username up,
                        uc_Password := ue_Password up\<rparr>
                else if ue_Type up = UpstreamSOCKS4
                then uc\<lparr>uc_Address := ue_Address up, uc_UserID := ue_Username up\<rparr>
                else uc);
          uc = (if ue_Iface up \<noteq> [] then uc\<lparr>uc_Interface := ue_Iface up\<rparr> else uc);
          uc = uc\<lparr>uc_IPv4 := ue_IPv4 up, uc_IPv6 := ue_IPv6 up, uc_Prefer := ue_Prefer up\<rparr>
      in if ue_Type up = UpstreamDirect then uc\<lparr>uc_BindToDevice := ue_BindToDevice up\<rparr> else uc)"

definition buildUpstreams :: "upstream_entry list \<Rightarrow> upstream_config list" where
  "buildUpstreams entries = map buildUpstreamConfig (filter ue_Enabled entries)"

subsection \<open>Building a configuration\<close>

definition buildMetricsWhitelist :: "string list \<Rightarrow> string list" where
  "buildMetricsWhitelist extra = [''127.0.0.1'', ''::1''] @ extra"

definition defaultTimeouts :: timeouts_config where
  "defaultTimeouts = \<lparr>tc_ClientHandshake = 30, tc_TGConnect = 10, tc_ClientKeepalive = 15, tc_ClientAck = 90\<rparr>"

definition maskingHost :: "bool \<Rightarrow> string \<Rightarrow> string" where
  "maskingHost enabled host = (if enabled then host else [])"

definition empty_telegram :: telegram_config where
  "empty_telegram = \<lparr>tg_ProxySecretURL = [], tg_ProxyConfigV4URL = [], tg_ProxyConfigV6URL = []\<rparr>"

definition telegramHasURLs :: "telegram_config \<Rightarrow> bool" where
  "telegramHasURLs tc \<longleftrightarrow>
     tg_ProxySecretURL tc \<noteq> [] \<or> tg_ProxyConfigV4URL tc \<noteq> [] \<or> tg_ProxyConfigV6URL tc \<noteq> []"

definition telegramConfigFromURLs :: "string \<Rightarrow> string \<Rightarrow> string \<Rightarrow> telegram_config" where
  "telegramConfigFromURLs secretURL v4URL v6URL =
     (if secretURL = [] \<and> v4URL = [] \<and> v6URL = [] then empty_telegram
      else \<lparr>tg_ProxySecretURL = secretURL, tg_ProxyConfigV4URL = v4URL, tg_ProxyConfigV6URL = v6URL\<rparr>)"

definition getEnabledLabels :: "secret_entry list \<Rightarrow> string list" where
  "getEnabledLabels secrets = map se_Label (filter se_Enabled secrets)"

definition parseCIDRList :: "string \<Rightarrow> string list" where
  "parseCIDRList s = filter (\<lambda>p. p \<noteq> []) (map trim_space (split_char CHR '','' s))"

definition metricsListenAddr :: "int \<Rightarrow> string list \<Rightarrow> string" where
  "metricsListenAddr port extraWhitelist =
     (if extraWhitelist \<noteq> [] then ''0.0.0.0:'' @ show_int port else ''127.0.0.1:'' @ show_int port)"

definition empty_censorship :: censorship_config where
  "empty_censorship = \<lparr>cc_TLSDomain = [], cc_TLSDomains = [], cc_UnknownSNIAction = [], cc_Mask = False,
     cc_MaskPort = 0, cc_MaskHost = [], cc_MaskRelayMaxBytes = 0, cc_FakeCertLen = 0,
     cc_TLSEmulation = False, cc_TLSFrontDir = [], cc_ExclusiveMask = []\<rparr>"

text \<open>The server section without the optional parts.\<close>

definition base_server :: "int \<Rightarrow> bool \<Rightarrow> int \<Rightarrow> string list \<Rightarrow> server_config" where
  "base_server port proxyProtocol metricsPort extra =
     \<lparr>sc_Port = port, sc_ListenAddrIPv4 = ''0.0.0.0'', sc_ListenAddrIPv6 = ''::'',
      sc_ProxyProtocol = proxyProtocol, sc_TrustedCIDRs = [],
      sc_MetricsListen = metricsListenAddr metricsPort extra,
      sc_MetricsWhitelist = buildMetricsWhitelist extra, sc_ClientMSS = 0, sc_ClientMSSBulk = 0,
      sc_Synlimit = [], sc_SynlimitSeconds = 0, sc_SynlimitHitcount = 0, sc_SynlimitBurst = 0,
      sc_APIPort = 0\<rparr>"

definition BuildConfig :: "config_params \<Rightarrow> telemt_config" where
  "BuildConfig params =
     (let s = cp_Settings params;
          server = base_server (st_ProxyPort s) (st_ProxyProtocol s) (st_ProxyMetricsPort s)
            (cp_ExtraMetricsWhitelist params)
      in \<lparr>cf_General = \<lparr>gc_PreferIPv6 = False, gc_FastMode = True, gc_UseMiddleProxy = st_UseMiddleProxy s,
            gc_LogLevel = ''normal'', gc_AdTag = st_AdTag s,
            gc_Modes = \<lparr>mc_Classic = False, mc_Secure = \<not> st_MaskingEnabled s, mc_TLS = True\<rparr>,
            gc_Show = getEnabledLabels (cp_Secrets params)\<rparr>,
          cf_Server = (if st_ProxyProtocol s \<and> st_ProxyProtocolTrustedCIDRs s \<noteq> []
            then server\<lparr>sc_TrustedCIDRs := parseCIDRList (st_ProxyProtocolTrustedCIDRs s)\<rparr> else server),
          cf_Timeouts = defaultTimeouts,
          cf_Censorship = empty_censorship\<lparr>cc_TLSDomain := st_ProxyDomain s,
            cc_UnknownSNIAction := st_UnknownSNIAction s, cc_Mask := st_MaskingEnabled s,
            cc_MaskPort := st_MaskingPort s, cc_MaskHost := maskingHost (st_MaskingEnabled s) (st_MaskingHost s),
            cc_FakeCertLen := st_FakeCertLen s, cc_MaskRelayMaxBytes := st_MaskingRelayMaxBytes s\<rparr>,
          cf_Access = applySecretsToAccess newEmptyAccess (cp_Secrets params),
          cf_Upstreams = buildUpstreams (cp_Upstreams params),
          cf_Telegram = telegramConfigFromURLs (st_ProxySecretURL s) (st_ProxyConfigV4URL s)
            (st_ProxyConfigV6URL s)\<rparr>)"

definition instanceModes :: "bool \<Rightarrow> modes_config" where
  "instanceModes fakeTLS = \<lparr>mc_Classic = \<not> fakeTLS, mc_Secure = False, mc_TLS = fakeTLS\<rparr>"

definition instanceCensorship :: "inst \<Rightarrow> int \<Rightarrow> censorship_config" where
  "instanceCensorship i fakeCertLen =
     (if \<not> inst_FakeTLS i then empty_censorship
      else
        (let sniAction = (if inst_UnknownSNIAction i = [] then ''mask'' else inst_UnknownSNIAction i);
             cfg = empty_censorship\<lparr>cc_TLSDomain := inst_TLSDomain i, cc_TLSDomains := GetTLSDomains i,
               cc_UnknownSNIAction := sniAction, cc_ExclusiveMask := GetExclusiveMask i, cc_Mask := True,
               cc_MaskHost := GetMaskHost i, cc_MaskPort := inst_MaskPort i, cc_FakeCertLen := fakeCertLen,
               cc_TLSEmulation := True\<rparr>
         in if inst_TLSFronting i then cfg\<lparr>cc_TLSFrontDir := ''/tlsfront''\<rparr> else cfg))"

definition instance_server :: "instance_params \<Rightarrow> server_config" where
  "instance_server params =
     (let i = ip_Instance params;
          sv = base_server (inst_Port i) (ip_ProxyProtocol params) (inst_MetricsPort i)
            (ip_ExtraMetricsWhitelist params);
          sv = (if inst_TCPMSSEnabled i \<and> 0 < inst_TCPMSS i
                then sv\<lparr>sc_ClientMSS := inst_TCPMSS i, sc_ClientMSSBulk := inst_TCPMSSBulk i\<rparr> else sv);
          sv = (if ip_SynlimitBackend params \<noteq> []
                then sv\<lparr>sc_Synlimit := ip_SynlimitBackend params,
                        sc_SynlimitSeconds := ip_SynlimitSeconds params,
                        sc_SynlimitHitcount := ip_SynlimitHitcount params,
                        sc_SynlimitBurst := ip_SynlimitBurst params\<rparr> else sv);
          sv = sv\<lparr>sc_APIPort := inst_APIPort i\<rparr>
      in if ip_ProxyProtocol params \<and> ip_ProxyProtocolCIDRs params \<noteq> []
         then sv\<lparr>sc_TrustedCIDRs := ip_ProxyProtocolCIDRs params\<rparr> else sv)"

definition BuildInstanceConfig :: "instance_params \<Rightarrow> telemt_config" where
  "BuildInstanceConfig params =
     (let i = ip_Instance params in
      \<lparr>cf_General = \<lparr>gc_PreferIPv6 = False, gc_FastMode = True, gc_UseMiddleProxy = ip_UseMiddleProxy params,
         gc_LogLevel = ''normal'', gc_AdTag = ip_AdTag params, gc_Modes = instanceModes (inst_FakeTLS i),
         gc_Show = getEnabledLabels (ip_Secrets params)\<rparr>,
       cf_Server = instance_server params,
       cf_Timeouts = defaultTimeouts,
       cf_Censorship = instanceCensorship i (ip_FakeCertLen params),
       cf_Access = applySecretsToAccess newEmptyAccess (ip_Secrets params),
       cf_Upstreams = buildUpstreams (ip_Upstreams params),
       cf_Telegram = (if telegramHasURLs (ip_Telegram params) then ip_Telegram params else empty_telegram)\<rparr>)"

end
