(* ===== verification/Telemt_Toml.thy ===== *)
theory Telemt_Toml
  imports Telemt_Config
begin

text \<open>
  The text of a configuration: the printing functions of \<^verbatim>\<open>pkg/telemt/config.go\<close>, one
  definition per function. The time of the header line is an argument.
\<close>

subsection \<open>Lines\<close>

definition text_line :: "string \<Rightarrow> string" where
  "text_line s = s @ [newline]"

text \<open>A line of the formats \<^verbatim>\<open>k = %v\<close>, \<^verbatim>\<open>k = %q\<close>, \<^verbatim>\<open>k = %d\<close>.\<close>

definition kv :: "string \<Rightarrow> string \<Rightarrow> string" where
  "kv k v = text_line (k @ '' = '' @ v)"

definition formatStringArray :: "(nat \<Rightarrow> bool) \<Rightarrow> string list \<Rightarrow> string" where
  "formatStringArray pr arr =
     (if arr = [] then ''[]'' else ''['' @ join '', '' (map (go_quote pr) arr) @ '']'')"

definition sortedKeys :: "(string \<times> 'v) list \<Rightarrow> string list" where
  "sortedKeys m = sort (map fst m)"

text \<open>Indexing a Go map: the zero value for a missing key.\<close>

definition lookup0 :: "'v \<Rightarrow> (string \<times> 'v) list \<Rightarrow> string \<Rightarrow> 'v" where
  "lookup0 z m k = (case map_of m k of None \<Rightarrow> z | Some v \<Rightarrow> v)"

definition tomlKeyRe :: "string \<Rightarrow> bool" where
  "tomlKeyRe s \<longleftrightarrow> 1 \<le> length s \<and> length s \<le> 32 \<and>
     list_all (\<lambda>c. is_alpha c \<or> is_digit c \<or> c = CHR ''_'' \<or> c = CHR ''-'') s"

text \<open>The loop over the sorted keys of a map that leaves out keys that are no bare TOML keys.\<close>

definition bare_lines :: "(string \<times> 'v) list \<Rightarrow> (string \<Rightarrow> string) \<Rightarrow> string" where
  "bare_lines m f = concat (map (\<lambda>l. if tomlKeyRe l then f l else []) (sortedKeys m))"

subsection \<open>Sections\<close>

definition renderGeneralSection :: "(nat \<Rightarrow> bool) \<Rightarrow> telemt_config \<Rightarrow> string" where
  "renderGeneralSection pr cfg =
     (let g = cf_General cfg; t = cf_Telegram cfg in
      text_line ''[general]'' @
      kv ''prefer_ipv6'' (show_bool (gc_PreferIPv6 g)) @
      kv ''fast_mode'' (show_bool (gc_FastMode g)) @
      kv ''use_middle_proxy'' (show_bool (gc_UseMiddleProxy g)) @
      kv ''log_level'' (go_quote pr (gc_LogLevel g)) @
      (if gc_AdTag g \<noteq> [] then kv ''ad_tag'' (go_quote pr (gc_AdTag g))
       else text_line (''# ad_tag = '' @ [dquote, dquote] @ ''  # Get from @MTProxyBot'')) @
      kv ''tg_connect'' (show_int (tc_TGConnect (cf_Timeouts cfg))) @
      (if tg_ProxySecretURL t \<noteq> [] then kv ''proxy_secret_url'' (go_quote pr (tg_ProxySecretURL t)) else []) @
      (if tg_ProxyConfigV4URL t \<noteq> [] then kv ''proxy_config_v4_url'' (go_quote pr (tg_ProxyConfigV4URL t)) else []) @
      (if tg_ProxyConfigV6URL t \<noteq> [] then kv ''proxy_config_v6_url'' (go_quote pr (tg_ProxyConfigV6URL t)) else []) @
      text_line [])"

definition renderModesSection :: "telemt_config \<Rightarrow> string" where
  "renderModesSection cfg =
     (let m = gc_Modes (cf_General cfg) in
      text_line ''[general.modes]'' @
      kv ''classic'' (show_bool (mc_Classic m)) @
      kv ''secure'' (show_bool (mc_Secure m)) @
      kv ''tls'' (show_bool (mc_TLS m)) @
      text_line [])"

definition renderLinksSection :: "(nat \<Rightarrow> bool) \<Rightarrow> telemt_config \<Rightarrow> string" where
  "renderLinksSection pr cfg =
     text_line ''[general.links]'' @
     kv ''show'' (formatStringArray pr (gc_Show (cf_General cfg))) @
     text_line (''# public_host = '' @ [dquote, dquote]) @
     text_line (''# public_port = '' @ show_int (sc_Port (cf_Server cfg))) @
     text_line []"

text \<open>The listeners of the SYN limiter: one for each bind address.\<close>

definition listener_addrs :: "server_config \<Rightarrow> string list" where
  "listener_addrs s =
     (if sc_ListenAddrIPv4 s \<noteq> [] then [sc_ListenAddrIPv4 s] else []) @
     (if sc_ListenAddrIPv6 s \<noteq> [] then [sc_ListenAddrIPv6 s] else [])"

definition render_listener :: "(nat \<Rightarrow> bool) \<Rightarrow> server_config \<Rightarrow> string \<Rightarrow> string" where
  "render_listener pr s ip =
     text_line ''[[server.listeners]]'' @
     kv ''ip'' (go_quote pr ip) @
     kv ''port'' (show_int (sc_Port s)) @
     kv ''synlimit'' (go_quote pr (sc_Synlimit s)) @
     (if 0 < sc_SynlimitSeconds s then kv ''synlimit_seconds'' (show_int (sc_SynlimitSeconds s)) else []) @
     (if 0 < sc_SynlimitHitcount s then kv ''synlimit_hitcount'' (show_int (sc_SynlimitHitcount s)) else []) @
     (if 0 < sc_SynlimitBurst s then kv ''synlimit_burst'' (show_int (sc_SynlimitBurst s)) else []) @
     text_line []"

definition renderServerListeners :: "(nat \<Rightarrow> bool) \<Rightarrow> telemt_config \<Rightarrow> string" where
  "renderServerListeners pr cfg =
     (let s = cf_Server cfg in
      if sc_Synlimit s = [] then [] else concat (map (render_listener pr s) (listener_addrs s)))"

definition renderServerSection :: "(nat \<Rightarrow> bool) \<Rightarrow> telemt_config \<Rightarrow> string" where
  "renderServerSection pr cfg =
     (let s = cf_Server cfg in
      text_line ''[server]'' @
      kv ''port'' (show_int (sc_Port s)) @
      kv ''listen_addr_ipv4'' (go_quote pr (sc_ListenAddrIPv4 s)) @
      kv ''listen_addr_ipv6'' (go_quote pr (sc_ListenAddrIPv6 s)) @
      kv ''proxy_protocol'' (show_bool (sc_ProxyProtocol s)) @
      (if sc_ProxyProtocol s \<and> sc_TrustedCIDRs s \<noteq> []
       then kv ''proxy_protocol_trusted_cidrs'' (formatStringArray pr (sc_TrustedCIDRs s)) else []) @
      kv ''metrics_listen'' (go_quote pr (sc_MetricsListen s)) @
      kv ''metrics_whitelist'' (formatStringArray pr (sc_MetricsWhitelist s)) @
      (if 0 < sc_ClientMSS s
       then kv ''client_mss'' ([dquote] @ show_int (sc_ClientMSS s) @ [dquote]) @
         (if 0 < sc_ClientMSSBulk s
          then kv ''client_mss_bulk'' ([dquote] @ show_int (sc_ClientMSSBulk s) @ [dquote]) else [])
       else []) @
      text_line [] @
      text_line ''[server.api]'' @
      (if 0 < sc_APIPort s
       then kv ''enabled'' ''true'' @ kv ''listen'' (go_quote pr (''127.0.0.1:'' @ show_int (sc_APIPort s)))
       else kv ''enabled'' ''false'') @
      text_line [] @
      renderServerListeners pr cfg)"

definition renderTimeoutsSection :: "telemt_config \<Rightarrow> string" where
  "renderTimeoutsSection cfg =
     (let t = cf_Timeouts cfg in
      text_line ''[timeouts]'' @
      kv ''client_handshake'' (show_int (tc_ClientHandshake t)) @
      kv ''client_keepalive'' (show_int (tc_ClientKeepalive t)) @
      kv ''client_ack'' (show_int (tc_ClientAck t)) @
      text_line [])"

definition renderCensorshipSection :: "(nat \<Rightarrow> bool) \<Rightarrow> telemt_config \<Rightarrow> string" where
  "renderCensorshipSection pr cfg =
     (let c = cf_Censorship cfg in
      if cc_TLSDomain c = [] then []
      else
        text_line ''[censorship]'' @
        kv ''tls_domain'' (go_quote pr (cc_TLSDomain c)) @
        (if cc_TLSDomains c \<noteq> [] then kv ''tls_domains'' (formatStringArray pr (cc_TLSDomains c)) else []) @
        kv ''unknown_sni_action'' (go_quote pr (cc_UnknownSNIAction c)) @
        kv ''mask'' (show_bool (cc_Mask c)) @
        kv ''mask_port'' (show_int (cc_MaskPort c)) @
        (if cc_Mask c \<and> cc_MaskHost c \<noteq> [] then kv ''mask_host'' (go_quote pr (cc_MaskHost c)) else []) @
        kv ''fake_cert_len'' (show_int (cc_FakeCertLen c)) @
        (if 0 < cc_MaskRelayMaxBytes c
         then kv ''mask_relay_max_bytes'' (show_int (cc_MaskRelayMaxBytes c)) else []) @
        (if cc_TLSEmulation c then kv ''tls_emulation'' ''true'' else []) @
        (if cc_TLSFrontDir c \<noteq> [] then kv ''tls_front_dir'' (go_quote pr (cc_TLSFrontDir c)) else []) @
        text_line ''# Note: geo-blocking is enforced at the host firewall level (iptables/nftables),'' @
        text_line ''# not via telemt config.'' @
        text_line [] @
        (if cc_ExclusiveMask c \<noteq> [] then
           text_line ''[censorship.exclusive_mask]'' @
           concat (map (\<lambda>sni. kv (go_quote pr sni) (go_quote pr (lookup0 [] (cc_ExclusiveMask c) sni)))
             (sortedKeys (cc_ExclusiveMask c))) @
           text_line []
         else []))"

text \<open>A table of one value per user, left out when no user has one.\<close>

definition user_table :: "string \<Rightarrow> (string \<times> 'v) list \<Rightarrow> (string \<Rightarrow> string) \<Rightarrow> string" where
  "user_table header m f = (if m \<noteq> [] then text_line header @ bare_lines m f @ text_line [] else [])"

definition renderAccessSection :: "(nat \<Rightarrow> bool) \<Rightarrow> telemt_config \<Rightarrow> string" where
  "renderAccessSection pr cfg =
     (let a = cf_Access cfg in
      text_line ''[access]'' @
      kv ''replay_check_len'' (show_int (ac_ReplayCheckLen a)) @
      kv ''replay_window_secs'' (show_int (ac_ReplayWindowSecs a)) @
      kv ''ignore_time_skew'' (show_bool (ac_IgnoreTimeSkew a)) @
      text_line [] @
      text_line ''[access.users]'' @
      bare_lines (ac_Users a) (\<lambda>l. kv l (go_quote pr (lookup0 [] (ac_Users a) l))) @
      text_line [] @
      user_table ''[access.user_max_tcp_conns]'' (ac_UserMaxTCPConns a)
        (\<lambda>l. kv l (show_int (lookup0 0 (ac_UserMaxTCPConns a) l))) @
      user_table ''[access.user_max_unique_ips]'' (ac_UserMaxUniqueIPs a)
        (\<lambda>l. kv l (show_int (lookup0 0 (ac_UserMaxUniqueIPs a) l))) @
      user_table ''[access.user_data_quota]'' (ac_UserDataQuota a)
        (\<lambda>l. kv l (show_int (lookup0 0 (ac_UserDataQuota a) l))) @
      user_table ''[access.user_expirations]'' (ac_UserExpirations a)
        (\<lambda>l. kv l (go_quote pr (lookup0 [] (ac_UserExpirations a) l))) @
      bare_lines (ac_UserRateLimits a) (\<lambda>l.
        let rl = lookup0 (0, 0) (ac_UserRateLimits a) l in
        text_line (''[access.user_rate_limits.'' @ l @ '']'') @
        kv ''up_bps'' (show_int (fst rl)) @
        kv ''down_bps'' (show_int (snd rl)) @
        text_line []) @
      user_table ''[access.user_enabled]'' (ac_UserEnabled a)
        (\<lambda>l. kv l (show_bool (lookup0 False (ac_UserEnabled a) l))))"

definition render_upstream :: "(nat \<Rightarrow> bool) \<Rightarrow> upstream_config \<Rightarrow> string" where
  "render_upstream pr up =
     text_line ''[[upstreams]]'' @
     kv ''type'' (go_quote pr (uc_Type up)) @
     kv ''weight'' (show_int (uc_Weight up)) @
     (if uc_URL up \<noteq> [] then kv ''url'' (go_quote pr (uc_URL up)) else []) @
     (if uc_Address up \<noteq> [] then kv ''address'' (go_quote pr (uc_Address up)) else []) @
     (if uc_Username up \<noteq> [] then kv ''username'' (go_quote pr (uc_Username up)) else []) @
     (if uc_Password up \<noteq> [] then kv ''password'' (go_quote pr (uc_Password up)) else []) @
     (if uc_UserID up \<noteq> [] then kv ''user_id'' (go_quote pr (uc_UserID up)) else []) @
     (if uc_Interface up \<noteq> [] then kv ''interface'' (go_quote pr (uc_Interface up)) else []) @
     (case uc_IPv4 up of Some b \<Rightarrow> kv ''ipv4'' (show_bool b) | None \<Rightarrow> []) @
     (case uc_IPv6 up of Some b \<Rightarrow> kv ''ipv6'' (show_bool b) | None \<Rightarrow> []) @
     (if uc_Prefer up = 4 \<or> uc_Prefer up = 6 then kv ''prefer'' (show_int (uc_Prefer up)) else []) @
     (if uc_BindToDevice up \<noteq> [] then kv ''bindtodevice'' (go_quote pr (uc_BindToDevice up)) else []) @
     text_line []"

definition renderUpstreamsSection :: "(nat \<Rightarrow> bool) \<Rightarrow> telemt_config \<Rightarrow> string" where
  "renderUpstreamsSection pr cfg = concat (map (render_upstream pr) (cf_Upstreams cfg))"

text \<open>The dash of the first line is a character of three bytes.\<close>

definition renderTOML :: "(nat \<Rightarrow> bool) \<Rightarrow> int \<Rightarrow> telemt_config \<Rightarrow> string" where
  "renderTOML pr now cfg =
     text_line (''# PopuGate '' @ [CHR 0xE2, CHR 0x80, CHR 0x94] @ '' telemt configuration'') @
     text_line (''# Generated: '' @ format_stamp now) @
     text_line [] @
     renderGeneralSection pr cfg @
     renderModesSection cfg @
     renderLinksSection pr cfg @
     renderServerSection pr cfg @
     renderTimeoutsSection cfg @
     renderCensorshipSection pr cfg @
     renderAccessSection pr cfg @
     renderUpstreamsSection pr cfg"

end
