(* ===== verification/Container_Config.thy ===== *)
theory Container_Config
  imports Dockerutil Telemt_Toml Settings_Store Secret_Store Instance_Store Upstream_Store
begin

text \<open>
  How \<^verbatim>\<open>internal/service/container_service.go\<close> writes the configuration of an instance:
  the secrets whose tags match, the upstreams, the settings, and the file, which is written beside
  its place and then renamed.
\<close>

subsection \<open>Where the service runs\<close>

text \<open>
  What the service is built with, the names of files, the addresses that
  \<^verbatim>\<open>dockerExtraMetricsIPs\<close> finds, the printable runes, and the client's functions.
  \<open>si_docker\<close>: the Docker client is there. The directories are clean paths.
\<close>

record site =
  si_daemon :: daemon
  si_docker :: bool
  si_install_dir :: string
  si_data_dir :: string
  si_extra_ips :: "string list"
  si_printable :: "nat \<Rightarrow> bool"
  si_notify :: bool
  si_notifyWithBtns :: bool
  si_trafficSvc :: bool

definition join_path :: "string \<Rightarrow> string \<Rightarrow> string" where
  "join_path d p = d @ ''/'' @ p"

definition config_path :: "site \<Rightarrow> int \<Rightarrow> string" where
  "config_path si port = join_path (si_install_dir si) (''mtproxy/config-'' @ show_int port @ ''.toml'')"

definition ConfigPath :: "site \<Rightarrow> inst \<Rightarrow> string" where
  "ConfigPath si i = config_path si (inst_Port i)"

definition TLSFrontDirPath :: "site \<Rightarrow> inst \<Rightarrow> string" where
  "TLSFrontDirPath si i = join_path (si_install_dir si) (''mtproxy/tlsfront-'' @ show_int (inst_Port i))"

subsection \<open>Writing the file\<close>

text \<open>filepath.Dir of a clean path with a directory part.\<close>

definition dir_of :: "string \<Rightarrow> string" where
  "dir_of p = (case last_index_char CHR ''/'' p of None \<Rightarrow> ''.'' | Some n \<Rightarrow> take n p)"

definition WriteConfigTOML :: "site \<Rightarrow> telemt_config \<Rightarrow> string \<Rightarrow> unit io" where
  "WriteConfigTOML si cfg path =
     (let dk = si_daemon si; tmpPath = path @ ''.tmp'' in
      andthen (wrap ''create config dir'' (on_host (mkdir_all dk (dir_of path)))) (\<lambda>_.
      andthen clock (\<lambda>now.
      andthen (wrap ''write temp config'' (on_host (write_file dk tmpPath (renderTOML (si_printable si) now cfg)))) (\<lambda>_.
      andthen (attempt (on_host (rename_file dk tmpPath path))) (\<lambda>r.
      case r of
        Inl e \<Rightarrow> andthen (attempt (on_host (remove_file dk tmpPath))) (\<lambda>_. throw (ErrWrap ''rename config'' e))
      | Inr _ \<Rightarrow> ret ())))))"

subsection \<open>The configuration of an instance\<close>

definition upstream_entry_of :: "upstream \<Rightarrow> upstream_entry" where
  "upstream_entry_of u = \<lparr>ue_Type = up_Type u, ue_Address = up_Address u, ue_Username = up_Username u,
     ue_Password = up_Password u, ue_URL = up_URL u, ue_Weight = up_Weight u, ue_Iface = up_Iface u,
     ue_Enabled = up_Enabled u, ue_IPv4 = up_IPv4 u, ue_IPv6 = up_IPv6 u, ue_Prefer = up_Prefer u,
     ue_BindToDevice = up_BindToDevice u\<rparr>"

definition listUpstreamEntries :: "upstream_entry list io" where
  "listUpstreamEntries = andthen UpstreamStore_List (\<lambda>us. ret (map upstream_entry_of us))"

definition secret_entry_of :: "secret \<Rightarrow> secret_entry" where
  "secret_entry_of sec = \<lparr>se_Label = sec_Label sec, se_SecretKey = sec_SecretKey sec,
     se_Enabled = sec_Enabled sec, se_MaxConns = sec_MaxConns sec, se_MaxIPs = sec_MaxIPs sec,
     se_QuotaBytes = sec_QuotaBytes sec, se_RateLimitUpBps = sec_RateLimitUpBps sec,
     se_RateLimitDownBps = sec_RateLimitDownBps sec, se_ExpiresAt = sec_ExpiresAt sec\<rparr>"

definition matching_secrets :: "inst \<Rightarrow> secret list \<Rightarrow> secret list" where
  "matching_secrets i secrets = filter (\<lambda>sec. TagsMatch (Instance_GetTags i) (Secret_GetTags sec)) secrets"

definition parseCIDRListSafe :: "string \<Rightarrow> string list" where
  "parseCIDRListSafe s = (if s = [] then [] else filter (\<lambda>p. p \<noteq> []) (map trim_space (split_char CHR '','' s)))"

definition instance_params_of ::
    "site \<Rightarrow> settings \<Rightarrow> inst \<Rightarrow> upstream_entry list \<Rightarrow> secret list \<Rightarrow> instance_params" where
  "instance_params_of si s i upstreamEntries dbSecrets =
     \<lparr>ip_Instance = i, ip_FakeCertLen = st_FakeCertLen s, ip_UseMiddleProxy = st_UseMiddleProxy s,
      ip_AdTag = st_AdTag s, ip_ProxyProtocol = st_ProxyProtocol s,
      ip_ProxyProtocolCIDRs = parseCIDRListSafe (st_ProxyProtocolTrustedCIDRs s),
      ip_Telegram = telegramConfigFromURLs (st_ProxySecretURL s) (st_ProxyConfigV4URL s) (st_ProxyConfigV6URL s),
      ip_Secrets = map secret_entry_of (matching_secrets i dbSecrets), ip_Upstreams = upstreamEntries,
      ip_ExtraMetricsWhitelist = si_extra_ips si,
      ip_SynlimitBackend = (if st_SynlimitEnabled s then st_SynlimitBackend s else []),
      ip_SynlimitSeconds = st_SynlimitSeconds s, ip_SynlimitHitcount = st_SynlimitHitcount s,
      ip_SynlimitBurst = st_SynlimitBurst s\<rparr>"

definition generateInstanceConfigWithCached ::
    "site \<Rightarrow> settings \<Rightarrow> inst \<Rightarrow> upstream_entry list \<Rightarrow> secret list \<Rightarrow> unit io" where
  "generateInstanceConfigWithCached si s i upstreamEntries dbSecrets =
     WriteConfigTOML si (BuildInstanceConfig (instance_params_of si s i upstreamEntries dbSecrets)) (ConfigPath si i)"

definition generateInstanceConfigWith :: "site \<Rightarrow> settings \<Rightarrow> inst \<Rightarrow> upstream_entry list \<Rightarrow> unit io" where
  "generateInstanceConfigWith si s i upstreamEntries =
     andthen SecretStore_List (\<lambda>dbSecrets. generateInstanceConfigWithCached si s i upstreamEntries dbSecrets)"

definition generateInstanceConfig :: "site \<Rightarrow> settings \<Rightarrow> inst \<Rightarrow> unit io" where
  "generateInstanceConfig si s i =
     andthen listUpstreamEntries (\<lambda>upstreamEntries. generateInstanceConfigWith si s i upstreamEntries)"

definition generateInstanceConfigForSwing :: "site \<Rightarrow> settings \<Rightarrow> inst \<Rightarrow> int \<Rightarrow> int \<Rightarrow> unit io" where
  "generateInstanceConfigForSwing si s i port metricsPort =
     andthen listUpstreamEntries (\<lambda>upstreamEntries.
     generateInstanceConfigWith si s (i\<lparr>inst_Port := port, inst_MetricsPort := metricsPort\<rparr>) upstreamEntries)"

subsection \<open>Counting secrets\<close>

definition buildSecretCounts :: "inst list \<Rightarrow> (int \<times> int) list io" where
  "buildSecretCounts insts =
     andthen (wrap ''list secrets'' SecretStore_List) (\<lambda>dbSecrets.
     ret (fold (\<lambda>i. put (inst_ID i)
       (int (length (filter (\<lambda>sec. sec_Enabled sec \<and> TagsMatch (Instance_GetTags i) (Secret_GetTags sec)) dbSecrets))))
       insts []))"

definition matchingSecretCount :: "string list \<Rightarrow> int io" where
  "matchingSecretCount instanceTags =
     andthen SecretStore_List (\<lambda>dbSecrets.
     ret (int (length (filter (\<lambda>sec. sec_Enabled sec \<and> TagsMatch instanceTags (Secret_GetTags sec)) dbSecrets))))"

end
