(* ===== verification/Netutil.thy ===== *)
theory Netutil
  imports Database Go_Net Go_Json
begin

text \<open>
  \<^verbatim>\<open>pkg/netutil/iptables.go\<close>: the rules of the packet filter that the panel manages. A
  command is run through the argument \<open>dk\<close>; \<open>RestoreIPSet\<close>, which parses address blocks, is
  left out, and so is the argument that the messages of the three checks quote. The name of a set that
  passes its check is quoted as it is.
\<close>

subsection \<open>strings.Contains, Fields, Replace\<close>

fun contains :: "string \<Rightarrow> string \<Rightarrow> bool" where
  "contains [] sub = (sub = [])"
| "contains (c # s) sub = (has_prefix (c # s) sub \<or> contains s sub)"

fun replace_first :: "string \<Rightarrow> string \<Rightarrow> string \<Rightarrow> string" where
  "replace_first old new [] = (if old = [] then new else [])"
| "replace_first old new (c # s) =
     (if has_prefix (c # s) old then new @ drop (length old) (c # s) else c # replace_first old new s)"

fun fields_of :: "string list \<Rightarrow> string \<Rightarrow> string list" where
  "fields_of [] cur = (if cur = [] then [] else [cur])"
| "fields_of (ch # chs) cur =
     (if space_chunk ch then (if cur = [] then [] else [cur]) @ fields_of chs []
      else fields_of chs (cur @ ch))"

definition fields :: "string \<Rightarrow> string list" where
  "fields s = fields_of (chunks s) []"

subsection \<open>Running commands\<close>

definition runCmd :: "daemon \<Rightarrow> string list \<Rightarrow> unit io" where
  "runCmd dk argv = on_host (nf_run dk argv)"

text \<open>A check whose exit status is all that counts.\<close>

definition succeeds :: "daemon \<Rightarrow> string list \<Rightarrow> bool io" where
  "succeeds dk argv = andthen (attempt (runCmd dk argv)) (\<lambda>r. ret (case r of Inl _ \<Rightarrow> False | Inr _ \<Rightarrow> True))"

definition runCmdOutput :: "daemon \<Rightarrow> string list \<Rightarrow> string io" where
  "runCmdOutput dk argv = from_host (\<lambda>h. (nf_save dk argv h, h))"

subsection \<open>Checks\<close>

definition ipset_char :: "char \<Rightarrow> bool" where
  "ipset_char c \<longleftrightarrow> is_alpha c \<or> is_digit c \<or> c = CHR ''_'' \<or> c = CHR ''-''"

text \<open>An error is its message.\<close>

definition ValidateIPSetName :: "string \<Rightarrow> string option" where
  "ValidateIPSetName name =
     (if name = [] then Some ''ipset name must not be empty''
      else if 128 < length name
      then Some (''ipset name too long: '' @ show_int (int (length name)) @ '' (max 128)'')
      else if \<not> list_all ipset_char name then Some ''ipset name contains invalid characters''
      else None)"

definition ValidatePort :: "string \<Rightarrow> string option" where
  "ValidatePort port =
     (case atoi port of
        None \<Rightarrow> Some ''invalid port''
      | Some n \<Rightarrow>
          if n < 1 \<or> 65535 < n
          then Some (''port out of range: '' @ show_int n @ '' (must be 1-65535)'') else None)"

definition ValidateAction :: "string \<Rightarrow> string option" where
  "ValidateAction action =
     (if action \<in> set [''DROP'', ''ACCEPT'', ''REJECT''] then None else Some ''invalid iptables action'')"

definition require :: "string option \<Rightarrow> 'a io \<Rightarrow> 'a io" where
  "require e m = (case e of Some msg \<Rightarrow> throw (ErrMsg msg) | None \<Rightarrow> m)"

definition check_port :: "int \<Rightarrow> string option" where
  "check_port p = ValidatePort (show_int p)"

subsection \<open>Address sets\<close>

definition CreateIPSet :: "daemon \<Rightarrow> string \<Rightarrow> int \<Rightarrow> unit io" where
  "CreateIPSet dk name maxElem =
     require (ValidateIPSetName name)
       (wrap (''create ipset '' @ [dquote] @ name @ [dquote]) (runCmd dk [''ipset'', ''create'', ''-exist'', name, ''hash:net'', ''family'', ''inet'',
          ''maxelem'', show_int maxElem]))"

definition FlushIPSet :: "daemon \<Rightarrow> string \<Rightarrow> unit io" where
  "FlushIPSet dk name =
     require (ValidateIPSetName name) (wrap (''flush ipset '' @ [dquote] @ name @ [dquote]) (runCmd dk [''ipset'', ''flush'', name]))"

definition DestroyIPSet :: "daemon \<Rightarrow> string \<Rightarrow> unit io" where
  "DestroyIPSet dk name =
     require (ValidateIPSetName name) (wrap (''destroy ipset '' @ [dquote] @ name @ [dquote]) (runCmd dk [''ipset'', ''destroy'', name]))"

definition lower_char :: "char \<Rightarrow> char" where
  "lower_char c = (if 65 \<le> byte c \<and> byte c \<le> 90 then chr (byte c + 32) else c)"

text \<open>Country codes are ASCII.\<close>

definition SetNameForCountry :: "string \<Rightarrow> string" where
  "SetNameForCountry code = ''mtpmax_'' @ map lower_char code"

subsection \<open>Rules for geo-blocking\<close>

definition geoblock_check :: "string \<Rightarrow> string \<Rightarrow> string \<Rightarrow> rule" where
  "geoblock_check setName port action =
     (''filter'', ''INPUT'', [''-m'', ''set'', ''--match-set'', setName, ''src'', ''-p'', ''tcp'', ''--dport'', port,
        ''-j'', action])"

definition geoblock_rule :: "string \<Rightarrow> string \<Rightarrow> string \<Rightarrow> rule" where
  "geoblock_rule setName port action =
     (''filter'', ''INPUT'', [''-m'', ''set'', ''--match-set'', setName, ''src'', ''-p'', ''tcp'', ''--dport'', port,
        ''-m'', ''comment'', ''--comment'', ''popugate-geoblock'', ''-j'', action])"

definition SetRule :: "daemon \<Rightarrow> string \<Rightarrow> string \<Rightarrow> string \<Rightarrow> unit io" where
  "SetRule dk setName port action =
     require (ValidateIPSetName setName) (require (ValidatePort port) (require (ValidateAction action)
       (andthen (succeeds dk (iptables ''filter'' ''-C'' (geoblock_check setName port action))) (\<lambda>there.
        if there then ret ()
        else wrap (''set geoblock rule '' @ setName @ '' port '' @ port @ '' '' @ action)
          (runCmd dk (iptables ''filter'' ''-I'' (geoblock_rule setName port action)))))))"

definition deny_rule :: "string \<Rightarrow> rule" where
  "deny_rule port =
     (''filter'', ''INPUT'', [''-p'', ''tcp'', ''--dport'', port, ''-m'', ''comment'', ''--comment'',
        ''popugate-geoblock-default'', ''-j'', ''DROP''])"

definition SetDefaultDeny :: "daemon \<Rightarrow> string \<Rightarrow> unit io" where
  "SetDefaultDeny dk port =
     require (ValidatePort port)
       (andthen (succeeds dk (iptables ''filter'' ''-C'' (deny_rule port))) (\<lambda>there.
        if there then ret ()
        else wrap (''set default deny port '' @ port) (runCmd dk (iptables ''filter'' ''-A'' (deny_rule port)))))"

text \<open>The arguments that delete the rule of a printed line, when the line has the marker.\<close>

definition delete_args :: "string \<Rightarrow> string \<Rightarrow> string list option" where
  "delete_args marker line =
     (if \<not> contains line marker \<or> \<not> has_prefix (trim_space line) ''-A '' then None
      else
        (let parts = fields (replace_first ''-A '' ''-D '' line) in
         if length parts < 3 \<or> parts ! 0 \<noteq> ''-D'' \<or>
            parts ! 1 \<notin> set [''INPUT'', ''OUTPUT'', ''FORWARD'', ''POSTROUTING'', ''PREROUTING'']
         then None else Some parts))"

definition delete_lines :: "daemon \<Rightarrow> string list \<Rightarrow> string \<Rightarrow> string \<Rightarrow> unit io" where
  "delete_lines dk prefix marker out =
     each (\<lambda>line _. case delete_args marker line of
         None \<Rightarrow> ret ()
       | Some parts \<Rightarrow> andthen (attempt (runCmd dk (prefix @ parts))) (\<lambda>_. ret ()))
       (split_char newline out) ()"

definition RemoveGeoBlockRules :: "daemon \<Rightarrow> unit io" where
  "RemoveGeoBlockRules dk =
     andthen (wrap ''remove geoblock rules'' (runCmdOutput dk [''iptables-save''])) (\<lambda>out.
     delete_lines dk [''iptables''] ''popugate-geoblock'' out)"

subsection \<open>Segment sizes\<close>

definition mss_rule :: "int \<Rightarrow> int \<Rightarrow> rule" where
  "mss_rule port mss =
     (''mangle'', ''POSTROUTING'', [''-p'', ''tcp'', ''--sport'', show_int port, ''--tcp-flags'', ''SYN,RST'', ''SYN'',
        ''-j'', ''TCPMSS'', ''--set-mss'', show_int mss, ''-m'', ''comment'', ''--comment'',
        ''popugate-tcpmss-'' @ show_int port])"

definition SetTCPMSSRule :: "daemon \<Rightarrow> int \<Rightarrow> int \<Rightarrow> unit io" where
  "SetTCPMSSRule dk port mss =
     require (check_port port)
       (if mss < 1 \<or> 1460 < mss
        then throw (ErrMsg (''mss out of range: '' @ show_int mss @ '' (must be 1-1460)''))
        else
          andthen (succeeds dk (iptables ''mangle'' ''-C'' (mss_rule port mss))) (\<lambda>there.
          if there then ret ()
          else wrap (''set tcpmss rule port '' @ show_int port @ '' mss '' @ show_int mss) (runCmd dk (iptables ''mangle'' ''-A'' (mss_rule port mss)))))"

definition mss_marker :: "int \<Rightarrow> string" where
  "mss_marker port = (if 0 < port then ''popugate-tcpmss-'' @ show_int port else ''popugate-tcpmss'')"

definition RemoveTCPMSSRules :: "daemon \<Rightarrow> int \<Rightarrow> unit io" where
  "RemoveTCPMSSRules dk port =
     andthen (wrap ''remove tcpmss rules'' (runCmdOutput dk [''iptables-save'', ''-t'', ''mangle''])) (\<lambda>out.
     delete_lines dk [''iptables'', ''-t'', ''mangle''] (mss_marker port) out)"

subsection \<open>Redirects\<close>

definition redirect_rule :: "int \<Rightarrow> int \<Rightarrow> rule" where
  "redirect_rule primaryPort tempPort =
     (''nat'', ''PREROUTING'', [''-p'', ''tcp'', ''--dport'', show_int primaryPort, ''-j'', ''REDIRECT'',
        ''--to-ports'', show_int tempPort])"

definition AddPortRedirect :: "daemon \<Rightarrow> int \<Rightarrow> int \<Rightarrow> unit io" where
  "AddPortRedirect dk primaryPort tempPort =
     require (check_port primaryPort) (require (check_port tempPort)
       (andthen (succeeds dk (iptables ''nat'' ''-C'' (redirect_rule primaryPort tempPort))) (\<lambda>there.
        if there then ret ()
        else wrap (''add port redirect '' @ show_int primaryPort @ '' -> '' @ show_int tempPort)
          (runCmd dk (iptables ''nat'' ''-A'' (redirect_rule primaryPort tempPort))))))"

definition RemovePortRedirect :: "daemon \<Rightarrow> int \<Rightarrow> int \<Rightarrow> unit io" where
  "RemovePortRedirect dk primaryPort tempPort =
     require (check_port primaryPort) (require (check_port tempPort)
       (andthen (succeeds dk (iptables ''nat'' ''-C'' (redirect_rule primaryPort tempPort))) (\<lambda>there.
        if \<not> there then ret ()
        else wrap (''remove port redirect '' @ show_int primaryPort @ '' -> '' @ show_int tempPort)
          (runCmd dk (iptables ''nat'' ''-D'' (redirect_rule primaryPort tempPort))))))"

definition HasPortRedirect :: "daemon \<Rightarrow> int \<Rightarrow> int \<Rightarrow> bool io" where
  "HasPortRedirect dk primaryPort tempPort =
     require (check_port primaryPort) (require (check_port tempPort)
       (succeeds dk (iptables ''nat'' ''-C'' (redirect_rule primaryPort tempPort))))"

end
