(* ===== verification/Container_Service.thy ===== *)
theory Container_Service
  imports Container_Config Netutil Promutil Traffic_Service
begin

text \<open>
  The lifecycle of the containers, \<^verbatim>\<open>internal/service/container_service.go\<close>: start, stop,
  reload by a signal, and the reload without downtime, which starts a second container on a port ten
  thousand above, redirects the instance's port to it, and lets the first one drain. A goroutine that
  waits for a container to drain is an element of \<open>w_drains\<close>; its two ways to end are the
  operations \<open>drain_tick\<close> and \<open>drain_timeout\<close>. Goroutines that are started and awaited in
  one function run one after the other here. Log output, the status broadcast, and the emoji and server
  name of notifications are left out.
\<close>

subsection \<open>Names and ports\<close>

definition container_name :: "int \<Rightarrow> string" where
  "container_name port = ''popugate-telemt-'' @ show_int port"

definition synlimitCaps :: "settings \<Rightarrow> string list" where
  "synlimitCaps s = (if st_SynlimitEnabled s then [''NET_ADMIN''] else [])"

definition swing_ports :: "int \<Rightarrow> int list" where
  "swing_ports primaryPort = map (\<lambda>k. primaryPort + 10000 + int k) [0..<100]"

definition GetActiveSwingPortWithMap :: "inst \<Rightarrow> string list \<Rightarrow> int \<times> bool" where
  "GetActiveSwingPortWithMap i runningContainers =
     (case find (\<lambda>port. container_name port \<in> set runningContainers) (swing_ports (inst_Port i)) of
        Some port \<Rightarrow> (port, True)
      | None \<Rightarrow> (inst_Port i + 10000, False))"

text \<open>The map of running containers, or \<open>None\<close> when there is no client or the list fails.\<close>

definition running_map :: "site \<Rightarrow> string list option io" where
  "running_map si =
     (if \<not> si_docker si then ret None
      else andthen (attempt (ListRunningContainerNames (si_daemon si))) (\<lambda>r.
        ret (case r of Inl _ \<Rightarrow> None | Inr names \<Rightarrow> Some names)))"

definition GetActiveSwingPort :: "site \<Rightarrow> inst \<Rightarrow> (int \<times> bool) io" where
  "GetActiveSwingPort si i =
     andthen (running_map si) (\<lambda>r. ret (case r of
         None \<Rightarrow> (inst_Port i + 10000, False) | Some names \<Rightarrow> GetActiveSwingPortWithMap i names))"

definition ResolveActivePortsWithMap :: "inst \<Rightarrow> string list \<Rightarrow> int \<times> int" where
  "ResolveActivePortsWithMap i runningContainers =
     (case GetActiveSwingPortWithMap i runningContainers of
        (swingPort, True) \<Rightarrow> (swingPort, swingPort + 100)
      | (_, False) \<Rightarrow> (inst_Port i, inst_MetricsPort i))"

definition ResolveActivePorts :: "site \<Rightarrow> inst \<Rightarrow> (int \<times> int) io" where
  "ResolveActivePorts si i =
     andthen (running_map si) (\<lambda>r. ret (case r of
         None \<Rightarrow> (inst_Port i, inst_MetricsPort i) | Some names \<Rightarrow> ResolveActivePortsWithMap i names))"

definition GetActiveContainerNameWithMap :: "inst \<Rightarrow> string list \<Rightarrow> string" where
  "GetActiveContainerNameWithMap i runningContainers =
     (case GetActiveSwingPortWithMap i runningContainers of
        (swingPort, True) \<Rightarrow> container_name swingPort
      | (_, False) \<Rightarrow> ContainerName i)"

definition GetActiveContainerName :: "site \<Rightarrow> inst \<Rightarrow> string io" where
  "GetActiveContainerName si i =
     andthen (running_map si) (\<lambda>r. ret (case r of
         None \<Rightarrow> ContainerName i | Some names \<Rightarrow> GetActiveContainerNameWithMap i names))"

text \<open>A call whose error is thrown away.\<close>

definition ignore :: "'a io \<Rightarrow> unit io" where
  "ignore m = andthen (attempt m) (\<lambda>_. ret ())"

definition cleanStalePortRedirects :: "site \<Rightarrow> int \<Rightarrow> unit io" where
  "cleanStalePortRedirects si primaryPort =
     (let dk = si_daemon si in
      each (\<lambda>port _.
        andthen (attempt (HasPortRedirect dk primaryPort port)) (\<lambda>r.
        when_do (r = Inr True) (ignore (RemovePortRedirect dk primaryPort port))))
        (swing_ports primaryPort) ())"

text \<open>The check of the state of a container with its error thrown away.\<close>

definition is_running :: "site \<Rightarrow> string \<Rightarrow> bool io" where
  "is_running si name =
     andthen (attempt (IsInstanceRunning (si_daemon si) name)) (\<lambda>r.
     ret (case r of Inl _ \<Rightarrow> False | Inr b \<Rightarrow> b))"

definition isPortFree :: "site \<Rightarrow> int \<Rightarrow> bool io" where
  "isPortFree si port = from_host (\<lambda>h. (Inr (tcp_free (si_daemon si) port h), h))"

fun first_free :: "site \<Rightarrow> int list \<Rightarrow> int option io" where
  "first_free si [] = ret None"
| "first_free si (port # ports) =
     andthen (isPortFree si port) (\<lambda>a.
     andthen (if a then isPortFree si (port + 100) else ret False) (\<lambda>b.
     if \<not> b then first_free si ports
     else andthen (is_running si (container_name port)) (\<lambda>up.
       if up then first_free si ports else ret (Some port))))"

definition findFreeSwingPort :: "site \<Rightarrow> int \<Rightarrow> (int \<times> int) io" where
  "findFreeSwingPort si primaryPort =
     andthen (first_free si (swing_ports primaryPort)) (\<lambda>r.
     ret (case r of Some port \<Rightarrow> (port, port + 100) | None \<Rightarrow> (primaryPort + 10000, primaryPort + 10100)))"

subsection \<open>Runtime rules\<close>

definition applyTCPMSSRules :: "site \<Rightarrow> inst \<Rightarrow> unit io" where
  "applyTCPMSSRules si i =
     (if \<not> inst_TCPMSSEnabled i then ret ()
      else andthen (ignore (RemoveTCPMSSRules (si_daemon si) (inst_Port i))) (\<lambda>_.
        wrap (''tcpmss port '' @ show_int (inst_Port i) @ '' mss '' @ show_int (inst_TCPMSS i))
          (SetTCPMSSRule (si_daemon si) (inst_Port i) (inst_TCPMSS i))))"

definition cleanupInstanceRuntimeRules :: "site \<Rightarrow> inst \<Rightarrow> unit io" where
  "cleanupInstanceRuntimeRules si i =
     when_do (inst_TCPMSSEnabled i) (ignore (RemoveTCPMSSRules (si_daemon si) (inst_Port i)))"

text \<open>At most ten megabytes of the page are kept.\<close>

definition downloadFrontingContent :: "site \<Rightarrow> string \<Rightarrow> string \<Rightarrow> unit io" where
  "downloadFrontingContent si domain dir =
     (let dk = si_daemon si; frontURL = ''https://'' @ domain @ ''/'' in
      andthen (wrap ''create fronting dir'' (on_host (mkdir_all dk dir))) (\<lambda>_.
      andthen (wrap (''fetch '' @ frontURL) (from_host (\<lambda>h. (http_page dk frontURL h, h)))) (\<lambda>(status, body).
      if status \<noteq> 200 then throw (ErrMsg (''fetch '' @ frontURL @ '': HTTP '' @ show_int status))
      else
        andthen (wrap ''write temp fronting'' (on_host (write_file dk (join_path dir ''index.html.tmp'')
          (take 10485760 body)))) (\<lambda>_.
        on_host (rename_file dk (join_path dir ''index.html.tmp'') (join_path dir ''index.html''))))))"

text \<open>The directory to mount, empty when there is none or its content could not be fetched.\<close>

definition fronting_dir :: "site \<Rightarrow> inst \<Rightarrow> string io" where
  "fronting_dir si i =
     (if inst_TLSFronting i \<and> inst_FakeTLS i then
        andthen (attempt (downloadFrontingContent si (inst_TLSDomain i) (TLSFrontDirPath si i))) (\<lambda>r.
        ret (case r of Inl _ \<Rightarrow> [] | Inr _ \<Rightarrow> TLSFrontDirPath si i))
      else ret [])"

definition applyInstanceRuntimeRules :: "site \<Rightarrow> inst \<Rightarrow> string io" where
  "applyInstanceRuntimeRules si i =
     andthen (wrap ''apply runtime rules'' (applyTCPMSSRules si i)) (\<lambda>_. fronting_dir si i)"

text \<open>The instance with a number, or the error of a missing one.\<close>

definition with_instance :: "int \<Rightarrow> (inst \<Rightarrow> 'a io) \<Rightarrow> 'a io" where
  "with_instance i f =
     must_exist (InstanceStore_GetByID i) (ErrMsg (''instance '' @ show_int i @ '' not found'')) f"

definition ReconcileInstanceRules :: "site \<Rightarrow> int \<Rightarrow> unit io" where
  "ReconcileInstanceRules si n =
     andthen (wrap (''get instance '' @ show_int n) (InstanceStore_GetByID n)) (\<lambda>r. case r of
         None \<Rightarrow> throw (ErrMsg (''instance '' @ show_int n @ '' not found''))
       | Some i \<Rightarrow>
           andthen (is_running si (ContainerName i)) (\<lambda>up.
           if up \<and> inst_TCPMSSEnabled i then applyTCPMSSRules si i
           else wrap (''remove tcpmss rules port '' @ show_int (inst_Port i))
             (RemoveTCPMSSRules (si_daemon si) (inst_Port i))))"

definition RefreshFrontingContent :: "site \<Rightarrow> int \<Rightarrow> unit io" where
  "RefreshFrontingContent si n =
     with_instance n (\<lambda>i.
       if \<not> inst_TLSFronting i \<or> \<not> inst_FakeTLS i
       then throw (ErrMsg (''TLS fronting is not enabled for instance '' @ show_int n))
       else downloadFrontingContent si (inst_TLSDomain i) (TLSFrontDirPath si i))"

text \<open>The value is the last error.\<close>

definition RefreshAllFrontingContent :: "site \<Rightarrow> error option io" where
  "RefreshAllFrontingContent si =
     andthen InstanceStore_List (\<lambda>insts.
     each (\<lambda>i lastErr.
       if inst_Enabled i \<and> inst_TLSFronting i \<and> inst_FakeTLS i then
         andthen (attempt (downloadFrontingContent si (inst_TLSDomain i) (TLSFrontDirPath si i))) (\<lambda>r.
         ret (case r of Inl e \<Rightarrow> Some e | Inr _ \<Rightarrow> lastErr))
       else ret lastErr) insts None)"

subsection \<open>Starting\<close>

definition docker_image :: string where
  "docker_image = ''popugate-telemt:latest''"

definition run_opts :: "site \<Rightarrow> settings \<Rightarrow> string \<Rightarrow> int \<Rightarrow> string \<Rightarrow> run_options" where
  "run_opts si s name port tlsFrontDir =
     \<lparr>ro_Image = docker_image, ro_ConfigPath = config_path si port, ro_CPUs = st_ProxyCPUs s,
      ro_Memory = st_ProxyMemory s, ro_Name = name, ro_Port = port, ro_TLSFrontDir = tlsFrontDir,
      ro_CapAdd = synlimitCaps s\<rparr>"

definition need_docker :: "site \<Rightarrow> 'a io \<Rightarrow> 'a io" where
  "need_docker si m =
     (if \<not> si_docker si then throw (ErrMsg ''docker client is not initialized'') else m)"

definition StartInstance :: "site \<Rightarrow> int \<Rightarrow> unit io" where
  "StartInstance si n =
     need_docker si
       (andthen (wrap ''load settings'' SettingsStore_Load) (\<lambda>s.
        with_instance n (\<lambda>i.
          andthen (matchingSecretCount (Instance_GetTags i)) (\<lambda>count.
          if count = 0
          then throw (ErrMsg ''no matching secrets: add a secret with a matching tag or remove instance tags'')
          else
            andthen (cleanStalePortRedirects si (inst_Port i)) (\<lambda>_.
            andthen (applyInstanceRuntimeRules si i) (\<lambda>tlsFrontDir.
            andthen (wrap ''generate config'' (generateInstanceConfig si s i)) (\<lambda>_.
            andthen (RunInstance (si_daemon si) (run_opts si s (ContainerName i) (inst_Port i) tlsFrontDir)) (\<lambda>_.
            ret ()))))))))"

definition count_of :: "(int \<times> int) list \<Rightarrow> inst \<Rightarrow> int" where
  "count_of secretCounts i = (case map_of secretCounts (inst_ID i) of None \<Rightarrow> 0 | Some c \<Rightarrow> c)"

text \<open>The ports of the instances whose fronting content was fetched.\<close>

definition prepareInstanceConfigs ::
    "site \<Rightarrow> inst list \<Rightarrow> (int \<times> int) list \<Rightarrow> upstream_entry list \<Rightarrow> settings \<Rightarrow> int list io" where
  "prepareInstanceConfigs si insts secretCounts upstreamEntries s =
     each (\<lambda>i frontingOK.
       if \<not> inst_Enabled i \<or> count_of secretCounts i = 0 then ret frontingOK
       else
         andthen (fronting_dir si i) (\<lambda>dir.
         andthen (wrap (''generate config for instance '' @ show_int (inst_Port i))
           (generateInstanceConfigWith si s i upstreamEntries)) (\<lambda>_.
         ret (if dir \<noteq> [] then inst_Port i # frontingOK else frontingOK))))
       insts []"

text \<open>The errors are collected, at most two for one instance.\<close>

definition start_one :: "site \<Rightarrow> settings \<Rightarrow> int list \<Rightarrow> inst \<Rightarrow> error list io" where
  "start_one si s frontingOK i =
     andthen (cleanStalePortRedirects si (inst_Port i)) (\<lambda>_.
     andthen (attempt (applyTCPMSSRules si i)) (\<lambda>r1.
     let tlsFrontDir =
           (if inst_TLSFronting i \<and> inst_FakeTLS i \<and> inst_Port i \<in> set frontingOK then TLSFrontDirPath si i else []) in
     andthen (attempt (RunInstance (si_daemon si) (run_opts si s (ContainerName i) (inst_Port i) tlsFrontDir))) (\<lambda>r2.
     ret ((case r1 of Inl e \<Rightarrow> [e] | Inr _ \<Rightarrow> []) @
          (case r2 of Inl e \<Rightarrow> [ErrWrap (''start instance '' @ show_int (inst_Port i)) e] | Inr _ \<Rightarrow> [])))))"

definition startContainersParallel ::
    "site \<Rightarrow> inst list \<Rightarrow> (int \<times> int) list \<Rightarrow> int list \<Rightarrow> settings \<Rightarrow> unit io" where
  "startContainersParallel si insts secretCounts frontingOK s =
     andthen (each (\<lambda>i errs.
         if \<not> inst_Enabled i \<or> count_of secretCounts i = 0 then ret errs
         else andthen (start_one si s frontingOK i) (\<lambda>es. ret (errs @ es))) insts []) (\<lambda>errs.
     if errs \<noteq> []
     then throw (ErrMsg (show_int (int (length errs)) @ '' instance(s) failed: '' @ join ''; '' (map err_text errs)))
     else ret ())"

definition startInstances :: "site \<Rightarrow> settings \<Rightarrow> unit io" where
  "startInstances si s =
     andthen InstanceStore_List (\<lambda>insts.
     andthen (wrap ''count matching secrets'' (buildSecretCounts insts)) (\<lambda>secretCounts.
     andthen (wrap ''list upstreams'' listUpstreamEntries) (\<lambda>upstreamEntries.
     andthen (prepareInstanceConfigs si insts secretCounts upstreamEntries s) (\<lambda>frontingOK.
     startContainersParallel si insts secretCounts frontingOK s))))"

definition stop_flag :: "site \<Rightarrow> string" where
  "stop_flag si = join_path (si_data_dir si) ''.popugate_stopped''"

definition notifyEngineState :: "site \<Rightarrow> string \<Rightarrow> unit io" where
  "notifyEngineState si msg = when_do (si_notify si) (tell (EvNotify msg))"

definition Start :: "site \<Rightarrow> unit io" where
  "Start si =
     andthen (ignore (on_host (remove_file (si_daemon si) (stop_flag si)))) (\<lambda>_.
     andthen (wrap ''load settings'' SettingsStore_Load) (\<lambda>s.
     andthen SecretStore_CountEnabled (\<lambda>enabledCount.
     if enabledCount = 0 then throw (ErrMsg ''no enabled secrets; add at least one secret first'')
     else andthen (wrap ''start instances'' (startInstances si s)) (\<lambda>_.
       notifyEngineState si ''Proxy engine started''))))"

subsection \<open>Stopping\<close>

text \<open>The redirect to the swing container when there is one, else to the first port above.\<close>

definition drop_redirect :: "site \<Rightarrow> inst \<Rightarrow> int \<times> bool \<Rightarrow> unit io" where
  "drop_redirect si i swing =
     ignore (RemovePortRedirect (si_daemon si) (inst_Port i)
       (if snd swing then fst swing else inst_Port i + 10000))"

definition StopInstance :: "site \<Rightarrow> int \<Rightarrow> unit io" where
  "StopInstance si n =
     need_docker si (with_instance n (\<lambda>i.
       andthen (GetActiveSwingPort si i) (\<lambda>swing.
       andthen (GetActiveContainerName si i) (\<lambda>activeName.
       andthen (attempt (docker_StopInstance (si_daemon si) activeName)) (\<lambda>r.
       andthen (drop_redirect si i swing) (\<lambda>_.
       andthen (cleanupInstanceRuntimeRules si i) (\<lambda>_.
       case r of Inl e \<Rightarrow> throw e | Inr _ \<Rightarrow> ret ())))))))"

definition stop_one :: "site \<Rightarrow> inst \<Rightarrow> unit io" where
  "stop_one si i =
     andthen (GetActiveSwingPort si i) (\<lambda>swing.
     andthen (GetActiveContainerName si i) (\<lambda>activeName.
     andthen (ignore (docker_StopInstance (si_daemon si) activeName)) (\<lambda>_.
     andthen (drop_redirect si i swing) (\<lambda>_.
     cleanupInstanceRuntimeRules si i))))"

definition flushTraffic :: "site \<Rightarrow> unit io" where
  "flushTraffic si =
     (if \<not> si_trafficSvc si then ret ()
      else andthen (running_map si) (\<lambda>r.
        \<lambda>w. Flush (\<lambda>port. case http_metrics (si_daemon si) port (w_host w) of
                  Inl _ \<Rightarrow> None | Inr (_, body) \<Rightarrow> Some body)
                (case r of None \<Rightarrow> [] | Some names \<Rightarrow> names) w))"

definition Stop :: "site \<Rightarrow> unit io" where
  "Stop si =
     andthen (ignore (flushTraffic si)) (\<lambda>_.
     andthen clock (\<lambda>now.
     andthen (ignore (on_host (write_file (si_daemon si) (stop_flag si) (show_int (unix now))))) (\<lambda>_.
     andthen (attempt InstanceStore_List) (\<lambda>r.
     andthen (each (\<lambda>i _. when_do (inst_Enabled i) (stop_one si i)) (case r of Inl _ \<Rightarrow> [] | Inr insts \<Rightarrow> insts) ())
       (\<lambda>_. notifyEngineState si ''Proxy engine stopped'')))))"

definition Restart :: "site \<Rightarrow> unit io" where
  "Restart si = andthen (Stop si) (\<lambda>_. Start si)"

definition RestartInstance :: "site \<Rightarrow> int \<Rightarrow> unit io" where
  "RestartInstance si n = andthen (ignore (StopInstance si n)) (\<lambda>_. StartInstance si n)"

subsection \<open>Reloading by a signal\<close>

definition ReloadInstanceConfig :: "site \<Rightarrow> int \<Rightarrow> unit io" where
  "ReloadInstanceConfig si n =
     need_docker si
       (andthen SettingsStore_Load (\<lambda>s.
        with_instance n (\<lambda>i.
          if \<not> inst_Enabled i then throw (ErrMsg (''instance '' @ show_int n @ '' is disabled''))
          else
            andthen (wrap (''generate config for instance '' @ show_int (inst_ID i)) (generateInstanceConfig si s i)) (\<lambda>_.
            andthen (GetActiveContainerName si i) (\<lambda>activeName.
            andthen (is_running si activeName) (\<lambda>up.
            if \<not> up then throw (ErrMsg (''instance '' @ show_int n @ '' container is not running''))
            else KillSignalInstance (si_daemon si) activeName ''SIGHUP''))))))"

definition reload_one :: "site \<Rightarrow> settings \<Rightarrow> upstream_entry list \<Rightarrow> secret list \<Rightarrow> inst \<Rightarrow> unit io" where
  "reload_one si s upstreamEntries dbSecrets i =
     (if \<not> inst_Enabled i then ret ()
      else andthen (attempt (generateInstanceConfigWithCached si s i upstreamEntries dbSecrets)) (\<lambda>r.
        case r of
          Inl _ \<Rightarrow> ret ()
        | Inr _ \<Rightarrow>
            andthen (attempt (IsInstanceRunning (si_daemon si) (ContainerName i))) (\<lambda>up.
            when_do (up = Inr True) (ignore (KillSignalInstance (si_daemon si) (ContainerName i) ''SIGHUP'')))))"

definition Reload :: "site \<Rightarrow> unit io" where
  "Reload si =
     need_docker si
       (andthen SettingsStore_Load (\<lambda>s.
        andthen InstanceStore_List (\<lambda>insts.
        andthen listUpstreamEntries (\<lambda>upstreamEntries.
        andthen SecretStore_List (\<lambda>dbSecrets.
        each (\<lambda>i _. reload_one si s upstreamEntries dbSecrets i) insts ())))))"

subsection \<open>Reloading without downtime\<close>

record swing_state =
  ss_targetPort :: int
  ss_targetMetricsPort :: int
  ss_targetContainerName :: string
  ss_drainingPort :: int
  ss_drainingMetricsPort :: int
  ss_drainingContainerName :: string
  ss_drainingRunning :: bool
  ss_redirectActive :: bool
  ss_tempPort :: int

text \<open>Which container is replaced and which one starts, once it is known whether the redirect is on.\<close>

definition swing_roles :: "inst \<Rightarrow> int \<Rightarrow> int \<Rightarrow> bool \<Rightarrow> string list \<Rightarrow> swing_state" where
  "swing_roles i tempPort tempMetricsPort redirectActive runningContainers =
     (let primary = (inst_Port i, inst_MetricsPort i, ContainerName i);
          temp = (tempPort, tempMetricsPort, container_name tempPort);
          (target, draining) = (if redirectActive then (primary, temp) else (temp, primary));
          drainingRunning = (snd (snd draining) \<in> set runningContainers);
          target = (if drainingRunning then target else primary)
      in \<lparr>ss_targetPort = fst target, ss_targetMetricsPort = fst (snd target),
          ss_targetContainerName = snd (snd target), ss_drainingPort = fst draining,
          ss_drainingMetricsPort = fst (snd draining), ss_drainingContainerName = snd (snd draining),
          ss_drainingRunning = drainingRunning, ss_redirectActive = redirectActive, ss_tempPort = tempPort\<rparr>)"

definition resolveSwingRoutingState :: "site \<Rightarrow> inst \<Rightarrow> string list \<Rightarrow> swing_state io" where
  "resolveSwingRoutingState si i runningContainers =
     (let primaryPort = inst_Port i; swing = GetActiveSwingPortWithMap i runningContainers in
      andthen (if snd swing then ret (fst swing, fst swing + 100) else findFreeSwingPort si primaryPort)
        (\<lambda>(tempPort, tempMetricsPort).
      andthen (attempt (HasPortRedirect (si_daemon si) primaryPort tempPort)) (\<lambda>r.
      let redirectActive = (r = Inr True \<or>
            container_name tempPort \<in> set runningContainers \<and> ContainerName i \<notin> set runningContainers);
          state = swing_roles i tempPort tempMetricsPort redirectActive runningContainers in
      andthen (when_do (\<not> ss_drainingRunning state)
        (ignore (RemovePortRedirect (si_daemon si) primaryPort tempPort))) (\<lambda>_. ret state))))"

definition setupTargetRuntimeRules :: "site \<Rightarrow> settings \<Rightarrow> inst \<Rightarrow> int \<Rightarrow> int \<Rightarrow> string io" where
  "setupTargetRuntimeRules si s i targetPort targetMetricsPort =
     andthen (when_do (inst_TCPMSSEnabled i) (ignore (SetTCPMSSRule (si_daemon si) targetPort (inst_TCPMSS i)))) (\<lambda>_.
     andthen (wrap ''generate swing config'' (generateInstanceConfigForSwing si s i targetPort targetMetricsPort)) (\<lambda>_.
     fronting_dir si i))"

definition add_drain :: "string \<times> int \<times> int \<Rightarrow> unit io" where
  "add_drain d w = (Inr (), w\<lparr>w_drains := w_drains w @ [d]\<rparr>)"

definition startSwingDraining :: "site \<Rightarrow> inst \<Rightarrow> swing_state \<Rightarrow> unit io" where
  "startSwingDraining si i state =
     (if \<not> ss_drainingRunning state then ret ()
      else
        andthen (if ss_redirectActive state
          then ignore (RemovePortRedirect (si_daemon si) (inst_Port i) (ss_tempPort state))
          else ignore (AddPortRedirect (si_daemon si) (inst_Port i) (ss_tempPort state))) (\<lambda>_.
        add_drain (ss_drainingContainerName state, ss_drainingPort state, ss_drainingMetricsPort state)))"

text \<open>What \<open>ReloadInstance\<close> does once it has read the settings, the row and the running containers.\<close>

definition reload_to :: "site \<Rightarrow> settings \<Rightarrow> inst \<Rightarrow> string list \<Rightarrow> unit io" where
  "reload_to si s i runningContainers =
     andthen (resolveSwingRoutingState si i runningContainers) (\<lambda>state.
     andthen (setupTargetRuntimeRules si s i (ss_targetPort state) (ss_targetMetricsPort state)) (\<lambda>tlsFrontDir.
     andthen (wrap ''start swing container''
       (RunInstance (si_daemon si) (run_opts si s (ss_targetContainerName state) (ss_targetPort state) tlsFrontDir))) (\<lambda>_.
     startSwingDraining si i state)))"

definition ReloadInstance :: "site \<Rightarrow> int \<Rightarrow> unit io" where
  "ReloadInstance si n =
     andthen SettingsStore_Load (\<lambda>s.
     with_instance n (\<lambda>i.
       andthen (attempt (ListRunningContainerNames (si_daemon si))) (\<lambda>r.
       reload_to si s i (case r of Inl _ \<Rightarrow> [] | Inr names \<Rightarrow> names))))"

definition ReloadZeroDowntime :: "site \<Rightarrow> unit io" where
  "ReloadZeroDowntime si =
     andthen InstanceStore_List (\<lambda>insts.
     andthen (each (\<lambda>i errs.
         if \<not> inst_Enabled i then ret errs
         else andthen (attempt (ReloadInstance si (inst_ID i))) (\<lambda>r.
           ret (case r of Inl e \<Rightarrow> errs @ [ErrWrap (''instance '' @ show_int (inst_ID i)) e] | Inr _ \<Rightarrow> errs)))
       insts []) (\<lambda>errs.
     if errs \<noteq> []
     then throw (ErrMsg (''zero-downtime reload failed for some instances: '' @ join '' '' (map err_text errs)))
     else ret ()))"

subsection \<open>Draining\<close>

definition getActiveConnections :: "site \<Rightarrow> int \<Rightarrow> int io" where
  "getActiveConnections si metricsPort =
     andthen (from_host (\<lambda>h. (http_metrics (si_daemon si) metricsPort h, h))) (\<lambda>(status, body).
     if status \<noteq> 200 then throw (ErrMsg (''unexpected status: '' @ show_int status))
     else case FetchAndParse (Some body) of
       None \<Rightarrow> throw (ErrMsg ''read metrics'')
     | Some live \<Rightarrow> ret (f64_to_int64 (lm_ConnsCurrent live)))"

definition stopAndCleanContainer :: "site \<Rightarrow> string \<Rightarrow> int \<Rightarrow> unit io" where
  "stopAndCleanContainer si name port =
     andthen (ignore (docker_StopInstance (si_daemon si) name)) (\<lambda>_.
     andthen (ignore (RemoveTCPMSSRules (si_daemon si) port)) (\<lambda>_.
     ignore (on_host (remove_file (si_daemon si) (config_path si port)))))"

definition end_drain :: "string \<times> int \<times> int \<Rightarrow> unit io" where
  "end_drain d w = (Inr (), w\<lparr>w_drains := remove1 d (w_drains w)\<rparr>)"

text \<open>One round of the loop, and the round after three minutes.\<close>

definition drain_tick :: "site \<Rightarrow> string \<times> int \<times> int \<Rightarrow> unit io" where
  "drain_tick si = (\<lambda>(name, port, metricsPort).
     andthen (attempt (getActiveConnections si metricsPort)) (\<lambda>r.
     if (case r of Inl _ \<Rightarrow> True | Inr conns \<Rightarrow> conns \<le> 0)
     then andthen (stopAndCleanContainer si name port) (\<lambda>_. end_drain (name, port, metricsPort))
     else ret ()))"

definition drain_timeout :: "site \<Rightarrow> string \<times> int \<times> int \<Rightarrow> unit io" where
  "drain_timeout si = (\<lambda>(name, port, metricsPort).
     andthen (stopAndCleanContainer si name port) (\<lambda>_. end_drain (name, port, metricsPort)))"

subsection \<open>Revalidation\<close>

definition notify_stopped :: "site \<Rightarrow> string \<Rightarrow> unit io" where
  "notify_stopped si msg =
     (if si_notifyWithBtns si then andthen (attempt SettingsStore_Load) (\<lambda>_. tell (EvNotify msg))
      else when_do (si_notify si) (tell (EvNotify msg)))"

definition stop_unmatched :: "site \<Rightarrow> inst \<Rightarrow> int \<times> bool \<Rightarrow> string \<Rightarrow> string \<Rightarrow> unit io" where
  "stop_unmatched si i swing activeName msg =
     andthen (ignore (docker_StopInstance (si_daemon si) activeName)) (\<lambda>_.
     andthen (drop_redirect si i swing) (\<lambda>_. notify_stopped si msg))"

definition RevalidateAllInstances :: "site \<Rightarrow> unit io" where
  "RevalidateAllInstances si =
     ignore (andthen InstanceStore_List (\<lambda>insts.
       andthen (buildSecretCounts insts) (\<lambda>secretCounts.
       each (\<lambda>i _.
         if \<not> inst_Enabled i then ret ()
         else
           andthen (GetActiveSwingPort si i) (\<lambda>swing.
           andthen (GetActiveContainerName si i) (\<lambda>activeName.
           andthen (is_running si activeName) (\<lambda>up.
           when_do (up \<and> count_of secretCounts i = 0)
             (stop_unmatched si i swing activeName (''Instance '' @ [dquote] @ inst_Label i @ [dquote] @
               '' (port '' @ show_int (inst_Port i) @ '') stopped: no matching secrets''))))))
         insts ())))"

definition RevalidateInstance :: "site \<Rightarrow> int \<Rightarrow> unit io" where
  "RevalidateInstance si n =
     andthen (attempt (InstanceStore_GetByID n)) (\<lambda>r.
     case r of
       Inr (Some i) \<Rightarrow>
         andthen (GetActiveSwingPort si i) (\<lambda>swing.
         andthen (GetActiveContainerName si i) (\<lambda>activeName.
         andthen (is_running si activeName) (\<lambda>up.
         if \<not> up then ret ()
         else andthen (attempt (buildSecretCounts [i])) (\<lambda>c.
           when_do (case c of Inl _ \<Rightarrow> False | Inr secretCounts \<Rightarrow> count_of secretCounts i = 0)
             (stop_unmatched si i swing activeName ''Instance stopped: no matching secrets'')))))
     | _ \<Rightarrow> ret ())"

definition EnsureDefaultInstance :: "int \<Rightarrow> int \<Rightarrow> string \<Rightarrow> string \<Rightarrow> bool \<Rightarrow> unit io" where
  "EnsureDefaultInstance port mport domain mHost mOn =
     andthen (wrap ''count instances'' InstanceStore_Count) (\<lambda>count.
     if 0 < count then ret ()
     else andthen (InstanceStore_Create \<lparr>inst_ID = 0, inst_Port = port, inst_MetricsPort = mport,
         inst_Enabled = True, inst_Label = ''Default'', inst_ActivePort = 0, inst_ActiveMetricsPort = 0,
         inst_TLSDomain = domain, inst_TLSDomains = [], inst_FakeTLS = mOn,
         inst_MaskHost = mHost, inst_MaskPort = 443, inst_UnknownSNIAction = [],
         inst_ExclusiveMask = [], inst_Tags = [], inst_TCPMSSEnabled = False, inst_TCPMSS = 88,
         inst_TCPMSSBulk = 0, inst_TLSFronting = False, inst_APIPort = 0\<rparr>) (\<lambda>_. ret ()))"

end
