(* ===== verification/Admin_Store.thy ===== *)
theory Admin_Store
  imports Secret_Store
begin

text \<open>
  The audit log, templates of secrets and replication slaves: \<^verbatim>\<open>internal/store/audit_store.go\<close>,
  \<^verbatim>\<open>internal/service/audit_service.go\<close>, \<^verbatim>\<open>internal/store/template_store.go\<close>,
  \<^verbatim>\<open>internal/service/template_service.go\<close>, \<^verbatim>\<open>internal/store/slave_store.go\<close>, and
  \<^verbatim>\<open>auditLog\<close> of \<^verbatim>\<open>internal/api/handler/audit_helper.go\<close>. Of rows with equal keys, the
  queries promise no order; here they come in the order of the table.
\<close>

subsection \<open>SQL\<close>

text \<open>\<^verbatim>\<open>LIMIT\<close> and \<^verbatim>\<open>OFFSET\<close>: a negative limit is none, a negative offset is 0.\<close>

definition sql_limit :: "int \<Rightarrow> int \<Rightarrow> 'r list \<Rightarrow> 'r list" where
  "sql_limit limit offset rows =
     (let rs = drop (nat offset) rows in if limit < 0 then rs else take (nat limit) rs)"

subsection \<open>The audit log\<close>

definition AuditStore_Insert :: "string \<Rightarrow> string \<Rightarrow> string \<Rightarrow> unit io" where
  "AuditStore_Insert user action detail =
     andthen clock (\<lambda>now. wrap ''insert audit'' (sql_exec (\<lambda>d.
       let n = t_audit_seq d + 1 in
       Inr ((), d\<lparr>t_audit_log := t_audit_log d @
          [\<lparr>ae_ID = n, ae_Timestamp = unix now, ae_User = user, ae_Action = action, ae_Detail = detail\<rparr>],
        t_audit_seq := n\<rparr>))))"

text \<open>\<^verbatim>\<open>appendInClause\<close>: no condition when every value is empty.\<close>

definition in_clause :: "string list \<Rightarrow> string \<Rightarrow> bool" where
  "in_clause vs x \<longleftrightarrow> (let ws = filter (\<lambda>v. v \<noteq> []) vs in ws = [] \<or> x \<in> set ws)"

definition audit_matches :: "audit_filter option \<Rightarrow> audit_entry \<Rightarrow> bool" where
  "audit_matches f e \<longleftrightarrow>
     (case f of
        None \<Rightarrow> True
      | Some f \<Rightarrow>
          in_clause (af_Users f) (ae_User e) \<and> in_clause (af_Actions f) (ae_Action e) \<and>
          (0 < af_From f \<longrightarrow> af_From f \<le> ae_Timestamp e) \<and> (0 < af_To f \<longrightarrow> ae_Timestamp e \<le> af_To f))"

definition audit_rows :: "int \<Rightarrow> int \<Rightarrow> audit_filter option \<Rightarrow> db \<Rightarrow> audit_entry list" where
  "audit_rows limit offset f d =
     sql_limit limit offset (sort_key (\<lambda>e. - ae_Timestamp e) (filter (audit_matches f) (t_audit_log d)))"

definition AuditStore_List :: "int \<Rightarrow> int \<Rightarrow> audit_filter option \<Rightarrow> audit_entry list io" where
  "AuditStore_List limit offset f =
     (let limit = (if limit \<le> 0 \<or> 1000 < limit then 100 else limit);
          offset = (if offset < 0 then 0 else offset)
      in sql_rows (\<lambda>st e. case st of AtQuery \<Rightarrow> ErrWrap ''list audit'' e | AtScan \<Rightarrow> ErrWrap ''scan audit'' e | AtIter \<Rightarrow> e)
           (\<lambda>d. Inr (audit_rows limit offset f d)))"

text \<open>\<open>olderThan\<close> in nanoseconds; the number of rows that were deleted.\<close>

definition AuditStore_CleanOld :: "int \<Rightarrow> int io" where
  "AuditStore_CleanOld olderThan =
     andthen clock (\<lambda>now. wrap ''clean audit'' (sql_exec (\<lambda>d.
       let old = (\<lambda>e. ae_Timestamp e < unix (now - olderThan)) in
       Inr (int (count_where old (t_audit_log d)), d\<lparr>t_audit_log := delete_where old (t_audit_log d)\<rparr>))))"

definition AuditService_CleanOld :: "int io" where
  "AuditService_CleanOld = AuditStore_CleanOld (30 * 24 * 3600 * second)"

text \<open>\<open>wired\<close>: the request has an audit service; \<open>username\<close>: what the middleware put into the context.\<close>

definition auditLog :: "bool \<Rightarrow> string \<Rightarrow> string \<Rightarrow> string \<Rightarrow> unit io" where
  "auditLog wired username action detail =
     (if \<not> wired then ret ()
      else andthen (attempt (AuditStore_Insert (if username = [] then ''system'' else username) action detail))
        (\<lambda>_. ret ()))"

subsection \<open>Templates\<close>

definition TemplateStore_List :: "secret_template list io" where
  "TemplateStore_List =
     sql_rows (\<lambda>st e. case st of AtQuery \<Rightarrow> ErrWrap ''list templates'' e | AtScan \<Rightarrow> ErrWrap ''scan template'' e | AtIter \<Rightarrow> e)
       (\<lambda>d. Inr (sort_key tp_ID (t_templates d)))"

definition find_template :: "db \<Rightarrow> string \<Rightarrow> secret_template option" where
  "find_template d name = find (\<lambda>t. tp_Name t = name) (t_templates d)"

definition TemplateStore_GetByName :: "string \<Rightarrow> secret_template option io" where
  "TemplateStore_GetByName name = sql_row (ErrWrap ''get template'') (\<lambda>d. find_template d name)"

definition TemplateStore_Create :: "secret_template \<Rightarrow> int io" where
  "TemplateStore_Create t = wrap ''create template'' (sql_exec (\<lambda>d.
     if list_ex (\<lambda>r. tp_Name r = tp_Name t) (t_templates d) then Inl (ErrConstraint ''secret_templates.name'')
     else
       (let n = t_templates_seq d + 1
        in Inr (n, d\<lparr>t_templates := t_templates d @ [t\<lparr>tp_ID := n\<rparr>], t_templates_seq := n\<rparr>))))"

definition TemplateStore_Delete :: "string \<Rightarrow> unit io" where
  "TemplateStore_Delete name =
     sql_exec (\<lambda>d. Inr ((), d\<lparr>t_templates := delete_where (\<lambda>t. tp_Name t = name) (t_templates d)\<rparr>))"

definition template_not_found :: "string \<Rightarrow> error" where
  "template_not_found name = ErrMsg (''template '' @ squote name @ '' not found'')"

definition TemplateService_Create :: "secret_template \<Rightarrow> int io" where
  "TemplateService_Create t =
     (if tp_Name t = [] then throw (ErrMsg ''template name is required'')
      else must_not_exist (TemplateStore_GetByName (tp_Name t))
             (ErrMsg (''template '' @ squote (tp_Name t) @ '' already exists'')) (TemplateStore_Create t))"

definition TemplateService_Delete :: "string \<Rightarrow> unit io" where
  "TemplateService_Delete name =
     must_exist (TemplateStore_GetByName name) (template_not_found name) (\<lambda>_. TemplateStore_Delete name)"

definition apply_template :: "int \<Rightarrow> int \<Rightarrow> secret_template \<Rightarrow> secret \<Rightarrow> secret" where
  "apply_template now z t s =
     (let s = s\<lparr>sec_MaxConns := tp_MaxConns t, sec_MaxIPs := tp_MaxIPs t, sec_QuotaBytes := tp_QuotaBytes t\<rparr>;
          s = (if tp_Tags t \<noteq> [] \<and> tp_Tags t \<noteq> ''[]'' then s\<lparr>sec_Tags := tp_Tags t\<rparr> else s)
      in if 0 < tp_ExpiresDays t
         then s\<lparr>sec_ExpiresAt := format_date ((unix (add_days now (tp_ExpiresDays t)) + z) div 86400)\<rparr> else s)"

definition ApplyToSecret :: "string \<Rightarrow> string \<Rightarrow> unit io" where
  "ApplyToSecret templateName secretLabel =
     must_exist (TemplateStore_GetByName templateName) (template_not_found templateName) (\<lambda>t.
     must_exist (SecretStore_GetByLabel secretLabel) (ErrMsg (''secret '' @ squote secretLabel @ '' not found'')) (\<lambda>s.
     andthen clock (\<lambda>now. andthen zone (\<lambda>z. SecretStore_Update (apply_template now z t s)))))"

subsection \<open>Slaves\<close>

definition SlaveStore_List :: "slave list io" where
  "SlaveStore_List =
     sql_rows (stage_wrap ''list slaves'' ''scan slave'' ''iterate slaves'') (\<lambda>d. Inr (sort_key sv_ID (t_slaves d)))"

definition SlaveStore_GetByHost :: "string \<Rightarrow> slave option io" where
  "SlaveStore_GetByHost host =
     sql_row (ErrWrap (''get slave '' @ host)) (\<lambda>d. find (\<lambda>s. sv_Host s = host) (t_slaves d))"

text \<open>The schema's checks on the port and the status.\<close>

definition slave_row_ok :: "slave \<Rightarrow> bool" where
  "slave_row_ok s \<longleftrightarrow> 1 \<le> sv_Port s \<and> sv_Port s \<le> 65535 \<and> sv_Status s \<in> {''ok'', ''error'', ''unknown''}"

definition SlaveStore_Create :: "slave \<Rightarrow> int io" where
  "SlaveStore_Create s = wrap ''create slave'' (sql_exec (\<lambda>d.
     if list_ex (\<lambda>r. sv_Host r = sv_Host s) (t_slaves d) then Inl (ErrConstraint ''slaves.host'')
     else if \<not> slave_row_ok s then Inl (ErrDriver ''CHECK constraint failed'')
     else
       (let n = t_slaves_seq d + 1
        in Inr (n, d\<lparr>t_slaves := t_slaves d @ [s\<lparr>sv_ID := n\<rparr>], t_slaves_seq := n\<rparr>))))"

definition SlaveStore_Delete :: "string \<Rightarrow> unit io" where
  "SlaveStore_Delete host =
     sql_exec (\<lambda>d. Inr ((), d\<lparr>t_slaves := delete_where (\<lambda>s. sv_Host s = host) (t_slaves d)\<rparr>))"

definition SlaveStore_UpdateStatus :: "string \<Rightarrow> string \<Rightarrow> int \<Rightarrow> unit io" where
  "SlaveStore_UpdateStatus host status lastSync =
     sql_exec (\<lambda>d.
       let rs = update_where (\<lambda>s. sv_Host s = host) (\<lambda>s. s\<lparr>sv_Status := status, sv_LastSync := lastSync\<rparr>) (t_slaves d)
       in if list_all slave_row_ok rs then Inr ((), d\<lparr>t_slaves := rs\<rparr>) else Inl (ErrDriver ''CHECK constraint failed''))"

text \<open>
  \<^verbatim>\<open>ReplicationHandler.AddSlave\<close>, for a body that was bound: the status of the answer and its
  error, or the slave.
\<close>

definition AddSlave :: "bool \<Rightarrow> string \<Rightarrow> string \<Rightarrow> int \<Rightarrow> string \<Rightarrow> (int \<times> string + slave) io" where
  "AddSlave wired username host port label =
     (case Slave_Validate \<lparr>sv_ID = 0, sv_Host = host, sv_Port = (if port = 0 then 22 else port), sv_Label = label,
        sv_Enabled = True, sv_LastSync = 0, sv_Status = ''unknown''\<rparr> of
        Inl m \<Rightarrow> ret (Inl (400, m))
      | Inr s \<Rightarrow>
          andthen (attempt (SlaveStore_Create s)) (\<lambda>r.
          case r of
            Inl e \<Rightarrow> ret (Inl (400, err_text e))
          | Inr n \<Rightarrow>
              andthen (auditLog wired username ''replication.add_slave'' (''host='' @ host)) (\<lambda>_.
              ret (Inr (s\<lparr>sv_ID := n\<rparr>)))))"

end
