(* ===== verification/Auth.thy ===== *)
theory Auth
  imports Settings_Store
begin

text \<open>
  Authentication: \<^verbatim>\<open>internal/auth/jwt.go\<close>, \<^verbatim>\<open>internal/store/token_store.go\<close>,
  \<^verbatim>\<open>internal/api/cached_secret.go\<close>, the authentication middleware of
  \<^verbatim>\<open>internal/api/middleware.go\<close> and the endpoints of
  \<^verbatim>\<open>internal/api/handler/auth_handler.go\<close>. A panic is an error of the operation; a handler
  has no other errors. The libraries for tokens and passwords are the record \<open>auth_lib\<close>.
\<close>

subsection \<open>Libraries\<close>

text \<open>
  The claims of a token. A JSON number is a \<^verbatim>\<open>float64\<close> in the code; \<open>CNum\<close> holds the
  \<^verbatim>\<open>int64\<close> it is converted to.
\<close>

datatype claim = CStr string | CNum int | COther

type_synonym claims = "(string \<times> claim) list"

text \<open>
  \<open>jwt_alg\<close>: the signing method of a well-formed token. \<open>jwt_verify key now token\<close>: the claims, when
  the signature is right and the token is valid at this time. \<open>bc_hash salt password\<close>.
\<close>

record auth_lib =
  jwt_sign :: "string \<Rightarrow> claims \<Rightarrow> string + string"
  jwt_alg :: "string \<Rightarrow> string option"
  jwt_verify :: "string \<Rightarrow> int \<Rightarrow> string \<Rightarrow> claims option"
  bc_compare :: "string \<Rightarrow> string \<Rightarrow> bool"
  bc_hash :: "string \<Rightarrow> string \<Rightarrow> string + string"

definition signing_method_hmac :: "string \<Rightarrow> bool" where
  "signing_method_hmac alg \<longleftrightarrow> alg \<in> {''HS256'', ''HS384'', ''HS512''}"

text \<open>\<^verbatim>\<open>jwt.Parse\<close> with the key function that refuses every method but HMAC.\<close>

definition parse_token :: "auth_lib \<Rightarrow> string \<Rightarrow> int \<Rightarrow> string \<Rightarrow> claims option" where
  "parse_token lib jwtSecret now token =
     (case jwt_alg lib token of
        None \<Rightarrow> None
      | Some alg \<Rightarrow> if signing_method_hmac alg then jwt_verify lib jwtSecret now token else None)"

definition claim_str :: "claims \<Rightarrow> string \<Rightarrow> string option" where
  "claim_str cs k = (case map_of cs k of Some (CStr s) \<Rightarrow> Some s | _ \<Rightarrow> None)"

definition claim_num :: "claims \<Rightarrow> string \<Rightarrow> int option" where
  "claim_num cs k = (case map_of cs k of Some (CNum n) \<Rightarrow> Some n | _ \<Rightarrow> None)"

subsection \<open>Making tokens\<close>

definition accessTokenTTL :: int where "accessTokenTTL = 3600 * second"

definition refreshTokenTTL :: int where "refreshTokenTTL = 7 * 24 * 3600 * second"

definition GenerateJTI :: "string io" where
  "GenerateJTI w =
     (if length (w_entropy w) < 16
      then (Inl (ErrMsg ''panic: crypto/rand.Read failed: unexpected EOF''), w)
      else (Inr (hex_encode (take 16 (w_entropy w))), w\<lparr>w_entropy := drop 16 (w_entropy w)\<rparr>))"

definition access_claims :: "string \<Rightarrow> string \<Rightarrow> int \<Rightarrow> claims" where
  "access_claims username jti now =
     [(''sub'', CStr username), (''jti'', CStr jti), (''iat'', CNum (unix now)),
      (''exp'', CNum (unix (now + accessTokenTTL)))]"

definition refresh_claims :: "string \<Rightarrow> string \<Rightarrow> int \<Rightarrow> claims" where
  "refresh_claims username jti now =
     [(''sub'', CStr username), (''jti'', CStr jti), (''iat'', CNum (unix now)),
      (''exp'', CNum (unix (now + refreshTokenTTL))), (''type'', CStr ''refresh'')]"

text \<open>The two tokens, or the error of signing.\<close>

definition GenerateTokenPair :: "auth_lib \<Rightarrow> string \<Rightarrow> string \<Rightarrow> (string + string \<times> string) io" where
  "GenerateTokenPair lib jwtSecret username =
     andthen clock (\<lambda>now.
     andthen GenerateJTI (\<lambda>jti.
     case jwt_sign lib jwtSecret (access_claims username jti now) of
       Inl e \<Rightarrow> ret (Inl e)
     | Inr accessToken \<Rightarrow>
         andthen GenerateJTI (\<lambda>jti2.
         ret (case jwt_sign lib jwtSecret (refresh_claims username jti2 now) of
                Inl e \<Rightarrow> Inl e
              | Inr refreshToken \<Rightarrow> Inr (accessToken, refreshToken)))))"

subsection \<open>The blocklist\<close>

definition Blocklist_Add :: "string \<Rightarrow> int \<Rightarrow> unit io" where
  "Blocklist_Add jti expiresAt =
     sql_exec (\<lambda>d. Inr ((), d\<lparr>t_token_blocklist := put jti expiresAt (t_token_blocklist d)\<rparr>))"

definition blocked :: "db \<Rightarrow> string \<Rightarrow> bool" where
  "blocked d jti \<longleftrightarrow> 0 < count_where (\<lambda>r. fst r = jti) (t_token_blocklist d)"

definition Blocklist_IsBlocked :: "string \<Rightarrow> bool io" where
  "Blocklist_IsBlocked jti =
     andthen (sql_row (\<lambda>e. e) (\<lambda>d. Some (blocked d jti)))
       (\<lambda>r. case r of None \<Rightarrow> throw ErrNoRows | Some b \<Rightarrow> ret b)"

definition Blocklist_Cleanup :: "unit io" where
  "Blocklist_Cleanup =
     andthen clock (\<lambda>now.
     sql_exec (\<lambda>d. Inr ((), d\<lparr>t_token_blocklist :=
       delete_where (\<lambda>r. snd r < unix now) (t_token_blocklist d)\<rparr>)))"

text \<open>\<^verbatim>\<open>blocked, _ := IsBlocked\<close>: an error counts as not blocked.\<close>

definition is_blocked :: "string \<Rightarrow> bool io" where
  "is_blocked jti =
     andthen (attempt (Blocklist_IsBlocked jti)) (\<lambda>r. ret (case r of Inl _ \<Rightarrow> False | Inr b \<Rightarrow> b))"

subsection \<open>The cached key\<close>

record jwt_cache =
  cachedSecret :: string
  lastRefresh :: int

definition CachedJWTSecret_Get :: "int \<Rightarrow> jwt_cache \<Rightarrow> (string \<times> jwt_cache) io" where
  "CachedJWTSecret_Get refreshInterval p =
     andthen clock (\<lambda>now.
     if cachedSecret p \<noteq> [] \<and> now - lastRefresh p < refreshInterval then ret (cachedSecret p, p)
     else
       andthen (attempt GetJWTSecret) (\<lambda>r.
       case r of
         Inl e \<Rightarrow> if cachedSecret p \<noteq> [] then ret (cachedSecret p, p) else throw e
       | Inr secret \<Rightarrow>
           andthen clock (\<lambda>now. ret (secret, \<lparr>cachedSecret = secret, lastRefresh = now\<rparr>))))"

subsection \<open>The middleware\<close>

text \<open>\<open>Passed\<close>: the request goes on, with what the context gets.\<close>

datatype auth_outcome =
    Aborted int string
  | Passed "claim option" "claim option" "claim option"

definition header_token :: "string \<Rightarrow> string" where
  "header_token authHeader =
     (case index_char CHR '' '' authHeader of
        Some n \<Rightarrow> if take n authHeader = ''Bearer'' then drop (n + 1) authHeader else []
      | None \<Rightarrow> [])"

definition check_token :: "auth_lib \<Rightarrow> string \<Rightarrow> string \<Rightarrow> auth_outcome io" where
  "check_token lib jwtSecret tokenStr =
     andthen clock (\<lambda>now.
     case parse_token lib jwtSecret now tokenStr of
       None \<Rightarrow> ret (Aborted 401 ''Invalid token'')
     | Some cs \<Rightarrow>
         andthen (case claim_str cs ''jti'' of None \<Rightarrow> ret False | Some jti \<Rightarrow> is_blocked jti) (\<lambda>b.
         ret (if b then Aborted 401 ''Token revoked''
              else Passed (map_of cs ''sub'') (map_of cs ''jti'') (map_of cs ''exp''))))"

definition AuthMiddleware ::
    "auth_lib \<Rightarrow> int \<Rightarrow> jwt_cache \<Rightarrow> string \<Rightarrow> string \<Rightarrow> (auth_outcome \<times> jwt_cache) io" where
  "AuthMiddleware lib interval p authHeader query =
     (let tokenStr = (if header_token authHeader = [] then query else header_token authHeader) in
      if tokenStr = [] then ret (Aborted 401 ''Authorization required'', p)
      else
        andthen (attempt (CachedJWTSecret_Get interval p)) (\<lambda>r.
        case r of
          Inl e \<Rightarrow> ret (Aborted 500 (''JWT secret error: '' @ err_text e), p)
        | Inr (jwtSecret, p) \<Rightarrow> andthen (check_token lib jwtSecret tokenStr) (\<lambda>out. ret (out, p))))"

subsection \<open>The endpoints\<close>

datatype auth_reply =
    AuthError int string
  | AuthTokens string string
  | AuthOK

definition token_reply :: "string \<Rightarrow> (string + string \<times> string) \<Rightarrow> auth_reply" where
  "token_reply msg r = (case r of Inl _ \<Rightarrow> AuthError 500 msg | Inr (a, f) \<Rightarrow> AuthTokens a f)"

text \<open>The password of a body that was bound.\<close>

definition Login :: "auth_lib \<Rightarrow> string option \<Rightarrow> auth_reply io" where
  "Login lib body =
     (case body of
        None \<Rightarrow> ret (AuthError 400 ''password required'')
      | Some password \<Rightarrow>
          if password = [] then ret (AuthError 400 ''password required'')
          else
            andthen (attempt GetAuthPasswordHash) (\<lambda>r.
            case r of
              Inl e \<Rightarrow> ret (AuthError 500 ''internal error'')
            | Inr hash \<Rightarrow>
                if hash = [] then ret (AuthError 403 ''initial setup required'')
                else if \<not> bc_compare lib hash password then ret (AuthError 401 ''invalid credentials'')
                else
                  andthen (attempt GetJWTSecret) (\<lambda>r.
                  case r of
                    Inl e \<Rightarrow> ret (AuthError 500 ''internal error'')
                  | Inr jwtSecret \<Rightarrow>
                      andthen (GenerateTokenPair lib jwtSecret ''admin'')
                        (\<lambda>p. ret (token_reply ''token generation failed'' p)))))"

text \<open>
  \<^verbatim>\<open>Refresh\<close> in two parts, so that two requests can interleave: up to and including the
  question whether the token is on the blocklist, and the rest. \<open>Inl\<close> ends the request.
\<close>

definition refresh_check :: "auth_lib \<Rightarrow> string \<Rightarrow> (auth_reply + string \<times> claims) io" where
  "refresh_check lib refreshToken =
     (if refreshToken = [] then ret (Inl (AuthError 400 ''refresh_token required''))
      else
        andthen (attempt GetJWTSecret) (\<lambda>r.
        case r of
          Inl e \<Rightarrow> ret (Inl (AuthError 500 ''internal error''))
        | Inr jwtSecret \<Rightarrow>
            andthen clock (\<lambda>now.
            case parse_token lib jwtSecret now refreshToken of
              None \<Rightarrow> ret (Inl (AuthError 401 ''invalid refresh token''))
            | Some cs \<Rightarrow>
                if map_of cs ''type'' \<noteq> Some (CStr ''refresh'')
                then ret (Inl (AuthError 401 ''not a refresh token''))
                else
                  (case claim_str cs ''jti'' of
                     None \<Rightarrow> ret (Inr (jwtSecret, cs))
                   | Some oldJTI \<Rightarrow>
                       andthen (is_blocked oldJTI) (\<lambda>b.
                       ret (if b then Inl (AuthError 401 ''refresh token already used'')
                            else Inr (jwtSecret, cs)))))))"

text \<open>The id of a token with these claims goes on the blocklist.\<close>

definition blocklist_claims :: "claims \<Rightarrow> (error + unit) io" where
  "blocklist_claims cs =
     (case (claim_str cs ''jti'', claim_num cs ''exp'') of
        (Some jti, Some expiry) \<Rightarrow> attempt (Blocklist_Add jti expiry)
      | _ \<Rightarrow> ret (Inr ()))"

definition refresh_redeem :: "auth_lib \<Rightarrow> string \<Rightarrow> claims \<Rightarrow> auth_reply io" where
  "refresh_redeem lib jwtSecret cs =
     andthen (blocklist_claims cs) (\<lambda>r.
     case r of
       Inl e \<Rightarrow> ret (AuthError 500 ''internal error'')
     | Inr _ \<Rightarrow>
         andthen (GenerateTokenPair lib jwtSecret (case claim_str cs ''sub'' of None \<Rightarrow> [] | Some s \<Rightarrow> s))
           (\<lambda>p. ret (token_reply ''token generation failed'' p)))"

definition Refresh :: "auth_lib \<Rightarrow> string option \<Rightarrow> auth_reply io" where
  "Refresh lib body =
     (case body of
        None \<Rightarrow> ret (AuthError 400 ''refresh_token required'')
      | Some refreshToken \<Rightarrow>
          andthen (refresh_check lib refreshToken) (\<lambda>r.
          case r of Inl reply \<Rightarrow> ret reply | Inr (jwtSecret, cs) \<Rightarrow> refresh_redeem lib jwtSecret cs))"

text \<open>\<open>jti\<close> and \<open>expiry\<close>: what the middleware put into the context.\<close>

definition blocklist_access :: "claim option \<Rightarrow> claim option \<Rightarrow> (error + unit) io" where
  "blocklist_access jti expiry =
     (case jti of
        Some (CStr j) \<Rightarrow> attempt (Blocklist_Add j (case expiry of Some (CNum e) \<Rightarrow> e | _ \<Rightarrow> 0))
      | _ \<Rightarrow> ret (Inr ()))"

definition Logout :: "auth_lib \<Rightarrow> claim option \<Rightarrow> claim option \<Rightarrow> string option \<Rightarrow> auth_reply io" where
  "Logout lib jti expiry body =
     andthen (blocklist_access jti expiry) (\<lambda>_.
     case body of
       None \<Rightarrow> ret AuthOK
     | Some refreshToken \<Rightarrow>
         if refreshToken = [] then ret AuthOK
         else
           andthen (attempt GetJWTSecret) (\<lambda>r.
           andthen clock (\<lambda>now.
           case parse_token lib (case r of Inl _ \<Rightarrow> [] | Inr s \<Rightarrow> s) now refreshToken of
             None \<Rightarrow> ret AuthOK
           | Some cs \<Rightarrow> andthen (blocklist_claims cs) (\<lambda>_. ret AuthOK))))"

definition rune_count :: "string \<Rightarrow> nat" where
  "rune_count s = length (chunks s)"

text \<open>The salt of \<^verbatim>\<open>bcrypt.GenerateFromPassword\<close> is 16 bytes of entropy.\<close>

definition GenerateFromPassword :: "auth_lib \<Rightarrow> string \<Rightarrow> string io" where
  "GenerateFromPassword lib password w =
     (if length (w_entropy w) < 16 then (Inl (ErrDriver ''unexpected EOF''), w)
      else
        (case bc_hash lib (take 16 (w_entropy w)) password of
           Inl m \<Rightarrow> (Inl (ErrDriver m), w)
         | Inr h \<Rightarrow> (Inr h, w\<lparr>w_entropy := drop 16 (w_entropy w)\<rparr>)))"

definition first_password :: "auth_lib \<Rightarrow> string \<Rightarrow> (auth_reply \<times> bool) io" where
  "first_password lib password =
     andthen (attempt (GenerateFromPassword lib password)) (\<lambda>r.
     case r of
       Inl e \<Rightarrow> ret (AuthError 500 ''setup failed'', False)
     | Inr newHash \<Rightarrow>
         andthen (attempt (SetAuthPasswordHash newHash)) (\<lambda>r.
         case r of
           Inl e \<Rightarrow> ret (AuthError 500 ''setup failed'', False)
         | Inr _ \<Rightarrow>
             andthen (attempt GetJWTSecret) (\<lambda>r.
             case r of
               Inl e \<Rightarrow> ret (AuthError 500 ''setup failed'', False)
             | Inr jwtSecret \<Rightarrow>
                 andthen (GenerateTokenPair lib jwtSecret ''admin'') (\<lambda>p.
                 ret (token_reply ''token generation failed'' p, case p of Inl _ \<Rightarrow> False | Inr _ \<Rightarrow> True)))))"

text \<open>\<open>setupDone\<close> is the field of the handler; the second component is its new value.\<close>

definition Setup :: "auth_lib \<Rightarrow> bool \<Rightarrow> string option \<Rightarrow> (auth_reply \<times> bool) io" where
  "Setup lib setupDone body =
     (if setupDone then ret (AuthError 409 ''setup already completed'', True)
      else case body of
        None \<Rightarrow> ret (AuthError 400 ''password required (min 8 characters)'', False)
      | Some password \<Rightarrow>
          if rune_count password < 8 then ret (AuthError 400 ''password required (min 8 characters)'', False)
          else
            andthen (attempt GetAuthPasswordHash) (\<lambda>r.
            case r of
              Inl e \<Rightarrow> ret (AuthError 500 ''internal error'', False)
            | Inr hash \<Rightarrow>
                if hash \<noteq> [] then ret (AuthError 409 ''setup already completed'', True)
                else first_password lib password))"

text \<open>The body holds the current and the new password, or the error of decoding it.\<close>

definition ChangePassword :: "auth_lib \<Rightarrow> string + string \<times> string \<Rightarrow> auth_reply io" where
  "ChangePassword lib body =
     (case body of
        Inl msg \<Rightarrow> ret (AuthError 400 (if msg = [] then ''invalid request body'' else msg))
      | Inr (current, new) \<Rightarrow>
          if current = [] \<or> rune_count new < 8 then ret (AuthError 400 ''validation failed'')
          else
            andthen (attempt GetAuthPasswordHash) (\<lambda>r.
            case r of
              Inl e \<Rightarrow> ret (AuthError 500 ''internal error'')
            | Inr hash \<Rightarrow>
                if hash \<noteq> [] \<and> \<not> bc_compare lib hash current
                then ret (AuthError 401 ''current password incorrect'')
                else
                  andthen (attempt (GenerateFromPassword lib new)) (\<lambda>r.
                  case r of
                    Inl e \<Rightarrow> ret (AuthError 500 ''hashing failed'')
                  | Inr newHash \<Rightarrow>
                      andthen (attempt (SetAuthPasswordHash newHash)) (\<lambda>r.
                      ret (case r of Inl e \<Rightarrow> AuthError 500 ''save failed'' | Inr _ \<Rightarrow> AuthOK)))))"

subsection \<open>Hosts and origins\<close>

text \<open>\<open>None\<close>: the request goes on; \<open>Some\<close> the status it is aborted with.\<close>

definition HostMiddleware :: "string list \<Rightarrow> string \<Rightarrow> string \<Rightarrow> int option" where
  "HostMiddleware allowedHosts requestHost forwardedHost =
     (let lower = map (\<lambda>c. if 65 \<le> byte c \<and> byte c \<le> 90 then chr (byte c + 32) else c);
          host = (if requestHost = [] then forwardedHost else requestHost);
          host = (case SplitHostPort host of Some (h, _) \<Rightarrow> h | None \<Rightarrow> host);
          host = lower host
      in if allowedHosts = [] then None
         else if host \<in> set [''localhost'', ''127.0.0.1'', ''::1''] then None
         else if host \<in> set (map lower allowedHosts) then None
         else Some 421)"

text \<open>The status of an abort, if any, and the value of \<^verbatim>\<open>Access-Control-Allow-Origin\<close>, if set.\<close>

definition CORSMiddleware :: "string list \<Rightarrow> string \<Rightarrow> string \<Rightarrow> int option \<times> string option" where
  "CORSMiddleware allowedOrigins origin verb =
     (if \<not> list_ex (\<lambda>x. x = ''*'' \<or> x = origin) allowedOrigins then
        ((if verb = ''OPTIONS'' then Some 403 else None), None)
      else ((if verb = ''OPTIONS'' then Some 204 else None), Some origin))"

subsection \<open>Rate limits\<close>

text \<open>
  \<^verbatim>\<open>internal/api/ratelimit.go\<close>; the limiter of one address is a value of the type \<open>'l\<close> of
  the library \<^verbatim>\<open>rate\<close>: \<open>fresh\<close> makes one, \<open>allow\<close> asks it at a time.
\<close>

type_synonym 'l visitors = "(string \<times> 'l \<times> int) list"

definition GetLimiter :: "'l \<Rightarrow> int \<Rightarrow> string \<Rightarrow> 'l visitors \<Rightarrow> 'l \<times> 'l visitors" where
  "GetLimiter fresh now ip visitors =
     (case map_of visitors ip of
        Some (limiter, _) \<Rightarrow> (limiter, put ip (limiter, now) visitors)
      | None \<Rightarrow> (fresh, put ip (fresh, now) visitors))"

definition stale_after :: int where
  "stale_after = 10 * 60 * second"

definition cleanupStale :: "int \<Rightarrow> 'l visitors \<Rightarrow> 'l visitors" where
  "cleanupStale now visitors = delete_where (\<lambda>(_, _, lastSeen). stale_after < now - lastSeen) visitors"

text \<open>Whether the request goes on (otherwise the status is 429), and the visitors afterwards.\<close>

definition RateLimitMiddleware ::
    "'l \<Rightarrow> (int \<Rightarrow> 'l \<Rightarrow> bool \<times> 'l) \<Rightarrow> int \<Rightarrow> string \<Rightarrow> 'l visitors \<Rightarrow> bool \<times> 'l visitors" where
  "RateLimitMiddleware fresh allow now ip visitors =
     (case GetLimiter fresh now ip visitors of
        (limiter, vs) \<Rightarrow> (case allow now limiter of (ok, limiter') \<Rightarrow> (ok, put ip (limiter', now) vs)))"

end
