(* ===== verification/Instance_Handler.thy ===== *)
theory Instance_Handler
  imports Container_Service Admin_Store Auth
begin

text \<open>
  The endpoint of the instances, \<^verbatim>\<open>internal/api/handler/instance_handler.go\<close>, with the
  checks that its requests' binding tags ask for (\<^verbatim>\<open>validation.go\<close>). A request is its
  fields after decoding, an answer its status with what the body says. The status and the logs of an
  instance are left out. The loops that look for a port have no end of their own: \<open>ih_tries\<close> is the
  number of ports that the process tests before something stops it, and \<open>None\<close> is no answer.
\<close>

record inst_handler =
  ih_site :: site
  ih_container :: bool
  ih_audit :: bool
  ih_user :: string
  ih_tries :: nat
  ih_letter :: "nat \<Rightarrow> bool"

datatype refusal =
    RBind | RTLSDomains | RTags tags_error | RMetricsIsPort | RInvalid inst_error | RStore error
  | RBadId | RNotFound | RInternal | RLast | RUnavailable | RFailed string error

datatype inst_answer =
    IRefused int refusal
  | ISaved int inst "error option"
  | IList "inst list"
  | IOk

subsection \<open>Requests\<close>

record add_request =
  ar_Port :: int
  ar_MetricsPort :: int
  ar_Label :: string
  ar_TLSDomain :: string
  ar_TLSDomains :: string
  ar_FakeTLS :: "bool option"
  ar_MaskHost :: string
  ar_MaskPort :: int
  ar_Tags :: string
  ar_TCPMSSEnabled :: "bool option"
  ar_TCPMSS :: int
  ar_TCPMSSBulk :: int
  ar_TLSFronting :: "bool option"
  ar_UnknownSNIAction :: string
  ar_ExclusiveMask :: string
  ar_APIPort :: int

record update_request =
  ur_Port :: "int option"
  ur_MetricsPort :: "int option"
  ur_Label :: "string option"
  ur_Enabled :: "bool option"
  ur_TLSDomain :: "string option"
  ur_TLSDomains :: "string option"
  ur_FakeTLS :: "bool option"
  ur_MaskHost :: "string option"
  ur_MaskPort :: "int option"
  ur_Tags :: "string option"
  ur_TCPMSSEnabled :: "bool option"
  ur_TCPMSS :: "int option"
  ur_TCPMSSBulk :: "int option"
  ur_TLSFronting :: "bool option"
  ur_UnknownSNIAction :: "string option"
  ur_ExclusiveMask :: "string option"
  ur_APIPort :: "int option"

text \<open>\<open>letter\<close>: the runes that \<^verbatim>\<open>unicode.IsLetter\<close> or \<^verbatim>\<open>unicode.IsDigit\<close> accepts.\<close>

definition validateAlphaNumDash :: "(nat \<Rightarrow> bool) \<Rightarrow> string \<Rightarrow> bool" where
  "validateAlphaNumDash letter s \<longleftrightarrow>
     s \<noteq> [] \<and> list_all (\<lambda>c. letter (fst (decode_rune c)) \<or> c = ''_'' \<or> c = ''-'') (chunks s)"

definition between :: "int \<Rightarrow> int \<Rightarrow> int \<Rightarrow> bool" where
  "between a b n \<longleftrightarrow> a \<le> n \<and> n \<le> b"

text \<open>\<^verbatim>\<open>omitempty\<close>: a zero value of a plain field and a nil pointer are not checked.\<close>

definition add_request_ok :: "(nat \<Rightarrow> bool) \<Rightarrow> add_request \<Rightarrow> bool" where
  "add_request_ok letter q \<longleftrightarrow>
     between 1 65535 (ar_Port q) \<and>
     (ar_MetricsPort q = 0 \<or> between 1 65535 (ar_MetricsPort q)) \<and>
     (ar_Label q = [] \<or> validateAlphaNumDash letter (ar_Label q) \<and> rune_count (ar_Label q) \<le> 32) \<and>
     ar_TLSDomain q \<noteq> [] \<and>
     (ar_MaskPort q = 0 \<or> between 1 65535 (ar_MaskPort q)) \<and>
     (ar_TCPMSS q = 0 \<or> between 88 4096 (ar_TCPMSS q)) \<and>
     (ar_TCPMSSBulk q = 0 \<or> between 88 4096 (ar_TCPMSSBulk q)) \<and>
     (ar_UnknownSNIAction q = [] \<or> ar_UnknownSNIAction q \<in> set sni_actions) \<and>
     (ar_APIPort q = 0 \<or> between 1 65535 (ar_APIPort q))"

definition given :: "('v \<Rightarrow> bool) \<Rightarrow> 'v option \<Rightarrow> bool" where
  "given p v = (case v of None \<Rightarrow> True | Some x \<Rightarrow> p x)"

definition update_request_ok :: "(nat \<Rightarrow> bool) \<Rightarrow> update_request \<Rightarrow> bool" where
  "update_request_ok letter q \<longleftrightarrow>
     given (between 1 65535) (ur_Port q) \<and> given (\<lambda>p. p \<le> 65535) (ur_MetricsPort q) \<and>
     given (\<lambda>l. validateAlphaNumDash letter l \<and> rune_count l \<le> 32) (ur_Label q) \<and>
     given (between 1 65535) (ur_MaskPort q) \<and> given (between 88 4096) (ur_TCPMSS q) \<and>
     given (between 88 4096) (ur_TCPMSSBulk q) \<and> given (\<lambda>a. a \<in> set sni_actions) (ur_UnknownSNIAction q) \<and>
     given (between 1 65535) (ur_APIPort q)"

subsection \<open>Ports\<close>

text \<open>The loop \<^verbatim>\<open>for { ... next++ }\<close>, at most the given number of times.\<close>

fun port_loop :: "nat \<Rightarrow> (int \<Rightarrow> bool) \<Rightarrow> int \<Rightarrow> int option" where
  "port_loop 0 good next = None"
| "port_loop (Suc n) good next = (if good next then Some next else port_loop n good (int64 (next + 1)))"

definition search_port :: "inst_handler \<Rightarrow> (int \<Rightarrow> bool) \<Rightarrow> int \<Rightarrow> int option io" where
  "search_port ih taken next =
     from_host (\<lambda>h. (Inr (port_loop (ih_tries ih) (\<lambda>p. \<not> taken p \<and> tcp_free (si_daemon (ih_site ih)) p h) next), h))"

definition first_metrics_port :: "inst list \<Rightarrow> int" where
  "first_metrics_port insts =
     (let maxPort = fold (\<lambda>i m. if m < inst_MetricsPort i then inst_MetricsPort i else m) insts 0;
          next = int64 (maxPort + 1)
      in if next < 9091 then 9091 else next)"

definition nextMetricsPort :: "inst_handler \<Rightarrow> int option io" where
  "nextMetricsPort ih =
     andthen (attempt InstanceStore_List) (\<lambda>r.
     case r of
       Inl _ \<Rightarrow> ret (Some 9091)
     | Inr insts \<Rightarrow>
         if insts = [] then ret (Some 9091)
         else search_port ih (\<lambda>p. list_ex (\<lambda>i. inst_MetricsPort i = p \<or> inst_Port i = p) insts)
           (first_metrics_port insts))"

definition nextAPIPort :: "inst_handler \<Rightarrow> int option io" where
  "nextAPIPort ih =
     andthen (attempt InstanceStore_List) (\<lambda>r.
     case r of
       Inl _ \<Rightarrow> ret (Some 19091)
     | Inr insts \<Rightarrow>
         search_port ih (\<lambda>p. list_ex (\<lambda>i. inst_APIPort i = p \<or> inst_MetricsPort i = p \<or> inst_Port i = p) insts)
           (fold (\<lambda>i next. if next \<le> inst_APIPort i then int64 (inst_APIPort i + 1) else next) insts 19091))"

text \<open>The port that is set, or one that is found for it.\<close>

definition or_port :: "int \<Rightarrow> int option io \<Rightarrow> int option io" where
  "or_port p m = (if p = 0 then m else ret (Some p))"

datatype port_check = PortAvailable | PortOf string int | MetricsPortOf string int | PortInUse | PortInvalid

definition CheckPort :: "inst_handler \<Rightarrow> string \<Rightarrow> string \<Rightarrow> port_check io" where
  "CheckPort ih port exclude =
     (case atoi port of
        None \<Rightarrow> ret PortInvalid
      | Some p \<Rightarrow>
          if p < 1 \<or> 65535 < p then ret PortInvalid
          else
            (let excludeID = (case atoi exclude of None \<Rightarrow> 0 | Some n \<Rightarrow> n) in
             andthen (attempt InstanceStore_List) (\<lambda>r.
             andthen (isPortFree (ih_site ih) p) (\<lambda>free.
             ret (case find (\<lambda>i. inst_ID i \<noteq> excludeID \<and> (inst_Port i = p \<or> inst_MetricsPort i = p))
                         (case r of Inl _ \<Rightarrow> [] | Inr insts \<Rightarrow> insts) of
                    Some i \<Rightarrow> if inst_Port i = p then PortOf (inst_Label i) (inst_ID i)
                              else MetricsPortOf (inst_Label i) (inst_ID i)
                  | None \<Rightarrow> if free then PortAvailable else PortInUse)))))"

subsection \<open>Adding\<close>

definition array_ok :: "string \<Rightarrow> bool" where
  "array_ok val \<longleftrightarrow> val = [] \<or> val = ''[]'' \<or> fst (unmarshal_strings val)"

definition validateTLSDomainsField :: "string \<Rightarrow> bool" where
  "validateTLSDomainsField val = array_ok val"

definition validateTagsField :: "string \<Rightarrow> tags_error option" where
  "validateTagsField val = (if val = [] \<or> val = ''[]'' then None else ValidateTags val)"

definition validateAddRequest :: "add_request \<Rightarrow> refusal option" where
  "validateAddRequest q =
     (if \<not> array_ok (ar_TLSDomains q) then Some RTLSDomains
      else map_option RTags (validateTagsField (ar_Tags q)))"

definition or_default :: "'v \<Rightarrow> 'v option \<Rightarrow> 'v" where
  "or_default d v = (case v of None \<Rightarrow> d | Some x \<Rightarrow> x)"

definition buildInstanceFromRequest :: "add_request \<Rightarrow> inst" where
  "buildInstanceFromRequest q =
     \<lparr>inst_ID = 0, inst_Port = ar_Port q, inst_MetricsPort = ar_MetricsPort q, inst_Enabled = True,
      inst_Label = ar_Label q, inst_ActivePort = 0, inst_ActiveMetricsPort = 0,
      inst_TLSDomain = ar_TLSDomain q, inst_TLSDomains = ar_TLSDomains q,
      inst_FakeTLS = or_default True (ar_FakeTLS q), inst_MaskHost = ar_MaskHost q,
      inst_MaskPort = ar_MaskPort q, inst_UnknownSNIAction = ar_UnknownSNIAction q,
      inst_ExclusiveMask = ar_ExclusiveMask q, inst_Tags = ar_Tags q,
      inst_TCPMSSEnabled = or_default False (ar_TCPMSSEnabled q),
      inst_TCPMSS = (if 0 < ar_TCPMSS q then ar_TCPMSS q else 88), inst_TCPMSSBulk = ar_TCPMSSBulk q,
      inst_TLSFronting = or_default False (ar_TLSFronting q), inst_APIPort = ar_APIPort q\<rparr>"

text \<open>A port that a loop looks for: without one there is no answer.\<close>

definition with_port_found :: "int option io \<Rightarrow> (int \<Rightarrow> inst_answer option io) \<Rightarrow> inst_answer option io" where
  "with_port_found m k = andthen m (\<lambda>r. case r of None \<Rightarrow> ret None | Some p \<Rightarrow> k p)"

definition create_instance :: "inst_handler \<Rightarrow> add_request \<Rightarrow> inst \<Rightarrow> inst_answer io" where
  "create_instance ih q i =
     (case Instance_Validate i of
        (Some e, _) \<Rightarrow> ret (IRefused 400 (RInvalid e))
      | (None, i) \<Rightarrow>
          andthen (attempt (InstanceStore_Create i)) (\<lambda>r.
          case r of
            Inl e \<Rightarrow> ret (IRefused 400 (RStore e))
          | Inr n \<Rightarrow>
              andthen (auditLog (ih_audit ih) (ih_user ih) ''instance.create''
                (''port='' @ show_int (ar_Port q) @ '' label='' @ ar_Label q @ '' domain='' @ ar_TLSDomain q)) (\<lambda>_.
              ret (ISaved 201 (i\<lparr>inst_ID := n\<rparr>) None))))"

definition Instance_Add :: "inst_handler \<Rightarrow> add_request \<Rightarrow> inst_answer option io" where
  "Instance_Add ih q =
     (if \<not> add_request_ok (ih_letter ih) q then ret (Some (IRefused 400 RBind))
      else case validateAddRequest q of
        Some e \<Rightarrow> ret (Some (IRefused 400 e))
      | None \<Rightarrow>
          let i = buildInstanceFromRequest q in
          with_port_found (or_port (inst_MetricsPort i) (nextMetricsPort ih)) (\<lambda>mp.
          let i = i\<lparr>inst_MetricsPort := mp\<rparr> in
          if inst_MetricsPort i = inst_Port i then ret (Some (IRefused 400 RMetricsIsPort))
          else
            with_port_found (or_port (inst_APIPort i) (nextAPIPort ih)) (\<lambda>ap.
            andthen (create_instance ih q (i\<lparr>inst_APIPort := ap\<rparr>)) (\<lambda>a. ret (Some a)))))"

subsection \<open>Updating\<close>

definition getInstanceForUpdate :: "string \<Rightarrow> (refusal \<times> int + inst) io" where
  "getInstanceForUpdate param =
     (case atoi param of
        None \<Rightarrow> ret (Inl (RBadId, 400))
      | Some n \<Rightarrow>
          andthen (attempt (InstanceStore_GetByID n)) (\<lambda>r.
          ret (case r of
                 Inl _ \<Rightarrow> Inl (RInternal, 500)
               | Inr None \<Rightarrow> Inl (RNotFound, 404)
               | Inr (Some i) \<Rightarrow> Inr i)))"

definition stopInstanceSafe :: "inst_handler \<Rightarrow> int \<Rightarrow> unit io" where
  "stopInstanceSafe ih n = (if \<not> ih_container ih then ret () else ignore (StopInstance (ih_site ih) n))"

text \<open>A field that the request gives.\<close>

definition set_given :: "'v option \<Rightarrow> ('v \<Rightarrow> inst \<Rightarrow> inst) \<Rightarrow> inst \<Rightarrow> inst" where
  "set_given v f i = (case v of None \<Rightarrow> i | Some x \<Rightarrow> f x i)"

definition applySimpleFields :: "inst \<Rightarrow> update_request \<Rightarrow> refusal + inst" where
  "applySimpleFields i q =
     (let i = set_given (ur_FakeTLS q) (\<lambda>x i. i\<lparr>inst_FakeTLS := x\<rparr>) i;
          i = set_given (ur_MaskHost q) (\<lambda>x i. i\<lparr>inst_MaskHost := x\<rparr>) i;
          i = set_given (ur_MaskPort q) (\<lambda>x i. i\<lparr>inst_MaskPort := x\<rparr>) i
      in case (case ur_Tags q of None \<Rightarrow> None | Some t \<Rightarrow> validateTagsField t) of
           Some e \<Rightarrow> Inl (RTags e)
         | None \<Rightarrow>
             let i = set_given (ur_Tags q) (\<lambda>x i. i\<lparr>inst_Tags := x\<rparr>) i;
                 i = set_given (ur_TCPMSSEnabled q) (\<lambda>x i. i\<lparr>inst_TCPMSSEnabled := x\<rparr>) i;
                 i = set_given (ur_TCPMSS q) (\<lambda>x i. i\<lparr>inst_TCPMSS := x\<rparr>) i;
                 i = set_given (ur_TCPMSSBulk q) (\<lambda>x i. i\<lparr>inst_TCPMSSBulk := x\<rparr>) i;
                 i = set_given (ur_TLSFronting q) (\<lambda>x i. i\<lparr>inst_TLSFronting := x\<rparr>) i;
                 i = set_given (ur_UnknownSNIAction q) (\<lambda>x i. i\<lparr>inst_UnknownSNIAction := x\<rparr>) i;
                 i = set_given (ur_ExclusiveMask q) (\<lambda>x i. i\<lparr>inst_ExclusiveMask := x\<rparr>) i
             in Inr (set_given (ur_APIPort q) (\<lambda>x i. i\<lparr>inst_APIPort := x\<rparr>) i))"

definition applyInstanceUpdates :: "inst_handler \<Rightarrow> inst \<Rightarrow> update_request \<Rightarrow> (refusal + inst) io" where
  "applyInstanceUpdates ih i q =
     (let i = set_given (ur_Port q) (\<lambda>x i. i\<lparr>inst_Port := x\<rparr>) i;
          i = set_given (ur_MetricsPort q) (\<lambda>x i. i\<lparr>inst_MetricsPort := x\<rparr>) i;
          i = set_given (ur_Label q) (\<lambda>x i. i\<lparr>inst_Label := x\<rparr>) i
      in andthen (when_do (ur_Enabled q = Some False \<and> inst_Enabled i) (stopInstanceSafe ih (inst_ID i))) (\<lambda>_.
         let i = set_given (ur_Enabled q) (\<lambda>x i. i\<lparr>inst_Enabled := x\<rparr>) i;
             i = set_given (ur_TLSDomain q) (\<lambda>x i. i\<lparr>inst_TLSDomain := x\<rparr>) i
         in if \<not> given validateTLSDomainsField (ur_TLSDomains q) then ret (Inl RTLSDomains)
            else ret (applySimpleFields (set_given (ur_TLSDomains q) (\<lambda>x i. i\<lparr>inst_TLSDomains := x\<rparr>) i) q)))"

text \<open>The warning of the answer's header is the error of the rules.\<close>

definition after_save :: "inst_handler \<Rightarrow> inst \<Rightarrow> inst_answer io" where
  "after_save ih i =
     (if \<not> ih_container ih then ret (ISaved 200 i None)
      else
        andthen (RevalidateInstance (ih_site ih) (inst_ID i)) (\<lambda>_.
        andthen (attempt (ReconcileInstanceRules (ih_site ih) (inst_ID i))) (\<lambda>r.
        andthen (ResolveActivePorts (ih_site ih) i) (\<lambda>ports.
        ret (ISaved 200 (i\<lparr>inst_ActivePort := fst ports, inst_ActiveMetricsPort := snd ports\<rparr>)
          (case r of Inl e \<Rightarrow> Some e | Inr _ \<Rightarrow> None))))))"

definition save_instance :: "inst_handler \<Rightarrow> int \<Rightarrow> inst \<Rightarrow> inst_answer io" where
  "save_instance ih n i =
     (if inst_MetricsPort i = inst_Port i then ret (IRefused 400 RMetricsIsPort)
      else case Instance_Validate i of
        (Some e, _) \<Rightarrow> ret (IRefused 400 (RInvalid e))
      | (None, i) \<Rightarrow>
          andthen (attempt (InstanceStore_Update i)) (\<lambda>r.
          case r of
            Inl _ \<Rightarrow> ret (IRefused 500 RInternal)
          | Inr _ \<Rightarrow>
              andthen (auditLog (ih_audit ih) (ih_user ih) ''instance.update''
                (''id='' @ show_int n @ '' label='' @ inst_Label i @ '' port='' @ show_int (inst_Port i))) (\<lambda>_.
              after_save ih i)))"

definition validateAndSaveInstance :: "inst_handler \<Rightarrow> int \<Rightarrow> inst \<Rightarrow> inst_answer option io" where
  "validateAndSaveInstance ih n i =
     with_port_found (or_port (inst_MetricsPort i) (nextMetricsPort ih)) (\<lambda>mp.
     with_port_found (or_port (inst_APIPort i) (nextAPIPort ih)) (\<lambda>ap.
     andthen (save_instance ih n (i\<lparr>inst_MetricsPort := mp, inst_APIPort := ap\<rparr>)) (\<lambda>a. ret (Some a))))"

definition Instance_Update :: "inst_handler \<Rightarrow> string \<Rightarrow> update_request \<Rightarrow> inst_answer option io" where
  "Instance_Update ih param q =
     andthen (getInstanceForUpdate param) (\<lambda>r.
     case r of
       Inl (e, st) \<Rightarrow> ret (Some (IRefused st e))
     | Inr i \<Rightarrow>
         if \<not> update_request_ok (ih_letter ih) q then ret (Some (IRefused 400 RBind))
         else
           andthen (applyInstanceUpdates ih i q) (\<lambda>r.
           case r of
             Inl e \<Rightarrow> ret (Some (IRefused 400 e))
           | Inr j \<Rightarrow> validateAndSaveInstance ih (inst_ID i) j))"

subsection \<open>The other requests\<close>

definition Instance_List :: "inst_handler \<Rightarrow> inst_answer io" where
  "Instance_List ih =
     andthen (attempt InstanceStore_List) (\<lambda>r.
     case r of
       Inl _ \<Rightarrow> ret (IRefused 500 RInternal)
     | Inr insts \<Rightarrow>
         if \<not> ih_container ih then ret (IList insts)
         else
           andthen (running_map (ih_site ih)) (\<lambda>m.
           ret (IList (map (\<lambda>i.
             if inst_Enabled i then
               (case ResolveActivePortsWithMap i (case m of None \<Rightarrow> [] | Some names \<Rightarrow> names) of
                  (p, mp) \<Rightarrow> i\<lparr>inst_ActivePort := p, inst_ActiveMetricsPort := mp\<rparr>)
             else i) insts))))"

definition instance_to_remove :: "string \<Rightarrow> refusal + inst option io" where
  "instance_to_remove param =
     (case atoi param of
        None \<Rightarrow> (case atoi param of None \<Rightarrow> Inl RBadId | Some p \<Rightarrow> Inr (InstanceStore_GetByPort p))
      | Some n \<Rightarrow> Inr (InstanceStore_GetByID n))"

definition Instance_Remove :: "inst_handler \<Rightarrow> string \<Rightarrow> inst_answer io" where
  "Instance_Remove ih param =
     (case instance_to_remove param of
        Inl e \<Rightarrow> ret (IRefused 400 e)
      | Inr get \<Rightarrow>
          andthen (attempt get) (\<lambda>r.
          case r of
            Inr (Some i) \<Rightarrow>
              andthen (attempt InstanceStore_Count) (\<lambda>c.
              case c of
                Inl _ \<Rightarrow> ret (IRefused 500 RInternal)
              | Inr count \<Rightarrow>
                  if count \<le> 1 then ret (IRefused 400 RLast)
                  else
                    andthen (attempt (InstanceStore_DeleteByID (inst_ID i))) (\<lambda>d.
                    case d of
                      Inl _ \<Rightarrow> ret (IRefused 500 RInternal)
                    | Inr _ \<Rightarrow>
                        andthen (auditLog (ih_audit ih) (ih_user ih) ''instance.delete''
                          (''id='' @ show_int (inst_ID i) @ '' label='' @ inst_Label i @ '' port='' @ show_int (inst_Port i)))
                        (\<lambda>_. ret IOk)))
          | _ \<Rightarrow> ret (IRefused 404 RNotFound)))"

definition parseInstanceID :: "inst_handler \<Rightarrow> string \<Rightarrow> refusal \<times> int + int" where
  "parseInstanceID ih param =
     (if \<not> ih_container ih then Inl (RUnavailable, 503)
      else case atoi param of None \<Rightarrow> Inl (RBadId, 400) | Some n \<Rightarrow> Inr n)"

definition auditInstanceAction :: "inst_handler \<Rightarrow> string \<Rightarrow> int \<Rightarrow> unit io" where
  "auditInstanceAction ih action n =
     andthen (attempt (InstanceStore_GetByID n)) (\<lambda>r.
     let (label, port) = (case r of Inr (Some i) \<Rightarrow> (inst_Label i, inst_Port i) | _ \<Rightarrow> ([], 0))
     in auditLog (ih_audit ih) (ih_user ih) action (''id='' @ show_int n @ '' label='' @ label @ '' port='' @ show_int port))"

text \<open>An operation of the container service on the instance that the path names.\<close>

definition instance_action ::
    "inst_handler \<Rightarrow> string \<Rightarrow> (site \<Rightarrow> int \<Rightarrow> unit io) \<Rightarrow> (error \<Rightarrow> inst_answer) \<Rightarrow> string option \<Rightarrow> inst_answer io" where
  "instance_action ih param act failed action =
     (case parseInstanceID ih param of
        Inl (e, st) \<Rightarrow> ret (IRefused st e)
      | Inr n \<Rightarrow>
          andthen (attempt (act (ih_site ih) n)) (\<lambda>r.
          case r of
            Inl e \<Rightarrow> ret (failed e)
          | Inr _ \<Rightarrow>
              andthen (case action of None \<Rightarrow> ret () | Some a \<Rightarrow> auditInstanceAction ih a n) (\<lambda>_. ret IOk)))"

definition failed :: "string \<Rightarrow> error \<Rightarrow> inst_answer" where
  "failed what e = IRefused 500 (RFailed (''failed to '' @ what) e)"

definition ErrNoMatchingSecrets :: error where
  "ErrNoMatchingSecrets = ErrMsg ''no matching secrets: add a secret with a matching tag or remove instance tags''"

definition Instance_Start :: "inst_handler \<Rightarrow> string \<Rightarrow> inst_answer io" where
  "Instance_Start ih param = instance_action ih param StartInstance
     (\<lambda>e. if e = ErrNoMatchingSecrets then IRefused 409 (RStore e) else failed ''start instance'' e)
     (Some ''instance.start'')"

definition Instance_Stop :: "inst_handler \<Rightarrow> string \<Rightarrow> inst_answer io" where
  "Instance_Stop ih param = instance_action ih param StopInstance (failed ''stop instance'') (Some ''instance.stop'')"

definition Instance_Reload :: "inst_handler \<Rightarrow> string \<Rightarrow> inst_answer io" where
  "Instance_Reload ih param = instance_action ih param ReloadInstance (failed ''reload instance'') None"

definition Instance_Restart :: "inst_handler \<Rightarrow> string \<Rightarrow> inst_answer io" where
  "Instance_Restart ih param =
     instance_action ih param RestartInstance (failed ''restart instance'') (Some ''instance.restart'')"

definition Instance_ReloadConfig :: "inst_handler \<Rightarrow> string \<Rightarrow> inst_answer io" where
  "Instance_ReloadConfig ih param =
     instance_action ih param ReloadInstanceConfig (failed ''reload instance config'') (Some ''instance.reload_config'')"

definition Instance_RefreshFronting :: "inst_handler \<Rightarrow> string \<Rightarrow> inst_answer io" where
  "Instance_RefreshFronting ih param =
     instance_action ih param RefreshFrontingContent (failed ''refresh fronting'') (Some ''instance.refresh_fronting'')"

end
