(* ===== verification/Container_Laws.thy ===== *)
theory Container_Laws
  imports Container_Service
begin

text \<open>
  What the operations on containers leave alone. \<open>leaves f m\<close>: whatever \<open>m\<close> returns, it does
  not change what \<open>f\<close> reads of the world. The views are the running containers \<open>up\<close>, the
  rules of the packet filter, those of the table \<^verbatim>\<open>nat\<close>, the pending drains, and the
  host as a whole; then the lemmas that run a reload step by step.
\<close>

named_theorems leaves_intros \<open>introduction rules: an operation leaves a view of the world alone\<close>

definition leaves :: "(world \<Rightarrow> 'v) \<Rightarrow> 'a io \<Rightarrow> bool" where
  "leaves f m \<longleftrightarrow> (\<forall>w. f (snd (m w)) = f w)"

definition up :: "world \<Rightarrow> string set" where
  "up w = set (running_names (w_host w))"

definition nat_rules :: "world \<Rightarrow> rule list" where
  "nat_rules w = filter (\<lambda>r. fst r = ''nat'') (ho_rules (w_host w))"

subsection \<open>Composition\<close>

lemma leavesD: "leaves f m \<Longrightarrow> m w = (r, w') \<Longrightarrow> f w' = f w"
  by (auto simp: leaves_def dest: spec [of _ w])

lemma leavesI: "(\<And>w r w'. m w = (r, w') \<Longrightarrow> f w' = f w) \<Longrightarrow> leaves f m"
  by (metis leaves_def prod.collapse)

lemma leaves_basic [leaves_intros]:
  "leaves f (ret x)" "leaves f (throw e)" "leaves f clock" "leaves f zone"
  by (simp_all add: leaves_def)

lemma leaves_andthen [leaves_intros]:
  assumes "leaves f m" "\<And>x. leaves f (k x)"
  shows "leaves f (andthen m k)"
  unfolding leaves_def
proof
  fix w :: world
  show "f (snd (andthen m k w)) = f w"
  proof (cases rule: andthen_cases [of m w k])
    case (err e w')
    with leavesD [OF assms(1) err(1)] show ?thesis by simp
  next
    case (ok x w')
    have "f (snd (k x w')) = f w'" using assms(2) [of x] by (simp add: leaves_def)
    with ok leavesD [OF assms(1) ok(1)] show ?thesis by simp
  qed
qed

lemma leaves_wrap [leaves_intros]: "leaves f m \<Longrightarrow> leaves f (wrap p m)"
  and leaves_attempt [leaves_intros]: "leaves f m \<Longrightarrow> leaves f (attempt m)"
  by (simp_all add: leaves_def)

lemma leaves_ignore [leaves_intros]: "leaves f m \<Longrightarrow> leaves f (ignore m)"
  unfolding ignore_def by (intro leaves_intros)

lemma leaves_each [leaves_intros]: "(\<And>x a. leaves f (k x a)) \<Longrightarrow> leaves f (each k xs a)"
  by (induction xs arbitrary: a) (auto intro: leaves_basic leaves_andthen)

lemma leaves_if [leaves_intros]: "(c \<Longrightarrow> leaves f m) \<Longrightarrow> (\<not> c \<Longrightarrow> leaves f k) \<Longrightarrow> leaves f (if c then m else k)"
  and leaves_option [leaves_intros]: "leaves f m \<Longrightarrow> (\<And>x. leaves f (g x)) \<Longrightarrow>
    leaves f (case o' of None \<Rightarrow> m | Some x \<Rightarrow> g x)"
  and leaves_sum [leaves_intros]: "(\<And>x. leaves f (a x)) \<Longrightarrow> (\<And>x. leaves f (b x)) \<Longrightarrow>
    leaves f (case s of Inl x \<Rightarrow> a x | Inr x \<Rightarrow> b x)"
  and leaves_prod [leaves_intros]: "(\<And>x y. leaves f (g' x y)) \<Longrightarrow> leaves f (case p of (x, y) \<Rightarrow> g' x y)"
  and leaves_when [leaves_intros]: "leaves f m' \<Longrightarrow> leaves f (when_do c m')"
  and leaves_require [leaves_intros]: "leaves f m \<Longrightarrow> leaves f (require err m)"
  by (simp_all add: when_do_def require_def leaves_basic split: option.split sum.split prod.split)

subsection \<open>Views\<close>

lemma leaves_host_view: "leaves w_host m \<Longrightarrow> leaves up m"
  "leaves w_host m \<Longrightarrow> leaves nat_rules m"
  by (simp_all add: leaves_def up_def nat_rules_def)

lemma pop_fault_other: "pop_fault w = (ft, w') \<Longrightarrow> w_host w' = w_host w \<and> w_drains w' = w_drains w"
  by (auto simp: pop_fault_def split: list.splits)

lemma leaves_sql:
  "leaves w_host (sql_rows wr f)" "leaves w_drains (sql_rows wr f)"
  "leaves w_host (sql_row wr1 g)" "leaves w_drains (sql_row wr1 g)"
  "leaves w_host (sql_exec k)" "leaves w_drains (sql_exec k)"
  by (auto simp: leaves_def sql_rows_def sql_row_def sql_exec_def
      split: prod.split option.split fault.split sum.split dest: pop_fault_other)

lemmas leaves_sql_view [leaves_intros] = leaves_sql leaves_sql(1,3,5) [THEN leaves_host_view(1)]
  leaves_sql(1,3,5) [THEN leaves_host_view(2)]

lemma leaves_tell: "leaves w_host (tell e)" "leaves w_drains (tell e)"
  by (simp_all add: leaves_def tell_def)

lemma leaves_drains [leaves_intros]: "leaves w_drains (on_host F)" "leaves w_drains (from_host G)"
  by (auto simp: leaves_def on_host_def from_host_def split: prod.split option.split sum.split)

lemma leaves_read_host: "leaves w_host (from_host (\<lambda>h. (g h, h)))"
  by (auto simp: leaves_def from_host_def split: sum.split)

lemmas leaves_views [leaves_intros] = leaves_tell leaves_tell(1) [THEN leaves_host_view(1)]
  leaves_tell(1) [THEN leaves_host_view(2)] leaves_read_host leaves_read_host [THEN leaves_host_view(1)]
  leaves_read_host [THEN leaves_host_view(2)]

lemma leaves_on_host:
  "(\<And>h. running_names (snd (F h)) = running_names h) \<Longrightarrow> leaves up (on_host F)"
  "(\<And>h. ho_rules (snd (F h)) = ho_rules h) \<Longrightarrow> leaves nat_rules (on_host F)"
proof -
  assume F: "\<And>h. running_names (snd (F h)) = running_names h"
  show "leaves up (on_host F)" unfolding leaves_def
  proof
    fix w show "up (snd (on_host F w)) = up w"
      using F [of "w_host w"] by (auto simp: up_def on_host_def split: prod.splits option.splits)
  qed
next
  assume F: "\<And>h. ho_rules (snd (F h)) = ho_rules h"
  show "leaves nat_rules (on_host F)" unfolding leaves_def
  proof
    fix w show "nat_rules (snd (on_host F w)) = nat_rules w"
      using F [of "w_host w"] by (auto simp: nat_rules_def on_host_def split: prod.splits option.splits)
  qed
qed

lemma leaves_files [leaves_intros]:
  "leaves up (on_host (mkdir_all dk p))" "leaves nat_rules (on_host (mkdir_all dk p))"
  "leaves up (on_host (write_file dk p c))" "leaves nat_rules (on_host (write_file dk p c))"
  "leaves up (on_host (rename_file dk p q))" "leaves nat_rules (on_host (rename_file dk p q))"
  "leaves up (on_host (remove_file dk p))" "leaves nat_rules (on_host (remove_file dk p))"
  by (rule leaves_on_host;
      auto simp: running_names_def mkdir_all_def write_file_def rename_file_def remove_file_def tick_def
        split: option.split)+

subsection \<open>The packet filter\<close>

text \<open>Programs of the packet filter do not touch containers.\<close>

lemma leaves_up_runCmd: "netfilter_ok dk \<Longrightarrow> leaves up (runCmd dk argv)"
  unfolding runCmd_def
proof (rule leaves_on_host(1))
  fix h
  assume ok: "netfilter_ok dk"
  obtain e h' where "nf_run dk argv h = (e, h')" by (rule prod.exhaust)
  with ok show "running_names (snd (nf_run dk argv h)) = running_names h"
    unfolding netfilter_ok_def by (auto simp: running_names_def)
qed

lemma leaves_up_firewall [leaves_intros]:
  assumes "netfilter_ok dk"
  shows "leaves up (succeeds dk argv)" "leaves up (delete_lines dk pre marker out)"
    "leaves up (SetTCPMSSRule dk p mss)" "leaves up (RemoveTCPMSSRules dk p)"
    "leaves up (AddPortRedirect dk p q)" "leaves up (RemovePortRedirect dk p q)"
    "leaves up (HasPortRedirect dk p q)"
  unfolding succeeds_def delete_lines_def SetTCPMSSRule_def RemoveTCPMSSRules_def AddPortRedirect_def
    RemovePortRedirect_def HasPortRedirect_def runCmdOutput_def
  by (intro leaves_intros leaves_up_runCmd [OF assms])+

lemma leaves_drains_firewall [leaves_intros]:
  "leaves w_drains (runCmd dk argv)" "leaves w_drains (succeeds dk argv)"
  "leaves w_drains (delete_lines dk pre marker out)"
  "leaves w_drains (SetTCPMSSRule dk p mss)" "leaves w_drains (RemoveTCPMSSRules dk p)"
  "leaves w_drains (AddPortRedirect dk p q)" "leaves w_drains (RemovePortRedirect dk p q)"
  "leaves w_drains (HasPortRedirect dk p q)"
  unfolding succeeds_def delete_lines_def SetTCPMSSRule_def RemoveTCPMSSRules_def AddPortRedirect_def
    RemovePortRedirect_def HasPortRedirect_def runCmdOutput_def runCmd_def
  by (intro leaves_intros)+

text \<open>A check of a rule answers whether it is there, and changes nothing.\<close>

lemma succeeds_check:
  assumes "netfilter_ok dk"
  shows "succeeds dk (iptables t ''-C'' (t, c, as)) w = (Inr ((t, c, as) \<in> set (ho_rules (w_host w))), w)"
proof -
  obtain e h where r: "nf_run dk (iptables t ''-C'' (t, c, as)) (w_host w) = (e, h)" by (rule prod.exhaust)
  with assms have "h = w_host w" "e = None \<longleftrightarrow> (t, c, as) \<in> set (ho_rules (w_host w))"
    by (auto simp: netfilter_ok_def)
  then show ?thesis
    by (cases e) (auto simp: succeeds_def runCmd_def on_host_def r andthen_def attempt_def)
qed

lemma run_append:
  assumes "netfilter_ok dk" "runCmd dk (iptables t ''-A'' (t, c, as)) w = (r, w')"
  shows "ho_rules (w_host w') = ho_rules (w_host w) @ (case r of Inl _ \<Rightarrow> [] | Inr _ \<Rightarrow> [(t, c, as)])"
proof -
  obtain e h where run: "nf_run dk (iptables t ''-A'' (t, c, as)) (w_host w) = (e, h)" by (rule prod.exhaust)
  with assms(1) have "ho_rules h = (if e = None then ho_rules (w_host w) @ [(t, c, as)] else ho_rules (w_host w))"
    unfolding netfilter_ok_def by blast
  with run assms(2) show ?thesis
    by (cases e) (auto simp: runCmd_def on_host_def)
qed

lemma run_delete:
  assumes "netfilter_ok dk" "runCmd dk (iptables t ''-D'' (t, c, as)) w = (r, w')"
  shows "ho_rules (w_host w') = (case r of Inl _ \<Rightarrow> ho_rules (w_host w) | Inr _ \<Rightarrow> remove1 (t, c, as) (ho_rules (w_host w)))"
proof -
  obtain e h where run: "nf_run dk (iptables t ''-D'' (t, c, as)) (w_host w) = (e, h)" by (rule prod.exhaust)
  with assms(1) have "ho_rules h = (if e = None then remove1 (t, c, as) (ho_rules (w_host w)) else ho_rules (w_host w))"
    unfolding netfilter_ok_def by blast
  with run assms(2) show ?thesis
    by (cases e) (auto simp: runCmd_def on_host_def)
qed

lemma leaves_nat_mss [leaves_intros]:
  assumes "netfilter_ok dk"
  shows "leaves nat_rules (SetTCPMSSRule dk p mss)"
proof -
  have "nat_rules w' = nat_rules w"
    if "runCmd dk (iptables ''mangle'' ''-A'' (mss_rule p mss)) w = (r, w')" for w :: world and r w'
    using run_append [OF assms that [unfolded mss_rule_def]]
    by (cases r) (simp_all add: nat_rules_def)
  then have "leaves nat_rules (runCmd dk (iptables ''mangle'' ''-A'' (mss_rule p mss)))"
    by (rule leavesI)
  moreover have "leaves nat_rules (succeeds dk (iptables ''mangle'' ''-C'' (mss_rule p mss)))"
    using succeeds_check [OF assms] by (simp add: leaves_def mss_rule_def)
  ultimately show ?thesis unfolding SetTCPMSSRule_def by (intro leaves_intros)
qed

subsection \<open>Containers\<close>

lemma up_host: "up (w\<lparr>w_host := h\<rparr>) = set (running_names h)"
  by (simp add: up_def)

lemma leaves_drains_docker [leaves_intros]:
  "leaves w_drains (RunInstance dk opts)" "leaves w_drains (docker_StopInstance dk n)"
  "leaves w_drains (KillSignalInstance dk n s)" "leaves w_drains (IsInstanceRunning dk n)"
  "leaves w_drains (ListRunningContainerNames dk)"
  unfolding RunInstance_def docker_StopInstance_def KillSignalInstance_def IsInstanceRunning_def
    ListRunningContainerNames_def
  by (intro leaves_intros)+

lemma leaves_host_list [leaves_intros]:
  "leaves w_host (IsInstanceRunning dk n)" "leaves w_host (ListRunningContainerNames dk)"
  unfolding IsInstanceRunning_def ListRunningContainerNames_def by (intro leaves_intros)+

lemmas leaves_list_views [leaves_intros] =
  leaves_host_list [THEN leaves_host_view(1)] leaves_host_list [THEN leaves_host_view(2)]

lemmas docker_laws = docker_ok_def [THEN iffD1]
lemmas docker_remove = docker_laws [THEN conjunct1, rule_format]
lemmas docker_create = docker_laws [THEN conjunct2, THEN conjunct1, rule_format]
lemmas docker_start = docker_laws [THEN conjunct2, THEN conjunct2, THEN conjunct1, rule_format]
lemmas docker_stop = docker_laws [THEN conjunct2, THEN conjunct2, THEN conjunct2, THEN conjunct1, rule_format]

text \<open>A list of the running containers that arrives is right.\<close>

lemma list_running:
  assumes "docker_ok dk" "ListRunningContainerNames dk w = (Inr names, w')"
  shows "set names = up w"
proof -
  from assms(2) obtain l where l: "dk_list dk (w_host w) = Inr l" "names = map fst (filter (\<lambda>(_, s). s) l)"
    by (auto simp: ListRunningContainerNames_def from_host_def split: sum.splits)
  then have "set names = {n. (n, True) \<in> set l}" by force
  with l(1) assms(1) show ?thesis by (simp add: docker_ok_def up_def)
qed

text \<open>A container that was started runs, and no other was touched.\<close>

lemma run_instance_up:
  assumes ok: "docker_ok dk" and run: "RunInstance dk opts w = (Inr x, w')"
  shows "up w' = insert (ro_Name opts) (up w)" "nat_rules w' = nat_rules w"
proof -
  let ?n = "ro_Name opts" and ?h = "w_host w"
  obtain e1 h1 where rm: "dk_remove dk ?n ?h = (e1, h1)" by (rule prod.exhaust)
  obtain r2 h2 where cr: "dk_create dk ?n (instance_container dk opts) h1 = (r2, h2)" by (rule prod.exhaust)
  let ?w0 = "w\<lparr>w_events := w_events w @ [EvRun ?n]\<rparr>"
  have a: "attempt (on_host (dk_remove dk ?n)) ?w0 = (Inr (case e1 of None \<Rightarrow> Inr () | Some m \<Rightarrow> Inl (ErrDriver m)), ?w0\<lparr>w_host := h1\<rparr>)"
    by (cases e1) (simp_all add: attempt_def on_host_def rm)
  have t: "tell (EvRun ?n) w = (Inr (), ?w0)" by (simp add: tell_def)
  from run obtain i w2 where c: "from_host (dk_create dk ?n (instance_container dk opts)) (?w0\<lparr>w_host := h1\<rparr>) = (Inr i, w2)"
      and s: "on_host (dk_start dk i) w2 = (Inr (), w')"
    unfolding RunInstance_def
    by (auto simp: andthen_Inr [where m = "tell (EvRun ?n)", OF t] andthen_Inr [where m = "attempt (on_host (dk_remove dk ?n))", OF a] wrap_Inr elim!: andthen_InrE)
  from c cr have r2: "r2 = Inr i" and w2: "w_host w2 = h2"
    by (auto simp: from_host_def split: sum.splits)
  obtain e3 h3 where st: "dk_start dk i h2 = (e3, h3)" by (rule prod.exhaust)
  with s w2 have e3: "e3 = None" and w': "w_host w' = h3"
    by (auto simp: on_host_def split: option.splits)
  have 1: "set (running_names ?h) - {?n} \<subseteq> set (running_names h1)"
      "set (running_names h1) \<subseteq> set (running_names ?h)" "ho_rules h1 = ho_rules ?h"
    using docker_remove [OF ok rm] by simp_all
  have 2: "set (running_names h2) = set (running_names h1)" "ho_rules h2 = ho_rules h1"
    using docker_create [OF ok cr] by simp_all
  have 3: "set (running_names h3) = set (running_names h2) \<union> {?n}" "ho_rules h3 = ho_rules h2"
    using docker_start [OF ok cr [unfolded r2] st] e3 by simp_all
  show "up w' = insert ?n (up w)" using 1 2 3 by (auto simp: up_def w')
  show "nat_rules w' = nat_rules w" using 1 2 3 by (simp add: nat_rules_def w')
qed

lemma stop_up:
  assumes ok: "docker_ok dk" and run: "docker_StopInstance dk n w = (r, w')"
  shows "up w - {n} \<subseteq> up w'" "up w' \<subseteq> up w" "r = Inr () \<Longrightarrow> n \<notin> up w'" "nat_rules w' = nat_rules w"
proof -
  obtain e h where st: "dk_stop dk n (w_host w) = (e, h)" by (rule prod.exhaust)
  from run st have w': "w_host w' = h" and r: "r = Inr () \<Longrightarrow> e = None"
    by (auto simp: docker_StopInstance_def tell_def andthen_def on_host_def split: option.splits)
  have "set (running_names (w_host w)) - {n} \<subseteq> set (running_names h)"
      "set (running_names h) \<subseteq> set (running_names (w_host w))" "e = None \<longrightarrow> n \<notin> set (running_names h)"
      "ho_rules h = ho_rules (w_host w)"
    using docker_stop [OF ok st] by simp_all
  with w' r show "up w - {n} \<subseteq> up w'" "up w' \<subseteq> up w" "r = Inr () \<Longrightarrow> n \<notin> up w'" "nat_rules w' = nat_rules w"
    by (auto simp: up_def nat_rules_def)
qed

subsection \<open>Reading the tables and writing the file\<close>

lemma leaves_store_reads:
  "leaves w_host SettingsStore_Load" "leaves w_host SecretStore_List" "leaves w_host UpstreamStore_List"
  "leaves w_host (InstanceStore_GetByID n)" "leaves w_host InstanceStore_List" "leaves w_host listUpstreamEntries"
  unfolding SettingsStore_Load_def SecretStore_List_def UpstreamStore_List_def queryUpstreams_def
    InstanceStore_GetByID_def InstanceStore_List_def listUpstreamEntries_def
  by (intro leaves_intros)+

lemma leaves_drains_store [leaves_intros]:
  "leaves w_drains SettingsStore_Load" "leaves w_drains SecretStore_List" "leaves w_drains UpstreamStore_List"
  "leaves w_drains (InstanceStore_GetByID n)" "leaves w_drains InstanceStore_List"
  "leaves w_drains listUpstreamEntries"
  unfolding SettingsStore_Load_def SecretStore_List_def UpstreamStore_List_def queryUpstreams_def
    InstanceStore_GetByID_def InstanceStore_List_def listUpstreamEntries_def
  by (intro leaves_intros)+

lemmas leaves_store_views [leaves_intros] = leaves_store_reads leaves_store_reads [THEN leaves_host_view(1)]
  leaves_store_reads [THEN leaves_host_view(2)]

lemma leaves_write_config [leaves_intros]:
  "leaves up (WriteConfigTOML si cfg path)" "leaves nat_rules (WriteConfigTOML si cfg path)"
  "leaves w_drains (WriteConfigTOML si cfg path)"
  unfolding WriteConfigTOML_def Let_def by (intro leaves_intros)+

lemma leaves_generate [leaves_intros]:
  "leaves up (generateInstanceConfigForSwing si s i p m)" "leaves nat_rules (generateInstanceConfigForSwing si s i p m)"
  "leaves w_drains (generateInstanceConfigForSwing si s i p m)"
  "leaves up (generateInstanceConfig si s i)" "leaves nat_rules (generateInstanceConfig si s i)"
  "leaves w_drains (generateInstanceConfig si s i)"
  unfolding generateInstanceConfigForSwing_def generateInstanceConfig_def generateInstanceConfigWith_def
    generateInstanceConfigWithCached_def
  by (intro leaves_intros)+

lemma leaves_fronting [leaves_intros]:
  "leaves up (fronting_dir si i)" "leaves nat_rules (fronting_dir si i)" "leaves w_drains (fronting_dir si i)"
  unfolding fronting_dir_def downloadFrontingContent_def Let_def by (intro leaves_intros)+

lemma leaves_target_rules [leaves_intros]:
  "netfilter_ok (si_daemon si) \<Longrightarrow> leaves up (setupTargetRuntimeRules si s i p m)"
  "netfilter_ok (si_daemon si) \<Longrightarrow> leaves nat_rules (setupTargetRuntimeRules si s i p m)"
  "leaves w_drains (setupTargetRuntimeRules si s i p m)"
  unfolding setupTargetRuntimeRules_def by (intro leaves_intros; assumption)+

lemma leaves_first_free:
  "leaves w_host (first_free si ports)" "leaves w_drains (first_free si ports)"
proof -
  have f: "leaves w_host (isPortFree si p)" "leaves w_drains (isPortFree si p)"
    "leaves w_host (is_running si n)" "leaves w_drains (is_running si n)" for p n
    unfolding isPortFree_def is_running_def by (intro leaves_intros)+
  show "leaves w_host (first_free si ports)" "leaves w_drains (first_free si ports)"
    by (induction ports) (auto intro!: leaves_intros f)
qed

lemma leaves_free_port [leaves_intros]:
  "leaves w_host (findFreeSwingPort si p)" "leaves w_drains (findFreeSwingPort si p)"
  unfolding findFreeSwingPort_def by (intro leaves_intros leaves_first_free)+

lemmas leaves_free_port_views [leaves_intros] =
  leaves_free_port(1) [THEN leaves_host_view(1)] leaves_free_port(1) [THEN leaves_host_view(2)]

text \<open>A swing port is one of the hundred above.\<close>

lemma first_free_in: "first_free si ports w = (Inr (Some p), w') \<Longrightarrow> p \<in> set ports"
proof (induction ports arbitrary: w w')
  case (Cons q ports)
  from Cons.prems show ?case
    by (auto elim!: andthen_InrE split: if_splits) (drule Cons.IH, simp)+
qed simp

lemma swing_ports_first: "p + 10000 \<in> set (swing_ports p)"
proof -
  have "p + 10000 = p + 10000 + int 0" by simp
  moreover have "0 \<in> set [0..<100]" by simp
  ultimately show ?thesis unfolding swing_ports_def set_map by (rule image_eqI)
qed

lemma free_port_in:
  "findFreeSwingPort si p w = (Inr (q, m), w') \<Longrightarrow> q \<in> set (swing_ports p)"
  by (auto simp: findFreeSwingPort_def swing_ports_first elim!: andthen_InrE split: option.splits
      dest: first_free_in)

lemma swing_ports_above: "q \<in> set (swing_ports p) \<longleftrightarrow> p + 10000 \<le> q \<and> q < p + 10100"
proof
  assume "p + 10000 \<le> q \<and> q < p + 10100"
  then have "q = p + 10000 + int (nat (q - p - 10000))" "nat (q - p - 10000) \<in> set [0..<100]" by auto
  then show "q \<in> set (swing_ports p)" unfolding swing_ports_def set_map by (rule image_eqI)
qed (auto simp: swing_ports_def)

lemma active_swing_in:
  "GetActiveSwingPortWithMap i names = (q, True) \<Longrightarrow> q \<in> set (swing_ports (inst_Port i)) \<and> container_name q \<in> set names"
  by (auto simp: GetActiveSwingPortWithMap_def split: option.splits dest: find_SomeD)

lemma container_names [simp]:
  "container_name p = container_name q \<longleftrightarrow> p = q" "ContainerName i = container_name (inst_Port i)"
  by (simp_all add: container_name_def ContainerName_def)

end
