(* ===== verification/Container_Properties.thy ===== *)
theory Container_Properties
  imports Container_Laws
begin

text \<open>
  What the operations on containers achieve: a reload without downtime keeps the engine serving, and
  where the code falls short of that.
\<close>

subsection \<open>A reload, step by step\<close>

lemma attempt_InrE:
  assumes "attempt m w = (Inr r, w')"
  shows "m w = (r, w')"
  using assms by (cases "m w") (simp add: attempt_def)

lemma with_instance_InrE:
  assumes "with_instance n f w = (Inr y, w')"
  obtains i w1 where "find_instance (w_db w) n = Some i" "InstanceStore_GetByID n w = (Inr (Some i), w1)"
    "f i w1 = (Inr y, w')"
proof -
  from assms obtain r w1 where g: "InstanceStore_GetByID n w = (Inr r, w1)"
      and k: "(case r of None \<Rightarrow> throw (ErrMsg (''instance '' @ show_int n @ '' not found'')) | Some v \<Rightarrow> f v) w1 = (Inr y, w')"
    unfolding with_instance_def must_exist_def by (rule andthen_InrE)
  from k obtain i where r: "r = Some i" by (cases r) auto
  have "f i w1 = (Inr y, w')" using k by (simp add: r)
  moreover have "find_instance (w_db w) n = Some i" using instances_by_id.get_view [OF g] by (simp add: r)
  ultimately show thesis using g by (intro that [of i w1]) (simp_all add: r)
qed

lemma settings_reads: "reads SettingsStore_Load"
  unfolding SettingsStore_Load_def by (intro reads_andthen) simp_all

text \<open>The world between the steps of a reload that succeeds; the state is one of \<open>swing_roles\<close>.\<close>

lemma reload_runE:
  assumes ok: "docker_ok (si_daemon si)" "netfilter_ok (si_daemon si)"
    and run: "ReloadInstance si n w = (Inr (), w')"
  obtains s i names st dir w2 w3 w4 w5 x where
    "find_instance (w_db w) n = Some i" "(\<exists>e. dk_list (si_daemon si) (w_host w) = Inl e) \<and> names = [] \<or> set names = up w"
    "w_host w2 = w_host w" "w_drains w2 = w_drains w"
    "resolveSwingRoutingState si i names w2 = (Inr st, w3)"
    "setupTargetRuntimeRules si s i (ss_targetPort st) (ss_targetMetricsPort st) w3 = (Inr dir, w4)"
    "RunInstance (si_daemon si) (run_opts si s (ss_targetContainerName st) (ss_targetPort st) dir) w4 = (Inr x, w5)"
    "startSwingDraining si i st w5 = (Inr (), w')"
proof -
  let ?dk = "si_daemon si"
  from run obtain s w0 where l: "SettingsStore_Load w = (Inr s, w0)"
    and run0: "with_instance n (\<lambda>i. andthen (attempt (ListRunningContainerNames ?dk)) (\<lambda>r.
       reload_to si s i (case r of Inl _ \<Rightarrow> [] | Inr names \<Rightarrow> names))) w0 = (Inr (), w')"
    unfolding ReloadInstance_def by (rule andthen_InrE)
  have w0: "w_db w0 = w_db w" "w_host w0 = w_host w" "w_drains w0 = w_drains w"
    using settings_reads [THEN readsD, OF l] leavesD [OF leaves_store_reads(1) l] leavesD [OF leaves_drains_store(1) l]
    by simp_all
  from run0 obtain i w1 where i: "find_instance (w_db w0) n = Some i" and g: "InstanceStore_GetByID n w0 = (Inr (Some i), w1)"
    and run1: "andthen (attempt (ListRunningContainerNames ?dk)) (\<lambda>r.
       reload_to si s i (case r of Inl _ \<Rightarrow> [] | Inr names \<Rightarrow> names)) w1 = (Inr (), w')"
    by (rule with_instance_InrE)
  have w1: "w_host w1 = w_host w" "w_drains w1 = w_drains w"
    using leavesD [OF leaves_store_reads(4) g] leavesD [OF leaves_drains_store(4) g] w0 by simp_all
  from run1 obtain r w2 where a: "attempt (ListRunningContainerNames ?dk) w1 = (Inr r, w2)"
    and run2: "reload_to si s i (case r of Inl _ \<Rightarrow> [] | Inr names \<Rightarrow> names) w2 = (Inr (), w')"
    by (rule andthen_InrE)
  note r = attempt_InrE [OF a]
  have w2: "w_host w2 = w_host w" "w_drains w2 = w_drains w"
    using leavesD [OF leaves_host_list(2) r] leavesD [OF leaves_drains_docker(5) r] w1 by simp_all
  define names where "names = (case r of Inl _ \<Rightarrow> [] | Inr names \<Rightarrow> names)"
  have names: "(\<exists>e. dk_list (si_daemon si) (w_host w) = Inl e) \<and> names = [] \<or> set names = up w"
    using list_running [OF ok(1)] r w1(1) by (cases r) (auto simp: names_def up_def ListRunningContainerNames_def from_host_def split: sum.splits)
  from run2 [folded names_def, unfolded reload_to_def] obtain st w3 where
    st: "resolveSwingRoutingState si i names w2 = (Inr st, w3)"
    and run3: "andthen (setupTargetRuntimeRules si s i (ss_targetPort st) (ss_targetMetricsPort st)) (\<lambda>dir.
     andthen (wrap ''start swing container''
       (RunInstance ?dk (run_opts si s (ss_targetContainerName st) (ss_targetPort st) dir))) (\<lambda>_.
     startSwingDraining si i st)) w3 = (Inr (), w')"
    by (rule andthen_InrE)
  from run3 obtain dir w4 where
    dir: "setupTargetRuntimeRules si s i (ss_targetPort st) (ss_targetMetricsPort st) w3 = (Inr dir, w4)"
    and run4: "andthen (wrap ''start swing container''
       (RunInstance ?dk (run_opts si s (ss_targetContainerName st) (ss_targetPort st) dir))) (\<lambda>_.
     startSwingDraining si i st) w4 = (Inr (), w')"
    by (rule andthen_InrE)
  from run4 obtain x w5 where "RunInstance ?dk (run_opts si s (ss_targetContainerName st) (ss_targetPort st) dir) w4 = (Inr x, w5)"
    "startSwingDraining si i st w5 = (Inr (), w')"
    by (elim andthen_InrE) (simp add: wrap_Inr)
  with i w0(1) names w2 st dir show thesis by (intro that) simp_all
qed

lemma resolve_runE:
  assumes "resolveSwingRoutingState si i names w = (Inr st, w')"
  obtains tp tm r w1 w2 where "tp \<in> set (swing_ports (inst_Port i))" "w_host w1 = w_host w"
    "HasPortRedirect (si_daemon si) (inst_Port i) tp w1 = (r, w2)"
    "st = swing_roles i tp tm (r = Inr True \<or>
            container_name tp \<in> set names \<and> ContainerName i \<notin> set names) names"
    "when_do (\<not> ss_drainingRunning st)
        (ignore (RemovePortRedirect (si_daemon si) (inst_Port i) tp)) w2 = (Inr (), w')"
proof -
  let ?sw = "GetActiveSwingPortWithMap i names" and ?has = "HasPortRedirect (si_daemon si) (inst_Port i)"
    and ?drop = "\<lambda>tp. ignore (RemovePortRedirect (si_daemon si) (inst_Port i) tp)"
  define roles where "roles tp tm r = swing_roles i tp tm (r = Inr True \<or>
      container_name tp \<in> set names \<and> ContainerName i \<notin> set names) names" for tp tm and r :: "error + bool"
  from assms obtain tmp w1 where
    1: "(if snd ?sw then ret (fst ?sw, fst ?sw + 100) else findFreeSwingPort si (inst_Port i)) w = (Inr tmp, w1)"
    and run: "(case tmp of (tp, tm) \<Rightarrow> andthen (attempt (?has tp)) (\<lambda>r.
        andthen (when_do (\<not> ss_drainingRunning (roles tp tm r)) (?drop tp)) (\<lambda>_. ret (roles tp tm r)))) w1 = (Inr st, w')"
    unfolding resolveSwingRoutingState_def Let_def roles_def by (rule andthen_InrE)
  obtain tp tm where tmp: "tmp = (tp, tm)" by (rule prod.exhaust)
  have tp: "tp \<in> set (swing_ports (inst_Port i))"
  proof (cases "snd ?sw")
    case True
    then have "?sw = (fst ?sw, True)" by (metis prod.collapse)
    then show ?thesis using 1 True active_swing_in [of i names "fst ?sw"] by (auto simp: tmp)
  next
    case False
    with 1 show ?thesis by (auto simp: tmp dest: free_port_in)
  qed
  have host: "w_host w1 = w_host w"
    using 1 by (auto split: if_splits dest: leavesD [OF leaves_free_port(1)])
  from run obtain r w2 where r: "attempt (?has tp) w1 = (Inr r, w2)"
    and run2: "andthen (when_do (\<not> ss_drainingRunning (roles tp tm r)) (?drop tp)) (\<lambda>_. ret (roles tp tm r)) w2 = (Inr st, w')"
    unfolding tmp by simp (rule andthen_InrE)
  from run2 have "st = roles tp tm r" "when_do (\<not> ss_drainingRunning st) (?drop tp) w2 = (Inr (), w')"
    by (auto elim!: andthen_InrE)
  then show thesis using tp host attempt_InrE [OF r] by (intro that [of tp w1 r w2 tm]) (simp_all add: roles_def)
qed

lemma swing_roles_names:
  assumes "tp \<noteq> inst_Port i"
  shows "ss_targetContainerName (swing_roles i tp tm ra names) \<in> {ContainerName i, container_name tp}"
    "ss_drainingContainerName (swing_roles i tp tm ra names) \<in> {ContainerName i, container_name tp}"
    "ss_drainingRunning (swing_roles i tp tm ra names) \<longleftrightarrow>
       ss_drainingContainerName (swing_roles i tp tm ra names) \<in> set names"
    "ss_drainingRunning (swing_roles i tp tm ra names) \<Longrightarrow>
       ss_drainingContainerName (swing_roles i tp tm ra names) \<noteq> ss_targetContainerName (swing_roles i tp tm ra names)"
    "ss_targetContainerName (swing_roles i tp tm ra names) = container_name (ss_targetPort (swing_roles i tp tm ra names))"
  using assms by (cases ra; auto simp: swing_roles_def Let_def)+

lemma leaves_resolve:
  assumes "netfilter_ok (si_daemon si)"
  shows "leaves up (resolveSwingRoutingState si i names)" "leaves w_drains (resolveSwingRoutingState si i names)"
proof -
  show "leaves up (resolveSwingRoutingState si i names)"
    unfolding resolveSwingRoutingState_def Let_def
    by (rule leaves_intros assms | intro leaves_intros; rule assms)+
  show "leaves w_drains (resolveSwingRoutingState si i names)"
    unfolding resolveSwingRoutingState_def Let_def by (intro leaves_intros)
qed

text \<open>Draining begins when the old container runs.\<close>

lemma start_draining:
  assumes "netfilter_ok (si_daemon si)" "startSwingDraining si i st w = (Inr (), w')"
  shows "up w' = up w" "w_drains w' = (if ss_drainingRunning st
    then w_drains w @ [(ss_drainingContainerName st, ss_drainingPort st, ss_drainingMetricsPort st)] else w_drains w)"
proof -
  have add: "leaves up (add_drain d)" for d by (simp add: leaves_def add_drain_def up_def)
  have "leaves up (startSwingDraining si i st)"
    unfolding startSwingDraining_def
    by (intro leaves_intros add; rule assms(1))
  from this assms(2) show "up w' = up w" by (rule leavesD)
  show "w_drains w' = (if ss_drainingRunning st
    then w_drains w @ [(ss_drainingContainerName st, ss_drainingPort st, ss_drainingMetricsPort st)] else w_drains w)"
  proof (cases "ss_drainingRunning st")
    case True
    let ?m = "if ss_redirectActive st
          then ignore (RemovePortRedirect (si_daemon si) (inst_Port i) (ss_tempPort st))
          else ignore (AddPortRedirect (si_daemon si) (inst_Port i) (ss_tempPort st))"
    have m: "leaves w_drains ?m" by (intro leaves_intros)
    from assms(2) True have "andthen ?m (\<lambda>_. add_drain
        (ss_drainingContainerName st, ss_drainingPort st, ss_drainingMetricsPort st)) w = (Inr (), w')"
      by (simp add: startSwingDraining_def)
    then obtain u w1 where "?m w = (Inr u, w1)"
      "add_drain (ss_drainingContainerName st, ss_drainingPort st, ss_drainingMetricsPort st) w1 = (Inr (), w')"
      by (rule andthen_InrE)
    with True leavesD [OF m] show ?thesis by (auto simp: add_drain_def)
  qed (use assms(2) in \<open>simp add: startSwingDraining_def\<close>)
qed

lemma leaves_clean [leaves_intros]:
  "netfilter_ok (si_daemon si) \<Longrightarrow> leaves up (ignore (RemoveTCPMSSRules (si_daemon si) p))"
  by (intro leaves_intros)

text \<open>The end of a drain stops its container and no other.\<close>

lemma stop_and_clean_up:
  assumes ok: "docker_ok (si_daemon si)" "netfilter_ok (si_daemon si)"
    and run: "stopAndCleanContainer si name port w = (r, w')"
  shows "up w - {name} \<subseteq> up w'" "up w' \<subseteq> up w"
proof -
  obtain r1 w1 where s: "docker_StopInstance (si_daemon si) name w = (r1, w1)" by (rule prod.exhaust)
  have rest: "leaves up (andthen (ignore (RemoveTCPMSSRules (si_daemon si) port)) (\<lambda>_.
     ignore (on_host (remove_file (si_daemon si) (config_path si port)))))"
    by (intro leaves_intros ok)
  have "andthen (ignore (RemoveTCPMSSRules (si_daemon si) port)) (\<lambda>_.
     ignore (on_host (remove_file (si_daemon si) (config_path si port)))) w1 = (r, w')"
    using run s by (simp add: stopAndCleanContainer_def ignore_def andthen_def attempt_def)
  then have "up w' = up w1" by (rule leavesD [OF rest])
  with stop_up [OF ok(1) s] show "up w - {name} \<subseteq> up w'" "up w' \<subseteq> up w" by simp_all
qed

lemma drain_timeout_up:
  assumes ok: "docker_ok (si_daemon si)" "netfilter_ok (si_daemon si)"
  shows "up w - {name} \<subseteq> up (snd (drain_timeout si (name, port, mport) w))"
proof -
  obtain r w1 where s: "stopAndCleanContainer si name port w = (r, w1)" by (rule prod.exhaust)
  have e: "leaves up (end_drain d)" for d by (simp add: leaves_def end_drain_def up_def)
  have "up (snd (drain_timeout si (name, port, mport) w)) = up w1"
    using s e [unfolded leaves_def] by (cases r) (auto simp: drain_timeout_def andthen_def)
  with stop_and_clean_up(1) [OF ok s] show ?thesis by simp
qed

text \<open>
  C24: a reload without downtime that succeeds leaves everything running that ran before, and the new
  container besides; if it begins to drain a container, that is another one than the new one, which
  therefore survives the end of this drain in whatever state it comes.
\<close>

theorem reload_keeps_serving:
  assumes ok: "docker_ok (si_daemon si)" "netfilter_ok (si_daemon si)"
    and run: "ReloadInstance si n w = (Inr (), w')"
  shows "\<exists>i new. find_instance (w_db w) n = Some i \<and>
     new \<in> insert (ContainerName i) (container_name ` set (swing_ports (inst_Port i))) \<and>
     up w' = insert new (up w) \<and>
     (w_drains w' = w_drains w \<or>
      (\<exists>old p m. w_drains w' = w_drains w @ [(old, p, m)] \<and> old \<in> up w \<and> old \<noteq> new \<and>
         (\<forall>w2. new \<in> up w2 \<longrightarrow> new \<in> up (snd (drain_timeout si (old, p, m) w2)))))"
proof -
  obtain s i names st dir w2 w3 w4 w5 x where
    i: "find_instance (w_db w) n = Some i" and names: "(\<exists>e. dk_list (si_daemon si) (w_host w) = Inl e) \<and> names = [] \<or> set names = up w"
    and w2: "w_host w2 = w_host w" "w_drains w2 = w_drains w"
    and res: "resolveSwingRoutingState si i names w2 = (Inr st, w3)"
    and tgt: "setupTargetRuntimeRules si s i (ss_targetPort st) (ss_targetMetricsPort st) w3 = (Inr dir, w4)"
    and new: "RunInstance (si_daemon si) (run_opts si s (ss_targetContainerName st) (ss_targetPort st) dir) w4 = (Inr x, w5)"
    and drain: "startSwingDraining si i st w5 = (Inr (), w')"
    by (rule reload_runE [OF ok run])
  let ?new = "ss_targetContainerName st" and ?old = "ss_drainingContainerName st"
  have up3: "up w3 = up w" "w_drains w3 = w_drains w"
    using leavesD [OF leaves_resolve(1) [OF ok(2)] res] leavesD [OF leaves_resolve(2) [OF ok(2)] res] w2
    by (simp_all add: up_def)
  have up4: "up w4 = up w" "w_drains w4 = w_drains w"
    using leavesD [OF leaves_target_rules(1) [OF ok(2)] tgt] leavesD [OF leaves_target_rules(3) tgt] up3 by simp_all
  have up5: "up w5 = insert ?new (up w)" "w_drains w5 = w_drains w"
    using run_instance_up(1) [OF ok(1) new] leavesD [OF leaves_drains_docker(1) new] up4
    by (simp_all add: run_opts_def)
  note up6 = start_draining [OF ok(2) drain]
  from res obtain tp tm ra where tp: "tp \<in> set (swing_ports (inst_Port i))" and st: "st = swing_roles i tp tm ra names"
    by (rule resolve_runE) blast
  then have ne: "tp \<noteq> inst_Port i" by (simp add: swing_ports_above)
  note roles = swing_roles_names [OF ne, of tm ra names, folded st]
  have "?new \<in> insert (ContainerName i) (container_name ` set (swing_ports (inst_Port i)))"
    using roles(1) tp by auto
  moreover have "up w' = insert ?new (up w)" using up6(1) up5 by simp
  moreover have "w_drains w' = w_drains w \<or> (\<exists>old p m. w_drains w' = w_drains w @ [(old, p, m)] \<and> old \<in> up w \<and> old \<noteq> ?new \<and>
         (\<forall>w2. ?new \<in> up w2 \<longrightarrow> ?new \<in> up (snd (drain_timeout si (old, p, m) w2))))"
  proof (cases "ss_drainingRunning st")
    case True
    then have "?old \<in> set names" by (rule iffD1 [OF roles(3)])
    with names have old: "?old \<in> up w" by (elim disjE conjE) simp_all
    have ne2: "?old \<noteq> ?new" by (rule roles(4) [OF True])
    moreover have "\<forall>w2. ?new \<in> up w2 \<longrightarrow> ?new \<in> up (snd (drain_timeout si (?old, p, m) w2))" for p m
      by (intro allI impI subsetD [OF drain_timeout_up [OF ok]]) (simp add: ne2 [symmetric])
    moreover have "w_drains w' = w_drains w @ [(?old, ss_drainingPort st, ss_drainingMetricsPort st)]"
      using True up6(2) up5(2) by simp
    ultimately show ?thesis using ne2 old by (intro disjI2 exI conjI)
  next
    case False
    then show ?thesis using up6(2) up5(2) by simp
  qed
  ultimately show ?thesis using i by (intro exI [of _ i] exI [of _ ?new] conjI)
qed

subsection \<open>Redirects\<close>

text \<open>\<^verbatim>\<open>iptables\<close> that does what it is asked.\<close>

definition netfilter_reliable :: "daemon \<Rightarrow> bool" where
  "netfilter_reliable dk \<longleftrightarrow> netfilter_ok dk \<and>
     (\<forall>t c as h. fst (nf_run dk (iptables t ''-A'' (t, c, as)) h) = None) \<and>
     (\<forall>t c as h. (t, c, as) \<in> set (ho_rules h) \<longrightarrow> fst (nf_run dk (iptables t ''-D'' (t, c, as)) h) = None)"

lemma atoi_show_int: "atoi (show_int i) = (if in_int64 i then Some i else None)"
proof -
  have d: "list_all is_digit (show_nat n)" for n
    using show_nat_digits by (simp add: list_all_iff)
  have "is_digit (hd (show_nat n))" for n
    using show_nat_digits [of n] by (meson list.set_sel(1) show_nat_nonempty)
  moreover have "\<not> is_digit CHR ''-''" "\<not> is_digit CHR ''+''" by (simp_all add: is_digit_def)
  ultimately have h: "hd (show_nat n) \<noteq> CHR ''-''" "hd (show_nat n) \<noteq> CHR ''+''" for n
    by metis+
  show ?thesis by (simp add: atoi_def show_int_def d h Let_def)
qed

lemma check_port_ok: "check_port p = None \<longleftrightarrow> 1 \<le> p \<and> p \<le> 65535"
  by (auto simp: check_port_def ValidatePort_def atoi_show_int in_int64_def)

lemma require_port: "1 \<le> p \<Longrightarrow> p \<le> 65535 \<Longrightarrow> require (check_port p) m = m"
  using check_port_ok [of p] by (simp add: require_def)

lemma require_high_port: "65535 < p \<Longrightarrow> \<exists>e. require (check_port p) m = throw e"
  using check_port_ok [of p] by (cases "check_port p") (auto simp: require_def)

lemma redirect_rule_shape:
  "redirect_rule p q = (''nat'', ''PREROUTING'', [''-p'', ''tcp'', ''--dport'', show_int p, ''-j'', ''REDIRECT'',
        ''--to-ports'', show_int q])"
  by (simp add: redirect_rule_def)

lemma in_nat_rules: "redirect_rule p q \<in> set (nat_rules w) \<longleftrightarrow> redirect_rule p q \<in> set (ho_rules (w_host w))"
  by (auto simp: nat_rules_def redirect_rule_def)

lemma count_nat_rules:
  "count_list (nat_rules w) (redirect_rule p q) = count_list (ho_rules (w_host w)) (redirect_rule p q)"
proof -
  have "count_list (filter (\<lambda>r. fst r = ''nat'') xs) (redirect_rule p q) = count_list xs (redirect_rule p q)" for xs
    by (induction xs) (auto simp: redirect_rule_def)
  then show ?thesis by (simp add: nat_rules_def)
qed

lemma check_redirect:
  assumes "netfilter_ok dk"
  shows "succeeds dk (iptables ''nat'' ''-C'' (redirect_rule p q)) w = (Inr (redirect_rule p q \<in> set (nat_rules w)), w)"
  using succeeds_check [OF assms, of "''nat''"] by (simp add: redirect_rule_shape nat_rules_def)

lemma has_redirect:
  assumes "netfilter_ok dk" "1 \<le> p" "p \<le> 65535" "1 \<le> q" "q \<le> 65535"
  shows "HasPortRedirect dk p q w = (Inr (redirect_rule p q \<in> set (nat_rules w)), w)"
  using assms by (simp add: HasPortRedirect_def require_port check_redirect)

lemma add_redirect:
  assumes r: "netfilter_reliable dk" and p: "1 \<le> p" "p \<le> 65535" "1 \<le> q" "q \<le> 65535"
    and run: "AddPortRedirect dk p q w = (x, w')"
  shows "redirect_rule p q \<in> set (nat_rules w')"
proof -
  have nf: "netfilter_ok dk" using r by (simp add: netfilter_reliable_def)
  show ?thesis
  proof (cases "redirect_rule p q \<in> set (nat_rules w)")
    case True
    with run p show ?thesis by (simp add: AddPortRedirect_def require_port check_redirect [OF nf] andthen_def)
  next
    case False
    have "fst (nf_run dk (iptables ''nat'' ''-A'' (redirect_rule p q)) (w_host w)) = None"
      using r unfolding netfilter_reliable_def redirect_rule_shape by blast
    then obtain w1 where a: "runCmd dk (iptables ''nat'' ''-A'' (redirect_rule p q)) w = (Inr (), w1)"
      by (cases "nf_run dk (iptables ''nat'' ''-A'' (redirect_rule p q)) (w_host w)") (auto simp: runCmd_def on_host_def)
    then have "w' = w1" using run p False
      by (simp add: AddPortRedirect_def require_port check_redirect [OF nf] andthen_def wrap_def)
    with run_append [OF nf a [unfolded redirect_rule_shape]] show ?thesis by (simp add: nat_rules_def redirect_rule_shape)
  qed
qed

lemma remove_redirect:
  assumes r: "netfilter_reliable dk" and p: "1 \<le> p" "p \<le> 65535" "1 \<le> q" "q \<le> 65535"
    and one: "count_list (nat_rules w) (redirect_rule p q) \<le> 1"
    and run: "RemovePortRedirect dk p q w = (x, w')"
  shows "redirect_rule p q \<notin> set (nat_rules w')"
proof -
  have nf: "netfilter_ok dk" using r by (simp add: netfilter_reliable_def)
  show ?thesis
  proof (cases "redirect_rule p q \<in> set (nat_rules w)")
    case False
    with run p show ?thesis by (simp add: RemovePortRedirect_def require_port check_redirect [OF nf] andthen_def)
  next
    case True
    have "fst (nf_run dk (iptables ''nat'' ''-D'' (redirect_rule p q)) (w_host w)) = None"
      using True [unfolded in_nat_rules] r unfolding netfilter_reliable_def redirect_rule_shape by blast
    then obtain w1 where a: "runCmd dk (iptables ''nat'' ''-D'' (redirect_rule p q)) w = (Inr (), w1)"
      by (cases "nf_run dk (iptables ''nat'' ''-D'' (redirect_rule p q)) (w_host w)") (auto simp: runCmd_def on_host_def)
    then have "w' = w1" using run p True
      by (simp add: RemovePortRedirect_def require_port check_redirect [OF nf] andthen_def wrap_def)
    with run_delete [OF nf a [unfolded redirect_rule_shape]]
    have "ho_rules (w_host w') = remove1 (redirect_rule p q) (ho_rules (w_host w))" by (simp add: redirect_rule_shape)
    moreover have "x \<notin> set (remove1 x xs)" if "count_list xs x \<le> 1" for x :: rule and xs
      using that by (induction xs) (auto simp: count_list_0_iff split: if_splits)
    ultimately show ?thesis using one by (simp add: in_nat_rules count_nat_rules)
  qed
qed

lemma ignore_run: "ignore m w = (Inr (), snd (m w))"
  by (simp add: ignore_def andthen_def attempt_run)

text \<open>Where the redirects stand after the last step of a reload.\<close>

lemma draining_redirect:
  assumes rel: "netfilter_reliable (si_daemon si)"
    and p: "1 \<le> inst_Port i" "inst_Port i \<le> 65535" "1 \<le> ss_tempPort st" "ss_tempPort st \<le> 65535"
    and one: "count_list (nat_rules w) (redirect_rule (inst_Port i) (ss_tempPort st)) \<le> 1"
    and run: "startSwingDraining si i st w = (Inr (), w')"
  shows "if ss_drainingRunning st
    then redirect_rule (inst_Port i) (ss_tempPort st) \<in> set (nat_rules w') \<longleftrightarrow> \<not> ss_redirectActive st
    else nat_rules w' = nat_rules w"
proof -
  let ?dk = "si_daemon si" and ?p = "inst_Port i" and ?q = "ss_tempPort st"
  have add: "nat_rules (snd (add_drain d v)) = nat_rules v" for d v by (simp add: add_drain_def nat_rules_def)
  consider (no) "\<not> ss_drainingRunning st"
    | (home) w1 x where "ss_drainingRunning st" "ss_redirectActive st" "RemovePortRedirect ?dk ?p ?q w = (x, w1)"
    | (away) w1 x where "ss_drainingRunning st" "\<not> ss_redirectActive st" "AddPortRedirect ?dk ?p ?q w = (x, w1)"
    by (metis prod.collapse)
  then show ?thesis
  proof cases
    case no
    with run show ?thesis by (simp add: startSwingDraining_def)
  next
    case home
    with run add have "nat_rules w' = nat_rules w1"
      by (simp add: startSwingDraining_def andthen_def ignore_run) (metis snd_conv)
    with home remove_redirect [OF rel p one home(3)] show ?thesis by simp
  next
    case away
    with run add have "nat_rules w' = nat_rules w1"
      by (simp add: startSwingDraining_def andthen_def ignore_run) (metis snd_conv)
    with away add_redirect [OF rel p away(3)] show ?thesis by simp
  qed
qed

lemma leaves_nat_resolve_free: "findFreeSwingPort si p w = (r, w') \<Longrightarrow> nat_rules w' = nat_rules w"
  by (rule leavesD [OF leaves_free_port_views(2)])


subsection \<open>Where reloading goes wrong\<close>

lemma leaves_events_host: "leaves w_events (on_host F)" "leaves w_events (from_host G)"
  by (auto simp: leaves_def on_host_def from_host_def split: prod.split option.split sum.split)

lemma run_instance_told:
  assumes "RunInstance dk opts w = (Inr x, w')"
  shows "EvRun (ro_Name opts) \<in> set (w_events w')"
proof -
  have "leaves w_events (andthen (attempt (on_host (dk_remove dk (ro_Name opts)))) (\<lambda>_.
     andthen (wrap (''create instance '' @ ro_Name opts)
       (from_host (dk_create dk (ro_Name opts) (instance_container dk opts)))) (\<lambda>i.
     andthen (wrap (''start instance '' @ ro_Name opts) (on_host (dk_start dk i))) (\<lambda>_. ret i))))"
    by (intro leaves_intros leaves_events_host)
  from leavesD [OF this] assms show ?thesis
    by (force simp: RunInstance_def andthen_def [of "tell e" for e] tell_def)
qed

lemma leaves_events_draining: "leaves w_events (startSwingDraining si i st)"
proof -
  have "leaves w_events (add_drain d)" for d by (simp add: leaves_def add_drain_def)
  then show ?thesis
    unfolding startSwingDraining_def AddPortRedirect_def RemovePortRedirect_def succeeds_def runCmd_def
    by (intro leaves_intros leaves_events_host)
qed

definition stops_succeed :: "daemon \<Rightarrow> bool" where
  "stops_succeed dk \<longleftrightarrow> (\<forall>n h. fst (dk_stop dk n h) = None)"

lemma drain_timeout_down:
  assumes ok: "docker_ok (si_daemon si)" "netfilter_ok (si_daemon si)" "stops_succeed (si_daemon si)"
  shows "up (snd (drain_timeout si (name, port, m) w)) = up w - {name}"
proof -
  obtain r1 w1 where s: "docker_StopInstance (si_daemon si) name w = (r1, w1)" by (rule prod.exhaust)
  then have "r1 = Inr ()" using ok(3)
    by (auto simp: docker_StopInstance_def tell_def andthen_def on_host_def stops_succeed_def
        split: prod.splits option.splits dest: spec [of _ name]) (metis fst_conv option.distinct(1))
  with stop_up [OF ok(1) s] have 1: "up w1 = up w - {name}" by auto
  have rest: "leaves up (andthen (andthen (ignore (RemoveTCPMSSRules (si_daemon si) port)) (\<lambda>_.
     ignore (on_host (remove_file (si_daemon si) (config_path si port))))) (\<lambda>_. end_drain (name, port, m)))"
    by (intro leaves_intros ok) (simp add: leaves_def end_drain_def up_def)
  have "drain_timeout si (name, port, m) w = andthen (andthen (ignore (RemoveTCPMSSRules (si_daemon si) port)) (\<lambda>_.
     ignore (on_host (remove_file (si_daemon si) (config_path si port))))) (\<lambda>_. end_drain (name, port, m)) w1"
    using s by (simp add: drain_timeout_def stopAndCleanContainer_def andthen_assoc)
      (simp add: andthen_def ignore_def attempt_def)
  with 1 rest show ?thesis by (simp add: leaves_def)
qed

text \<open>
  C27: a second reload while the first one's drain is pending makes the primary container the new one,
  although the pending drain is going to stop it: once both drains have ended, neither container of
  the instance runs.
\<close>

theorem overlapping_reloads_stop_the_engine:
  assumes ok: "docker_ok (si_daemon si)" "netfilter_ok (si_daemon si)" "stops_succeed (si_daemon si)"
    and list: "dk_list (si_daemon si) (w_host w) = Inr l"
    and i: "find_instance (w_db w) n = Some i" and p: "1 \<le> inst_Port i" "inst_Port i \<le> 55436"
    and pending: "(ContainerName i, p1, m1) \<in> set (w_drains w)"
    and up: "ContainerName i \<in> up w" "t \<in> set (swing_ports (inst_Port i))" "container_name t \<in> up w"
      "\<And>t'. t' \<in> set (swing_ports (inst_Port i)) \<Longrightarrow> container_name t' \<in> up w \<Longrightarrow> t' = t"
    and redirect: "redirect_rule (inst_Port i) t \<in> set (nat_rules w)"
    and run: "ReloadInstance si n w = (Inr (), w')"
  shows "EvRun (ContainerName i) \<in> set (w_events w') \<and>
    (\<exists>p2 m2. w_drains w' = w_drains w @ [(container_name t, p2, m2)] \<and>
     (let w1 = snd (drain_timeout si (ContainerName i, p1, m1) w');
          w2 = snd (drain_timeout si (container_name t, p2, m2) w1)
      in ContainerName i \<notin> up w2 \<and> container_name t \<notin> up w2))"
proof -
  obtain s i' names st dir w2 w3 w4 w5 x where
    "find_instance (w_db w) n = Some i'"
    and names: "(\<exists>e. dk_list (si_daemon si) (w_host w) = Inl e) \<and> names = [] \<or> set names = up w"
    and w2: "w_host w2 = w_host w" "w_drains w2 = w_drains w"
    and res: "resolveSwingRoutingState si i' names w2 = (Inr st, w3)"
    and tgt: "setupTargetRuntimeRules si s i' (ss_targetPort st) (ss_targetMetricsPort st) w3 = (Inr dir, w4)"
    and new: "RunInstance (si_daemon si) (run_opts si s (ss_targetContainerName st) (ss_targetPort st) dir) w4 = (Inr x, w5)"
    and drain: "startSwingDraining si i' st w5 = (Inr (), w')"
    by (rule reload_runE [OF ok(1,2) run])
  with i have i': "i' = i" by simp
  note res = res [unfolded i'] and tgt = tgt [unfolded i'] and drain = drain [unfolded i']
  have names: "set names = up w" using names list by simp
  have "find (\<lambda>port. container_name port \<in> set names) (swing_ports (inst_Port i)) \<noteq> None"
    using up(2,3) names by (auto simp: find_None_iff)
  then obtain y where y: "find (\<lambda>port. container_name port \<in> set names) (swing_ports (inst_Port i)) = Some y"
    by blast
  then have "y = t" using up(4) [of y] names find_SomeD [OF y] by simp
  with y have sw: "GetActiveSwingPortWithMap i names = (t, True)" by (simp add: GetActiveSwingPortWithMap_def)
  have q: "1 \<le> t" "t \<le> 65535" using up(2) p by (simp_all add: swing_ports_above)
  have "redirect_rule (inst_Port i) t \<in> set (nat_rules w2)" using redirect w2 by (simp add: nat_rules_def)
  then have st: "st = swing_roles i t (t + 100) True names"
    using res p q sw
    by (simp add: resolveSwingRoutingState_def Let_def andthen_def attempt_run has_redirect [OF ok(2)]
        when_do_def ignore_run split: prod.splits sum.splits if_splits)
  have "container_name t \<in> set names" using up(3) names by simp
  then have roles: "ss_drainingRunning st" "ss_drainingContainerName st = container_name t"
    by (simp_all add: st swing_roles_def Let_def)
  have "w_drains w5 = w_drains w"
    using leavesD [OF leaves_resolve(2) [OF ok(2)] res] leavesD [OF leaves_target_rules(3) tgt]
      leavesD [OF leaves_drains_docker(1) new] w2 by simp
  with start_draining(2) [OF ok(2) drain] roles have
    "w_drains w' = w_drains w @ [(container_name t, ss_drainingPort st, ss_drainingMetricsPort st)]" by simp
  moreover have "EvRun (ContainerName i) \<in> set (w_events w')"
    using run_instance_told [OF new] leavesD [OF leaves_events_draining drain]
    by (simp add: run_opts_def st swing_roles_def Let_def up(3) names)
  ultimately show ?thesis
    by (intro conjI exI [of _ "ss_drainingPort st"] exI [of _ "ss_drainingMetricsPort st"])
      (simp_all add: Let_def drain_timeout_down [OF ok])
qed

lemma high_port_fails:
  assumes "65535 < q"
  shows "\<exists>e. require (check_port p) (require (check_port q) m) v = (Inl e, v)"
proof -
  obtain e where "require (check_port q) m = throw e" using require_high_port [OF assms] by blast
  then show ?thesis by (cases "check_port p") (simp_all add: require_def)
qed

text \<open>
  C28: the redirect cannot lead to a port above 65535, and a reload ignores that it could not be added:
  for an instance above port 55535 it starts a container on a port that does not exist, leaves the
  packet filter as it was and drains the only container that can be reached.
\<close>

theorem reload_of_a_high_port:
  assumes ok: "docker_ok (si_daemon si)" "netfilter_ok (si_daemon si)"
    and list: "dk_list (si_daemon si) (w_host w) = Inr l"
    and i: "find_instance (w_db w) n = Some i" and p: "55535 < inst_Port i"
    and up: "ContainerName i \<in> up w"
    and run: "ReloadInstance si n w = (Inr (), w')"
  shows "\<exists>t m. 65535 < t \<and> up w' = insert (container_name t) (up w) \<and> nat_rules w' = nat_rules w \<and>
     w_drains w' = w_drains w @ [(ContainerName i, inst_Port i, m)]"
proof -
  obtain s i' names st dir w2 w3 w4 w5 x where
    "find_instance (w_db w) n = Some i'"
    and names: "(\<exists>e. dk_list (si_daemon si) (w_host w) = Inl e) \<and> names = [] \<or> set names = up w"
    and w2: "w_host w2 = w_host w" "w_drains w2 = w_drains w"
    and res: "resolveSwingRoutingState si i' names w2 = (Inr st, w3)"
    and tgt: "setupTargetRuntimeRules si s i' (ss_targetPort st) (ss_targetMetricsPort st) w3 = (Inr dir, w4)"
    and new: "RunInstance (si_daemon si) (run_opts si s (ss_targetContainerName st) (ss_targetPort st) dir) w4 = (Inr x, w5)"
    and drain: "startSwingDraining si i' st w5 = (Inr (), w')"
    by (rule reload_runE [OF ok run])
  with i have i': "i' = i" by simp
  note res = res [unfolded i'] and tgt = tgt [unfolded i'] and drain = drain [unfolded i']
  have "set names = up w" using names list by simp
  with up have in_names: "ContainerName i \<in> set names" by simp
  obtain tp tm r wa wb where tp: "tp \<in> set (swing_ports (inst_Port i))" and wa: "w_host wa = w_host w2"
    and has: "HasPortRedirect (si_daemon si) (inst_Port i) tp wa = (r, wb)"
    and st: "st = swing_roles i tp tm (r = Inr True \<or>
            container_name tp \<in> set names \<and> ContainerName i \<notin> set names) names"
    and rm: "when_do (\<not> ss_drainingRunning st)
        (ignore (RemovePortRedirect (si_daemon si) (inst_Port i) tp)) wb = (Inr (), w3)"
    by (rule resolve_runE [OF res])
  have high: "65535 < tp" using tp p by (simp add: swing_ports_above)
  have has': "\<exists>e. HasPortRedirect (si_daemon si) (inst_Port i) tp v = (Inl e, v)"
    and add: "\<exists>e. AddPortRedirect (si_daemon si) (inst_Port i) tp v = (Inl e, v)" for v
    unfolding HasPortRedirect_def AddPortRedirect_def by (rule high_port_fails [OF high])+
  from has' [of wa] has have r: "r \<noteq> Inr True" "wb = wa" by auto
  with in_names have roles: "ss_targetContainerName st = container_name tp" "ss_drainingContainerName st = ContainerName i"
     "ss_drainingPort st = inst_Port i" "ss_drainingRunning st" "\<not> ss_redirectActive st" "ss_tempPort st = tp"
    by (simp_all add: st swing_roles_def Let_def)
  have w3: "w3 = wb" using rm roles by (simp add: when_do_def)
  have drains: "w_drains w5 = w_drains w"
    using leavesD [OF leaves_resolve(2) [OF ok(2)] res] leavesD [OF leaves_target_rules(3) tgt]
      leavesD [OF leaves_drains_docker(1) new] w2 by simp
  have ups: "up w5 = insert (container_name tp) (up w)" "nat_rules w5 = nat_rules w"
    using leavesD [OF leaves_target_rules(1) [OF ok(2)] tgt] leavesD [OF leaves_target_rules(2) [OF ok(2)] tgt]
      run_instance_up [OF ok(1) new] w2 wa r w3 roles by (simp_all add: up_def nat_rules_def run_opts_def)
  from add [of w5] obtain e where "AddPortRedirect (si_daemon si) (inst_Port i) tp w5 = (Inl e, w5)" by blast
  with drain roles have "nat_rules w' = nat_rules w5"
    by (simp add: startSwingDraining_def andthen_def ignore_run add_drain_def) (auto simp: nat_rules_def)
  with start_draining [OF ok(2) drain] drains ups roles high show ?thesis
    by (intro exI [of _ tp] exI [of _ "ss_drainingMetricsPort st"]) simp
qed

subsection \<open>Stopping an instance\<close>

lemma running_map_ok:
  "si_docker si \<Longrightarrow> dk_list (si_daemon si) (w_host w) = Inr l \<Longrightarrow>
   running_map si w = (Inr (Some (map fst (filter (\<lambda>(_, b). b) l))), w)"
  by (simp add: running_map_def ListRunningContainerNames_def andthen_def attempt_def from_host_def)

lemma list_names:
  "docker_ok dk \<Longrightarrow> dk_list dk (w_host w) = Inr l \<Longrightarrow> set (map fst (filter (\<lambda>(_, b). b) l)) = up w"
  using list_running [of dk w] by (simp add: ListRunningContainerNames_def from_host_def)

lemma active_name_cong:
  assumes "set xs = set ys"
  shows "GetActiveSwingPortWithMap i xs = GetActiveSwingPortWithMap i ys"
    "GetActiveContainerNameWithMap i xs = GetActiveContainerNameWithMap i ys"
  using assms by (simp_all add: GetActiveContainerNameWithMap_def GetActiveSwingPortWithMap_def)

lemma stop_instance_up:
  assumes ok: "docker_ok (si_daemon si)" "netfilter_ok (si_daemon si)" "si_docker si"
    and list: "dk_list (si_daemon si) (w_host w) = Inr l"
    and i: "find_instance (w_db w) n = Some i"
    and run: "StopInstance si n w = (Inr (), w')"
  shows "up w' = up w - {GetActiveContainerNameWithMap i (running_names (w_host w))}"
proof -
  let ?names = "map fst (filter (\<lambda>(_, b). b) l)"
  from run ok(3) obtain i' w1 where "find_instance (w_db w) n = Some i'"
    and g: "InstanceStore_GetByID n w = (Inr (Some i'), w1)"
    and run1: "andthen (GetActiveSwingPort si i') (\<lambda>swing.
       andthen (GetActiveContainerName si i') (\<lambda>activeName.
       andthen (attempt (docker_StopInstance (si_daemon si) activeName)) (\<lambda>r.
       andthen (drop_redirect si i' swing) (\<lambda>_.
       andthen (cleanupInstanceRuntimeRules si i') (\<lambda>_.
       case r of Inl e \<Rightarrow> throw e | Inr _ \<Rightarrow> ret ()))))) w1 = (Inr (), w')"
    unfolding StopInstance_def need_docker_def by simp (rule with_instance_InrE)
  with i have i': "i' = i" by simp
  have w1: "w_host w1 = w_host w" using leavesD [OF leaves_store_reads(4) g] .
  note map = running_map_ok [OF ok(3), of w1 l]
  have names: "set ?names = set (running_names (w_host w))"
    using list_names [OF ok(1) list] by (simp add: up_def)
  define name where "name = GetActiveContainerNameWithMap i ?names"
  have name: "name = GetActiveContainerNameWithMap i (running_names (w_host w))"
    unfolding name_def using names by (rule active_name_cong)
  obtain r w2 where s: "docker_StopInstance (si_daemon si) name w1 = (r, w2)" by (rule prod.exhaust)
  from run1 map w1 list s have run2: "andthen (drop_redirect si i (GetActiveSwingPortWithMap i ?names)) (\<lambda>_.
       andthen (cleanupInstanceRuntimeRules si i) (\<lambda>_.
       case r of Inl e \<Rightarrow> throw e | Inr _ \<Rightarrow> ret ())) w2 = (Inr (), w')"
    by (simp add: i' GetActiveSwingPort_def GetActiveContainerName_def andthen_def attempt_def name_def)
  then have r: "r = Inr ()"
    by (cases r) (auto elim!: andthen_InrE)
  have "leaves up (drop_redirect si i sw)" "leaves up (cleanupInstanceRuntimeRules si i)" for sw
    unfolding drop_redirect_def cleanupInstanceRuntimeRules_def by (intro leaves_intros ok)+
  then have "leaves up (andthen (drop_redirect si i (GetActiveSwingPortWithMap i ?names)) (\<lambda>_.
       andthen (cleanupInstanceRuntimeRules si i) (\<lambda>_. case r of Inl e \<Rightarrow> throw e | Inr _ \<Rightarrow> ret ())))"
    by (intro leaves_intros)
  from leavesD [OF this run2] have "up w' = up w2" .
  with stop_up [OF ok(1) s] r w1 name show ?thesis by (auto simp: up_def)
qed

text \<open>
  C26: the name of a swing container is that of the primary container of an instance ten thousand ports
  above. Where there is one and it runs, stopping an instance stops the other instance's container and
  leaves its own running.
\<close>

theorem stop_instance_hits_neighbour:
  assumes ok: "docker_ok (si_daemon si)" "netfilter_ok (si_daemon si)" "si_docker si"
    and list: "dk_list (si_daemon si) (w_host w) = Inr l"
    and i: "find_instance (w_db w) n = Some i" and j: "find_instance (w_db w) k = Some j"
    and port: "inst_Port j = inst_Port i + 10000"
    and up: "ContainerName i \<in> up w" "ContainerName j \<in> up w"
    and run: "StopInstance si n w = (Inr (), w')"
  shows "ContainerName j \<notin> up w' \<and> ContainerName i \<in> up w'"
proof -
  have "swing_ports (inst_Port i) = inst_Port j # tl (swing_ports (inst_Port i))"
    unfolding swing_ports_def by (simp add: upt_conv_Cons port)
  moreover have "container_name (inst_Port j) \<in> set (running_names (w_host w))"
    using up(2) by (simp add: up_def)
  ultimately have "GetActiveSwingPortWithMap i (running_names (w_host w)) = (inst_Port j, True)"
    by (metis GetActiveSwingPortWithMap_def find.simps(2) option.simps(5))
  then have "GetActiveContainerNameWithMap i (running_names (w_host w)) = ContainerName j"
    by (simp add: GetActiveContainerNameWithMap_def)
  with stop_instance_up [OF ok list i run] up(1) port show ?thesis by simp
qed

subsection \<open>Writing a configuration and starting an instance\<close>

lemma on_host_run: "on_host F w = ((case fst (F (w_host w)) of None \<Rightarrow> Inr () | Some m \<Rightarrow> Inl (ErrDriver m)),
    w\<lparr>w_host := snd (F (w_host w))\<rparr>)"
  by (simp add: on_host_def split: prod.split option.split)

lemma files_run [simp]:
  "file_at p (snd (mkdir_all dk d h)) = file_at p h"
  "p \<noteq> q \<Longrightarrow> file_at p (snd (write_file dk q c h)) = file_at p h"
  "p \<noteq> q \<Longrightarrow> file_at p (snd (remove_file dk q h)) = file_at p h"
  "fst (write_file dk q c h) = None \<Longrightarrow> file_at q (snd (write_file dk q c h)) = Some c"
  by (auto simp: mkdir_all_def write_file_def remove_file_def Let_def file_at_def tick_def split: option.split)

lemma rename_run:
  assumes "p \<noteq> q" "file_at q h = Some c"
  shows "file_at p (snd (rename_file dk q p h)) = (if fst (rename_file dk q p h) = None then Some c else file_at p h)"
  using assms by (auto simp: rename_file_def file_at_def tick_def split: option.split prod.split)

lemma write_config_file:
  "file_at path (w_host (snd (WriteConfigTOML si cfg path w))) =
     (case fst (WriteConfigTOML si cfg path w) of
        Inl _ \<Rightarrow> file_at path (w_host w)
      | Inr _ \<Rightarrow> Some (renderTOML (si_printable si) (w_now w) cfg))"
proof -
  have ne: "path \<noteq> path @ ''.tmp''" by simp
  show ?thesis
    using ne
    by (simp add: WriteConfigTOML_def Let_def andthen_def wrap_def attempt_run on_host_run rename_run
        split: option.split)
qed

text \<open>
  C22: the configuration file of an instance is replaced as a whole or not at all: after an error at any
  step it has its old content (or is still missing), and after success exactly the new text.
\<close>

theorem config_write_is_atomic:
  "file_at path (w_host (snd (WriteConfigTOML si cfg path w))) =
     (case fst (WriteConfigTOML si cfg path w) of
        Inl _ \<Rightarrow> file_at path (w_host w)
      | Inr _ \<Rightarrow> Some (renderTOML (si_printable si) (w_now w) cfg))"
  by (rule write_config_file)

lemma run_instance_files:
  assumes ok: "docker_ok dk" and run: "RunInstance dk opts w = (Inr x, w')"
  shows "ho_files (w_host w') = ho_files (w_host w)"
proof -
  let ?n = "ro_Name opts" and ?h = "w_host w"
  obtain e1 h1 where rm: "dk_remove dk ?n ?h = (e1, h1)" by (rule prod.exhaust)
  obtain r2 h2 where cr: "dk_create dk ?n (instance_container dk opts) h1 = (r2, h2)" by (rule prod.exhaust)
  from run rm cr obtain i where r2: "r2 = Inr i"
    by (cases r2) (auto simp: RunInstance_def tell_def andthen_def attempt_run on_host_run from_host_def wrap_def)
  obtain e3 h3 where st: "dk_start dk i h2 = (e3, h3)" by (rule prod.exhaust)
  have "w_host w' = h3"
    using run rm cr r2 st
    by (auto simp: RunInstance_def tell_def andthen_def attempt_run on_host_run from_host_def wrap_def split: option.splits)
  with docker_remove [OF ok rm] docker_create [OF ok cr] docker_start [OF ok cr [unfolded r2] st] show ?thesis by simp
qed

lemma row_values:
  "SettingsStore_Load w = (Inr s, w') \<Longrightarrow> s = settings_of (rev (t_settings (w_db w))) \<and> w_db w' = w_db w"
  "SecretStore_List w = (Inr ss, w') \<Longrightarrow> ss = map (scan_secret (w_db w)) (secrets_by_id (w_db w)) \<and> w_db w' = w_db w"
  "listUpstreamEntries w = (Inr us, w') \<Longrightarrow> us = map upstream_entry_of (sort_key up_ID (t_upstreams (w_db w))) \<and> w_db w' = w_db w"
proof -
  have rows: "rs = g (w_db w) \<and> w_db w' = w_db w" if "sql_rows wr (\<lambda>d. Inr (g d)) w = (Inr rs, w')"
    for wr :: "stage \<Rightarrow> error \<Rightarrow> error" and g :: "db \<Rightarrow> 'r list" and rs w'
    using that by (auto simp: sql_rows_def split: prod.splits option.splits fault.splits if_splits dest: pop_fault_same)
  show "SettingsStore_Load w = (Inr s, w') \<Longrightarrow> s = settings_of (rev (t_settings (w_db w))) \<and> w_db w' = w_db w"
    by (auto simp: SettingsStore_Load_def elim!: andthen_InrE dest!: rows)
  show "SecretStore_List w = (Inr ss, w') \<Longrightarrow> ss = map (scan_secret (w_db w)) (secrets_by_id (w_db w)) \<and> w_db w' = w_db w"
    unfolding SecretStore_List_def by (rule rows)
  show "listUpstreamEntries w = (Inr us, w') \<Longrightarrow> us = map upstream_entry_of (sort_key up_ID (t_upstreams (w_db w))) \<and> w_db w' = w_db w"
    by (auto simp: listUpstreamEntries_def UpstreamStore_List_def queryUpstreams_def elim!: andthen_InrE dest!: rows)
qed

text \<open>The configuration of an instance with the tables as they are.\<close>

definition current_config :: "site \<Rightarrow> db \<Rightarrow> inst \<Rightarrow> telemt_config" where
  "current_config si d i = BuildInstanceConfig (instance_params_of si (settings_of (rev (t_settings d))) i
     (map upstream_entry_of (sort_key up_ID (t_upstreams d))) (map (scan_secret d) (secrets_by_id d)))"

lemma generated_file:
  assumes "generateInstanceConfig si (settings_of (rev (t_settings (w_db w)))) i w = (Inr (), w')"
  shows "\<exists>now. file_at (ConfigPath si i) (w_host w') = Some (renderTOML (si_printable si) now (current_config si (w_db w) i))"
proof -
  from assms obtain us w1 ss w2 where u: "listUpstreamEntries w = (Inr us, w1)" and s: "SecretStore_List w1 = (Inr ss, w2)"
    and wr: "WriteConfigTOML si (BuildInstanceConfig (instance_params_of si (settings_of (rev (t_settings (w_db w)))) i us ss))
       (ConfigPath si i) w2 = (Inr (), w')"
    unfolding generateInstanceConfig_def generateInstanceConfigWith_def generateInstanceConfigWithCached_def
    by (auto elim!: andthen_InrE)
  from row_values(3) [OF u] row_values(2) [OF s] have
    "BuildInstanceConfig (instance_params_of si (settings_of (rev (t_settings (w_db w)))) i us ss) = current_config si (w_db w) i"
    by (simp add: current_config_def)
  with write_config_file [of "ConfigPath si i" si "current_config si (w_db w) i" w2] wr show ?thesis by auto
qed

lemma reads_rules [intro]:
  "reads (cleanStalePortRedirects si p)" "reads (applyInstanceRuntimeRules si i)" "reads (InstanceStore_GetByID n)"
proof -
  have r: "reads m = leaves w_db m" for m :: "'a io" by (simp add: reads_def leaves_def)
  have h: "leaves w_db (on_host F)" "leaves w_db (from_host G)" for F and G :: "host \<Rightarrow> (string + 'a) \<times> host"
    using host_reads by (simp_all add: reads_def leaves_def)
  have h': "leaves w_db (from_host G)" for G :: "host \<Rightarrow> (string + int \<times> string) \<times> host"
    using host_reads by (simp add: reads_def leaves_def)
  have s: "leaves w_db (from_host G)" for G :: "host \<Rightarrow> (string + string) \<times> host"
    using host_reads by (simp add: reads_def leaves_def)
  have d: "leaves w_db (succeeds dk argv)" "leaves w_db (delete_lines dk pre marker out)" for dk argv pre marker out
    unfolding succeeds_def delete_lines_def runCmd_def by (intro leaves_intros h)+
  show "reads (cleanStalePortRedirects si p)"
    unfolding cleanStalePortRedirects_def Let_def HasPortRedirect_def RemovePortRedirect_def runCmd_def
      reads_def leaves_def [symmetric]
    by (intro leaves_intros h d)
  have "leaves w_db (RemoveTCPMSSRules dk q)" "leaves w_db (SetTCPMSSRule dk q m)" for dk q m
    unfolding RemoveTCPMSSRules_def SetTCPMSSRule_def runCmd_def runCmdOutput_def by (intro leaves_intros h s d)+
  moreover have "leaves w_db (fronting_dir si i)"
    unfolding fronting_dir_def downloadFrontingContent_def Let_def by (intro leaves_intros h h')
  ultimately show "reads (applyInstanceRuntimeRules si i)"
    unfolding applyInstanceRuntimeRules_def applyTCPMSSRules_def reads_def leaves_def [symmetric]
    by (intro leaves_intros)
qed simp

lemma leaves_clean_redirects [leaves_intros]:
  "netfilter_ok (si_daemon si) \<Longrightarrow> leaves up (cleanStalePortRedirects si p)"
  unfolding cleanStalePortRedirects_def Let_def by (intro leaves_intros)

lemma leaves_apply_rules [leaves_intros]:
  "netfilter_ok (si_daemon si) \<Longrightarrow> leaves up (applyInstanceRuntimeRules si i)"
  unfolding applyInstanceRuntimeRules_def applyTCPMSSRules_def by (intro leaves_intros)

lemma matching_count:
  assumes "matchingSecretCount tags w = (Inr c, w')"
  shows "c = int (length (filter (\<lambda>sec. sec_Enabled sec \<and> TagsMatch tags (Secret_GetTags sec))
      (map (scan_secret (w_db w)) (secrets_by_id (w_db w)))))" "w_db w' = w_db w" "w_host w' = w_host w"
proof -
  from assms obtain ss where l: "SecretStore_List w = (Inr ss, w')"
    and c: "c = int (length (filter (\<lambda>sec. sec_Enabled sec \<and> TagsMatch tags (Secret_GetTags sec)) ss))"
    unfolding matchingSecretCount_def by (auto elim!: andthen_InrE)
  from row_values(2) [OF l] c leavesD [OF leaves_store_reads(2) l]
  show "c = int (length (filter (\<lambda>sec. sec_Enabled sec \<and> TagsMatch tags (Secret_GetTags sec))
      (map (scan_secret (w_db w)) (secrets_by_id (w_db w)))))" "w_db w' = w_db w" "w_host w' = w_host w" by auto
qed


end
