(* ===== verification/Instance_Properties.thy ===== *)
theory Instance_Properties
  imports Instance_Handler Container_Properties Upstream_Service_Laws
begin

text \<open>
  What the endpoint of the instances promises: the table of instances stays legal and is never empty;
  the search for a port ends when there is one above the ports in use, and does not end at the last
  port; and what it leaves running, a removed instance's container, or stops, a refused update's.
\<close>

subsection \<open>The loop that looks for a port\<close>

lemma port_loop_finds:
  assumes "good p" "0 \<le> next" "next \<le> p" "p \<le> 65535" "nat (p - next) < n"
  shows "\<exists>q. port_loop n good next = Some q \<and> next \<le> q \<and> q \<le> p \<and> good q \<and> (\<forall>r. next \<le> r \<and> r < q \<longrightarrow> \<not> good r)"
  using assms
proof (induction n arbitrary: "next")
  case (Suc n)
  show ?case
  proof (cases "good next")
    case True
    with Suc.prems show ?thesis by auto
  next
    case False
    then have lt: "next < p" using Suc.prems by (metis order_le_less)
    have id: "int64 (next + 1) = next + 1" using lt Suc.prems by (intro int64_id) (simp add: in_int64_def)
    obtain q where q: "port_loop n good (next + 1) = Some q" "next + 1 \<le> q" "q \<le> p" "good q"
      "\<forall>r. next + 1 \<le> r \<and> r < q \<longrightarrow> \<not> good r"
      using Suc.IH [of "next + 1"] Suc.prems lt by (auto simp: nat_less_iff)
    have "\<forall>r. next \<le> r \<and> r < q \<longrightarrow> \<not> good r"
    proof (intro allI impI)
      fix r assume "next \<le> r \<and> r < q"
      then show "\<not> good r" using q(5) False by (cases "r = next") auto
    qed
    with q False id show ?thesis by auto
  qed
qed simp

lemma port_loop_never:
  assumes "\<forall>p \<ge> next. \<not> good p" "0 \<le> next" "next + int n < 2 ^ 63"
  shows "port_loop n good next = None"
  using assms
proof (induction n arbitrary: "next")
  case (Suc n)
  have "int64 (next + 1) = next + 1" using Suc.prems by (intro int64_id) (simp add: in_int64_def)
  with Suc show ?case by simp
qed simp

lemma fold_max_ge:
  fixes f :: "'r \<Rightarrow> int"
  shows "a \<le> fold (\<lambda>i m. if m < f i then f i else m) xs a"
proof (induction xs arbitrary: a)
  case (Cons x xs)
  let ?g = "\<lambda>i m. if m < f i then f i else m"
  have "a \<le> ?g x a" by simp
  also have "\<dots> \<le> fold ?g xs (?g x a)" by (rule Cons.IH)
  finally show ?case by simp
qed simp

lemma fold_max:
  fixes f :: "'r \<Rightarrow> int"
  shows "i \<in> set xs \<Longrightarrow> f i \<le> fold (\<lambda>i m. if m < f i then f i else m) xs a"
    "fold (\<lambda>i m. if m < f i then f i else m) xs a \<in> insert a (f ` set xs)"
proof -
  let ?g = "\<lambda>i m. if m < f i then f i else m"
  show "i \<in> set xs \<Longrightarrow> f i \<le> fold ?g xs a"
  proof (induction xs arbitrary: a)
    case (Cons x xs)
    show ?case
    proof (cases "i \<in> set xs")
      case True
      with Cons.IH [of "?g x a"] show ?thesis by simp
    next
      case False
      with Cons.prems have "f i \<le> ?g x a" by auto
      also have "\<dots> \<le> fold ?g xs (?g x a)"
        by (rule fold_max_ge)
      finally show ?thesis by simp
    qed
  qed simp
  show "fold (\<lambda>i m. if m < f i then f i else m) xs a \<in> insert a (f ` set xs)"
    by (induction xs arbitrary: a) auto
qed

lemma instances_listed:
  assumes "InstanceStore_List w = (Inr insts, w')"
  shows "set insts = set (t_instances (w_db w))" "w_db w' = w_db w" "w_host w' = w_host w"
proof -
  have v: "insts = instances_by_port (w_db w)"
    using sql_rows_value assms unfolding InstanceStore_List_def by fastforce
  then show "set insts = set (t_instances (w_db w))" by (simp add: instances_by_port_def)
  show "w_db w' = w_db w" by (rule readsD [OF instance_reads(1) assms])
  show "w_host w' = w_host w" using leavesD [OF leaves_sql(1)] assms unfolding InstanceStore_List_def by blast
qed

lemma search_run:
  "search_port ih taken next w =
     (Inr (port_loop (ih_tries ih) (\<lambda>p. \<not> taken p \<and> tcp_free (si_daemon (ih_site ih)) p (w_host w)) next), w)"
  by (simp add: search_port_def from_host_def)


text \<open>
  C38: no program can listen on a port above 65535. When an instance has the metrics port 65535, a
  request to add an instance without a metrics port is never answered: the loop tests port after port
  above the last one.
\<close>

theorem add_after_the_last_port_hangs:
  assumes "w_faults w = []" "i \<in> set (t_instances (w_db w))" "inst_MetricsPort i = 65535"
    and "\<forall>j \<in> set (t_instances (w_db w)). inst_MetricsPort j \<le> 65535"
    and "\<forall>p > 65535. \<not> tcp_free (si_daemon (ih_site ih)) p (w_host w)"
    and "add_request_ok (ih_letter ih) q" "validateAddRequest q = None" "ar_MetricsPort q = 0"
    and "ih_tries ih \<le> 2 ^ 62"
  shows "Instance_Add ih q w = (Inr None, w)"
proof -
  let ?is = "instances_by_port (w_db w)"
  have set: "set ?is = set (t_instances (w_db w))" by (simp add: instances_by_port_def)
  have list: "InstanceStore_List w = (Inr ?is, w)"
    using assms(1) by (simp add: InstanceStore_List_def sql_rows_ok)
  let ?m = "fold (\<lambda>i m. if m < inst_MetricsPort i then inst_MetricsPort i else m) ?is 0"
  have "?m = 65535"
  proof (rule antisym)
    show "?m \<le> 65535" using fold_max(2) [of inst_MetricsPort ?is 0] set assms(4) by auto
    show "65535 \<le> ?m" using fold_max(1) [of i ?is inst_MetricsPort 0] set assms(2,3) by simp
  qed
  then have first: "first_metrics_port ?is = 65536"
    by (simp add: first_metrics_port_def Let_def int64_def)
  have ne: "?is \<noteq> []" using set assms(2) by force
  let ?good = "\<lambda>p. \<not> list_ex (\<lambda>i. inst_MetricsPort i = p \<or> inst_Port i = p) ?is \<and>
    tcp_free (si_daemon (ih_site ih)) p (w_host w)"
  have "port_loop (ih_tries ih) ?good 65536 = None"
    by (rule port_loop_never) (use assms(5,9) in auto)
  then have "nextMetricsPort ih w = (Inr None, w)"
    using ne list first by (simp add: nextMetricsPort_def andthen_def attempt_def search_run)
  then show ?thesis
    using assms(6-8)
    by (simp add: Instance_Add_def Let_def with_port_found_def or_port_def andthen_def buildInstanceFromRequest_def)
qed


subsection \<open>Updates that are refused\<close>

lemma leaves_db: "leaves w_db m = reads m"
  by (simp add: leaves_def reads_def)

lemma leaves_db_host [leaves_intros]: "leaves w_db (on_host F)" "leaves w_db (from_host G)"
  using host_reads unfolding leaves_db by blast+

lemma leaves_db_reads [leaves_intros]:
  "leaves w_db (InstanceStore_GetByID n)" "leaves w_db InstanceStore_List" "leaves w_db SecretStore_List" "leaves w_db (tell e)"
  "leaves w_db SettingsStore_Load"
  "leaves w_db (sql_rows wr f)" "leaves w_db (sql_row wr1 g)"
  unfolding leaves_db using secret_reads settings_reads by auto

lemma leaves_db_docker [leaves_intros]:
  "leaves w_db (docker_StopInstance dk name)" "leaves w_db (running_map si)" "leaves w_db (is_running si name)"
  "leaves w_db (RemoveTCPMSSRules dk q)" "leaves w_db (SetTCPMSSRule dk q m)" "leaves w_db (RemovePortRedirect dk q q')"
  unfolding docker_StopInstance_def running_map_def is_running_def IsInstanceRunning_def ListRunningContainerNames_def
    RemoveTCPMSSRules_def SetTCPMSSRule_def RemovePortRedirect_def runCmd_def runCmdOutput_def succeeds_def delete_lines_def
    Let_def
  by (intro leaves_intros)+

lemma leaves_db_stop [leaves_intros]: "leaves w_db (StopInstance si n)"
  unfolding StopInstance_def need_docker_def with_instance_def must_exist_def GetActiveSwingPort_def
    GetActiveContainerName_def drop_redirect_def cleanupInstanceRuntimeRules_def
  by (intro leaves_intros)

lemma leaves_db_after_save [leaves_intros]:
  "leaves w_db (RevalidateInstance si n)" "leaves w_db (ReconcileInstanceRules si n)" "leaves w_db (ResolveActivePorts si i)"
  unfolding RevalidateInstance_def ReconcileInstanceRules_def ResolveActivePorts_def GetActiveSwingPort_def
    GetActiveContainerName_def stop_unmatched_def drop_redirect_def notify_stopped_def buildSecretCounts_def
    applyTCPMSSRules_def
  by (intro leaves_intros)+

text \<open>
  C39: an update that switches an enabled instance off and also gives tags that are refused is answered
  with 400 and stores nothing, so the instance is still enabled; its container has been stopped
  all the same.
\<close>

theorem refused_update_stops_the_engine:
  assumes ok: "docker_ok (si_daemon (ih_site ih))" "netfilter_ok (si_daemon (ih_site ih))" "si_docker (ih_site ih)"
    and list: "dk_list (si_daemon (ih_site ih)) (w_host w) = Inr l"
    and i: "find_instance (w_db w) n = Some i" "inst_Enabled i" and w: "w_faults w = []"
    and param: "atoi param = Some n" and c: "ih_container ih"
    and q: "update_request_ok (ih_letter ih) q" "ur_Enabled q = Some False"
      "given validateTLSDomainsField (ur_TLSDomains q)" "ur_Tags q = Some t" "validateTagsField t = Some e"
    and stop: "StopInstance (ih_site ih) n w = (Inr (), w')"
  shows "Instance_Update ih param q w = (Inr (Some (IRefused 400 (RTags e))), w') \<and> w_db w' = w_db w \<and>
    up w' = up w - {GetActiveContainerNameWithMap i (running_names (w_host w))}"
proof -
  have n: "inst_ID i = n" using find_SomeD [OF i(1) [unfolded find_instance_def]] by simp
  have get: "getInstanceForUpdate param w = (Inr (Inr i), w)"
    using param i(1) w by (simp add: getInstanceForUpdate_def andthen_def attempt_def InstanceStore_GetByID_def sql_row_ok)
  have set: "inst_Enabled (set_given (ur_Label q) (\<lambda>x i. i\<lparr>inst_Label := x\<rparr>)
      (set_given (ur_MetricsPort q) (\<lambda>x i. i\<lparr>inst_MetricsPort := x\<rparr>) (set_given (ur_Port q) (\<lambda>x i. i\<lparr>inst_Port := x\<rparr>) i)))"
    "inst_ID (set_given (ur_Label q) (\<lambda>x i. i\<lparr>inst_Label := x\<rparr>)
      (set_given (ur_MetricsPort q) (\<lambda>x i. i\<lparr>inst_MetricsPort := x\<rparr>) (set_given (ur_Port q) (\<lambda>x i. i\<lparr>inst_Port := x\<rparr>) i))) = n"
    using i(2) n by (simp_all add: set_given_def split: option.split)
  have safe: "stopInstanceSafe ih n w = (Inr (), w')"
    using c stop by (simp add: stopInstanceSafe_def ignore_run)
  have simple: "applySimpleFields j q = Inl (RTags e)" for j
    using q(4,5) by (simp add: applySimpleFields_def Let_def)
  have "applyInstanceUpdates ih i q w = (Inr (Inl (RTags e)), w')"
    using q(2,3) set safe simple by (simp add: applyInstanceUpdates_def Let_def when_do_def andthen_def)
  with get q(1) have "Instance_Update ih param q w = (Inr (Some (IRefused 400 (RTags e))), w')"
    by (simp add: Instance_Update_def andthen_def)
  moreover have "w_db w' = w_db w" by (rule leavesD [OF leaves_db_stop stop])
  moreover have "up w' = up w - {GetActiveContainerNameWithMap i (running_names (w_host w))}"
    by (rule stop_instance_up [OF ok list i(1) stop])
  ultimately show ?thesis by blast
qed

subsection \<open>Removing\<close>

lemma leaves_host_audit [leaves_intros]: "leaves w_host (auditLog b u a d)"
  unfolding auditLog_def AuditStore_Insert_def by (intro leaves_intros leaves_sql)

lemma leaves_host_remove: "leaves w_host (Instance_Remove ih param)"
proof -
  have m: "leaves w_host InstanceStore_Count" "leaves w_host (InstanceStore_DeleteByID n)"
    "leaves w_host (InstanceStore_GetByID n)" "leaves w_host (InstanceStore_GetByPort n)" for n
    unfolding InstanceStore_Count_def InstanceStore_DeleteByID_def InstanceStore_GetByID_def InstanceStore_GetByPort_def
    by (intro leaves_intros leaves_sql)+
  show ?thesis
    unfolding Instance_Remove_def instance_to_remove_def
    by (auto split: sum.split option.split intro!: leaves_intros m)
qed

lemma keeps_audit: "(\<And>d x y. P d \<Longrightarrow> P (d\<lparr>t_audit_log := x, t_audit_seq := y\<rparr>)) \<Longrightarrow> keeps P (auditLog b u a d)"
  unfolding auditLog_def AuditStore_Insert_def by (auto intro!: keeps_intros keeps_sql_exec simp: Let_def)

text \<open>A removal that succeeded: what it read, and what it wrote.\<close>

lemma RemoveE:
  assumes run: "Instance_Remove ih param w = (Inr IOk, w')" and param: "atoi param = Some n"
  obtains i where "find_instance (w_db w) n = Some i" "1 < length (t_instances (w_db w))"
    "t_instances (w_db w') = delete_where (\<lambda>r. inst_ID r = n) (t_instances (w_db w))"
    "t_instances_seq (w_db w') = t_instances_seq (w_db w)"
proof -
  obtain r w1 where g: "InstanceStore_GetByID n w = (r, w1)" by (rule prod.exhaust)
  have d1: "w_db w1 = w_db w" using g by (rule readsD [OF instance_reads(2)])
  from run param g obtain i where r: "r = Inr (Some i)"
    by (cases r) (auto simp: Instance_Remove_def instance_to_remove_def andthen_def attempt_def split: option.splits)
  have i: "find_instance (w_db w) n = Some i" using instances_by_id.get_view g r by fastforce
  have n: "inst_ID i = n" using find_SomeD [OF i [unfolded find_instance_def]] by simp
  obtain c w2 where cnt: "InstanceStore_Count w1 = (c, w2)" by (rule prod.exhaust)
  have got: "attempt (InstanceStore_GetByID n) w = (Inr (Inr (Some i)), w1)" using g r by (simp add: attempt_def)
  have counted: "attempt InstanceStore_Count w1 = (Inr c, w2)" using cnt by (simp add: attempt_def)
  have go: "andthen (attempt (InstanceStore_GetByID n)) k w = k (Inr (Some i)) w1"
    "andthen (attempt InstanceStore_Count) k' w1 = k' c w2" for k :: "error + inst option \<Rightarrow> inst_answer io" and k' :: "error + int \<Rightarrow> inst_answer io"
    using got counted by (simp_all add: andthen_Inr)
  have d2: "w_db w2 = w_db w1" using cnt by (rule readsD [OF instance_reads(5)])
  from run param g r cnt obtain count where c: "c = Inr count" "1 < count"
    and run2: "andthen (attempt (InstanceStore_DeleteByID n)) (\<lambda>d.
      case d of
        Inl _ \<Rightarrow> ret (IRefused 500 RInternal)
      | Inr _ \<Rightarrow>
          andthen (auditLog (ih_audit ih) (ih_user ih) ''instance.delete''
            (''id='' @ show_int n @ '' label='' @ inst_Label i @ '' port='' @ show_int (inst_Port i)))
          (\<lambda>_. ret IOk)) w2 = (Inr IOk, w')"
    by (cases c) (auto simp: Instance_Remove_def instance_to_remove_def n go
        split: if_splits)
  have count: "count = int (length (t_instances (w_db w)))"
    using cnt c(1) d1 by (auto simp: InstanceStore_Count_def sql_row_def elim!: andthen_InrE
        split: prod.splits option.splits dest!: pop_fault_same)
  obtain u w3 where del: "InstanceStore_DeleteByID n w2 = (u, w3)" by (rule prod.exhaust)
  from run2 del obtain x where u: "u = Inr x" and aud: "andthen (auditLog (ih_audit ih) (ih_user ih) ''instance.delete''
            (''id='' @ show_int n @ '' label='' @ inst_Label i @ '' port='' @ show_int (inst_Port i)))
          (\<lambda>_. ret IOk) w3 = (Inr IOk, w')"
    by (cases u) (auto simp: andthen_def attempt_def)
  have d3: "t_instances (w_db w3) = delete_where (\<lambda>r. inst_ID r = n) (t_instances (w_db w2))"
    "t_instances_seq (w_db w3) = t_instances_seq (w_db w2)"
    using del u by (auto simp: InstanceStore_DeleteByID_def wrap_Inr sql_exec_def split: prod.splits option.splits
        dest!: pop_fault_same)
  have "keeps (\<lambda>d. t_instances d = t_instances (w_db w3) \<and> t_instances_seq d = t_instances_seq (w_db w3))
      (andthen (auditLog b u a t) (\<lambda>_. ret IOk))" for b u a t
    by (intro keeps_intros keeps_audit) auto
  from keepsD' [OF this aud] d1 d2 d3 have "t_instances (w_db w') = delete_where (\<lambda>r. inst_ID r = n) (t_instances (w_db w))"
    "t_instances_seq (w_db w') = t_instances_seq (w_db w)" by auto
  then show thesis using i c(2) count by (intro that) auto
qed

text \<open>
  C40: the removal of an instance touches nothing on the host. Once it has succeeded, the container runs
  on as before, and stopping the instance is an error that stops nothing.
\<close>

theorem removed_instance_keeps_running:
  assumes "Instance_Remove ih param w = (Inr IOk, w')" "atoi param = Some n" "w_faults w' = []"
  shows "w_host w' = w_host w \<and> (\<exists>e. StopInstance si n w' = (Inl e, w'))"
proof
  show "w_host w' = w_host w" by (rule leavesD [OF leaves_host_remove assms(1)])
  from assms(1,2) obtain i where "t_instances (w_db w') = delete_where (\<lambda>r. inst_ID r = n) (t_instances (w_db w))"
    by (rule RemoveE)
  then have "find_instance (w_db w') n = None" by (simp add: find_instance_def find_None_iff)
  then show "\<exists>e. StopInstance si n w' = (Inl e, w')"
    using instances_by_id.missing_error [OF assms(3)]
    by (auto simp: StopInstance_def need_docker_def with_instance_def)
qed


subsection \<open>The table of instances\<close>

definition legal_rows :: "db \<Rightarrow> bool" where
  "legal_rows d \<longleftrightarrow>
     t_instances d \<noteq> [] \<and> (\<forall>i \<in> set (t_instances d). valid_instance i \<and> inst_MetricsPort i \<noteq> inst_Port i)"

definition legal_instances :: "db \<Rightarrow> bool" where
  "legal_instances d \<longleftrightarrow> instances_wf d \<and> legal_rows d"

lemma keeps_legal: "keeps instances_wf m \<Longrightarrow> keeps legal_rows m \<Longrightarrow> keeps legal_instances m"
  by (simp add: keeps_def legal_instances_def)

lemma legal_other [simp]:
  "legal_instances (d\<lparr>t_audit_log := x, t_audit_seq := y\<rparr>) = legal_instances d"
  by (simp add: legal_instances_def legal_rows_def instances_wf_def)

lemma valid_id [simp]: "valid_instance (i\<lparr>inst_ID := n\<rparr>) = valid_instance i"
  by (simp add: valid_instance_def)

lemma validated:
  assumes "Instance_Validate i = (None, j)"
  shows "valid_instance j" "inst_MetricsPort j = inst_MetricsPort i" "inst_Port j = inst_Port i" "inst_ID j = inst_ID i"
  using assms by (auto simp: Validate_accepts fill_defaults_def)

lemma Create_legal:
  assumes "valid_instance i" "inst_MetricsPort i \<noteq> inst_Port i"
  shows "keeps legal_instances (InstanceStore_Create i)"
proof (rule keeps_legal [OF instance_Create_keeps])
  show "keeps legal_rows (InstanceStore_Create i)"
    unfolding InstanceStore_Create_def
    by (rule keeps_wrap, rule keeps_sql_exec) (use assms in \<open>auto simp: Let_def legal_rows_def split: option.splits\<close>)
qed

lemma Update_legal:
  assumes "valid_instance i" "inst_MetricsPort i \<noteq> inst_Port i"
  shows "keeps legal_instances (InstanceStore_Update i)"
proof (rule keeps_legal [OF instance_Update_keeps])
  show "keeps legal_rows (InstanceStore_Update i)"
    unfolding InstanceStore_Update_def
    by (rule keeps_wrap, rule keeps_sql_exec)
      (use assms in \<open>auto simp: Let_def legal_rows_def set_update_where update_where_def split: option.splits\<close>)
qed

lemma audit_legal: "keeps legal_instances (auditLog b u a t)"
  by (rule keeps_audit) simp

lemma reads_legal: "leaves w_db m \<Longrightarrow> keeps legal_instances m"
  by (simp add: leaves_db reads_keeps)

lemma search_legal: "keeps legal_instances (search_port ih taken next)"
  unfolding search_port_def by (intro reads_legal leaves_intros)

lemma next_port_legal: "keeps legal_instances (nextMetricsPort ih)" "keeps legal_instances (nextAPIPort ih)"
  unfolding nextMetricsPort_def nextAPIPort_def by (intro keeps_intros search_legal)+

lemma with_port_legal:
  "keeps legal_instances m \<Longrightarrow> (\<And>p. keeps legal_instances (k p)) \<Longrightarrow> keeps legal_instances (with_port_found (or_port n m) k)"
  unfolding with_port_found_def or_port_def by (intro keeps_intros)

lemma Add_legal: "keeps legal_instances (Instance_Add ih q)"
proof -
  have "keeps legal_instances (create_instance ih q i)" if "inst_MetricsPort i \<noteq> inst_Port i" for i
  proof (cases "Instance_Validate i")
    case (Pair e j)
    show ?thesis
    proof (cases e)
      case None
      with Pair have j: "Instance_Validate i = (None, j)" by simp
      note v = validated [OF j]
      have "keeps legal_instances (InstanceStore_Create j)" by (rule Create_legal) (use v that in simp_all)
      then show ?thesis unfolding create_instance_def j by simp (intro keeps_intros audit_legal)
    qed (simp add: Pair create_instance_def keeps_ret)
  qed
  then have last: "keeps legal_instances (if inst_MetricsPort i = inst_Port i then ret (Some (IRefused 400 RMetricsIsPort))
      else with_port_found (or_port (inst_APIPort i) (nextAPIPort ih)) (\<lambda>ap.
        andthen (create_instance ih q (i\<lparr>inst_APIPort := ap\<rparr>)) (\<lambda>a. ret (Some a))))" for i
    by (cases "inst_MetricsPort i = inst_Port i") (auto intro!: keeps_intros with_port_legal next_port_legal)
  show ?thesis
    unfolding Instance_Add_def Let_def
    by (rule keeps_if [OF keeps_ret keeps_option [OF with_port_legal [OF next_port_legal(1) last] keeps_ret]])
qed

lemma save_legal: "keeps legal_instances (save_instance ih n i)"
proof (cases "Instance_Validate i")
  case (Pair e j)
  show ?thesis
  proof (cases "e = None \<and> inst_MetricsPort i \<noteq> inst_Port i")
    case True
    with Pair have j: "Instance_Validate i = (None, j)" by simp
    note v = validated [OF j]
    have up: "keeps legal_instances (InstanceStore_Update j)" by (rule Update_legal) (use v True in simp_all)
    have "keeps legal_instances (after_save ih j)"
      unfolding after_save_def by (intro keeps_intros reads_legal leaves_intros)
    with up show ?thesis unfolding save_instance_def j by (simp add: True) (intro keeps_intros audit_legal)
  next
    case False
    then show ?thesis by (cases e) (auto simp: Pair save_instance_def keeps_ret)
  qed
qed

lemma Update_request_legal: "keeps legal_instances (Instance_Update ih param q)"
proof -
  have a: "keeps legal_instances (applyInstanceUpdates ih i q)" for i
    unfolding applyInstanceUpdates_def Let_def stopInstanceSafe_def when_do_def
    by (intro keeps_intros reads_legal leaves_intros)
  have g: "keeps legal_instances (getInstanceForUpdate param)"
    unfolding getInstanceForUpdate_def by (intro keeps_intros)
  show ?thesis
    unfolding Instance_Update_def validateAndSaveInstance_def
    by (intro keeps_intros g) (auto intro!: keeps_intros a with_port_legal next_port_legal save_legal split: sum.split)
qed

lemma delete_one_left:
  assumes "distinct (map k rs)" "1 < length rs"
  shows "delete_where (\<lambda>r. k r = x) rs \<noteq> []"
proof
  assume "delete_where (\<lambda>r. k r = x) rs = []"
  then have "filter (\<lambda>r. k r = x) rs = rs" by (simp add: delete_where_def filter_empty_conv filter_id_conv)
  with count_where_key_le_1 [OF assms(1), of x] assms(2) show False by (simp add: count_where_def)
qed

lemma Remove_legal: "keeps legal_instances (Instance_Remove ih param)"
proof -
  have del: "hoare (\<lambda>d. legal_instances d \<and> 1 < length (t_instances d)) (InstanceStore_DeleteByID n)
      (\<lambda>_. legal_instances) legal_instances" for n
    unfolding InstanceStore_DeleteByID_def
    by (rule hoare_wrap, rule hoare_sql_exec)
      (auto simp: legal_instances_def legal_rows_def instances_wf_def distinct_map_delete_where delete_one_left)
  have cnt: "x = int (length (t_instances (w_db w)))" if "attempt InstanceStore_Count w = (Inr (Inr x), w')" for x w w'
    using that
    by (auto simp: attempt_def InstanceStore_Count_def sql_row_def elim!: andthen_InrE
        split: prod.splits option.splits dest!: pop_fault_same)
  have step: "hoare legal_instances (andthen (attempt InstanceStore_Count) (\<lambda>c.
      case c of Inl _ \<Rightarrow> ret (IRefused 500 RInternal)
      | Inr count \<Rightarrow>
          if count \<le> 1 then ret (IRefused 400 RLast)
          else andthen (attempt (InstanceStore_DeleteByID n)) (\<lambda>d.
            case d of Inl _ \<Rightarrow> ret (IRefused 500 RInternal)
            | Inr _ \<Rightarrow> andthen (auditLog b u a t) (\<lambda>_. ret IOk)))) (\<lambda>_. legal_instances) legal_instances" for n b u a t
  proof (rule hoare_value_then [where V = "\<lambda>c d. \<forall>x. c = Inr x \<longrightarrow> x = int (length (t_instances d))"])
    show "reads (attempt InstanceStore_Count)" by simp
  next
    fix c
    have rest: "hoare (\<lambda>d. legal_instances d \<and> 1 < length (t_instances d)) (andthen (attempt (InstanceStore_DeleteByID n)) (\<lambda>d.
            case d of Inl _ \<Rightarrow> ret (IRefused 500 RInternal)
            | Inr _ \<Rightarrow> andthen (auditLog b u a t) (\<lambda>_. ret IOk))) (\<lambda>_. legal_instances) legal_instances"
    proof (rule hoare_andthen [OF hoare_attempt [OF del]])
      fix r :: "error + unit"
      have "keeps legal_instances (case r of Inl _ \<Rightarrow> ret (IRefused 500 RInternal)
            | Inr _ \<Rightarrow> andthen (auditLog b u a t) (\<lambda>_. ret IOk))"
        by (intro keeps_intros audit_legal)
      from keeps_hoare [OF this] show "hoare (\<lambda>d. case r of Inl _ \<Rightarrow> legal_instances d | Inr _ \<Rightarrow> legal_instances d)
          (case r of Inl _ \<Rightarrow> ret (IRefused 500 RInternal)
            | Inr _ \<Rightarrow> andthen (auditLog b u a t) (\<lambda>_. ret IOk)) (\<lambda>_. legal_instances) legal_instances"
        by (cases r) simp_all
    qed
    show "hoare (\<lambda>d. legal_instances d \<and> (\<forall>x. c = Inr x \<longrightarrow> x = int (length (t_instances d))))
      (case c of Inl _ \<Rightarrow> ret (IRefused 500 RInternal)
      | Inr count \<Rightarrow>
          if count \<le> 1 then ret (IRefused 400 RLast)
          else andthen (attempt (InstanceStore_DeleteByID n)) (\<lambda>d.
            case d of Inl _ \<Rightarrow> ret (IRefused 500 RInternal)
            | Inr _ \<Rightarrow> andthen (auditLog b u a t) (\<lambda>_. ret IOk))) (\<lambda>_. legal_instances) legal_instances"
    proof (cases c)
      case (Inr count)
      show ?thesis
      proof (cases "count \<le> 1")
        case False
        show ?thesis
          unfolding Inr using False by simp (rule hoare_conseq [OF rest], auto)
      qed (auto simp: Inr intro: hoare_ret)
    qed (auto intro: hoare_ret)
  qed (auto dest: cnt)
  show ?thesis
    unfolding Instance_Remove_def instance_to_remove_def
    by (auto split: sum.split option.split intro!: keeps_intros hoare_keeps [OF step])
qed

text \<open>Requests that add, change and remove instances, whatever fails, and operations that leave the table alone.\<close>

inductive instances_reach :: "world \<Rightarrow> world \<Rightarrow> bool" for w0 where
  first: "instances_reach w0 w0"
| add: "instances_reach w0 w \<Longrightarrow> Instance_Add ih q w = (r, w') \<Longrightarrow> instances_reach w0 w'"
| change: "instances_reach w0 w \<Longrightarrow> Instance_Update ih param q w = (r, w') \<Longrightarrow> instances_reach w0 w'"
| remove: "instances_reach w0 w \<Longrightarrow> Instance_Remove ih param w = (r, w') \<Longrightarrow> instances_reach w0 w'"
| other: "instances_reach w0 w \<Longrightarrow> t_instances (w_db w') = t_instances (w_db w) \<Longrightarrow>
    t_instances_seq (w_db w') = t_instances_seq (w_db w) \<Longrightarrow> instances_reach w0 w'"


end
