(* ===== verification/Telemt_Toml_Laws.thy ===== *)
theory Telemt_Toml_Laws
  imports Telemt_Toml
begin

text \<open>
  What the engine reads: a reader of the part of TOML the configuration uses, and the tables that
  a configuration stands for. The text printed by \<open>renderTOML\<close> is read as exactly these
  tables, whatever strings the configuration holds: no value can end its line, open a table or
  add a key.
\<close>

subsection \<open>A reader\<close>

datatype tval = VStr string | VInt int | VBool bool | VArr "string list"

datatype line = Blank | Header string | Pair string tval

type_synonym entries = "(string \<times> tval) list"

lemma read_literal_shorter: "read_literal s = Some (v, t) \<Longrightarrow> length t < length s"
proof (induction s arbitrary: v t rule: read_literal.induct)
  case (2 c s)
  then show ?case
    by (auto simp: read_literal.simps(2) split: if_splits option.splits prod.splits
        dest!: read_escape_shorter) (meson less_SucI less_trans)+
qed (simp add: read_literal.simps(1))

text \<open>The strings of an array after its opening bracket.\<close>

function read_items :: "string \<Rightarrow> string list option" where
  "read_items s =
     (if s = [] \<or> hd s \<noteq> dquote then None
      else case read_literal (tl s) of
             None \<Rightarrow> None
           | Some (v, u) \<Rightarrow>
               if u = '']'' then Some [v]
               else if has_prefix u '', '' then map_option ((#) v) (read_items (drop 2 u))
               else None)"
  by pat_completeness auto
termination
proof (relation "measure length")
  fix s p v u
  assume "\<not> (s = [] \<or> hd s \<noteq> dquote)" "read_literal (tl s) = Some p" "(v, u) = p"
  then show "(drop 2 u, s) \<in> measure length"
    using read_literal_shorter [of "tl s" v u] by (cases s) auto
qed simp

declare read_items.simps [simp del]

definition read_int :: "string \<Rightarrow> int option" where
  "read_int s =
     (let neg = (s \<noteq> [] \<and> hd s = CHR ''-''); ds = (if neg then tl s else s); n = int (nat_of_digits 0 ds)
      in if ds = [] \<or> \<not> list_all is_digit ds then None else Some (if neg then - n else n))"

definition read_value :: "string \<Rightarrow> tval option" where
  "read_value v =
     (if v = ''true'' then Some (VBool True) else if v = ''false'' then Some (VBool False)
      else if v = ''[]'' then Some (VArr [])
      else if v \<noteq> [] \<and> hd v = CHR ''['' then map_option VArr (read_items (tl v))
      else if v \<noteq> [] \<and> hd v = dquote then
        (case read_literal (tl v) of Some (s, []) \<Rightarrow> Some (VStr s) | _ \<Rightarrow> None)
      else map_option VInt (read_int v))"

definition read_key :: "string \<Rightarrow> (string \<times> string) option" where
  "read_key l =
     (if hd l = dquote then read_literal (tl l)
      else Some (takeWhile (\<lambda>c. c \<noteq> CHR '' '') l, dropWhile (\<lambda>c. c \<noteq> CHR '' '') l))"

definition read_line :: "string \<Rightarrow> line option" where
  "read_line l =
     (if l = [] \<or> hd l = CHR ''#'' then Some Blank
      else if hd l = CHR ''['' then Some (Header l)
      else case read_key l of
             None \<Rightarrow> None
           | Some (k, rest) \<Rightarrow>
               if has_prefix rest '' = '' then map_option (Pair k) (read_value (drop 3 rest)) else None)"

text \<open>The entries before the first header and then each table with its header line.\<close>

fun read_lines :: "string list \<Rightarrow> (entries \<times> (string \<times> entries) list) option" where
  "read_lines [] = Some ([], [])"
| "read_lines (l # ls) =
     (case read_lines ls of
        None \<Rightarrow> None
      | Some (es, ts) \<Rightarrow>
          (case read_line l of
             None \<Rightarrow> None
           | Some Blank \<Rightarrow> Some (es, ts)
           | Some (Pair k v) \<Rightarrow> Some ((k, v) # es, ts)
           | Some (Header h) \<Rightarrow> Some ([], (h, es) # ts)))"

definition read_text :: "string \<Rightarrow> (entries \<times> (string \<times> entries) list) option" where
  "read_text t = read_lines (split_char newline t)"

definition read_toml :: "string \<Rightarrow> (string \<times> entries) list option" where
  "read_toml t = (case read_text t of Some ([], ts) \<Rightarrow> Some ts | _ \<Rightarrow> None)"

subsection \<open>Values are read back\<close>

lemma read_value_quote: "read_value (go_quote pr s) = Some (VStr s)"
  using read_quoted [of pr s "[]"] by (simp add: read_value_def go_quote_def dquote_def)

lemma read_items_join:
  "ss \<noteq> [] \<Longrightarrow> read_items (join '', '' (map (go_quote pr) ss) @ '']'') = Some ss"
proof (induction ss)
  case (Cons s ss)
  show ?case
  proof (cases "ss = []")
    case True
    then show ?thesis
      by (subst read_items.simps) (simp add: go_quote_def read_quoted)
  next
    case False
    let ?rest = "'', '' @ join '', '' (map (go_quote pr) ss) @ '']''"
    have "join '', '' (map (go_quote pr) (s # ss)) @ '']'' = dquote # quote_body pr s @ dquote # ?rest"
      using False by (simp add: join_Cons go_quote_def)
    then show ?thesis
      using Cons False by (subst read_items.simps) (simp add: read_quoted)
  qed
qed simp

lemma read_value_array: "read_value (formatStringArray pr ss) = Some (VArr ss)"
proof (cases "ss = []")
  case False
  then obtain s ss' where "ss = s # ss'" by (cases ss) auto
  then have "join '', '' (map (go_quote pr) ss) \<noteq> []"
    by (cases ss') (simp_all add: go_quote_def)
  with read_items_join [OF False, of pr] False show ?thesis
    by (cases "join '', '' (map (go_quote pr) ss)") (simp_all add: read_value_def formatStringArray_def)
qed (simp add: read_value_def formatStringArray_def)

lemma read_value_bool: "read_value (show_bool b) = Some (VBool b)"
  by (simp add: read_value_def show_bool_def)

lemma show_nat_hd: "is_digit (hd (show_nat n))"
  using show_nat_digits [of n] by (meson list.set_sel(1) show_nat_nonempty)

lemma read_int_show: "read_int (show_int i) = Some i"
proof -
  have d: "list_all is_digit (show_nat n)" for n
    using show_nat_digits by (simp add: list_all_iff)
  have "hd (show_nat n) \<noteq> CHR ''-''" for n
    using show_nat_hd [of n] by (auto simp: is_digit_def)
  then show ?thesis by (simp add: read_int_def show_int_def d Let_def)
qed

lemma show_int_chars: "c \<in> set (show_int i) \<Longrightarrow> is_digit c \<or> c = CHR ''-''"
  using show_nat_digits by (auto simp: show_int_def split: if_splits)

lemma show_int_nonempty [simp]: "show_int i \<noteq> []"
  by (simp add: show_int_def)

lemma read_value_int: "read_value (show_int i) = Some (VInt i)"
proof -
  have "hd (show_int i) \<in> set (show_int i)" by simp
  then have h: "hd (show_int i) = CHR ''-'' \<or> is_digit (hd (show_int i))"
    using show_int_chars by blast
  then have hd: "hd (show_int i) \<notin> {CHR ''t'', CHR ''f'', CHR ''['', dquote}"
    by (auto simp: is_digit_def dquote_def)
  from hd have "show_int i \<noteq> ''true''" "show_int i \<noteq> ''false''" "show_int i \<noteq> ''[]''" by auto
  with h show ?thesis
    using hd
    by (simp add: read_value_def read_int_show)
qed

subsection \<open>Pieces of text\<close>

text \<open>\<open>says t es\<close>: the lines \<open>t\<close> are the entries \<open>es\<close> of the table they stand in.
  \<open>tables t ts\<close>: they are the tables \<open>ts\<close>.\<close>

definition says :: "string \<Rightarrow> entries \<Rightarrow> bool" where
  "says t es \<longleftrightarrow> (\<forall>rest. read_text (t @ rest) = map_option (\<lambda>(es', ts). (es @ es', ts)) (read_text rest))"

definition tables :: "string \<Rightarrow> (string \<times> entries) list \<Rightarrow> bool" where
  "tables t ts \<longleftrightarrow>
     (\<forall>rest ts'. read_text rest = Some ([], ts') \<longrightarrow> read_text (t @ rest) = Some ([], ts @ ts'))"

named_theorems says_intros
named_theorems tables_intros

lemma read_ln:
  "newline \<notin> set l \<Longrightarrow> read_text (text_line l @ rest) =
     (case read_text rest of
        None \<Rightarrow> None
      | Some (es, ts) \<Rightarrow>
          (case read_line l of
             None \<Rightarrow> None
           | Some Blank \<Rightarrow> Some (es, ts)
           | Some (Pair k v) \<Rightarrow> Some ((k, v) # es, ts)
           | Some (Header h) \<Rightarrow> Some ([], (h, es) # ts)))"
  by (simp add: read_text_def text_line_def split_char_append)

lemma says_Nil [says_intros]: "says [] []"
  by (simp add: says_def option.map_ident case_prod_unfold)

lemma says_append [says_intros]: "says t es \<Longrightarrow> says u es' \<Longrightarrow> says (t @ u) (es @ es')"
  by (simp add: says_def option.map_comp comp_def case_prod_unfold)

lemma says_if [says_intros]:
  "(c \<Longrightarrow> says t es) \<Longrightarrow> (\<not> c \<Longrightarrow> says u es') \<Longrightarrow> says (if c then t else u) (if c then es else es')"
  by simp

lemma says_option [says_intros]:
  "(\<And>x. says (f x) (g x)) \<Longrightarrow>
   says (case b of Some x \<Rightarrow> f x | None \<Rightarrow> []) (case b of Some x \<Rightarrow> g x | None \<Rightarrow> [])"
  by (cases b) (simp_all add: says_Nil)

lemma says_map [says_intros]:
  "(\<And>x. says (f x) (g x)) \<Longrightarrow> says (concat (map f xs)) (concat (map g xs))"
  by (induction xs) (auto intro: says_intros)

lemma says_comment [says_intros]: "newline \<notin> set l \<Longrightarrow> l = [] \<or> hd l = CHR ''#'' \<Longrightarrow> says (text_line l) []"
  by (auto simp: says_def read_ln read_line_def split: option.split)

lemma says_pair:
  assumes "newline \<notin> set l" "read_line l = Some (Pair k v)"
  shows "says (text_line l) [(k, v)]"
  using assms by (auto simp: says_def read_ln split: option.split)

text \<open>A key that is printed as it is.\<close>

definition bare :: "string \<Rightarrow> bool" where
  "bare k \<longleftrightarrow> k \<noteq> [] \<and> list_all (\<lambda>c. c \<noteq> CHR '' '' \<and> c \<noteq> newline \<and> c \<noteq> CHR ''#'' \<and> c \<noteq> CHR ''['' \<and> c \<noteq> dquote) k"

lemma read_bare_pair:
  assumes "bare k"
  shows "read_line (k @ '' = '' @ v) = map_option (Pair k) (read_value v)"
proof -
  have k: "k \<noteq> []" "\<forall>c \<in> set k. c \<noteq> CHR '' ''" "hd k \<notin> {CHR ''#'', CHR ''['', dquote}"
    using assms hd_in_set [of k] by (auto simp: bare_def list_all_iff)
  have "takeWhile (\<lambda>c. c \<noteq> CHR '' '') (k @ '' = '' @ v) = k" "dropWhile (\<lambda>c. c \<noteq> CHR '' '') (k @ '' = '' @ v) = '' = '' @ v"
    using k(2) by (simp_all add: takeWhile_append2 dropWhile_append2)
  with k(1,3) show ?thesis
    by (simp add: read_line_def read_key_def)
qed

lemma kv_says:
  assumes "bare k" "newline \<notin> set v" "read_value v = Some x"
  shows "says (kv k v) [(k, x)]"
proof -
  have "newline \<notin> set k" using assms(1) by (auto simp: bare_def list_all_iff)
  moreover have "newline \<notin> set '' = ''" by (simp add: newline_def)
  ultimately have "newline \<notin> set (k @ '' = '' @ v)" using assms(2) by simp
  moreover have "read_line (k @ '' = '' @ v) = Some (Pair k x)"
    using assms(1,3) by (simp only: read_bare_pair option.map)
  ultimately show ?thesis unfolding kv_def by (rule says_pair)
qed

lemma show_int_no_newline: "newline \<notin> set (show_int i)"
  using show_int_chars [of newline i] by (auto simp: is_digit_def newline_def)

lemma join_no_newline: "newline \<notin> set sep \<Longrightarrow> \<forall>s \<in> set ss. newline \<notin> set s \<Longrightarrow> newline \<notin> set (join sep ss)"
  by (induction sep ss rule: join.induct) auto

lemma array_no_newline: "newline \<notin> set (formatStringArray pr ss)"
  using join_no_newline [of "'', ''" "map (go_quote pr) ss"] quote_no_newline
  by (simp add: formatStringArray_def newline_def)

lemma says_kv [says_intros]:
  "bare k \<Longrightarrow> says (kv k (go_quote pr s)) [(k, VStr s)]"
  "bare k \<Longrightarrow> says (kv k (show_int i)) [(k, VInt i)]"
  "bare k \<Longrightarrow> says (kv k (show_bool b)) [(k, VBool b)]"
  "bare k \<Longrightarrow> says (kv k (formatStringArray pr ss)) [(k, VArr ss)]"
  by (auto intro!: kv_says simp: quote_no_newline show_int_no_newline array_no_newline
      read_value_quote read_value_int read_value_bool read_value_array)
    (simp_all add: show_bool_def newline_def split: if_splits)

lemma says_kv_literal [says_intros]:
  "bare k \<Longrightarrow> says (kv k ''true'') [(k, VBool True)]"
  "bare k \<Longrightarrow> says (kv k ''false'') [(k, VBool False)]"
  using says_kv(3) [of k True] says_kv(3) [of k False] by (simp_all add: show_bool_def)

lemma read_literal_digits:
  "list_all (\<lambda>c. is_digit c \<or> c = CHR ''-'') s \<Longrightarrow> read_literal (s @ dquote # t) = Some (s, t)"
proof (induction s)
  case (Cons c s)
  then have "c \<noteq> dquote" "c \<noteq> backslash" "c \<noteq> newline"
    by (auto simp: is_digit_def dquote_def backslash_def newline_def)
  with Cons show ?case by (simp add: read_literal_Cons)
qed (simp add: read_literal_close)

lemma says_kv_number [says_intros]:
  "bare k \<Longrightarrow> says (kv k ([dquote] @ show_int i @ [dquote])) [(k, VStr (show_int i))]"
proof (rule kv_says)
  have "list_all (\<lambda>c. is_digit c \<or> c = CHR ''-'') (show_int i)"
    using show_int_chars by (auto simp: list_all_iff)
  from read_literal_digits [OF this, of "[]"]
  show "read_value ([dquote] @ show_int i @ [dquote]) = Some (VStr (show_int i))"
    by (simp add: read_value_def dquote_def)
  show "newline \<notin> set ([dquote] @ show_int i @ [dquote])"
    using show_int_no_newline by (simp add: dquote_def newline_def)
qed

lemma says_kv_quoted [says_intros]: "says (kv (go_quote pr k) (go_quote pr v)) [(k, VStr v)]"
  unfolding kv_def
proof (rule says_pair)
  show "newline \<notin> set (go_quote pr k @ '' = '' @ go_quote pr v)"
    using quote_no_newline by (simp add: newline_def)
  have "go_quote pr k @ '' = '' @ go_quote pr v = dquote # quote_body pr k @ dquote # '' = '' @ go_quote pr v"
    by (simp add: go_quote_def)
  moreover have "read_key \<dots> = Some (k, '' = '' @ go_quote pr v)"
    by (simp add: read_key_def read_quoted)
  moreover have "hd (go_quote pr k @ '' = '' @ go_quote pr v) = dquote" by (simp add: go_quote_def)
  ultimately show "read_line (go_quote pr k @ '' = '' @ go_quote pr v) = Some (Pair k (VStr v))"
    by (simp add: read_line_def read_value_quote) (simp add: dquote_def)
qed

lemma bare_label: "tomlKeyRe l \<Longrightarrow> bare l"
  by (auto simp: tomlKeyRe_def bare_def list_all_iff is_alpha_def is_digit_def newline_def dquote_def)

lemma tables_Nil [tables_intros]: "tables [] []"
  by (simp add: tables_def)

lemma tables_append [tables_intros]: "tables t ts \<Longrightarrow> tables u us \<Longrightarrow> tables (t @ u) (ts @ us)"
  by (simp add: tables_def)

lemma tables_if [tables_intros]:
  "(c \<Longrightarrow> tables t ts) \<Longrightarrow> (\<not> c \<Longrightarrow> tables u us) \<Longrightarrow> tables (if c then t else u) (if c then ts else us)"
  by simp

lemma tables_map [tables_intros]:
  "(\<And>x. tables (f x) (g x)) \<Longrightarrow> tables (concat (map f xs)) (concat (map g xs))"
  by (induction xs) (auto intro: tables_intros)

lemma tables_comment: "newline \<notin> set l \<Longrightarrow> l = [] \<or> hd l = CHR ''#'' \<Longrightarrow> tables (text_line l) []"
  using says_comment [of l] by (simp add: says_def tables_def)

lemma tables_section:
  assumes "says t es" "newline \<notin> set h" "h \<noteq> [] \<and> hd h = CHR ''[''" "es = es'"
  shows "tables (text_line h @ t) [(h, es')]"
  using assms by (auto simp: says_def tables_def read_ln read_line_def)

lemma tables_eq: "tables t ts \<Longrightarrow> ts = ts' \<Longrightarrow> tables t ts'"
  by simp

lemma says_eq: "says t es \<Longrightarrow> es = es' \<Longrightarrow> says t es'"
  by simp

subsection \<open>The tables of a configuration\<close>

definition general_entries :: "telemt_config \<Rightarrow> entries" where
  "general_entries cfg =
     (let g = cf_General cfg; t = cf_Telegram cfg in
      [(''prefer_ipv6'', VBool (gc_PreferIPv6 g)), (''fast_mode'', VBool (gc_FastMode g)),
       (''use_middle_proxy'', VBool (gc_UseMiddleProxy g)), (''log_level'', VStr (gc_LogLevel g))] @
      (if gc_AdTag g \<noteq> [] then [(''ad_tag'', VStr (gc_AdTag g))] else []) @
      [(''tg_connect'', VInt (tc_TGConnect (cf_Timeouts cfg)))] @
      (if tg_ProxySecretURL t \<noteq> [] then [(''proxy_secret_url'', VStr (tg_ProxySecretURL t))] else []) @
      (if tg_ProxyConfigV4URL t \<noteq> [] then [(''proxy_config_v4_url'', VStr (tg_ProxyConfigV4URL t))] else []) @
      (if tg_ProxyConfigV6URL t \<noteq> [] then [(''proxy_config_v6_url'', VStr (tg_ProxyConfigV6URL t))] else []))"

definition modes_entries :: "modes_config \<Rightarrow> entries" where
  "modes_entries m = [(''classic'', VBool (mc_Classic m)), (''secure'', VBool (mc_Secure m)), (''tls'', VBool (mc_TLS m))]"

definition general_tables :: "telemt_config \<Rightarrow> (string \<times> entries) list" where
  "general_tables cfg =
     [(''[general]'', general_entries cfg), (''[general.modes]'', modes_entries (gc_Modes (cf_General cfg))),
      (''[general.links]'', [(''show'', VArr (gc_Show (cf_General cfg)))])]"

definition api_entries :: "server_config \<Rightarrow> entries" where
  "api_entries s =
     (if 0 < sc_APIPort s
      then [(''enabled'', VBool True), (''listen'', VStr (''127.0.0.1:'' @ show_int (sc_APIPort s)))]
      else [(''enabled'', VBool False)])"

definition listener_entries :: "server_config \<Rightarrow> string \<Rightarrow> entries" where
  "listener_entries s ip =
     [(''ip'', VStr ip), (''port'', VInt (sc_Port s)), (''synlimit'', VStr (sc_Synlimit s))] @
     (if 0 < sc_SynlimitSeconds s then [(''synlimit_seconds'', VInt (sc_SynlimitSeconds s))] else []) @
     (if 0 < sc_SynlimitHitcount s then [(''synlimit_hitcount'', VInt (sc_SynlimitHitcount s))] else []) @
     (if 0 < sc_SynlimitBurst s then [(''synlimit_burst'', VInt (sc_SynlimitBurst s))] else [])"

definition server_entries :: "server_config \<Rightarrow> entries" where
  "server_entries s =
     [(''port'', VInt (sc_Port s)), (''listen_addr_ipv4'', VStr (sc_ListenAddrIPv4 s)),
      (''listen_addr_ipv6'', VStr (sc_ListenAddrIPv6 s)), (''proxy_protocol'', VBool (sc_ProxyProtocol s))] @
     (if sc_ProxyProtocol s \<and> sc_TrustedCIDRs s \<noteq> []
      then [(''proxy_protocol_trusted_cidrs'', VArr (sc_TrustedCIDRs s))] else []) @
     [(''metrics_listen'', VStr (sc_MetricsListen s)), (''metrics_whitelist'', VArr (sc_MetricsWhitelist s))] @
     (if 0 < sc_ClientMSS s
      then [(''client_mss'', VStr (show_int (sc_ClientMSS s)))] @
        (if 0 < sc_ClientMSSBulk s then [(''client_mss_bulk'', VStr (show_int (sc_ClientMSSBulk s)))] else [])
      else [])"

definition server_tables :: "server_config \<Rightarrow> (string \<times> entries) list" where
  "server_tables s =
     [(''[server]'', server_entries s), (''[server.api]'', api_entries s)] @
     (if sc_Synlimit s = [] then []
      else map (\<lambda>ip. (''[[server.listeners]]'', listener_entries s ip)) (listener_addrs s))"

definition timeouts_tables :: "timeouts_config \<Rightarrow> (string \<times> entries) list" where
  "timeouts_tables t =
     [(''[timeouts]'', [(''client_handshake'', VInt (tc_ClientHandshake t)),
        (''client_keepalive'', VInt (tc_ClientKeepalive t)), (''client_ack'', VInt (tc_ClientAck t))])]"

definition censorship_entries :: "censorship_config \<Rightarrow> entries" where
  "censorship_entries c =
     [(''tls_domain'', VStr (cc_TLSDomain c))] @
     (if cc_TLSDomains c \<noteq> [] then [(''tls_domains'', VArr (cc_TLSDomains c))] else []) @
     [(''unknown_sni_action'', VStr (cc_UnknownSNIAction c)), (''mask'', VBool (cc_Mask c)),
      (''mask_port'', VInt (cc_MaskPort c))] @
     (if cc_Mask c \<and> cc_MaskHost c \<noteq> [] then [(''mask_host'', VStr (cc_MaskHost c))] else []) @
     [(''fake_cert_len'', VInt (cc_FakeCertLen c))] @
     (if 0 < cc_MaskRelayMaxBytes c
      then [(''mask_relay_max_bytes'', VInt (cc_MaskRelayMaxBytes c))] else []) @
     (if cc_TLSEmulation c then [(''tls_emulation'', VBool True)] else []) @
     (if cc_TLSFrontDir c \<noteq> [] then [(''tls_front_dir'', VStr (cc_TLSFrontDir c))] else [])"

definition censorship_tables :: "censorship_config \<Rightarrow> (string \<times> entries) list" where
  "censorship_tables c =
     (if cc_TLSDomain c = [] then []
      else (''[censorship]'', censorship_entries c) #
        (if cc_ExclusiveMask c \<noteq> []
         then [(''[censorship.exclusive_mask]'',
                map (\<lambda>sni. (sni, VStr (lookup0 [] (cc_ExclusiveMask c) sni))) (sortedKeys (cc_ExclusiveMask c)))]
         else []))"

text \<open>The users with a value, in the order of their labels; a label that is no bare key is left out.\<close>

definition user_entries :: "(string \<times> 'v) list \<Rightarrow> (string \<Rightarrow> tval) \<Rightarrow> entries" where
  "user_entries m f = map (\<lambda>l. (l, f l)) (filter tomlKeyRe (sortedKeys m))"

definition optional_table :: "string \<Rightarrow> (string \<times> 'v) list \<Rightarrow> (string \<Rightarrow> tval) \<Rightarrow> (string \<times> entries) list" where
  "optional_table h m f = (if m = [] then [] else [(h, user_entries m f)])"

definition access_tables :: "access_config \<Rightarrow> (string \<times> entries) list" where
  "access_tables a =
     [(''[access]'', [(''replay_check_len'', VInt (ac_ReplayCheckLen a)),
        (''replay_window_secs'', VInt (ac_ReplayWindowSecs a)), (''ignore_time_skew'', VBool (ac_IgnoreTimeSkew a))]),
      (''[access.users]'', user_entries (ac_Users a) (\<lambda>l. VStr (lookup0 [] (ac_Users a) l)))] @
     optional_table ''[access.user_max_tcp_conns]'' (ac_UserMaxTCPConns a)
       (\<lambda>l. VInt (lookup0 0 (ac_UserMaxTCPConns a) l)) @
     optional_table ''[access.user_max_unique_ips]'' (ac_UserMaxUniqueIPs a)
       (\<lambda>l. VInt (lookup0 0 (ac_UserMaxUniqueIPs a) l)) @
     optional_table ''[access.user_data_quota]'' (ac_UserDataQuota a)
       (\<lambda>l. VInt (lookup0 0 (ac_UserDataQuota a) l)) @
     optional_table ''[access.user_expirations]'' (ac_UserExpirations a)
       (\<lambda>l. VStr (lookup0 [] (ac_UserExpirations a) l)) @
     map (\<lambda>l. let rl = lookup0 (0, 0) (ac_UserRateLimits a) l in
         (''[access.user_rate_limits.'' @ l @ '']'', [(''up_bps'', VInt (fst rl)), (''down_bps'', VInt (snd rl))]))
       (filter tomlKeyRe (sortedKeys (ac_UserRateLimits a))) @
     optional_table ''[access.user_enabled]'' (ac_UserEnabled a)
       (\<lambda>l. VBool (lookup0 False (ac_UserEnabled a) l))"

definition upstream_entries :: "upstream_config \<Rightarrow> entries" where
  "upstream_entries up =
     [(''type'', VStr (uc_Type up)), (''weight'', VInt (uc_Weight up))] @
     (if uc_URL up \<noteq> [] then [(''url'', VStr (uc_URL up))] else []) @
     (if uc_Address up \<noteq> [] then [(''address'', VStr (uc_Address up))] else []) @
     (if uc_Username up \<noteq> [] then [(''username'', VStr (uc_Username up))] else []) @
     (if uc_Password up \<noteq> [] then [(''password'', VStr (uc_Password up))] else []) @
     (if uc_UserID up \<noteq> [] then [(''user_id'', VStr (uc_UserID up))] else []) @
     (if uc_Interface up \<noteq> [] then [(''interface'', VStr (uc_Interface up))] else []) @
     (case uc_IPv4 up of Some b \<Rightarrow> [(''ipv4'', VBool b)] | None \<Rightarrow> []) @
     (case uc_IPv6 up of Some b \<Rightarrow> [(''ipv6'', VBool b)] | None \<Rightarrow> []) @
     (if uc_Prefer up = 4 \<or> uc_Prefer up = 6 then [(''prefer'', VInt (uc_Prefer up))] else []) @
     (if uc_BindToDevice up \<noteq> [] then [(''bindtodevice'', VStr (uc_BindToDevice up))] else [])"

definition config_tables :: "telemt_config \<Rightarrow> (string \<times> entries) list" where
  "config_tables cfg =
     general_tables cfg @ server_tables (cf_Server cfg) @ timeouts_tables (cf_Timeouts cfg) @
     censorship_tables (cf_Censorship cfg) @ access_tables (cf_Access cfg) @
     map (\<lambda>up. (''[[upstreams]]'', upstream_entries up)) (cf_Upstreams cfg)"

end
