(* ===== verification/Telemt_Tables.thy ===== *)
theory Telemt_Tables
  imports Telemt_Toml_Laws
begin

text \<open>
  The printing function of each section of \<^verbatim>\<open>pkg/telemt/config.go\<close> prints the tables that
  \<open>config_tables\<close> gives for it, and so does \<open>renderTOML\<close> for the whole configuration.
\<close>

subsection \<open>Each section is its tables\<close>

lemma concat_singletons: "concat (map (\<lambda>x. [g x]) xs) = map g xs"
  by (induction xs) auto

lemma concat_filtered: "concat (map (\<lambda>x. if p x then [g x] else []) xs) = map g (filter p xs)"
  by (induction xs) auto

lemmas section_eval = bare_def newline_def dquote_def show_int_no_newline [unfolded newline_def]

lemma tables_general: "tables (renderGeneralSection pr cfg) [(''[general]'', general_entries cfg)]"
  unfolding renderGeneralSection_def general_entries_def Let_def
  by (rule tables_section) (rule says_intros | simp add: section_eval split del: if_split)+

lemma tables_modes: "tables (renderModesSection cfg) [(''[general.modes]'', modes_entries (gc_Modes (cf_General cfg)))]"
  unfolding renderModesSection_def modes_entries_def Let_def
  by (rule tables_section) (rule says_intros | simp add: section_eval)+

lemma tables_links: "tables (renderLinksSection pr cfg) [(''[general.links]'', [(''show'', VArr (gc_Show (cf_General cfg)))])]"
  unfolding renderLinksSection_def
  by (rule tables_section) (rule says_intros | simp add: section_eval)+

lemma tables_listener: "tables (render_listener pr s ip) [(''[[server.listeners]]'', listener_entries s ip)]"
  unfolding render_listener_def listener_entries_def
  by (rule tables_section) (rule says_intros | simp add: section_eval split del: if_split)+

lemma tables_server: "tables (renderServerSection pr cfg) (server_tables (cf_Server cfg))"
proof -
  let ?s = "cf_Server cfg"
  let ?body = "kv ''port'' (show_int (sc_Port ?s)) @
      kv ''listen_addr_ipv4'' (go_quote pr (sc_ListenAddrIPv4 ?s)) @
      kv ''listen_addr_ipv6'' (go_quote pr (sc_ListenAddrIPv6 ?s)) @
      kv ''proxy_protocol'' (show_bool (sc_ProxyProtocol ?s)) @
      (if sc_ProxyProtocol ?s \<and> sc_TrustedCIDRs ?s \<noteq> []
       then kv ''proxy_protocol_trusted_cidrs'' (formatStringArray pr (sc_TrustedCIDRs ?s)) else []) @
      kv ''metrics_listen'' (go_quote pr (sc_MetricsListen ?s)) @
      kv ''metrics_whitelist'' (formatStringArray pr (sc_MetricsWhitelist ?s)) @
      (if 0 < sc_ClientMSS ?s
       then kv ''client_mss'' ([dquote] @ show_int (sc_ClientMSS ?s) @ [dquote]) @
         (if 0 < sc_ClientMSSBulk ?s
          then kv ''client_mss_bulk'' ([dquote] @ show_int (sc_ClientMSSBulk ?s) @ [dquote]) else [])
       else []) @ text_line []"
  let ?api = "(if 0 < sc_APIPort ?s
       then kv ''enabled'' ''true'' @ kv ''listen'' (go_quote pr (''127.0.0.1:'' @ show_int (sc_APIPort ?s)))
       else kv ''enabled'' ''false'') @ text_line []"
  have 1: "tables (text_line ''[server]'' @ ?body) [(''[server]'', server_entries ?s)]"
    unfolding server_entries_def
    by (rule tables_section) (rule says_intros | (simp add: section_eval split del: if_split; fail))+
  have 2: "tables (text_line ''[server.api]'' @ ?api) [(''[server.api]'', api_entries ?s)]"
    unfolding api_entries_def
    by (rule tables_section) (rule says_intros | (simp add: section_eval; fail))+
  have 3: "tables (renderServerListeners pr cfg) (if sc_Synlimit ?s = [] then []
      else map (\<lambda>ip. (''[[server.listeners]]'', listener_entries ?s ip)) (listener_addrs ?s))"
    using tables_map [of "render_listener pr ?s", OF tables_listener, of "listener_addrs ?s"]
    by (simp add: renderServerListeners_def Let_def concat_singletons tables_Nil)
  have "renderServerSection pr cfg =
      (text_line ''[server]'' @ ?body) @ (text_line ''[server.api]'' @ ?api) @ renderServerListeners pr cfg"
    unfolding renderServerSection_def Let_def append_assoc by (rule refl)
  with tables_append [OF 1 tables_append [OF 2 3]] show ?thesis by (simp add: server_tables_def)
qed

lemma tables_timeouts: "tables (renderTimeoutsSection cfg) (timeouts_tables (cf_Timeouts cfg))"
  unfolding renderTimeoutsSection_def Let_def timeouts_tables_def
  by (rule tables_section) (rule says_intros | simp add: section_eval)+

lemma tables_upstream: "tables (render_upstream pr up) [(''[[upstreams]]'', upstream_entries up)]"
  unfolding render_upstream_def upstream_entries_def
  by (rule tables_section) (rule says_intros | simp add: section_eval split del: if_split)+

lemma tables_censorship: "tables (renderCensorshipSection pr cfg) (censorship_tables (cf_Censorship cfg))"
proof -
  let ?c = "cf_Censorship cfg"
  let ?body = "kv ''tls_domain'' (go_quote pr (cc_TLSDomain ?c)) @
        (if cc_TLSDomains ?c \<noteq> [] then kv ''tls_domains'' (formatStringArray pr (cc_TLSDomains ?c)) else []) @
        kv ''unknown_sni_action'' (go_quote pr (cc_UnknownSNIAction ?c)) @
        kv ''mask'' (show_bool (cc_Mask ?c)) @
        kv ''mask_port'' (show_int (cc_MaskPort ?c)) @
        (if cc_Mask ?c \<and> cc_MaskHost ?c \<noteq> [] then kv ''mask_host'' (go_quote pr (cc_MaskHost ?c)) else []) @
        kv ''fake_cert_len'' (show_int (cc_FakeCertLen ?c)) @
        (if 0 < cc_MaskRelayMaxBytes ?c
         then kv ''mask_relay_max_bytes'' (show_int (cc_MaskRelayMaxBytes ?c)) else []) @
        (if cc_TLSEmulation ?c then kv ''tls_emulation'' ''true'' else []) @
        (if cc_TLSFrontDir ?c \<noteq> [] then kv ''tls_front_dir'' (go_quote pr (cc_TLSFrontDir ?c)) else []) @
        text_line ''# Note: geo-blocking is enforced at the host firewall level (iptables/nftables),'' @
        text_line ''# not via telemt config.'' @
        text_line []"
  let ?mask = "concat (map (\<lambda>sni. kv (go_quote pr sni) (go_quote pr (lookup0 [] (cc_ExclusiveMask ?c) sni)))
             (sortedKeys (cc_ExclusiveMask ?c))) @ text_line []"
  have 1: "tables (text_line ''[censorship]'' @ ?body) [(''[censorship]'', censorship_entries ?c)]"
    unfolding censorship_entries_def
    by (rule tables_section) (rule says_intros | (simp add: section_eval split del: if_split; fail))+
  have 2: "tables (text_line ''[censorship.exclusive_mask]'' @ ?mask) [(''[censorship.exclusive_mask]'',
      map (\<lambda>sni. (sni, VStr (lookup0 [] (cc_ExclusiveMask ?c) sni))) (sortedKeys (cc_ExclusiveMask ?c)))]"
    by (rule tables_section) (rule says_intros | (simp add: section_eval concat_singletons; fail))+
  have eq: "renderCensorshipSection pr cfg = (if cc_TLSDomain ?c = [] then []
      else (text_line ''[censorship]'' @ ?body) @
        (if cc_ExclusiveMask ?c \<noteq> [] then text_line ''[censorship.exclusive_mask]'' @ ?mask else []))"
    unfolding renderCensorshipSection_def Let_def append_assoc by (rule refl)
  show ?thesis
    unfolding eq censorship_tables_def
    by (rule tables_eq [OF tables_if [OF tables_Nil tables_append [OF 1 tables_if [OF 2 tables_Nil]]]]) simp
qed

text \<open>A loop over users; the keys that are printed are bare.\<close>

lemma says_bare_lines:
  assumes "\<And>l. bare l \<Longrightarrow> says (f l) [(l, g l)]"
  shows "says (bare_lines m f) (user_entries m g)"
proof -
  have "says (bare_lines m f) (concat (map (\<lambda>l. if tomlKeyRe l then [(l, g l)] else []) (sortedKeys m)))"
    unfolding bare_lines_def by (intro says_map says_if says_Nil assms bare_label)
  then show ?thesis by (simp add: user_entries_def concat_filtered)
qed

lemma tables_user_table:
  assumes "\<And>l. bare l \<Longrightarrow> says (f l) [(l, g l)]" "newline \<notin> set h" "h \<noteq> [] \<and> hd h = CHR ''[''"
  shows "tables (user_table h m f) (optional_table h m g)"
  unfolding user_table_def optional_table_def
  using tables_section [OF says_append [OF says_bare_lines [OF assms(1)] says_comment [of "[]"]] assms(2,3) refl]
  by (auto intro: tables_Nil)

lemma tables_rate_limit:
  assumes "bare l"
  shows "tables (text_line (''[access.user_rate_limits.'' @ l @ '']'') @ kv ''up_bps'' (show_int a) @
      kv ''down_bps'' (show_int b) @ text_line [])
    [(''[access.user_rate_limits.'' @ l @ '']'', [(''up_bps'', VInt a), (''down_bps'', VInt b)])]"
proof (rule tables_section)
  show "newline \<notin> set (''[access.user_rate_limits.'' @ l @ '']'')"
    using assms by (auto simp: bare_def list_all_iff newline_def)
qed (rule says_intros | (simp add: section_eval; fail))+

lemma tables_rate_limits:
  "tables (bare_lines m (\<lambda>l. let rl = lookup0 (0, 0) m l in
        text_line (''[access.user_rate_limits.'' @ l @ '']'') @ kv ''up_bps'' (show_int (fst rl)) @
        kv ''down_bps'' (show_int (snd rl)) @ text_line []))
     (map (\<lambda>l. let rl = lookup0 (0, 0) m l in
         (''[access.user_rate_limits.'' @ l @ '']'', [(''up_bps'', VInt (fst rl)), (''down_bps'', VInt (snd rl))]))
       (filter tomlKeyRe (sortedKeys m)))"
  unfolding bare_lines_def concat_filtered [symmetric] Let_def
  by (intro tables_map tables_if tables_Nil tables_rate_limit bare_label)

lemma tables_access: "tables (renderAccessSection pr cfg) (access_tables (cf_Access cfg))"
proof -
  let ?a = "cf_Access cfg"
  let ?body = "kv ''replay_check_len'' (show_int (ac_ReplayCheckLen ?a)) @
      kv ''replay_window_secs'' (show_int (ac_ReplayWindowSecs ?a)) @
      kv ''ignore_time_skew'' (show_bool (ac_IgnoreTimeSkew ?a)) @
      text_line []"
  let ?users = "bare_lines (ac_Users ?a) (\<lambda>l. kv l (go_quote pr (lookup0 [] (ac_Users ?a) l))) @ text_line []"
  have 1: "tables (text_line ''[access]'' @ ?body) [(''[access]'', [(''replay_check_len'', VInt (ac_ReplayCheckLen ?a)),
        (''replay_window_secs'', VInt (ac_ReplayWindowSecs ?a)), (''ignore_time_skew'', VBool (ac_IgnoreTimeSkew ?a))])]"
    by (rule tables_section) (rule says_intros | (simp add: section_eval; fail))+
  have 2: "tables (text_line ''[access.users]'' @ ?users)
      [(''[access.users]'', user_entries (ac_Users ?a) (\<lambda>l. VStr (lookup0 [] (ac_Users ?a) l)))]"
    by (rule tables_section, rule says_append, rule says_bare_lines, rule says_kv)
      (rule says_intros | (simp add: section_eval; fail))+
  have eq: "renderAccessSection pr cfg = (text_line ''[access]'' @ ?body) @ (text_line ''[access.users]'' @ ?users) @
      user_table ''[access.user_max_tcp_conns]'' (ac_UserMaxTCPConns ?a)
        (\<lambda>l. kv l (show_int (lookup0 0 (ac_UserMaxTCPConns ?a) l))) @
      user_table ''[access.user_max_unique_ips]'' (ac_UserMaxUniqueIPs ?a)
        (\<lambda>l. kv l (show_int (lookup0 0 (ac_UserMaxUniqueIPs ?a) l))) @
      user_table ''[access.user_data_quota]'' (ac_UserDataQuota ?a)
        (\<lambda>l. kv l (show_int (lookup0 0 (ac_UserDataQuota ?a) l))) @
      user_table ''[access.user_expirations]'' (ac_UserExpirations ?a)
        (\<lambda>l. kv l (go_quote pr (lookup0 [] (ac_UserExpirations ?a) l))) @
      bare_lines (ac_UserRateLimits ?a) (\<lambda>l. let rl = lookup0 (0, 0) (ac_UserRateLimits ?a) l in
        text_line (''[access.user_rate_limits.'' @ l @ '']'') @ kv ''up_bps'' (show_int (fst rl)) @
        kv ''down_bps'' (show_int (snd rl)) @ text_line []) @
      user_table ''[access.user_enabled]'' (ac_UserEnabled ?a)
        (\<lambda>l. kv l (show_bool (lookup0 False (ac_UserEnabled ?a) l)))"
    unfolding renderAccessSection_def Let_def append_assoc by (rule refl)
  show ?thesis
    unfolding eq
    by (rule tables_eq, (rule tables_append 1 2 tables_user_table tables_rate_limits says_kv | assumption |
          (simp add: section_eval; fail))+) (simp add: access_tables_def)
qed

lemma tables_config:
  "tables (renderGeneralSection pr cfg @ renderModesSection cfg @ renderLinksSection pr cfg @
      renderServerSection pr cfg @ renderTimeoutsSection cfg @ renderCensorshipSection pr cfg @
      renderAccessSection pr cfg @ renderUpstreamsSection pr cfg) (config_tables cfg)"
proof (rule tables_eq)
  have "tables (renderUpstreamsSection pr cfg) (concat (map (\<lambda>up. [(''[[upstreams]]'', upstream_entries up)]) (cf_Upstreams cfg)))"
    unfolding renderUpstreamsSection_def by (rule tables_map) (rule tables_upstream)
  then show "tables (renderGeneralSection pr cfg @ renderModesSection cfg @ renderLinksSection pr cfg @
      renderServerSection pr cfg @ renderTimeoutsSection cfg @ renderCensorshipSection pr cfg @
      renderAccessSection pr cfg @ renderUpstreamsSection pr cfg)
    ([(''[general]'', general_entries cfg)] @ [(''[general.modes]'', modes_entries (gc_Modes (cf_General cfg)))] @
     [(''[general.links]'', [(''show'', VArr (gc_Show (cf_General cfg)))])] @ server_tables (cf_Server cfg) @
     timeouts_tables (cf_Timeouts cfg) @ censorship_tables (cf_Censorship cfg) @ access_tables (cf_Access cfg) @
     concat (map (\<lambda>up. [(''[[upstreams]]'', upstream_entries up)]) (cf_Upstreams cfg)))"
    by (intro tables_append tables_general tables_modes tables_links tables_server tables_timeouts
        tables_censorship tables_access)
qed (simp add: config_tables_def general_tables_def concat_singletons)

lemma pad2_no_newline: "newline \<notin> set (pad2 n)"
proof -
  have "nat (k mod 10) < 10" for k :: int by simp
  then have "10 < byte (chr (48 + nat (k mod 10)))" for k :: int by (simp add: trans_less_add1)
  then have "newline \<noteq> chr (48 + nat (k mod 10))" for k :: int using newline_byte by (metis less_irrefl)
  then show ?thesis by (simp add: pad2_def)
qed

lemma stamp_no_newline: "newline \<notin> set (format_stamp now)"
  using pad2_no_newline
  by (simp add: format_stamp_def format_date_def format_clock_def pad4_def Let_def) (simp add: newline_def)

lemma read_configuration:
  "read_toml (renderTOML pr now cfg) = Some (config_tables cfg)"
proof -
  have c: "tables (text_line (''# PopuGate '' @ [CHR 0xE2, CHR 0x80, CHR 0x94] @ '' telemt configuration'')) []"
    "tables (text_line (''# Generated: '' @ format_stamp now)) []" "tables (text_line []) []"
    by (rule tables_comment; use stamp_no_newline in \<open>simp add: newline_def\<close>)+
  have "read_text [] = Some ([], [])" by (simp add: read_text_def read_line_def)
  with tables_append [OF c(1) tables_append [OF c(2) tables_append [OF c(3) tables_config]], of pr cfg]
  have "read_text (renderTOML pr now cfg) = Some ([], config_tables cfg)"
    unfolding tables_def renderTOML_def append_assoc append_Nil by (metis append_Nil2)
  then show ?thesis by (simp add: read_toml_def)
qed


end
