(* ===== verification/Config_Properties.thy ===== *)
theory Config_Properties
  imports Telemt_Tables Container_Config Upstream_Service_Laws Secret_Service_Laws
begin

text \<open>
  What the engine gets to know of the panel's tables: the users of an instance's configuration are the
  secrets whose tags match, each with its key and its limits, and the Middle-Proxy mode is never set
  together with a shadowsocks upstream.
\<close>

subsection \<open>The fields of the access section\<close>

text \<open>A field of the access section to which a secret adds at most one value, under its label.\<close>

lemma access_field:
  assumes step: "\<And>s a. map_of (g (apply_secret s a)) =
      (case h s of None \<Rightarrow> map_of (g a) | Some v \<Rightarrow> (map_of (g a))(se_Label s \<mapsto> v))"
    and "distinct (map se_Label ss)"
  shows "map_of (g (fold apply_secret ss a)) l =
     (case Option.bind (find (\<lambda>s. se_Label s = l) ss) h of None \<Rightarrow> map_of (g a) l | Some v \<Rightarrow> Some v)"
  using assms(2)
proof (induction ss arbitrary: a)
  case (Cons s ss)
  have "find (\<lambda>s. se_Label s = l) ss = None" if "se_Label s = l"
    using Cons.prems that by (simp add: find_None_iff) (metis image_eqI)
  with Cons show ?case by (auto simp: step split: option.split)
qed simp

lemma access_fields:
  "map_of (ac_Users (apply_secret s a)) = (case Some (se_SecretKey s) of None \<Rightarrow> map_of (ac_Users a)
     | Some v \<Rightarrow> (map_of (ac_Users a))(se_Label s \<mapsto> v))"
  "map_of (ac_UserEnabled (apply_secret s a)) =
     (case (if se_Enabled s then None else Some False) of None \<Rightarrow> map_of (ac_UserEnabled a)
     | Some v \<Rightarrow> (map_of (ac_UserEnabled a))(se_Label s \<mapsto> v))"
  "map_of (ac_UserMaxTCPConns (apply_secret s a)) =
     (case (if se_Enabled s \<and> 0 < se_MaxConns s then Some (se_MaxConns s) else None) of
       None \<Rightarrow> map_of (ac_UserMaxTCPConns a) | Some v \<Rightarrow> (map_of (ac_UserMaxTCPConns a))(se_Label s \<mapsto> v))"
  "map_of (ac_UserMaxUniqueIPs (apply_secret s a)) =
     (case (if se_Enabled s \<and> 0 < se_MaxIPs s then Some (se_MaxIPs s) else None) of
       None \<Rightarrow> map_of (ac_UserMaxUniqueIPs a) | Some v \<Rightarrow> (map_of (ac_UserMaxUniqueIPs a))(se_Label s \<mapsto> v))"
  "map_of (ac_UserDataQuota (apply_secret s a)) =
     (case (if se_Enabled s \<and> 0 < se_QuotaBytes s then Some (se_QuotaBytes s) else None) of
       None \<Rightarrow> map_of (ac_UserDataQuota a) | Some v \<Rightarrow> (map_of (ac_UserDataQuota a))(se_Label s \<mapsto> v))"
  "map_of (ac_UserExpirations (apply_secret s a)) =
     (case (if se_Enabled s \<and> se_ExpiresAt s \<noteq> [] \<and> se_ExpiresAt s \<noteq> ''0'' then Some (se_ExpiresAt s) else None) of
       None \<Rightarrow> map_of (ac_UserExpirations a) | Some v \<Rightarrow> (map_of (ac_UserExpirations a))(se_Label s \<mapsto> v))"
  "map_of (ac_UserRateLimits (apply_secret s a)) =
     (case (if se_Enabled s \<and> (0 < se_RateLimitUpBps s \<or> 0 < se_RateLimitDownBps s)
            then Some (se_RateLimitUpBps s, se_RateLimitDownBps s) else None) of
       None \<Rightarrow> map_of (ac_UserRateLimits a) | Some v \<Rightarrow> (map_of (ac_UserRateLimits a))(se_Label s \<mapsto> v))"
  by (rule ext, simp add: apply_secret_def access_limits_def put_if_def Let_def)+

subsection \<open>Looking a user up in the tables the engine reads\<close>

definition user_value :: "(string \<times> entries) list \<Rightarrow> string \<Rightarrow> string \<Rightarrow> tval option" where
  "user_value ts h l = Option.bind (map_of ts h) (\<lambda>es. map_of es l)"

lemma set_sortedKeys: "set (sortedKeys m) = fst ` set m"
  by (simp add: sortedKeys_def)

lemma map_of_self: "map_of (map (\<lambda>l. (l, f l)) ls) l = (if l \<in> set ls then Some (f l) else None)"
  by (induction ls) auto

lemma user_entries_lookup:
  "map_of (user_entries m (\<lambda>l. c (lookup0 z m l))) l =
     (if tomlKeyRe l then map_option c (map_of m l) else None)"
proof (cases "map_of m l")
  case None
  then have "l \<notin> fst ` set m" by (simp add: map_of_eq_None_iff)
  with None show ?thesis by (simp add: user_entries_def map_of_self set_sortedKeys)
next
  case (Some v)
  then have "l \<in> fst ` set m" by (metis map_of_eq_None_iff option.distinct(1))
  with Some show ?thesis by (simp add: user_entries_def map_of_self set_sortedKeys lookup0_def)
qed

lemma optional_lookup:
  "Option.bind (map_of (optional_table h m (\<lambda>l. c (lookup0 z m l))) h) (\<lambda>es. map_of es l) =
     (if tomlKeyRe l then map_option c (map_of m l) else None)"
  by (simp add: optional_table_def user_entries_lookup)

text \<open>The headers of the sections.\<close>

definition access_header :: "string \<Rightarrow> bool" where
  "access_header h \<longleftrightarrow> take 8 h = ''[access.''"

lemma other_sections:
  assumes "access_header h"
  shows "map_of (config_tables cfg) h = map_of (access_tables (cf_Access cfg)) h"
proof -
  have "map_of (general_tables cfg) h = None" "map_of (timeouts_tables t) h = None" for t
    using assms by (auto simp: access_header_def general_tables_def timeouts_tables_def)
  moreover have "map_of (server_tables s) h = None" for s
    using assms by (auto simp: access_header_def server_tables_def map_of_eq_None_iff)
  moreover have "map_of (censorship_tables c) h = None" for c
    using assms by (auto simp: access_header_def censorship_tables_def)
  moreover have "map_of (map (\<lambda>up. (''[[upstreams]]'', upstream_entries up)) us) h = None" for us
    using assms by (auto simp: access_header_def map_of_eq_None_iff)
  ultimately show ?thesis by (simp add: config_tables_def map_add_def split: option.split)
qed

lemma rate_header_other:
  assumes "take 25 h \<noteq> ''[access.user_rate_limits.''"
  shows "map_of (map (\<lambda>l. (''[access.user_rate_limits.'' @ l @ '']'', f l)) ls) h = None"
  using assms by (auto simp: map_of_eq_None_iff)

lemma rate_header_lookup:
  "map_of (map (\<lambda>l. (''[access.user_rate_limits.'' @ l @ '']'', f l)) ls) (''[access.user_rate_limits.'' @ l @ '']'') =
     (if l \<in> set ls then Some (f l) else None)"
  by (induction ls) auto

lemma optional_other: "h \<noteq> h' \<Longrightarrow> map_of (optional_table h m f) h' = None"
  by (simp add: optional_table_def)

subsection \<open>The users of an instance\<close>

lemma label_is_key: "labelRe l = tomlKeyRe l"
  by (simp add: labelRe_def tomlKeyRe_def label_char_def [abs_def] disj_assoc)

lemma find_entry:
  "find (\<lambda>s. se_Label s = l) (map secret_entry_of ss) = map_option secret_entry_of (find (\<lambda>s. sec_Label s = l) ss)"
  by (induction ss) (auto simp: secret_entry_of_def)

lemma matching_labels:
  fixes i :: inst
  assumes "secrets_wf d" "labels_valid d"
  defines "ss \<equiv> matching_secrets i (map (scan_secret d) (secrets_by_id d))"
  shows "distinct (map sec_Label ss)" "\<forall>sec \<in> set ss. tomlKeyRe (sec_Label sec)"
proof -
  have "distinct (map row_label (secrets_by_id d))"
    using assms(1) by (simp add: secrets_by_id_def secrets_wf_def distinct_map)
  then have "distinct (map sec_Label (map (scan_secret d) (secrets_by_id d)))"
    by (simp add: scan_secret_def comp_def)
  then show "distinct (map sec_Label ss)"
    unfolding ss_def matching_secrets_def by (rule distinct_map_filter)
  show "\<forall>sec \<in> set ss. tomlKeyRe (sec_Label sec)"
    using assms(2) by (auto simp: ss_def matching_secrets_def secrets_by_id_def labels_valid_def scan_secret_def label_is_key)
qed

text \<open>What a field of the access section holds for a label, when the secrets' labels are keys.\<close>

lemma field_value:
  assumes step: "\<And>s a. map_of (g (apply_secret s a)) =
      (case h s of None \<Rightarrow> map_of (g a) | Some v \<Rightarrow> (map_of (g a))(se_Label s \<mapsto> v))"
    and ss: "distinct (map sec_Label ss)" "\<forall>sec \<in> set ss. tomlKeyRe (sec_Label sec)"
    and empty: "g newEmptyAccess = []"
  shows "(if tomlKeyRe l then map_option c (map_of (g (applySecretsToAccess newEmptyAccess (map secret_entry_of ss))) l) else None) =
     Option.bind (find (\<lambda>sec. sec_Label sec = l) ss) (\<lambda>sec. map_option c (h (secret_entry_of sec)))"
proof (cases "find (\<lambda>sec. sec_Label sec = l) ss")
  case None
  have "distinct (map se_Label (map secret_entry_of ss))" using ss(1) by (simp add: secret_entry_of_def comp_def)
  from access_field [of g h, OF step this] None show ?thesis
    by (simp add: applySecretsToAccess_def find_entry empty)
next
  case (Some sec)
  then have "tomlKeyRe l" using ss(2) find_SomeD [OF Some] by auto
  have "distinct (map se_Label (map secret_entry_of ss))" using ss(1) by (simp add: secret_entry_of_def comp_def)
  from access_field [of g h, OF step this] Some \<open>tomlKeyRe l\<close> show ?thesis
    by (simp add: applySecretsToAccess_def find_entry empty split: option.split)
qed

text \<open>The tables of the access section, one by one.\<close>

definition rate_tables :: "access_config \<Rightarrow> (string \<times> entries) list" where
  "rate_tables a = map (\<lambda>l. (''[access.user_rate_limits.'' @ l @ '']'',
       [(''up_bps'', VInt (fst (lookup0 (0, 0) (ac_UserRateLimits a) l))),
        (''down_bps'', VInt (snd (lookup0 (0, 0) (ac_UserRateLimits a) l)))]))
     (filter tomlKeyRe (sortedKeys (ac_UserRateLimits a)))"

lemmas access_split = access_tables_def [unfolded Let_def, folded rate_tables_def]

lemma user_value_skip: "map_of ts h = None \<Longrightarrow> user_value (ts @ us) h l = user_value us h l"
  and user_value_take: "map_of us h = None \<Longrightarrow> user_value (ts @ us) h l = user_value ts h l"
  by (simp_all add: user_value_def map_add_def split: option.split)

lemma user_value_Cons: "user_value ((h', es) # ts) h l = (if h = h' then map_of es l else user_value ts h l)"
  by (simp add: user_value_def)

lemma user_value_access:
  "access_header h \<Longrightarrow> user_value (config_tables cfg) h l = user_value (access_tables (cf_Access cfg)) h l"
  by (simp add: user_value_def other_sections)

lemma user_value_optional:
  "user_value (optional_table h m (\<lambda>l. c (lookup0 z m l))) h l =
     (if tomlKeyRe l then map_option c (map_of m l) else None)"
  by (simp add: user_value_def optional_lookup)

lemma rate_tables_other: "take 25 h \<noteq> ''[access.user_rate_limits.'' \<Longrightarrow> map_of (rate_tables a) h = None"
  unfolding rate_tables_def by (rule rate_header_other)

lemma access_values:
  "user_value (config_tables cfg) ''[access.users]'' l =
     (if tomlKeyRe l then map_option VStr (map_of (ac_Users (cf_Access cfg)) l) else None)"
  "user_value (config_tables cfg) ''[access.user_max_tcp_conns]'' l =
     (if tomlKeyRe l then map_option VInt (map_of (ac_UserMaxTCPConns (cf_Access cfg)) l) else None)"
  "user_value (config_tables cfg) ''[access.user_max_unique_ips]'' l =
     (if tomlKeyRe l then map_option VInt (map_of (ac_UserMaxUniqueIPs (cf_Access cfg)) l) else None)"
  "user_value (config_tables cfg) ''[access.user_data_quota]'' l =
     (if tomlKeyRe l then map_option VInt (map_of (ac_UserDataQuota (cf_Access cfg)) l) else None)"
  "user_value (config_tables cfg) ''[access.user_expirations]'' l =
     (if tomlKeyRe l then map_option VStr (map_of (ac_UserExpirations (cf_Access cfg)) l) else None)"
  "user_value (config_tables cfg) ''[access.user_enabled]'' l =
     (if tomlKeyRe l then map_option VBool (map_of (ac_UserEnabled (cf_Access cfg)) l) else None)"
  by (simp_all add: user_value_access access_header_def access_split user_value_Cons user_value_skip
      user_value_take user_value_optional optional_other rate_tables_other map_add_def user_entries_lookup)

text \<open>The rate limits of a user, a table of its own.\<close>

lemma rate_values:
  "map_of (config_tables cfg) (''[access.user_rate_limits.'' @ l @ '']'') =
     (if tomlKeyRe l then map_option (\<lambda>(u, v). [(''up_bps'', VInt u), (''down_bps'', VInt v)])
        (map_of (ac_UserRateLimits (cf_Access cfg)) l) else None)"
proof -
  let ?h = "''[access.user_rate_limits.'' @ l @ '']''"
  have "map_of (rate_tables a) ?h = (if tomlKeyRe l then map_option (\<lambda>(u, v). [(''up_bps'', VInt u), (''down_bps'', VInt v)])
        (map_of (ac_UserRateLimits a) l) else None)" for a
  proof (cases "map_of (ac_UserRateLimits a) l")
    case None
    then have "l \<notin> fst ` set (ac_UserRateLimits a)" by (simp add: map_of_eq_None_iff)
    with None show ?thesis unfolding rate_tables_def rate_header_lookup by (simp add: set_sortedKeys)
  next
    case (Some v)
    then have "l \<in> fst ` set (ac_UserRateLimits a)" by (metis map_of_eq_None_iff option.distinct(1))
    with Some show ?thesis unfolding rate_tables_def rate_header_lookup
      by (simp add: set_sortedKeys lookup0_def split: prod.split)
  qed
  moreover have "map_of (access_tables a) ?h = map_of (rate_tables a) ?h" for a
    by (simp add: access_split optional_other map_add_def split: option.split)
  ultimately show ?thesis by (simp add: other_sections access_header_def)
qed


subsection \<open>The Middle-Proxy mode\<close>

lemma upstream_tables:
  "(''[[upstreams]]'', es) \<in> set (config_tables cfg) \<longleftrightarrow> (\<exists>up \<in> set (cf_Upstreams cfg). es = upstream_entries up)"
  by (auto simp: config_tables_def general_tables_def server_tables_def timeouts_tables_def
      censorship_tables_def access_split rate_tables_def optional_table_def)

lemma built_type: "uc_Type (buildUpstreamConfig u) = ue_Type u"
  by (simp add: buildUpstreamConfig_def empty_upstream_config_def Let_def)

text \<open>
  C21: from tables that obey ADR-001, whichever settings and upstreams the panel has, no configuration
  is written that switches the Middle-Proxy mode on and lists a shadowsocks upstream.
\<close>

theorem generated_config_obeys_adr001:
  assumes "adr001 d"
  shows "\<exists>ts. read_toml (renderTOML pr now (BuildInstanceConfig (instance_params_of si
      (settings_of (rev (t_settings d))) i (map upstream_entry_of (sort_key up_ID (t_upstreams d))) secrets))) = Some ts \<and>
    \<not> (user_value ts ''[general]'' ''use_middle_proxy'' = Some (VBool True) \<and>
       (\<exists>es. (''[[upstreams]]'', es) \<in> set ts \<and> map_of es ''type'' = Some (VStr ''shadowsocks'')))"
proof -
  let ?cfg = "BuildInstanceConfig (instance_params_of si
      (settings_of (rev (t_settings d))) i (map upstream_entry_of (sort_key up_ID (t_upstreams d))) secrets)"
  have mode: "user_value (config_tables ?cfg) ''[general]'' ''use_middle_proxy'' = Some (VBool (engine_middle_proxy d))"
    by (simp add: user_value_def config_tables_def general_tables_def general_entries_def Let_def
        BuildInstanceConfig_def instance_params_of_def engine_middle_proxy_def)
  have "\<not> engine_middle_proxy d" if "(''[[upstreams]]'', es) \<in> set (config_tables ?cfg)"
    "map_of es ''type'' = Some (VStr ''shadowsocks'')" for es
  proof -
    from that(1) obtain up where "up \<in> set (cf_Upstreams ?cfg)" and es: "es = upstream_entries up"
      by (auto simp: upstream_tables)
    then obtain u where u: "u \<in> set (t_upstreams d)" "up_Enabled u" "up = buildUpstreamConfig (upstream_entry_of u)"
      by (auto simp: BuildInstanceConfig_def instance_params_of_def Let_def buildUpstreams_def upstream_entry_of_def)
    from that(2) have "up_Type u = UpstreamShadowsocks"
      by (simp add: es upstream_entries_def u(3) built_type upstream_entry_of_def UpstreamShadowsocks_def)
    with u(1,2) assms show ?thesis by (auto simp: adr001_def no_shadowsocks_def)
  qed
  with mode show ?thesis
    by (intro exI [of _ "config_tables ?cfg"] conjI read_configuration) auto
qed

end
