(* ===== verification/Container_Witnesses.thy ===== *)
theory Container_Witnesses
  imports Container_Properties Config_Properties Witnesses
    "HOL-Library.Code_Target_Nat" "HOL-Library.Code_Target_Int"
begin

text \<open>
  A host with a container daemon and a packet filter that behave as their documentation says, and the
  properties of the containers at concrete worlds on it.
\<close>

subsection \<open>A daemon and a packet filter\<close>

definition set_state :: "string \<Rightarrow> bool \<Rightarrow> host \<Rightarrow> host" where
  "set_state n b h = h\<lparr>ho_containers :=
     map (\<lambda>(m, c). (m, if m = n then c\<lparr>ct_Running := b\<rparr> else c)) (ho_containers h)\<rparr>"

definition drop_container :: "string \<Rightarrow> host \<Rightarrow> host" where
  "drop_container n h = h\<lparr>ho_containers := filter (\<lambda>(m, _). m \<noteq> n) (ho_containers h)\<rparr>"

definition make_container :: "string \<Rightarrow> container \<Rightarrow> host \<Rightarrow> (string + string) \<times> host" where
  "make_container n c h =
     (if n \<in> fst ` set (ho_containers h) then (Inl ''conflict'', h)
      else (Inr n, h\<lparr>ho_containers := (n, c\<lparr>ct_Running := False\<rparr>) # ho_containers h\<rparr>))"

definition rule_of :: "string list \<Rightarrow> (string \<times> rule) option" where
  "rule_of argv =
     (case argv of
        ip # t # tbl # act # chain # args \<Rightarrow>
          (if ip \<noteq> ''iptables'' then None
           else if t = ''-t'' then Some (act, (tbl, chain, args))
           else Some (t, (''filter'', tbl, act # chain # args)))
      | [ip, act, chain, a] \<Rightarrow> (if ip = ''iptables'' then Some (act, (''filter'', chain, [a])) else None)
      | [ip, act, chain] \<Rightarrow> (if ip = ''iptables'' then Some (act, (''filter'', chain, [])) else None)
      | _ \<Rightarrow> None)"

definition run_rule :: "string list \<Rightarrow> host \<Rightarrow> string option \<times> host" where
  "run_rule argv h =
     (case rule_of argv of
        None \<Rightarrow> (None, h)
      | Some (act, r) \<Rightarrow>
          if act = ''-C'' then ((if r \<in> set (ho_rules h) then None else Some ''no such rule''), h)
          else if act = ''-A'' then (None, h\<lparr>ho_rules := ho_rules h @ [r]\<rparr>)
          else if act = ''-I'' then (None, h\<lparr>ho_rules := r # ho_rules h\<rparr>)
          else if act = ''-D'' then
            (if r \<in> set (ho_rules h) then (None, h\<lparr>ho_rules := remove1 r (ho_rules h)\<rparr>)
             else (Some ''no such rule'', h))
          else (None, h))"

definition sample_daemon :: daemon where
  "sample_daemon = \<lparr>dk_remove = (\<lambda>n h. (None, drop_container n h)), dk_create = make_container,
     dk_start = (\<lambda>n h. (None, set_state n True h)), dk_stop = (\<lambda>n h. (None, set_state n False h)),
     dk_kill = (\<lambda>n s h. (None, h)), dk_list = (\<lambda>h. Inr (map (\<lambda>(n, c). (n, ct_Running c)) (ho_containers h))),
     dk_host_path = (\<lambda>p. p), nf_run = run_rule, nf_save = (\<lambda>argv h. Inr []),
     fs_error = (\<lambda>p h. None), tcp_free = (\<lambda>p h. True), http_metrics = (\<lambda>p h. Inl ''refused''),
     http_page = (\<lambda>u h. Inl ''refused''), nf_input = (\<lambda>argv s h. (None, h)), look_path = (\<lambda>p h. True),
     http_get = (\<lambda>u h. Inl ''refused'')\<rparr>"

fun live :: "(string \<times> container) list \<Rightarrow> string set" where
  "live [] = {}"
| "live ((m, c) # cs) = (if ct_Running c then insert m (live cs) else live cs)"

lemma live_running: "set (running_names h) = live (ho_containers h)"
proof -
  have "set (map fst (filter (\<lambda>(_, c). ct_Running c) cs)) = live cs" for cs
    by (induction cs rule: live.induct) simp_all
  then show ?thesis by (simp only: running_names_def)
qed

lemma live_state:
  "live (map (\<lambda>(m, c). (m, if m = n then c\<lparr>ct_Running := b\<rparr> else c)) cs) =
     live cs - {n} \<union> (if b \<and> n \<in> fst ` set cs then {n} else {})"
  by (induction cs rule: live.induct) auto

lemma live_filter: "live (filter (\<lambda>(m, _). m \<noteq> n) cs) = live cs - {n}"
  by (induction cs rule: live.induct) auto

lemma running_state:
  "n \<in> fst ` set (ho_containers h) \<Longrightarrow> set (running_names (set_state n True h)) = insert n (set (running_names h))"
  "set (running_names (set_state n False h)) = set (running_names h) - {n}"
  "set (running_names (drop_container n h)) = set (running_names h) - {n}"
  by (simp_all add: live_running set_state_def drop_container_def live_state live_filter)

lemma make_running:
  assumes "make_container n c h = (r, h')"
  shows "running_names h' = running_names h" "ho_rules h' = ho_rules h" "ho_files h' = ho_files h"
    "r = Inr i \<Longrightarrow> i = n \<and> n \<in> fst ` set (ho_containers h')"
  using assms by (auto simp: make_container_def running_names_def split: if_splits)

lemma state_other:
  "ho_rules (set_state n b h) = ho_rules h" "ho_files (set_state n b h) = ho_files h"
  "ho_rules (drop_container n h) = ho_rules h" "ho_files (drop_container n h) = ho_files h"
  by (simp_all add: set_state_def drop_container_def)

lemma listed_running:
  "{n. (n, True) \<in> set (map (\<lambda>(n, c). (n, ct_Running c)) (ho_containers h))} = set (running_names h)"
  by (force simp: running_names_def)

lemma sample_docker_ok: "docker_ok sample_daemon"
  unfolding docker_ok_def sample_daemon_def daemon.simps
proof (intro conjI allI impI)
  fix n c h i h1 e h'
  assume m: "make_container n c h = (Inr i, h1)" and s: "(None, set_state i True h1) = (e, h')"
  note m' = make_running(4) [OF m refl]
  have "e = None" "h' = set_state n True h1" using s m' by auto
  with m' show "set (running_names h') = set (running_names h1) \<union> (if e = None then {n} else {})"
    by (simp add: running_state(1))
  show "ho_rules h' = ho_rules h1" "ho_files h' = ho_files h1" using s by (auto simp: state_other)
next
  fix h :: host and l
  assume "Inr (map (\<lambda>(n, c). (n, ct_Running c)) (ho_containers h)) = (Inr l :: string + _)"
  then show "{n. (n, True) \<in> set l} = set (running_names h)" using listed_running [of h] by simp
qed (auto simp: running_state state_other dest: make_running(1-3))

lemma rule_of_iptables: "rule_of (iptables t act (t, c, as)) = Some (act, (t, c, as))" if "act \<noteq> ''-t''"
proof (cases "t = ''filter''")
  case True
  show ?thesis
  proof (cases as)
    case Nil
    with True show ?thesis by (simp add: rule_of_def iptables_def)
  next
    case (Cons a as')
    with True that show ?thesis by (cases as') (simp_all add: rule_of_def iptables_def)
  qed
qed (simp add: rule_of_def iptables_def)

lemma sample_netfilter_ok: "netfilter_ok sample_daemon"
  unfolding netfilter_ok_def sample_daemon_def daemon.simps
  by (intro conjI allI impI)
    (auto simp: run_rule_def rule_of_iptables split: option.splits prod.splits if_splits)

lemma sample_reliable: "netfilter_reliable sample_daemon"
  using sample_netfilter_ok
  by (auto simp: netfilter_reliable_def sample_daemon_def run_rule_def rule_of_iptables)

subsection \<open>Worlds\<close>

definition sample_site :: site where
  "sample_site = \<lparr>si_daemon = sample_daemon, si_docker = True, si_install_dir = ''/opt'', si_data_dir = ''/data'',
     si_extra_ips = [], si_printable = (\<lambda>n. True), si_notify = False, si_notifyWithBtns = False,
     si_trafficSvc = False\<rparr>"

definition plain_inst :: "int \<Rightarrow> int \<Rightarrow> inst" where
  "plain_inst n port = sample_inst\<lparr>inst_ID := n, inst_Port := port, inst_TLSFronting := False\<rparr>"

definition running_container :: container where
  "running_container = \<lparr>ct_Image = [], ct_Binds = [], ct_CapAdd = [], ct_Running = True\<rparr>"

definition proxy_world :: "inst list \<Rightarrow> int list \<Rightarrow> rule list \<Rightarrow> world" where
  "proxy_world insts ports rules = sample_world
     \<lparr>w_db := sample_db\<lparr>t_instances := insts\<rparr>,
      w_host := \<lparr>ho_containers = map (\<lambda>p. (container_name p, running_container)) ports, ho_rules = rules,
        ho_files = [], ho_env = 0\<rparr>\<rparr>"

definition one_proxy :: world where
  "one_proxy = proxy_world [plain_inst 1 443] [443] []"

lemmas world_defs = proxy_world_def sample_site_def plain_inst_def running_container_def sample_inst_def
  sample_world_def sample_db_def

lemma sample_site_ok:
  "docker_ok (si_daemon sample_site)" "netfilter_ok (si_daemon sample_site)"
  "netfilter_reliable (si_daemon sample_site)" "si_docker sample_site"
  using sample_docker_ok sample_netfilter_ok sample_reliable by (simp_all add: sample_site_def)

lemma run_of: "fst (m w) = Inr x \<Longrightarrow> m w = (Inr x, snd (m w))"
  by (metis prod.collapse)

subsection \<open>Nothing fails on this host\<close>

text \<open>\<open>runs_ok m\<close>: with no fault pending, \<open>m\<close> returns a value.\<close>

definition runs_ok :: "'a io \<Rightarrow> bool" where
  "runs_ok m \<longleftrightarrow> (\<forall>w. w_faults w = [] \<longrightarrow> (\<exists>x w'. m w = (Inr x, w') \<and> w_faults w' = []))"

named_theorems ok_intros

lemma leaves_faults [leaves_intros]:
  "leaves w_faults (on_host F)" "leaves w_faults (from_host G)" "leaves w_faults (tell e)" "leaves w_faults (add_drain d)"
  by (auto simp: leaves_def on_host_def from_host_def tell_def add_drain_def split: prod.split option.split sum.split)

lemma ok_basic [ok_intros]: "runs_ok (ret x)" "runs_ok clock" "runs_ok (tell e)" "runs_ok (add_drain d)"
  by (simp_all add: runs_ok_def tell_def add_drain_def)

lemma ok_andthen [ok_intros]: "runs_ok m \<Longrightarrow> (\<And>x. runs_ok (f x)) \<Longrightarrow> runs_ok (andthen m f)"
  unfolding runs_ok_def by (metis andthen_Inr)

lemma ok_wrap [ok_intros]: "runs_ok m \<Longrightarrow> runs_ok (wrap p m)"
  unfolding runs_ok_def by (metis wrap_Inr)

lemma ok_attempt [ok_intros]: "leaves w_faults m \<Longrightarrow> runs_ok (attempt m)"
  by (simp add: runs_ok_def attempt_run leaves_def)

lemma ok_ignore [ok_intros]: "leaves w_faults m \<Longrightarrow> runs_ok (ignore m)"
  unfolding ignore_def by (intro ok_intros)

lemma ok_if [ok_intros]: "runs_ok m \<Longrightarrow> runs_ok k \<Longrightarrow> runs_ok (if c then m else k)"
  and ok_when [ok_intros]: "runs_ok m' \<Longrightarrow> runs_ok (when_do c m')"
  and ok_prod [ok_intros]: "(\<And>x y. runs_ok (g x y)) \<Longrightarrow> runs_ok (case p of (x, y) \<Rightarrow> g x y)"
  by (simp_all add: when_do_def ok_basic split: prod.split)

lemma ok_each [ok_intros]: "(\<And>x a. runs_ok (f x a)) \<Longrightarrow> runs_ok (each f xs a)"
  by (induction xs arbitrary: a) (auto intro: ok_intros)

lemma ok_rows [ok_intros]: "runs_ok (sql_rows wr (\<lambda>d. Inr (g d)))"
  by (simp add: runs_ok_def sql_rows_ok)

lemma ok_loads [ok_intros]:
  "runs_ok SettingsStore_Load" "runs_ok SecretStore_List" "runs_ok listUpstreamEntries"
  unfolding SettingsStore_Load_def SecretStore_List_def listUpstreamEntries_def UpstreamStore_List_def queryUpstreams_def
  by (intro ok_intros)+

lemma sample_fs: "fs_error (si_daemon sample_site) p h = None"
  by (simp add: sample_site_def sample_daemon_def)

lemma ok_write [ok_intros]: "runs_ok (WriteConfigTOML sample_site cfg path)"
  by (simp add: runs_ok_def WriteConfigTOML_def Let_def andthen_def wrap_def attempt_run on_host_run
      mkdir_all_def write_file_def rename_file_def sample_fs file_at_def tick_def)

lemma ok_generate [ok_intros]:
  "runs_ok (generateInstanceConfigForSwing sample_site s i p m)" "runs_ok (generateInstanceConfig sample_site s i)"
  unfolding generateInstanceConfigForSwing_def generateInstanceConfig_def generateInstanceConfigWith_def
    generateInstanceConfigWithCached_def
  by (intro ok_intros)+

lemma ok_run [ok_intros]: "runs_ok (RunInstance (si_daemon sample_site) opts)"
proof -
  have "n \<notin> fst ` set (ho_containers (drop_container n h))" for n h
    by (auto simp: drop_container_def)
  then show ?thesis
    by (simp add: runs_ok_def RunInstance_def andthen_def tell_def attempt_run on_host_run from_host_def wrap_def
        sample_site_def sample_daemon_def make_container_def)
qed

lemma ok_stop [ok_intros]: "leaves w_faults (docker_StopInstance dk n)" "leaves w_faults (RemoveTCPMSSRules dk p)"
  "leaves w_faults (SetTCPMSSRule dk p q)" "leaves w_faults (HasPortRedirect dk p q)"
  "leaves w_faults (AddPortRedirect dk p q)" "leaves w_faults (RemovePortRedirect dk p q)"
  "leaves w_faults (IsInstanceRunning dk n)" "leaves w_faults (ListRunningContainerNames dk)"
  "leaves w_faults (downloadFrontingContent si site_name dir)"
  unfolding docker_StopInstance_def RemoveTCPMSSRules_def SetTCPMSSRule_def HasPortRedirect_def AddPortRedirect_def
    RemovePortRedirect_def succeeds_def delete_lines_def runCmd_def runCmdOutput_def IsInstanceRunning_def
    ListRunningContainerNames_def downloadFrontingContent_def Let_def
  by (intro leaves_intros)+

lemma ok_free [ok_intros]: "runs_ok (first_free si ports)"
proof -
  have "runs_ok (isPortFree si p)" "runs_ok (is_running si n)" for p n
    unfolding is_running_def
    by (simp add: runs_ok_def isPortFree_def from_host_def) (intro ok_intros)
  then show ?thesis by (induction ports) (auto intro!: ok_intros)
qed

lemma ok_with: "w_faults w = [] \<Longrightarrow> find_instance (w_db w) n = Some i \<Longrightarrow> with_instance n f w = f i w"
  by (simp add: with_instance_def instances_by_id.found_runs)

lemma reload_succeeds:
  assumes "w_faults w = []" "find_instance (w_db w) n = Some i"
  shows "ReloadInstance sample_site n w = (Inr (), snd (ReloadInstance sample_site n w))"
proof -
  have tail: "runs_ok (andthen (attempt (ListRunningContainerNames (si_daemon sample_site))) (\<lambda>r.
       reload_to sample_site s i (case r of Inl _ \<Rightarrow> [] | Inr names \<Rightarrow> names)))" for s
    unfolding reload_to_def resolveSwingRoutingState_def setupTargetRuntimeRules_def startSwingDraining_def
      findFreeSwingPort_def fronting_dir_def Let_def
    by (intro ok_intros)
  have l: "SettingsStore_Load w = (Inr (settings_of (rev (t_settings (w_db w)))), w)"
    using assms(1) by (simp add: SettingsStore_Load_def andthen_def sql_rows_ok)
  show ?thesis
    using tail [unfolded runs_ok_def] assms
    by (simp add: ReloadInstance_def andthen_Inr [where m = SettingsStore_Load, OF l] ok_with) (metis snd_conv)
qed

lemma stop_succeeds:
  assumes "w_faults w = []" "find_instance (w_db w) n = Some i" "inst_TCPMSSEnabled i = False"
  shows "StopInstance sample_site n w = (Inr (), snd (StopInstance sample_site n w))"
proof -
  have stop: "fst (docker_StopInstance (si_daemon sample_site) name v) = Inr ()" for name v
    by (simp add: docker_StopInstance_def andthen_def tell_def on_host_run sample_site_def sample_daemon_def)
  show ?thesis
    using assms
    by (simp add: StopInstance_def need_docker_def sample_site_ok(4) ok_with GetActiveSwingPort_def
        GetActiveContainerName_def running_map_def drop_redirect_def cleanupInstanceRuntimeRules_def when_do_def
        andthen_def attempt_run ignore_run stop split: sum.split prod.split)
qed

lemma start_succeeds:
  assumes "w_faults w = []" "find_instance (w_db w) n = Some i" "inst_TCPMSSEnabled i = False"
    and "filter (\<lambda>sec. sec_Enabled sec \<and> TagsMatch (Instance_GetTags i) (Secret_GetTags sec))
      (map (scan_secret (w_db w)) (secrets_by_id (w_db w))) \<noteq> []"
  shows "StartInstance sample_site n w = (Inr (), snd (StartInstance sample_site n w))"
proof -
  have tail: "runs_ok (andthen (cleanStalePortRedirects sample_site (inst_Port i)) (\<lambda>_.
            andthen (applyInstanceRuntimeRules sample_site i) (\<lambda>tlsFrontDir.
            andthen (wrap ''generate config'' (generateInstanceConfig sample_site s i)) (\<lambda>_.
            andthen (RunInstance (si_daemon sample_site) (run_opts sample_site s (ContainerName i) (inst_Port i) tlsFrontDir)) (\<lambda>_.
            ret ())))))" for s
    unfolding cleanStalePortRedirects_def applyInstanceRuntimeRules_def applyTCPMSSRules_def fronting_dir_def Let_def
      assms(3) not_False_eq_True if_True
    by (intro ok_intros)
  have l: "SettingsStore_Load w = (Inr (settings_of (rev (t_settings (w_db w)))), w)"
    using assms(1) by (simp add: SettingsStore_Load_def andthen_def sql_rows_ok)
  have c: "matchingSecretCount (Instance_GetTags i) w = (Inr (int (length (filter
      (\<lambda>sec. sec_Enabled sec \<and> TagsMatch (Instance_GetTags i) (Secret_GetTags sec))
      (map (scan_secret (w_db w)) (secrets_by_id (w_db w)))))), w)"
    using assms(1) by (simp add: matchingSecretCount_def SecretStore_List_def andthen_def sql_rows_ok)
  let ?s = "settings_of (rev (t_settings (w_db w)))"
  have "wrap ''load settings'' SettingsStore_Load w = (Inr ?s, w)" by (simp add: wrap_Inr l)
  note run = andthen_Inr [where m = "wrap ''load settings'' SettingsStore_Load", OF this]
    andthen_Inr [where m = "matchingSecretCount (Instance_GetTags i)", OF c]
  from tail [of ?s, unfolded runs_ok_def, rule_format, OF assms(1)] obtain x w' where
    "andthen (cleanStalePortRedirects sample_site (inst_Port i)) (\<lambda>_.
            andthen (applyInstanceRuntimeRules sample_site i) (\<lambda>tlsFrontDir.
            andthen (wrap ''generate config'' (generateInstanceConfig sample_site ?s i)) (\<lambda>_.
            andthen (RunInstance (si_daemon sample_site) (run_opts sample_site ?s (ContainerName i) (inst_Port i) tlsFrontDir)) (\<lambda>_.
            ret ())))) w = (Inr x, w')"
    by (elim exE conjE)
  then have "StartInstance sample_site n w = (Inr (), w')"
    using assms(4) [folded length_0_conv] by (simp add: StartInstance_def need_docker_def sample_site_ok(4) run ok_with [OF assms(1,2)] del: container_names)
  then show ?thesis by simp
qed

subsection \<open>The properties at work\<close>

lemma one_proxy_facts:
  "w_faults one_proxy = []" "find_instance (w_db one_proxy) 1 = Some (plain_inst 1 443)"
  "inst_Port (plain_inst n p) = p" "inst_TCPMSSEnabled (plain_inst n p) = False"
  "up (proxy_world insts ports rules) = container_name ` set ports"
  by (simp_all add: one_proxy_def world_defs find_instance_def up_def running_names_def image_image)

lemma listed: "\<exists>l. dk_list (si_daemon sample_site) h = Inr l"
  by (simp add: sample_site_def sample_daemon_def)

theorem reload_keeps_serving_witness:
  "\<exists>i new. find_instance (w_db one_proxy) 1 = Some i \<and>
     up (snd (ReloadInstance sample_site 1 one_proxy)) = insert new (up one_proxy)"
  using reload_keeps_serving [OF sample_site_ok(1,2) reload_succeeds [OF one_proxy_facts(1,2)]] by blast


definition draining_proxy :: world where
  "draining_proxy = (proxy_world [plain_inst 1 443] [443, 10443] [redirect_rule 443 10443])
     \<lparr>w_drains := [(container_name 443, 443, 9090)]\<rparr>"

lemma draining_facts:
  "w_faults draining_proxy = []" "find_instance (w_db draining_proxy) 1 = Some (plain_inst 1 443)"
  "up draining_proxy = {container_name 443, container_name 10443}"
  "w_drains draining_proxy = [(container_name 443, 443, 9090)]"
  "nat_rules draining_proxy = [redirect_rule 443 10443]"
  by (simp_all add: draining_proxy_def world_defs find_instance_def up_def running_names_def nat_rules_def redirect_rule_def)

theorem overlapping_reloads_stop_the_engine_witness:
  "\<exists>p2 m2. w_drains (snd (ReloadInstance sample_site 1 draining_proxy)) =
     [(container_name 443, 443, 9090), (container_name 10443, p2, m2)]"
proof -
  obtain l where l: "dk_list (si_daemon sample_site) (w_host draining_proxy) = Inr l" using listed by blast
  have s: "stops_succeed (si_daemon sample_site)"
    by (simp add: stops_succeed_def sample_site_def sample_daemon_def)
  show ?thesis
    using overlapping_reloads_stop_the_engine [where ?p1.0 = 443 and ?m1.0 = 9090 and t = 10443,
        OF sample_site_ok(1,2) s l draining_facts(2) _ _ _ _ _ _ _ _ reload_succeeds [OF draining_facts(1,2)]]
    by (auto simp: one_proxy_facts draining_facts swing_ports_above)
qed

definition high_proxy :: world where
  "high_proxy = proxy_world [plain_inst 1 60000] [60000] []"

lemma high_facts:
  "w_faults high_proxy = []" "find_instance (w_db high_proxy) 1 = Some (plain_inst 1 60000)"
  by (simp_all add: high_proxy_def world_defs find_instance_def)

theorem reload_of_a_high_port_witness:
  "\<exists>t m. 65535 < (t :: int) \<and> w_drains (snd (ReloadInstance sample_site 1 high_proxy)) =
     w_drains high_proxy @ [(container_name 60000, 60000, m)]"
proof -
  obtain l where l: "dk_list (si_daemon sample_site) (w_host high_proxy) = Inr l" using listed by blast
  have "ContainerName (plain_inst 1 60000) \<in> up high_proxy"
    by (simp add: high_proxy_def one_proxy_facts)
  from reload_of_a_high_port [OF sample_site_ok(1,2) l high_facts(2) _ this reload_succeeds [OF high_facts]]
  show ?thesis unfolding one_proxy_facts container_names by auto
qed

definition two_proxies :: world where
  "two_proxies = proxy_world [plain_inst 1 443, plain_inst 2 10443] [443, 10443] []"

lemma two_facts:
  "w_faults two_proxies = []" "find_instance (w_db two_proxies) 1 = Some (plain_inst 1 443)"
  "find_instance (w_db two_proxies) 2 = Some (plain_inst 2 10443)"
  by (simp_all add: two_proxies_def world_defs find_instance_def)

theorem stop_instance_hits_neighbour_witness:
  "container_name 10443 \<notin> up (snd (StopInstance sample_site 1 two_proxies)) \<and>
   container_name 443 \<in> up (snd (StopInstance sample_site 1 two_proxies))"
proof -
  obtain l where l: "dk_list (si_daemon sample_site) (w_host two_proxies) = Inr l" using listed by blast
  show ?thesis
    using stop_instance_hits_neighbour [OF sample_site_ok(1,2,4) l two_facts(2,3)]
      stop_succeeds [OF two_facts(1,2)]
    by (simp add: one_proxy_facts two_proxies_def)
qed


lemma sample_tables: "secrets_wf sample_db" "labels_valid sample_db"
  using sample_wf sample_valid_label
  by (simp_all add: sample_world_def labels_valid_def sample_db_def sample_row_def)


theorem generated_config_obeys_adr001_witness:
  "\<exists>ts. read_toml (renderTOML (\<lambda>_. True) 0 (BuildInstanceConfig (instance_params_of sample_site
      (settings_of (rev (t_settings empty_db))) (plain_inst 1 443)
      (map upstream_entry_of (sort_key up_ID (t_upstreams empty_db))) []))) = Some ts"
proof -
  have "adr001 empty_db"
    by (simp add: adr001_def tables_wf_def upstreams_wf_def no_shadowsocks_def empty_db_def)
  from generated_config_obeys_adr001 [OF this] show ?thesis by blast
qed

end
