(* ===== verification/Instance_Witnesses.thy ===== *)
theory Instance_Witnesses
  imports Instance_Properties Container_Witnesses
begin

text \<open>The properties of the instances' endpoint on the host of the other witnesses.\<close>

definition sample_handler :: inst_handler where
  "sample_handler = \<lparr>ih_site = sample_site, ih_container = True, ih_audit = True, ih_user = ''admin'',
     ih_tries = 65536, ih_letter = (\<lambda>n. True)\<rparr>"

text \<open>A host on which one can listen on every port there is.\<close>

definition port_handler :: inst_handler where
  "port_handler = sample_handler\<lparr>ih_site := sample_site\<lparr>si_daemon := sample_daemon\<lparr>tcp_free := \<lambda>p h. p \<le> 65535\<rparr>\<rparr>\<rparr>"

definition sample_add :: add_request where
  "sample_add = \<lparr>ar_Port = 8443, ar_MetricsPort = 0, ar_Label = ''new'', ar_TLSDomain = ''example.com'', ar_TLSDomains = [],
     ar_FakeTLS = None, ar_MaskHost = [], ar_MaskPort = 0, ar_Tags = [], ar_TCPMSSEnabled = None, ar_TCPMSS = 0,
     ar_TCPMSSBulk = 0, ar_TLSFronting = None, ar_UnknownSNIAction = [], ar_ExclusiveMask = [], ar_APIPort = 0\<rparr>"

definition bad_update :: update_request where
  "bad_update = \<lparr>ur_Port = None, ur_MetricsPort = None, ur_Label = None, ur_Enabled = Some False, ur_TLSDomain = None,
     ur_TLSDomains = None, ur_FakeTLS = None, ur_MaskHost = None, ur_MaskPort = None, ur_Tags = Some ''x'',
     ur_TCPMSSEnabled = None, ur_TCPMSS = None, ur_TCPMSSBulk = None, ur_TLSFronting = None,
     ur_UnknownSNIAction = None, ur_ExclusiveMask = None, ur_APIPort = None\<rparr>"

definition last_port :: world where
  "last_port = proxy_world [plain_inst 1 443\<lparr>inst_MetricsPort := 65535\<rparr>] [443] []"

lemma sample_request:
  "add_request_ok letter sample_add = (list_all (\<lambda>c. letter (fst (decode_rune c)) \<or> c = ''_'' \<or> c = ''-'') (chunks ''new''))"
  "validateAddRequest sample_add = None"
proof -
  have "rune_count ''new'' = 3" by code_simp
  then show "add_request_ok letter sample_add = (list_all (\<lambda>c. letter (fst (decode_rune c)) \<or> c = ''_'' \<or> c = ''-'') (chunks ''new''))"
    by (simp add: add_request_ok_def sample_add_def between_def validateAlphaNumDash_def)
qed (simp add: validateAddRequest_def sample_add_def array_ok_def validateTagsField_def)

lemma sample_request_ok: "add_request_ok (ih_letter port_handler) sample_add"
  by (simp add: sample_request port_handler_def sample_handler_def list_all_iff)


theorem add_after_the_last_port_hangs_witness:
  "Instance_Add port_handler sample_add last_port = (Inr None, last_port)"
proof (rule add_after_the_last_port_hangs [OF _ _ _ _ _ sample_request_ok sample_request(2)])
  show "plain_inst 1 443\<lparr>inst_MetricsPort := 65535\<rparr> \<in> set (t_instances (w_db last_port))"
    by (simp add: last_port_def world_defs)
qed (simp_all add: last_port_def world_defs port_handler_def sample_handler_def sample_add_def sample_daemon_def)

theorem refused_update_stops_the_engine_witness:
  "container_name 443 \<in> up one_proxy \<and>
   (\<exists>w'. Instance_Update sample_handler ''1'' bad_update one_proxy = (Inr (Some (IRefused 400 (RTags TagsNotArray))), w') \<and>
     w_db w' = w_db one_proxy \<and> container_name 443 \<notin> up w')"
proof -
  obtain l where l: "dk_list (si_daemon sample_site) (w_host one_proxy) = Inr l" using listed by blast
  have tags: "validateTagsField ''x'' = Some TagsNotArray" by code_simp
  have param: "atoi ''1'' = Some 1" by code_simp
  let ?w = "snd (StopInstance sample_site 1 one_proxy)"
  have "Instance_Update sample_handler ''1'' bad_update one_proxy = (Inr (Some (IRefused 400 (RTags TagsNotArray))), ?w) \<and>
     w_db ?w = w_db one_proxy \<and>
     up ?w = up one_proxy - {GetActiveContainerNameWithMap (plain_inst 1 443) (running_names (w_host one_proxy))}"
    by (rule refused_update_stops_the_engine [OF _ _ _ _ _ _ _ param _ _ _ _ _ tags])
      (use l sample_site_ok stop_succeeds [OF one_proxy_facts(1,2,4)] one_proxy_facts in
        \<open>simp_all add: sample_handler_def bad_update_def update_request_ok_def given_def plain_inst_def sample_inst_def\<close>)
  moreover have "GetActiveContainerNameWithMap (plain_inst 1 443) (running_names (w_host one_proxy)) = container_name 443"
    by code_simp
  moreover have "container_name 443 \<in> up one_proxy" by (simp add: up_def running_names_def one_proxy_def world_defs)
  ultimately show ?thesis by auto
qed

theorem removed_instance_keeps_running_witness:
  "\<exists>e w'. Instance_Remove sample_handler ''1'' two_proxies = (Inr IOk, w') \<and>
    w_host w' = w_host two_proxies \<and> StopInstance sample_site 1 w' = (Inl e, w')"
proof -
  let ?w = "snd (Instance_Remove sample_handler ''1'' two_proxies)"
  have param: "atoi ''1'' = Some 1" by code_simp
  have run: "Instance_Remove sample_handler ''1'' two_proxies = (Inr IOk, ?w) \<and> w_faults ?w = []"
    by (simp add: Instance_Remove_def instance_to_remove_def param two_proxies_def world_defs andthen_def attempt_def
        InstanceStore_GetByID_def InstanceStore_Count_def InstanceStore_DeleteByID_def sql_row_def sql_exec_def
        pop_fault_def find_instance_def auditLog_def AuditStore_Insert_def wrap_def sample_handler_def Let_def)
  with removed_instance_keeps_running [of sample_handler "''1''" two_proxies ?w 1 sample_site] param
  show ?thesis by blast
qed

definition legal_world :: world where
  "legal_world = one_proxy\<lparr>w_db := (w_db one_proxy)\<lparr>t_instances_seq := 1\<rparr>\<rparr>"


end
