(* ===== verification/Auth_Properties.thy ===== *)
theory Auth_Properties
  imports Auth
begin

text \<open>
  What the tokens promise: a refresh token that was exchanged is refused ever after; and where the
  promise falls short, two requests at the same time and refresh tokens that open every endpoint.
\<close>

subsection \<open>Relations that operations move along\<close>

text \<open>\<open>moves R m\<close>: whatever fails, \<open>m\<close> leads from a world to one that \<open>R\<close> relates to it.\<close>

definition moves :: "(world \<Rightarrow> world \<Rightarrow> bool) \<Rightarrow> 'a io \<Rightarrow> bool" where
  "moves R m \<longleftrightarrow> (\<forall>w. R w (snd (m w)))"

lemma moves_at: "moves R m \<Longrightarrow> m w = (r, w') \<Longrightarrow> R w w'"
  by (auto simp: moves_def dest: spec [of _ w])

text \<open>
  The relations that see the tables and the clock only, and let no operation change the clock or
  bring up new failures.
\<close>

definition steady :: "world \<Rightarrow> world \<Rightarrow> bool" where
  "steady w w' \<longleftrightarrow> w_now w' = w_now w \<and> (w_faults w = [] \<longrightarrow> w_faults w' = [])"

locale world_order =
  fixes R :: "world \<Rightarrow> world \<Rightarrow> bool"
  assumes same: "w_db w' = w_db w \<Longrightarrow> steady w w' \<Longrightarrow> R w w'"
    and trans: "R a b \<Longrightarrow> R b c \<Longrightarrow> R a c"
    and time: "R w w' \<Longrightarrow> steady w w'"
begin

lemma moves_ret: "moves R (ret x)"
  and moves_throw: "moves R (throw e)"
  and moves_clock: "moves R clock"
  by (simp_all add: moves_def same steady_def)

lemma moves_andthen:
  assumes "moves R m" "\<And>x. moves R (f x)"
  shows "moves R (andthen m f)"
  unfolding moves_def
proof
  fix w :: world
  show "R w (snd (andthen m f w))"
  proof (cases rule: andthen_cases [of m w f])
    case (err e w')
    with moves_at [OF assms(1) err(1)] show ?thesis by simp
  next
    case (ok x w')
    have "R w' (snd (f x w'))" using assms(2) [of x] by (simp add: moves_def)
    with ok moves_at [OF assms(1) ok(1)] trans show ?thesis by simp
  qed
qed

lemma moves_value:
  assumes "moves R m" "\<And>w x w'. m w = (Inr x, w') \<Longrightarrow> moves R (f x)"
  shows "moves R (andthen m f)"
  unfolding moves_def
proof
  fix w :: world
  show "R w (snd (andthen m f w))"
  proof (cases rule: andthen_cases [of m w f])
    case (err e w')
    with moves_at [OF assms(1) err(1)] show ?thesis by simp
  next
    case (ok x w')
    have "R w' (snd (f x w'))" using assms(2) [OF ok(1)] by (simp add: moves_def)
    with ok moves_at [OF assms(1) ok(1)] trans show ?thesis by simp
  qed
qed

lemma moves_attempt: "moves R m \<Longrightarrow> moves R (attempt m)"
  and moves_wrap: "moves R n \<Longrightarrow> moves R (wrap p n)"
  by (simp_all add: moves_def)

lemma moves_if: "moves R m \<Longrightarrow> moves R n \<Longrightarrow> moves R (if b then m else n)"
  and moves_option: "moves R m' \<Longrightarrow> (\<And>x. moves R (f x)) \<Longrightarrow> moves R (case v of None \<Rightarrow> m' | Some x \<Rightarrow> f x)"
  and moves_sum: "(\<And>x. moves R (g x)) \<Longrightarrow> (\<And>x. moves R (h x)) \<Longrightarrow> moves R (case s of Inl x \<Rightarrow> g x | Inr x \<Rightarrow> h x)"
  and moves_prod: "(\<And>x y. moves R (k x y)) \<Longrightarrow> moves R (case p of (x, y) \<Rightarrow> k x y)"
  by (simp_all split: option.split sum.split prod.split)

lemma pop_fault_time: "pop_fault w = (ft, w') \<Longrightarrow> steady w w'"
  by (auto simp: pop_fault_def steady_def split: list.splits)

lemma exec_at:
  assumes "\<And>x d. f (w_db w) = Inr (x, d) \<Longrightarrow> R w (w\<lparr>w_db := d\<rparr>)"
  shows "R w (snd (sql_exec f w))"
proof -
  obtain ft w1 where p: "pop_fault w = (ft, w1)" by (rule prod.exhaust)
  note d = pop_fault_same [OF p] and n = pop_fault_time [OF p]
  have r: "R w w1" by (rule same [OF d n])
  show ?thesis
  proof (cases ft)
    case (Some m)
    with p r show ?thesis by (simp add: sql_exec_def)
  next
    case None
    show ?thesis
    proof (cases "f (w_db w)")
      case (Inl e)
      with p None d r show ?thesis by (simp add: sql_exec_def)
    next
      case (Inr y)
      obtain x d' where y: "y = (x, d')" by (rule prod.exhaust)
      have "R (w\<lparr>w_db := d'\<rparr>) (w1\<lparr>w_db := d'\<rparr>)" using n by (intro same) (simp_all add: steady_def)
      with assms Inr y have "R w (w1\<lparr>w_db := d'\<rparr>)" by (blast intro: trans)
      with p None d Inr y show ?thesis by (simp add: sql_exec_def)
    qed
  qed
qed

lemma moves_exec: "(\<And>w x d. f (w_db w) = Inr (x, d) \<Longrightarrow> R w (w\<lparr>w_db := d\<rparr>)) \<Longrightarrow> moves R (sql_exec f)"
  unfolding moves_def by (blast intro: exec_at)

lemma moves_row: "moves R (sql_row wr g)"
proof -
  have "R w (snd (sql_row wr g w))" for w
  proof -
    obtain ft w1 where p: "pop_fault w = (ft, w1)" by (rule prod.exhaust)
    have "R w w1" by (rule same [OF pop_fault_same [OF p] pop_fault_time [OF p]])
    with p show ?thesis by (simp add: sql_row_def split: option.split)
  qed
  then show ?thesis by (simp add: moves_def)
qed

lemma moves_each: "(\<And>x a. moves R (f x a)) \<Longrightarrow> moves R (each f xs a)"
  by (induction xs arbitrary: a) (auto intro: moves_ret moves_andthen)

lemma moves_transaction:
  assumes "moves R body"
  shows "moves R (transaction b body)"
proof -
  have t: "moves R (wrap b tx_step)"
    unfolding tx_step_def by (intro moves_wrap moves_exec same) (simp_all add: steady_def)
  have "R w (snd (transaction b body w))" for w
  proof -
    obtain r1 w1 where w1: "wrap b tx_step w = (r1, w1)" by (rule prod.exhaust)
    have r: "R w w1" by (rule moves_at [OF t w1])
    obtain r2 w2 where w2: "body w1 = (r2, w2)" by (rule prod.exhaust)
    have r2: "R w1 w2" by (rule moves_at [OF assms w2])
    have "R w1 (w2\<lparr>w_db := w_db w1\<rparr>)" using time [OF r2] by (intro same) (simp_all add: steady_def)
    with r r2 trans w1 w2 show ?thesis
      by (auto simp: transaction_def split: sum.split)
  qed
  then show ?thesis by (simp add: moves_def)
qed

lemmas moves_rules = moves_ret moves_throw moves_clock moves_row moves_andthen moves_attempt moves_wrap
  moves_if moves_option moves_sum moves_prod moves_each moves_transaction

end

subsection \<open>A revoked token id\<close>

definition revoked :: "string \<Rightarrow> int \<Rightarrow> world \<Rightarrow> bool" where
  "revoked j e w \<longleftrightarrow>
     (\<forall>r \<in> set (t_token_blocklist (w_db w)). fst r = j \<longrightarrow> snd r = e) \<and>
     ((j, e) \<in> set (t_token_blocklist (w_db w)) \<or> e < unix (w_now w))"

definition keeps_revoked :: "string \<Rightarrow> int \<Rightarrow> world \<Rightarrow> world \<Rightarrow> bool" where
  "keeps_revoked j e w w' \<longleftrightarrow> steady w w' \<and> (revoked j e w \<longrightarrow> revoked j e w')"

interpretation revoking: world_order "keeps_revoked j e"
  by unfold_locales (auto simp: keeps_revoked_def steady_def revoked_def)

lemma set_put: "set (put k v m) = insert (k, v) {r \<in> set m. fst r \<noteq> k}"
  by (auto simp: put_def)

lemma Blocklist_Add_moves:
  "(j' = j \<longrightarrow> e' = e) \<Longrightarrow> moves (keeps_revoked j e) (Blocklist_Add j' e')"
  unfolding Blocklist_Add_def
  by (rule revoking.moves_exec) (auto simp: keeps_revoked_def steady_def revoked_def set_put)

lemma Cleanup_moves: "moves (keeps_revoked j e) Blocklist_Cleanup"
proof -
  have "keeps_revoked j e w (snd (Blocklist_Cleanup w))" for w
    unfolding Blocklist_Cleanup_def andthen_def
    by (simp, rule revoking.exec_at) (auto simp: keeps_revoked_def steady_def revoked_def)
  then show ?thesis by (simp add: moves_def)
qed

lemma Save_moves: "moves (keeps_revoked j e) (SettingsStore_Save us)"
proof -
  have set: "moves (keeps_revoked j e) (sql_exec (\<lambda>d. Inr ((), d\<lparr>t_settings := g d\<rparr>)))"
    and tx: "moves (keeps_revoked j e) tx_step" for g
    unfolding tx_step_def by (rule revoking.moves_exec; simp add: keeps_revoked_def steady_def revoked_def)+
  have "moves (keeps_revoked j e) ((case x of (k, v) \<Rightarrow> \<lambda>_. save_setting k v) a)" for x and a :: unit
    by (cases x) (simp add: save_setting_def revoking.moves_wrap set)
  then show ?thesis
    unfolding SettingsStore_Save_def by (intro revoking.moves_rules tx)
qed

lemma random_moves:
  "moves (keeps_revoked j e) (generateRandomHex n)" "moves (keeps_revoked j e) GenerateJTI"
  "moves (keeps_revoked j e) (GenerateFromPassword lib pw)"
  by (auto simp: moves_def generateRandomHex_def GenerateJTI_def GenerateFromPassword_def keeps_revoked_def
      steady_def revoked_def split: sum.split)

lemma settings_moves:
  "moves (keeps_revoked j e) (SettingsStore_Get k)" "moves (keeps_revoked j e) GetJWTSecret"
  "moves (keeps_revoked j e) GetAuthPasswordHash" "moves (keeps_revoked j e) (SetAuthPasswordHash h)"
  unfolding GetJWTSecret_def GetAuthPasswordHash_def SetAuthPasswordHash_def SettingsStore_Get_def
  by (intro revoking.moves_rules Save_moves random_moves)+

lemma is_blocked_moves: "moves (keeps_revoked j e) (is_blocked k)"
  unfolding is_blocked_def Blocklist_IsBlocked_def by (intro revoking.moves_rules)

lemma pair_moves: "moves (keeps_revoked j e) (GenerateTokenPair lib s u)"
  unfolding GenerateTokenPair_def by (intro revoking.moves_rules random_moves)

lemmas auth_moves = revoking.moves_rules settings_moves random_moves is_blocked_moves pair_moves
  Blocklist_Add_moves

lemma Login_moves: "moves (keeps_revoked j e) (Login lib b)"
  unfolding Login_def by (intro auth_moves)

lemma check_moves: "moves (keeps_revoked j e) (refresh_check lib tok)"
  unfolding refresh_check_def by (intro auth_moves)

lemma Setup_moves: "moves (keeps_revoked j e) (Setup lib done' b)"
  unfolding Setup_def first_password_def by (intro auth_moves)

lemma ChangePassword_moves: "moves (keeps_revoked j e) (ChangePassword lib b')"
  unfolding ChangePassword_def by (intro auth_moves)

lemma Cached_moves: "moves (keeps_revoked j e) (CachedJWTSecret_Get n p)"
  unfolding CachedJWTSecret_Get_def by (intro auth_moves)

lemma check_token_moves: "moves (keeps_revoked j e) (check_token lib key tok)"
  unfolding check_token_def by (intro auth_moves)

lemma Middleware_moves: "moves (keeps_revoked j e) (AuthMiddleware lib n p h q)"
  unfolding AuthMiddleware_def Let_def by (intro auth_moves Cached_moves check_token_moves)

subsection \<open>The life of a token\<close>

text \<open>A token id has one expiry time, and a token that is valid has not expired.\<close>

definition token_laws :: "auth_lib \<Rightarrow> string \<Rightarrow> int \<Rightarrow> bool" where
  "token_laws lib j e \<longleftrightarrow>
     (\<forall>key now tok cs. jwt_verify lib key now tok = Some cs \<longrightarrow> claim_str cs ''jti'' = Some j \<longrightarrow>
        claim_num cs ''exp'' = Some e \<and> now < e * second)"

lemma claim_iff:
  "claim_str cs k = Some x \<longleftrightarrow> map_of cs k = Some (CStr x)"
  "claim_num cs k = Some n \<longleftrightarrow> map_of cs k = Some (CNum n)"
  by (auto simp: claim_str_def claim_num_def split: option.split claim.split)

lemma parse_verify: "parse_token lib key now tok = Some cs \<Longrightarrow> jwt_verify lib key now tok = Some cs"
  by (auto simp: parse_token_def split: option.splits if_splits)

lemma claims_moves:
  "token_laws lib j e \<Longrightarrow> jwt_verify lib key now tok = Some cs \<Longrightarrow> moves (keeps_revoked j e) (blocklist_claims cs)"
  by (auto simp: blocklist_claims_def token_laws_def split: option.split intro!: auth_moves)

lemma redeem_moves:
  "token_laws lib j e \<Longrightarrow> jwt_verify lib key0 now0 tok = Some cs \<Longrightarrow> moves (keeps_revoked j e) (refresh_redeem lib key cs)"
  unfolding refresh_redeem_def by (intro auth_moves claims_moves)

lemma access_moves:
  "jti = Some (CStr j) \<longrightarrow> expiry = Some (CNum e) \<Longrightarrow> moves (keeps_revoked j e) (blocklist_access jti expiry)"
  by (auto simp: blocklist_access_def split: option.split claim.split intro!: auth_moves)

lemma parsed_moves:
  "token_laws lib j e \<Longrightarrow> moves (keeps_revoked j e) (case parse_token lib key now tok of None \<Rightarrow> ret AuthOK
     | Some cs \<Rightarrow> andthen (blocklist_claims cs) (\<lambda>_. ret AuthOK))"
  by (auto split: option.split intro!: auth_moves claims_moves dest: parse_verify)

lemma Logout_moves:
  "token_laws lib j e \<Longrightarrow> jti = Some (CStr j) \<longrightarrow> expiry = Some (CNum e) \<Longrightarrow>
   moves (keeps_revoked j e) (Logout lib jti expiry body)"
  unfolding Logout_def
  by (intro revoking.moves_andthen access_moves revoking.moves_option revoking.moves_if revoking.moves_ret
      revoking.moves_attempt settings_moves revoking.moves_clock parsed_moves) assumption+

text \<open>Who passes the middleware has shown a token that is valid and not on the blocklist.\<close>

lemma check_token_passed:
  assumes "check_token lib key tok w = (Inr (Passed sub jti expiry), w')"
  obtains cs where "jwt_verify lib key (w_now w) tok = Some cs" "jti = map_of cs ''jti''" "expiry = map_of cs ''exp''"
    "w_faults w = [] \<Longrightarrow> claim_str cs ''jti'' = Some j \<Longrightarrow> \<not> blocked (w_db w) j"
  using assms
  by (auto simp: check_token_def is_blocked_def Blocklist_IsBlocked_def andthen_def attempt_def sql_row_def
      pop_fault_def dest!: parse_verify split: option.splits if_splits prod.splits sum.splits list.splits) blast

lemma Middleware_passed:
  assumes "AuthMiddleware lib n p h q w = (Inr (Passed sub jti expiry, p'), w')"
  obtains key w1 w2 where "keeps_revoked j e w w1"
    "check_token lib key (if header_token h = [] then q else header_token h) w1 = (Inr (Passed sub jti expiry), w2)"
proof -
  let ?t = "if header_token h = [] then q else header_token h"
  from assms have "?t \<noteq> []" by (auto simp: AuthMiddleware_def)
  with assms obtain r w1 where r: "attempt (CachedJWTSecret_Get n p) w = (Inr r, w1)"
    and k: "(case r of Inl e \<Rightarrow> ret (Aborted 500 (''JWT secret error: '' @ err_text e), p)
      | Inr (key, p) \<Rightarrow> andthen (check_token lib key ?t) (\<lambda>out. ret (out, p))) w1
      = (Inr (Passed sub jti expiry, p'), w')"
    unfolding AuthMiddleware_def Let_def by (auto simp only: if_False elim!: andthen_InrE)
  have "keeps_revoked j e w w1" using revoking.moves_attempt [OF Cached_moves] r by (rule moves_at)
  moreover obtain key p1 where "r = Inr (key, p1)" using k by (cases r) auto
  then obtain w2 where "check_token lib key ?t w1 = (Inr (Passed sub jti expiry), w2)"
    using k by (auto elim!: andthen_InrE)
  ultimately show thesis by (rule that)
qed


text \<open>
  A step of anyone who can reach the panel, of the hourly cleanup, or of the rest of the panel, which
  never touches the blocklist. The two parts of a refresh are steps of their own, and the second
  part and a logout may come at any time after the token was seen to be valid.
\<close>

inductive auth_step :: "auth_lib \<Rightarrow> world \<Rightarrow> world \<Rightarrow> bool" for lib where
  login: "Login lib body w = (r, w') \<Longrightarrow> auth_step lib w w'"
| check: "refresh_check lib tok w = (r, w') \<Longrightarrow> auth_step lib w w'"
| redeem: "jwt_verify lib key0 now0 tok = Some cs \<Longrightarrow> refresh_redeem lib key cs w = (r, w') \<Longrightarrow> auth_step lib w w'"
| admit: "AuthMiddleware lib n p h q w = (r, w') \<Longrightarrow> auth_step lib w w'"
| logout: "AuthMiddleware lib n p h q v = (Inr (Passed sub jti expiry, p'), v') \<Longrightarrow>
    Logout lib jti expiry body w = (r, w') \<Longrightarrow> auth_step lib w w'"
| first_setup: "Setup lib setupDone body w = (r, w') \<Longrightarrow> auth_step lib w w'"
| change: "ChangePassword lib body' w = (r, w') \<Longrightarrow> auth_step lib w w'"
| cleanup: "Blocklist_Cleanup w = (r, w') \<Longrightarrow> auth_step lib w w'"
| environment: "t_token_blocklist (w_db w') = t_token_blocklist (w_db w) \<Longrightarrow> w_now w \<le> w_now w' \<Longrightarrow> auth_step lib w w'"

lemma unix_mono: "a \<le> b \<Longrightarrow> unix a \<le> unix b"
  by (simp add: unix_def second_def zdiv_mono1)

lemma auth_step_revoked:
  assumes laws: "token_laws lib j e" and step: "auth_step lib w w'" and r: "revoked j e w"
  shows "revoked j e w'"
proof -
  have keep: "revoked j e w'" if "moves (keeps_revoked j e) m" "m w = (x, w')" for m :: "'x io" and x
    using moves_at [OF that] r by (simp add: keeps_revoked_def)
  from step show ?thesis
  proof cases
    case (logout n p h q v sub jti expiry p' v' body r)
    from logout(1) obtain key v1 v2
      where "check_token lib key (if header_token h = [] then q else header_token h) v1 = (Inr (Passed sub jti expiry), v2)"
      by (rule Middleware_passed)
    then obtain cs where "jwt_verify lib key (w_now v1) (if header_token h = [] then q else header_token h) = Some cs"
      "jti = map_of cs ''jti''" "expiry = map_of cs ''exp''"
      by (rule check_token_passed)
    with laws have "jti = Some (CStr j) \<longrightarrow> expiry = Some (CNum e)"
      by (simp add: token_laws_def claim_iff)
    then show ?thesis using keep [OF Logout_moves [OF laws] logout(2)] by blast
  next
    case environment
    then show ?thesis using r unix_mono [OF environment(2)] by (auto simp: revoked_def)
  qed (auto intro: keep Login_moves check_moves redeem_moves [OF laws] Middleware_moves Setup_moves
      ChangePassword_moves Cleanup_moves)
qed

lemma reachable_revoked:
  "(auth_step lib)\<^sup>*\<^sup>* w w' \<Longrightarrow> token_laws lib j e \<Longrightarrow> revoked j e w \<Longrightarrow> revoked j e w'"
  by (induction rule: rtranclp_induct) (auto intro: auth_step_revoked)

text \<open>A revoked id is on the blocklist as long as a token with it is valid.\<close>

lemma revoked_blocked:
  assumes "token_laws lib j e" "revoked j e w" "jwt_verify lib key (w_now w) tok = Some cs" "claim_str cs ''jti'' = Some j"
  shows "blocked (w_db w) j"
proof -
  have "w_now w < e * second" using assms by (simp add: token_laws_def)
  then have "unix (w_now w) < e" by (simp add: unix_def second_def)
  with assms(2) have "(j, e) \<in> set (t_token_blocklist (w_db w))" by (simp add: revoked_def)
  then show ?thesis by (force simp: blocked_def count_where_pos_iff)
qed

lemma is_blocked_value:
  "is_blocked k w = (Inr b, w') \<Longrightarrow> w_db w' = w_db w \<and> (w_faults w = [] \<longrightarrow> b = blocked (w_db w) k)"
  by (auto simp: is_blocked_def Blocklist_IsBlocked_def andthen_def attempt_def sql_row_def pop_fault_def
      split: option.splits prod.splits sum.splits list.splits)

lemma check_InrE:
  assumes "refresh_check lib tok w = (Inr (Inr (key, cs)), w')"
  obtains w1 where "keeps_revoked j e w w1" "w_db w' = w_db w1" "jwt_verify lib key (w_now w) tok = Some cs"
    "w_faults w = [] \<Longrightarrow> claim_str cs ''jti'' = Some k \<Longrightarrow> \<not> blocked (w_db w1) k"
    "GetJWTSecret w = (Inr key, w1)"
proof -
  from assms have "tok \<noteq> []" by (auto simp: refresh_check_def)
  with assms obtain r w1 where r: "attempt GetJWTSecret w = (Inr r, w1)"
    and k: "(case r of Inl e \<Rightarrow> ret (Inl (AuthError 500 ''internal error''))
      | Inr key' \<Rightarrow> andthen clock (\<lambda>now. case parse_token lib key' now tok of
          None \<Rightarrow> ret (Inl (AuthError 401 ''invalid refresh token''))
        | Some cs \<Rightarrow> if map_of cs ''type'' \<noteq> Some (CStr ''refresh'')
            then ret (Inl (AuthError 401 ''not a refresh token''))
            else case claim_str cs ''jti'' of None \<Rightarrow> ret (Inr (key', cs))
              | Some oldJTI \<Rightarrow> andthen (is_blocked oldJTI) (\<lambda>b.
                  ret (if b then Inl (AuthError 401 ''refresh token already used'') else Inr (key', cs))))) w1
      = (Inr (Inr (key, cs)), w')"
    unfolding refresh_check_def by (auto simp only: if_False elim!: andthen_InrE)
  have m: "keeps_revoked j e w w1" for j e
    using revoking.moves_attempt [OF settings_moves(2)] r by (rule moves_at)
  then have t: "w_now w1 = w_now w" "w_faults w = [] \<Longrightarrow> w_faults w1 = []"
    by (auto simp: keeps_revoked_def steady_def)
  from r k have g: "GetJWTSecret w = (Inr key, w1)"
    by (cases r) (auto simp: attempt_def andthen_def is_blocked_def split: option.splits if_splits prod.splits sum.splits)
  with r have "r = Inr key" by (simp add: attempt_def)
  with k t have v: "jwt_verify lib key (w_now w) tok = Some cs" and
    b: "case claim_str cs ''jti'' of None \<Rightarrow> w' = w1 | Some i \<Rightarrow> is_blocked i w1 = (Inr False, w')"
    by (auto simp: andthen_def split: option.splits if_splits prod.splits sum.splits dest: parse_verify)
  show thesis
  proof (rule that [OF m _ v _ g])
    show "w_db w' = w_db w1" using b by (auto split: option.splits dest: is_blocked_value)
    show "\<not> blocked (w_db w1) k" if "w_faults w = []" "claim_str cs ''jti'' = Some k"
      using b that t is_blocked_value [of k w1 False w'] by auto
  qed
qed

text \<open>\<open>gives P m\<close>: whatever fails, a value that \<open>m\<close> returns has \<open>P\<close>.\<close>

definition gives :: "('a \<Rightarrow> bool) \<Rightarrow> 'a io \<Rightarrow> bool" where
  "gives P m \<longleftrightarrow> (\<forall>w x w'. m w = (Inr x, w') \<longrightarrow> P x)"

lemma gives_ret: "P x \<Longrightarrow> gives P (ret x)"
  and gives_andthen: "(\<And>x. gives P (f x)) \<Longrightarrow> gives P (andthen m f)"
  and gives_if: "gives P a \<Longrightarrow> gives P b \<Longrightarrow> gives P (if c then a else b)"
  and gives_option: "gives P a \<Longrightarrow> (\<And>x. gives P (g x)) \<Longrightarrow> gives P (case v of None \<Rightarrow> a | Some x \<Rightarrow> g x)"
  and gives_sum: "(\<And>x. gives P (g x)) \<Longrightarrow> (\<And>x. gives P (h x)) \<Longrightarrow> gives P (case s of Inl x \<Rightarrow> g x | Inr x \<Rightarrow> h x)"
  by (auto simp: gives_def elim!: andthen_InrE split: option.split sum.split)

lemma check_not_tokens: "refresh_check lib tok w \<noteq> (Inr (Inl (AuthTokens a r)), w')"
proof -
  have "gives (\<lambda>x. x \<noteq> Inl (AuthTokens a r)) (refresh_check lib tok)"
    unfolding refresh_check_def
    by (intro gives_if gives_andthen gives_option gives_sum gives_ret) simp_all
  then show ?thesis by (auto simp: gives_def)
qed

lemma Refresh_tokensE:
  assumes "Refresh lib (Some tok) w = (Inr (AuthTokens a r), w')"
  obtains key cs w1 where "refresh_check lib tok w = (Inr (Inr (key, cs)), w1)"
    "refresh_redeem lib key cs w1 = (Inr (AuthTokens a r), w')"
proof -
  from assms obtain x w1 where c: "refresh_check lib tok w = (Inr x, w1)"
    and k: "(case x of Inl reply \<Rightarrow> ret reply | Inr (key, cs) \<Rightarrow> refresh_redeem lib key cs) w1 = (Inr (AuthTokens a r), w')"
    unfolding Refresh_def by (auto elim!: andthen_InrE)
  show thesis
  proof (cases x)
    case (Inl reply)
    with c k check_not_tokens show ?thesis by simp
  next
    case (Inr y)
    with c k that show ?thesis by (cases y) auto
  qed
qed



subsection \<open>What a token opens\<close>

text \<open>A signed token verifies with the key it was signed with until it expires, and gives back its claims.\<close>

definition sign_laws :: "auth_lib \<Rightarrow> bool" where
  "sign_laws lib \<longleftrightarrow>
     (\<forall>key cs tok. jwt_sign lib key cs = Inr tok \<longrightarrow>
        tok \<noteq> [] \<and> (\<exists>alg. jwt_alg lib tok = Some alg \<and> signing_method_hmac alg) \<and>
        (\<forall>now e. claim_num cs ''exp'' = Some e \<longrightarrow> now < e * second \<longrightarrow> jwt_verify lib key now tok = Some cs))"

lemma sign_parse:
  "sign_laws lib \<Longrightarrow> jwt_sign lib key cs = Inr tok \<Longrightarrow> claim_num cs ''exp'' = Some e \<Longrightarrow> now < e * second \<Longrightarrow>
   tok \<noteq> [] \<and> parse_token lib key now tok = Some cs"
  by (fastforce simp: sign_laws_def parse_token_def)

lemma is_blocked_ok: "w_faults w = [] \<Longrightarrow> is_blocked j w = (Inr (blocked (w_db w) j), w)"
  by (simp add: is_blocked_def Blocklist_IsBlocked_def andthen_def attempt_def run_simps)

lemma pair_InrE:
  assumes "GenerateTokenPair lib key u w = (Inr (Inr (a, r)), w')"
  obtains j1 j2 where "jwt_sign lib key (access_claims u j1 (w_now w)) = Inr a"
    "jwt_sign lib key (refresh_claims u j2 (w_now w)) = Inr r" "w_db w' = w_db w"
  using assms
  by (auto simp: GenerateTokenPair_def andthen_def GenerateJTI_def split: sum.splits prod.splits if_splits)

text \<open>Nothing but the tables changes in a call that leads from one world to the next.\<close>

lemma settings_steady:
  "attempt GetAuthPasswordHash w = (r, w1) \<Longrightarrow> steady w w1" "attempt GetJWTSecret w = (r', w2) \<Longrightarrow> steady w w2"
  using moves_at [OF revoking.moves_attempt [OF settings_moves(3)], where w = w and r = r and w' = w1]
    moves_at [OF revoking.moves_attempt [OF settings_moves(2)], where w = w and r = r' and w' = w2]
  by (simp_all add: keeps_revoked_def)

lemma Login_tokensE:
  assumes "Login lib (Some pw) w = (Inr (AuthTokens a r), w1)"
  obtains key w2 where "w_now w2 = w_now w" "setting (w_db w2) ''jwt_secret'' = key" "key \<noteq> []"
    "GenerateTokenPair lib key ''admin'' w2 = (Inr (Inr (a, r)), w1)"
    "bc_compare lib (setting (w_db w) ''auth_password_hash'') pw" "setting (w_db w) ''auth_password_hash'' \<noteq> []"
proof -
  from assms have "pw \<noteq> []" by (auto simp: Login_def)
  with assms obtain x u where x: "attempt GetAuthPasswordHash w = (Inr x, u)"
    and k: "(case x of Inl e \<Rightarrow> ret (AuthError 500 ''internal error'')
      | Inr hash \<Rightarrow> if hash = [] then ret (AuthError 403 ''initial setup required'')
          else if \<not> bc_compare lib hash pw then ret (AuthError 401 ''invalid credentials'')
          else andthen (attempt GetJWTSecret) (\<lambda>r. case r of Inl e \<Rightarrow> ret (AuthError 500 ''internal error'')
            | Inr key \<Rightarrow> andthen (GenerateTokenPair lib key ''admin'') (\<lambda>p. ret (token_reply ''token generation failed'' p)))) u
      = (Inr (AuthTokens a r), w1)"
    by (auto simp: Login_def elim!: andthen_InrE)
  from k obtain hash where xh: "x = Inr hash" by (cases x) auto
  with k have h: "hash \<noteq> []" "bc_compare lib hash pw"
    and k2: "andthen (attempt GetJWTSecret) (\<lambda>r. case r of Inl e \<Rightarrow> ret (AuthError 500 ''internal error'')
            | Inr key \<Rightarrow> andthen (GenerateTokenPair lib key ''admin'') (\<lambda>p. ret (token_reply ''token generation failed'' p))) u
      = (Inr (AuthTokens a r), w1)"
    by (auto split: if_splits)
  have "hash = setting (w_db w) ''auth_password_hash''"
    using x xh by (auto simp: attempt_def GetAuthPasswordHash_def dest: settings_table.get_view split: prod.splits)
  moreover from k2 obtain y v where y: "attempt GetJWTSecret u = (Inr y, v)"
    and k3: "(case y of Inl e \<Rightarrow> ret (AuthError 500 ''internal error'')
            | Inr key \<Rightarrow> andthen (GenerateTokenPair lib key ''admin'') (\<lambda>p. ret (token_reply ''token generation failed'' p))) v
      = (Inr (AuthTokens a r), w1)"
    by (rule andthen_InrE)
  from k3 obtain key where yk: "y = Inr key" by (cases y) auto
  with k3 obtain p where p: "GenerateTokenPair lib key ''admin'' v = (Inr p, w1)"
    and t: "token_reply ''token generation failed'' p = AuthTokens a r"
    by (auto elim!: andthen_InrE)
  from t have "p = Inr (a, r)" by (auto simp: token_reply_def split: sum.splits)
  moreover have "GetJWTSecret u = (Inr key, v)" using y yk by (simp add: attempt_def split: prod.splits)
  from GetJWTSecret_Inr [OF this] have "setting (w_db v) ''jwt_secret'' = key" "key \<noteq> []" by simp_all
  moreover have "w_now v = w_now w"
    using settings_steady(1) [OF x] settings_steady(2) [OF y] by (simp add: steady_def)
  ultimately show thesis using that p h by blast
qed

lemma Cached_fresh:
  "w_faults w = [] \<Longrightarrow> setting (w_db w) ''jwt_secret'' = key \<Longrightarrow> key \<noteq> [] \<Longrightarrow> cachedSecret p = [] \<Longrightarrow>
   CachedJWTSecret_Get n p w = (Inr (key, \<lparr>cachedSecret = key, lastRefresh = w_now w\<rparr>), w)"
  by (simp add: CachedJWTSecret_Get_def andthen_def attempt_def GetJWTSecret_stored)

text \<open>
  C30: a refresh token opens every endpoint: until it expires, a week after the login, the middleware
  admits it like an access token, which lives for an hour; only the endpoint that exchanges tokens
  looks at the kind, and refuses access tokens.
\<close>

theorem refresh_token_passes_the_middleware:
  assumes laws: "sign_laws lib"
    and login: "Login lib (Some pw) w = (Inr (AuthTokens a r), w1)"
    and later: "w_db w2 = w_db w1" "w_faults w2 = []" "\<forall>j. \<not> blocked (w_db w2) j"
    and time: "w_now w2 + second \<le> w_now w + refreshTokenTTL" and cache: "cachedSecret p = []"
  shows "(\<exists>jti expiry p'. AuthMiddleware lib n p (''Bearer '' @ r) q w2 = (Inr (Passed (Some (CStr ''admin'')) jti expiry, p'), w2)) \<and>
    (w_now w2 + second \<le> w_now w + accessTokenTTL \<longrightarrow>
       Refresh lib (Some a) w2 = (Inr (AuthError 401 ''not a refresh token''), w2))"
proof -
  from login obtain key v where v: "w_now v = w_now w" "setting (w_db v) ''jwt_secret'' = key" "key \<noteq> []"
    and gen: "GenerateTokenPair lib key ''admin'' v = (Inr (Inr (a, r)), w1)"
    by (rule Login_tokensE)
  from gen obtain j1 j2 where a: "jwt_sign lib key (access_claims ''admin'' j1 (w_now v)) = Inr a"
    and r: "jwt_sign lib key (refresh_claims ''admin'' j2 (w_now v)) = Inr r" and d: "w_db w1 = w_db v"
    by (rule pair_InrE)
  have key: "setting (w_db w2) ''jwt_secret'' = key" using v(2) d later(1) by simp
  have "w_now w2 < unix (w_now v + refreshTokenTTL) * second"
    using time v(1) by (simp add: unix_def second_def)
  then have pr: "r \<noteq> []" "parse_token lib key (w_now w2) r = Some (refresh_claims ''admin'' j2 (w_now v))"
    using sign_parse [OF laws r] by (simp_all add: claim_num_def refresh_claims_def)
  have h: "header_token (''Bearer '' @ r) = r" by (simp add: header_token_def)
  have "check_token lib key r w2 = (Inr (Passed (Some (CStr ''admin'')) (Some (CStr j2))
      (Some (CNum (unix (w_now v + refreshTokenTTL))))), w2)"
    using later(3) by (simp add: check_token_def pr andthen_def claim_str_def refresh_claims_def is_blocked_ok later(2))
  then have "AuthMiddleware lib n p (''Bearer '' @ r) q w2 = (Inr (Passed (Some (CStr ''admin'')) (Some (CStr j2))
      (Some (CNum (unix (w_now v + refreshTokenTTL)))), \<lparr>cachedSecret = key, lastRefresh = w_now w2\<rparr>), w2)"
    by (simp add: AuthMiddleware_def h pr(1) andthen_def attempt_def Cached_fresh [OF later(2) key v(3) cache] del: append_Cons)
  moreover have "Refresh lib (Some a) w2 = (Inr (AuthError 401 ''not a refresh token''), w2)"
    if "w_now w2 + second \<le> w_now w + accessTokenTTL"
  proof -
    have "w_now w2 < unix (w_now v + accessTokenTTL) * second"
      using that v(1) by (simp add: unix_def second_def)
    then have "a \<noteq> []" "parse_token lib key (w_now w2) a = Some (access_claims ''admin'' j1 (w_now v))"
      using sign_parse [OF laws a] by (simp_all add: claim_num_def access_claims_def)
    then show ?thesis using key v(3)
      by (simp add: Refresh_def refresh_check_def andthen_def attempt_def GetJWTSecret_stored later(2) access_claims_def)
  qed
  ultimately show ?thesis by blast
qed

text \<open>
  C31: the comment on \<^verbatim>\<open>Refresh\<close> says that its look at the blocklist prevents concurrent reuse. It
  does when one request follows the other; when two look before either has written, both get
  tokens.
\<close>

theorem concurrent_refreshes_both_succeed:
  assumes key: "setting (w_db w) ''jwt_secret'' = key" "key \<noteq> []" and ok: "w_faults w = []"
    and tok: "tok \<noteq> []" "parse_token lib key (w_now w) tok = Some cs" "map_of cs ''type'' = Some (CStr ''refresh'')"
      "claim_str cs ''jti'' = Some j" "claim_num cs ''exp'' = Some e"
    and fresh: "\<not> blocked (w_db w) j"
    and signs: "\<And>cs. \<exists>t. jwt_sign lib key cs = Inr t" and entropy: "64 \<le> length (w_entropy w)"
  shows "refresh_check lib tok w = (Inr (Inr (key, cs)), w) \<and>
    (\<exists>a r w1 a' r' w2. refresh_redeem lib key cs w = (Inr (AuthTokens a r), w1) \<and>
       refresh_redeem lib key cs w1 = (Inr (AuthTokens a' r'), w2) \<and>
       Refresh lib (Some tok) w1 = (Inr (AuthError 401 ''refresh token already used''), w1))"
proof -
  have check: "refresh_check lib tok u = (Inr (if blocked (w_db u) j
      then Inl (AuthError 401 ''refresh token already used'') else Inr (key, cs)), u)"
    if "w_faults u = []" "w_now u = w_now w" "setting (w_db u) ''jwt_secret'' = key" for u
    using that key tok by (simp add: refresh_check_def andthen_def attempt_def GetJWTSecret_stored is_blocked_ok)
  have redeem: "\<exists>a r u'. refresh_redeem lib key cs u = (Inr (AuthTokens a r), u') \<and> w_faults u' = [] \<and>
      w_now u' = w_now u \<and> setting (w_db u') ''jwt_secret'' = key \<and> blocked (w_db u') j \<and>
      length (w_entropy u') + 32 = length (w_entropy u)"
    if u: "w_faults u = []" "setting (w_db u) ''jwt_secret'' = key" "32 \<le> length (w_entropy u)" for u
  proof -
    let ?u = "case claim_str cs ''sub'' of None \<Rightarrow> [] | Some s \<Rightarrow> s"
    let ?d = "(w_db u)\<lparr>t_token_blocklist := put j e (t_token_blocklist (w_db u))\<rparr>"
    let ?v = "u\<lparr>w_db := ?d\<rparr>"
    obtain a where a: "jwt_sign lib key (access_claims ?u (hex_encode (take 16 (w_entropy u))) (w_now u)) = Inr a"
      using signs by blast
    obtain r where r: "jwt_sign lib key (refresh_claims ?u (hex_encode (take 16 (drop 16 (w_entropy u)))) (w_now u)) = Inr r"
      using signs by blast
    have "GenerateTokenPair lib key ?u ?v = (Inr (Inr (a, r)), ?v\<lparr>w_entropy := drop 32 (w_entropy u)\<rparr>)"
      using u(3) by (simp add: GenerateTokenPair_def andthen_def GenerateJTI_def a r)
    moreover have "Blocklist_Add j e u = (Inr (), ?v)" by (simp add: Blocklist_Add_def run_simps u(1))
    ultimately have "refresh_redeem lib key cs u = (Inr (AuthTokens a r), ?v\<lparr>w_entropy := drop 32 (w_entropy u)\<rparr>)"
      by (simp add: refresh_redeem_def blocklist_claims_def tok andthen_def attempt_def token_reply_def)
    moreover have "blocked ?d j" by (simp add: blocked_def put_def)
    moreover have "setting ?d k = setting (w_db u) k" for k by (simp add: setting_def)
    ultimately show ?thesis using u by simp
  qed
  from redeem [OF ok key(1)] entropy obtain a r w1 where 1: "refresh_redeem lib key cs w = (Inr (AuthTokens a r), w1)"
    and w1: "w_faults w1 = []" "w_now w1 = w_now w" "setting (w_db w1) ''jwt_secret'' = key" "blocked (w_db w1) j"
      "length (w_entropy w1) + 32 = length (w_entropy w)" by auto
  from redeem [OF w1(1,3)] w1(5) entropy obtain a' r' w2
    where 2: "refresh_redeem lib key cs w1 = (Inr (AuthTokens a' r'), w2)" by auto
  have 3: "Refresh lib (Some tok) w1 = (Inr (AuthError 401 ''refresh token already used''), w1)"
    using check [OF w1(1-3)] w1(4) by (simp add: Refresh_def andthen_def)
  have "refresh_check lib tok w = (Inr (Inr (key, cs)), w)" using check [OF ok refl key(1)] fresh by simp
  with 1 2 3 show ?thesis by blast
qed


lemma hash_read:
  assumes "attempt GetAuthPasswordHash w = (Inr x, w1)"
  shows "w_db w1 = w_db w" "x = Inr h \<Longrightarrow> h = setting (w_db w) ''auth_password_hash''"
proof -
  have "reads (attempt GetAuthPasswordHash)" by (simp add: GetAuthPasswordHash_def)
  then show "w_db w1 = w_db w" using assms by (rule readsD)
  show "h = setting (w_db w) ''auth_password_hash''" if "x = Inr h"
    using assms that by (auto simp: attempt_def GetAuthPasswordHash_def dest: settings_table.get_view split: prod.splits)
qed

text \<open>A setup that is not refused at once reads the table, and goes on when no password is set.\<close>

lemma Setup_run:
  assumes "Setup lib setupDone body w = (Inr (reply, d), w')"
  obtains (refused) status msg where "reply = AuthError status msg" "w_db w' = w_db w"
  | (first) pw w1 where "body = Some pw" "8 \<le> rune_count pw" "setting (w_db w) ''auth_password_hash'' = []"
      "w_db w1 = w_db w" "first_password lib pw w1 = (Inr (reply, d), w')"
proof (cases "setupDone \<or> body = None \<or> (\<exists>pw. body = Some pw \<and> rune_count pw < 8)")
  case True
  with assms refused show thesis by (auto simp: Setup_def split: if_splits option.splits)
next
  case False
  then obtain pw where pw: "\<not> setupDone" "body = Some pw" "8 \<le> rune_count pw" by auto
  with assms obtain x w1 where x: "attempt GetAuthPasswordHash w = (Inr x, w1)"
    and k: "(case x of Inl e \<Rightarrow> ret (AuthError 500 ''internal error'', False)
      | Inr hash \<Rightarrow> if hash \<noteq> [] then ret (AuthError 409 ''setup already completed'', True)
          else first_password lib pw) w1 = (Inr (reply, d), w')"
    unfolding Setup_def by (auto elim!: andthen_InrE)
  show thesis
  proof (cases x)
    case (Inl e)
    with k hash_read(1) [OF x] refused show thesis by auto
  next
    case (Inr h)
    show thesis
    proof (cases "h = []")
      case True
      with k Inr pw hash_read [OF x] first show thesis by auto
    next
      case False
      with k Inr hash_read(1) [OF x] refused show thesis by auto
    qed
  qed
qed

lemma GetJWTSecret_hash:
  assumes "GetJWTSecret w = (r, w1)"
  shows "setting (w_db w1) ''auth_password_hash'' = setting (w_db w) ''auth_password_hash''"
proof -
  have save: "setting (w_db u') ''auth_password_hash'' = setting (w_db u) ''auth_password_hash''"
    if "SettingsStore_Save [(''jwt_secret'', s)] u = (x, u')" for s x u u'
  proof (cases x)
    case (Inl e)
    with that settings_table.save_atomic [of "[(''jwt_secret'', s)]"] show ?thesis by (auto simp: atomic_def)
  next
    case (Inr y)
    with that show ?thesis by (auto simp: overridden_def dest: settings_table.save_view)
  qed
  from assms show ?thesis
    by (auto simp: GetJWTSecret_def andthen_def generateRandomHex_def split: prod.splits sum.splits if_splits
        dest!: save readsD [OF Get_reads])
qed

lemma first_password_tokens:
  assumes "first_password lib pw w = (Inr (AuthTokens a r, d), w')"
  obtains salt where "bc_hash lib salt pw = Inr (setting (w_db w') ''auth_password_hash'')" "d"
proof -
  from assms obtain x w1 where x: "attempt (GenerateFromPassword lib pw) w = (Inr x, w1)"
    and k: "(case x of Inl e \<Rightarrow> ret (AuthError 500 ''setup failed'', False)
      | Inr newHash \<Rightarrow> andthen (attempt (SetAuthPasswordHash newHash)) (\<lambda>r. case r of
          Inl e \<Rightarrow> ret (AuthError 500 ''setup failed'', False)
        | Inr _ \<Rightarrow> andthen (attempt GetJWTSecret) (\<lambda>r. case r of
            Inl e \<Rightarrow> ret (AuthError 500 ''setup failed'', False)
          | Inr key \<Rightarrow> andthen (GenerateTokenPair lib key ''admin'') (\<lambda>p.
              ret (token_reply ''token generation failed'' p, case p of Inl _ \<Rightarrow> False | Inr _ \<Rightarrow> True))))) w1
      = (Inr (AuthTokens a r, d), w')"
    unfolding first_password_def by (rule andthen_InrE)
  from k obtain h where xh: "x = Inr h" by (cases x) auto
  then obtain salt where salt: "bc_hash lib salt pw = Inr h"
    using x by (auto simp: attempt_def GenerateFromPassword_def split: if_splits sum.splits prod.splits)
  from k [unfolded xh sum.case] obtain y w2 where y: "attempt (SetAuthPasswordHash h) w1 = (Inr y, w2)"
    and k2: "(case y of Inl e \<Rightarrow> ret (AuthError 500 ''setup failed'', False)
        | Inr _ \<Rightarrow> andthen (attempt GetJWTSecret) (\<lambda>r. case r of
            Inl e \<Rightarrow> ret (AuthError 500 ''setup failed'', False)
          | Inr key \<Rightarrow> andthen (GenerateTokenPair lib key ''admin'') (\<lambda>p.
              ret (token_reply ''token generation failed'' p, case p of Inl _ \<Rightarrow> False | Inr _ \<Rightarrow> True)))) w2
      = (Inr (AuthTokens a r, d), w')"
    by (rule andthen_InrE)
  from k2 obtain u where yu: "y = Inr u" by (cases y) auto
  with y have "SettingsStore_Save [(''auth_password_hash'', h)] w1 = (Inr u, w2)"
    by (simp add: attempt_def SetAuthPasswordHash_def split: prod.splits)
  then have s2: "setting (w_db w2) ''auth_password_hash'' = h" by (auto simp: overridden_def dest: settings_table.save_view)
  from k2 [unfolded yu sum.case] obtain z w3 where z: "attempt GetJWTSecret w2 = (Inr z, w3)"
    and k3: "(case z of Inl e \<Rightarrow> ret (AuthError 500 ''setup failed'', False)
          | Inr key \<Rightarrow> andthen (GenerateTokenPair lib key ''admin'') (\<lambda>p.
              ret (token_reply ''token generation failed'' p, case p of Inl _ \<Rightarrow> False | Inr _ \<Rightarrow> True))) w3
      = (Inr (AuthTokens a r, d), w')"
    by (rule andthen_InrE)
  from z have "GetJWTSecret w2 = (z, w3)" by (simp add: attempt_def split: prod.splits)
  then have s3: "setting (w_db w3) ''auth_password_hash'' = h" using s2 by (simp add: GetJWTSecret_hash)
  from k3 obtain key where zk: "z = Inr key" by (cases z) auto
  from k3 [unfolded zk sum.case] obtain p where p: "GenerateTokenPair lib key ''admin'' w3 = (Inr p, w')"
    and d: "token_reply ''token generation failed'' p = AuthTokens a r" "d = (case p of Inl _ \<Rightarrow> False | Inr _ \<Rightarrow> True)"
    by (auto elim!: andthen_InrE)
  from d obtain a' r' where "p = Inr (a', r')" by (auto simp: token_reply_def split: sum.splits)
  with p d have "w_db w' = w_db w3" "d" by (auto elim: pair_InrE)
  with salt s3 that show thesis by simp
qed

text \<open>
  C32: tokens need the password: a login gives them only for a password that matches the hash in the
  table; the endpoint that makes the first password gives them only when no password was set, for a
  password of eight characters, whose hash is then in the table; and when a password is set, that
  endpoint changes nothing.
\<close>

theorem tokens_need_the_password:
  shows "(Login lib body w = (Inr (AuthTokens a r), w') \<longrightarrow>
      (\<exists>pw. body = Some pw \<and> setting (w_db w) ''auth_password_hash'' \<noteq> [] \<and>
         bc_compare lib (setting (w_db w) ''auth_password_hash'') pw)) \<and>
    (Setup lib setupDone body w = (Inr (AuthTokens a r, d), w') \<longrightarrow>
      setting (w_db w) ''auth_password_hash'' = [] \<and>
      (\<exists>pw salt. body = Some pw \<and> 8 \<le> rune_count pw \<and>
         bc_hash lib salt pw = Inr (setting (w_db w') ''auth_password_hash''))) \<and>
    (Setup lib setupDone body w = (Inr (reply, d), w') \<longrightarrow> setting (w_db w) ''auth_password_hash'' \<noteq> [] \<longrightarrow>
      w_db w' = w_db w \<and> (\<exists>status msg. reply = AuthError status msg))"
proof (intro conjI impI)
  assume l: "Login lib body w = (Inr (AuthTokens a r), w')"
  then obtain pw where "body = Some pw" by (cases body) (auto simp: Login_def)
  with l show "\<exists>pw. body = Some pw \<and> setting (w_db w) ''auth_password_hash'' \<noteq> [] \<and>
         bc_compare lib (setting (w_db w) ''auth_password_hash'') pw"
    by (auto elim!: Login_tokensE)
next
  assume s: "Setup lib setupDone body w = (Inr (AuthTokens a r, d), w')"
  then show "setting (w_db w) ''auth_password_hash'' = []" by (cases rule: Setup_run) auto
  from s show "\<exists>pw salt. body = Some pw \<and> 8 \<le> rune_count pw \<and>
         bc_hash lib salt pw = Inr (setting (w_db w') ''auth_password_hash'')"
    by (cases rule: Setup_run) (auto elim: first_password_tokens)
next
  assume "Setup lib setupDone body w = (Inr (reply, d), w')" "setting (w_db w) ''auth_password_hash'' \<noteq> []"
  then show "w_db w' = w_db w" "\<exists>status msg. reply = AuthError status msg"
    by (auto elim!: Setup_run)
qed

end
