(* ===== verification/Auth_Witnesses.thy ===== *)
theory Auth_Witnesses
  imports Auth_Properties Witnesses
begin

text \<open>A library of tokens that satisfies its laws, and the properties of authentication at a panel whose
  password is set.\<close>

definition id1 :: string where "id1 = hex_encode (replicate 16 CHR ''a'')"

definition id2 :: string where "id2 = hex_encode (replicate 16 CHR ''b'')"

definition week_claims :: claims where "week_claims = refresh_claims ''admin'' id2 0"

definition hour_claims :: claims where "hour_claims = access_claims ''admin'' id1 0"

definition sample_lib :: auth_lib where
  "sample_lib = \<lparr>jwt_sign = (\<lambda>key cs. if cs = week_claims then Inr ''week'' else if cs = hour_claims then Inr ''hour'' else Inl ''no''),
     jwt_alg = (\<lambda>t. Some ''HS256''),
     jwt_verify = (\<lambda>key now t. if t = ''week'' \<and> now < 604800 * second then Some week_claims
        else if t = ''hour'' \<and> now < 3600 * second then Some hour_claims else None),
     bc_compare = (\<lambda>hash pw. hash = pw), bc_hash = (\<lambda>salt pw. Inr pw)\<rparr>"

text \<open>The same library with one that signs everything.\<close>

definition signing_lib :: auth_lib where
  "signing_lib = sample_lib\<lparr>jwt_sign := \<lambda>key cs. Inr ''new''\<rparr>"

definition auth_world :: world where
  "auth_world = sample_world\<lparr>w_db := sample_db\<lparr>t_settings := [(''jwt_secret'', ''key''), (''auth_password_hash'', ''pw'')]\<rparr>,
     w_entropy := replicate 16 CHR ''a'' @ replicate 48 CHR ''b''\<rparr>"

lemma auth_world [simp]:
  "w_faults auth_world = []" "w_now auth_world = 0" "t_token_blocklist (w_db auth_world) = []"
  "setting (w_db auth_world) ''jwt_secret'' = ''key''" "setting (w_db auth_world) ''auth_password_hash'' = ''pw''"
  "w_entropy auth_world = replicate 16 CHR ''a'' @ replicate 48 CHR ''b''"
  by (simp_all add: auth_world_def sample_world_def sample_db_def empty_db_def setting_def)

lemma claims_values:
  "claim_str week_claims ''jti'' = Some id2" "claim_num week_claims ''exp'' = Some 604800"
  "map_of week_claims ''type'' = Some (CStr ''refresh'')" "claim_str week_claims ''sub'' = Some ''admin''"
  "claim_str hour_claims ''jti'' = Some id1" "claim_num hour_claims ''exp'' = Some 3600"
  "week_claims \<noteq> hour_claims"
  by (simp_all add: week_claims_def hour_claims_def refresh_claims_def access_claims_def claim_str_def
      claim_num_def refreshTokenTTL_def accessTokenTTL_def unix_def second_def)

lemma sample_sign_laws: "sign_laws sample_lib"
  by (auto simp: sign_laws_def sample_lib_def signing_method_hmac_def claims_values split: if_splits)

text \<open>A login, and what comes of it.\<close>

lemma sample_pair:
  "w_now w = 0 \<Longrightarrow> w_entropy w = replicate 16 CHR ''a'' @ replicate 48 CHR ''b'' \<Longrightarrow>
   GenerateTokenPair sample_lib key ''admin'' w = (Inr (Inr (''hour'', ''week'')), w\<lparr>w_entropy := replicate 32 CHR ''b''\<rparr>)"
  using claims_values(7)
  by (simp add: GenerateTokenPair_def GenerateJTI_def andthen_def sample_lib_def flip: id1_def id2_def week_claims_def hour_claims_def)

lemma sample_login:
  "Login sample_lib (Some ''pw'') auth_world = (Inr (AuthTokens ''hour'' ''week''), auth_world\<lparr>w_entropy := replicate 32 CHR ''b''\<rparr>)"
proof -
  have "attempt GetAuthPasswordHash auth_world = (Inr (Inr ''pw''), auth_world)"
    by (simp add: attempt_def GetAuthPasswordHash_def Get_ok)
  moreover have "attempt GetJWTSecret auth_world = (Inr (Inr ''key''), auth_world)"
    by (simp add: attempt_def GetJWTSecret_stored)
  moreover have "bc_compare sample_lib ''pw'' ''pw''" by (simp add: sample_lib_def)
  ultimately show ?thesis by (simp add: Login_def andthen_def sample_pair token_reply_def)
qed

theorem refresh_token_passes_the_middleware_witness:
  "\<exists>jti expiry p' w'. AuthMiddleware sample_lib 60 \<lparr>cachedSecret = [], lastRefresh = 0\<rparr> (''Bearer '' @ ''week'') []
     (auth_world\<lparr>w_entropy := replicate 32 CHR ''b''\<rparr>) = (Inr (Passed (Some (CStr ''admin'')) jti expiry, p'), w')"
  using refresh_token_passes_the_middleware [OF sample_sign_laws sample_login, where n = 60
      and p = "\<lparr>cachedSecret = [], lastRefresh = 0\<rparr>" and q = "[]" and ?w2.0 = "auth_world\<lparr>w_entropy := replicate 32 CHR ''b''\<rparr>"]
  by (simp add: blocked_def second_def refreshTokenTTL_def) blast

theorem tokens_need_the_password_witness:
  "bc_compare sample_lib (setting (w_db auth_world) ''auth_password_hash'') ''pw''"
  using tokens_need_the_password [of sample_lib "Some ''pw''" auth_world] sample_login by simp

lemma parse_week: "parse_token signing_lib key 0 ''week'' = Some week_claims"
  by (simp add: parse_token_def signing_lib_def sample_lib_def signing_method_hmac_def second_def)

lemma signing_sign: "jwt_sign signing_lib key cs = Inr ''new''"
  by (simp add: signing_lib_def)

lemma ids_differ: "id1 \<noteq> id2"
  by code_simp

lemma signing_laws: "token_laws signing_lib id2 604800"
  using ids_differ
  by (auto simp: token_laws_def signing_lib_def sample_lib_def claims_values second_def split: if_splits)

lemma week_id: "jwt_verify signing_lib key now ''week'' = Some cs \<Longrightarrow> claim_str cs ''jti'' = Some id2"
  by (auto simp: signing_lib_def sample_lib_def claims_values split: if_splits)

lemma sample_refresh:
  "\<exists>w. Refresh signing_lib (Some ''week'') auth_world = (Inr (AuthTokens ''new'' ''new''), w) \<and> w_faults w = []"
proof -
  have "refresh_check signing_lib ''week'' auth_world = (Inr (Inr (''key'', week_claims)), auth_world)"
    by (simp add: refresh_check_def andthen_def attempt_def GetJWTSecret_stored parse_week claims_values is_blocked_ok blocked_def)
  moreover have "\<exists>w. refresh_redeem signing_lib ''key'' week_claims auth_world = (Inr (AuthTokens ''new'' ''new''), w) \<and> w_faults w = []"
    by (simp add: refresh_redeem_def blocklist_claims_def claims_values andthen_def attempt_def Blocklist_Add_def
        run_simps GenerateTokenPair_def GenerateJTI_def signing_sign token_reply_def)
  ultimately show ?thesis by (simp add: Refresh_def andthen_def)
qed

theorem concurrent_refreshes_both_succeed_witness:
  "\<exists>a r w1 a' r' w2. refresh_redeem signing_lib ''key'' week_claims auth_world = (Inr (AuthTokens a r), w1) \<and>
     refresh_redeem signing_lib ''key'' week_claims w1 = (Inr (AuthTokens a' r'), w2) \<and>
     Refresh signing_lib (Some ''week'') w1 = (Inr (AuthError 401 ''refresh token already used''), w1)"
  using concurrent_refreshes_both_succeed [where lib = signing_lib and w = auth_world and tok = "''week''"
      and cs = week_claims and j = id2 and e = 604800 and key = "''key''"]
  by (simp add: parse_week claims_values blocked_def signing_sign)



end
