(* ===== verification/Scheduler.thy ===== *)
theory Scheduler
  imports Admin_Store
begin

text \<open>
  The scheduler of periodic tasks: \<^verbatim>\<open>internal/scheduler/scheduler.go\<close>,
  \<^verbatim>\<open>internal/store/scheduler_store.go\<close>, \<^verbatim>\<open>internal/service/scheduler_service.go\<close>. The
  library \<^verbatim>\<open>cron\<close> is a list of jobs with ids that it gives out in order; whether it can read a
  schedule is a parameter. A task's timeout only reaches the context of its function, which is not
  modelled; a panic of a function is not modelled either.
\<close>

subsection \<open>Tasks\<close>

text \<open>The function of a task, if there is one, works on the world.\<close>

record task =
  tk_Name :: string
  tk_Schedule :: string
  tk_Timeout :: int
  tk_Disabled :: bool
  tk_Fn :: "unit io option"

definition task_def :: "string \<Rightarrow> string \<Rightarrow> int \<Rightarrow> bool \<Rightarrow> task" where
  "task_def name schedule timeout off =
     \<lparr>tk_Name = name, tk_Schedule = schedule, tk_Timeout = timeout * second, tk_Disabled = off, tk_Fn = None\<rparr>"

definition DefaultTasks :: "task list" where
  "DefaultTasks =
     [task_def ''traffic-flush'' ''0 */1 * * * *'' 0 False,
      task_def ''quota-check'' ''0 */5 * * * *'' 0 False,
      task_def ''expiry-check'' ''0 */5 * * * *'' 0 False,
      task_def ''health-check'' ''0 */5 * * * *'' 0 False,
      task_def ''telegram-report'' ''0 0 */6 * * *'' 0 False,
      task_def ''replication-sync'' ''0 */1 * * * *'' 180 False,
      task_def ''update-check'' ''0 0 */6 * * *'' 0 False,
      task_def ''auto-update'' ''0 0 4 * * *'' 900 True,
      task_def ''telemt-check'' ''0 0 */6 * * *'' 30 False,
      task_def ''docker-host-check'' ''0 0 */6 * * *'' 30 False,
      task_def ''token-cleanup'' ''0 0 */1 * * *'' 0 False,
      task_def ''daily-backup'' ''0 0 3 * * *'' 300 False,
      task_def ''backup-cleanup'' ''0 30 3 * * *'' 0 False,
      task_def ''history-cleanup'' ''0 0 4 * * *'' 0 False,
      task_def ''quota-reset'' ''0 0 0 1 * *'' 120 False,
      task_def ''auto-rotate'' ''0 0 4 * * *'' 0 True,
      task_def ''upstream-health'' ''0 */5 * * * *'' 120 False,
      task_def ''fronting-update'' ''0 0 5 * * *'' 300 False]"

definition KnownTaskNames :: "string list" where
  "KnownTaskNames = map tk_Name DefaultTasks"

definition default_task :: "string \<Rightarrow> task option" where
  "default_task name = find (\<lambda>t. tk_Name t = name) DefaultTasks"

definition DefaultScheduleFor :: "string \<Rightarrow> string" where
  "DefaultScheduleFor name = (case default_task name of None \<Rightarrow> [] | Some t \<Rightarrow> tk_Schedule t)"

definition defaultTaskTimeout :: int where
  "defaultTaskTimeout = 30 * second"

definition DefaultTimeoutFor :: "string \<Rightarrow> int" where
  "DefaultTimeoutFor name =
     (case default_task name of
        None \<Rightarrow> defaultTaskTimeout
      | Some t \<Rightarrow> if 0 < tk_Timeout t then tk_Timeout t else defaultTaskTimeout)"

subsection \<open>The stores\<close>

definition GetOverrides :: "task_override list io" where
  "GetOverrides =
     sql_rows (\<lambda>st e. case st of AtQuery \<Rightarrow> ErrWrap ''get overrides'' e | AtScan \<Rightarrow> ErrWrap ''scan override'' e | AtIter \<Rightarrow> e)
       (\<lambda>d. Inr (t_task_overrides d))"

definition find_override :: "db \<Rightarrow> string \<Rightarrow> task_override option" where
  "find_override d name = find (\<lambda>r. ov_TaskName r = name) (t_task_overrides d)"

definition GetOverride :: "string \<Rightarrow> task_override option io" where
  "GetOverride name = sql_row (ErrWrap (''get override '' @ name)) (\<lambda>d. find_override d name)"

definition put_override :: "task_override \<Rightarrow> task_override list \<Rightarrow> task_override list" where
  "put_override r rs =
     (if list_ex (\<lambda>x. ov_TaskName x = ov_TaskName r) rs
      then update_where (\<lambda>x. ov_TaskName x = ov_TaskName r) (\<lambda>_. r) rs else rs @ [r])"

definition UpsertOverride :: "task_override \<Rightarrow> unit io" where
  "UpsertOverride r =
     andthen clock (\<lambda>now. wrap (''upsert override '' @ ov_TaskName r) (sql_exec (\<lambda>d.
       Inr ((), d\<lparr>t_task_overrides := put_override (r\<lparr>ov_UpdatedAt := unix now\<rparr>) (t_task_overrides d)\<rparr>))))"

definition DeleteOverride :: "string \<Rightarrow> unit io" where
  "DeleteOverride name = wrap (''delete override '' @ name) (sql_exec (\<lambda>d.
     Inr ((), d\<lparr>t_task_overrides := delete_where (\<lambda>r. ov_TaskName r = name) (t_task_overrides d)\<rparr>)))"

definition InsertHistory :: "execution \<Rightarrow> unit io" where
  "InsertHistory r = wrap (''insert history '' @ ex_TaskName r) (sql_exec (\<lambda>d.
     let n = t_task_history_seq d + 1 in
     Inr ((), d\<lparr>t_task_history := t_task_history d @ [r\<lparr>ex_ID := n\<rparr>], t_task_history_seq := n\<rparr>)))"

definition history_rows :: "(execution \<Rightarrow> bool) \<Rightarrow> int \<Rightarrow> int \<Rightarrow> db \<Rightarrow> execution list" where
  "history_rows p limit offset d = sql_limit limit offset (sort_key (\<lambda>r. - ex_StartedAt r) (filter p (t_task_history d)))"

definition ListHistory :: "int \<Rightarrow> int \<Rightarrow> execution list io" where
  "ListHistory limit offset =
     sql_rows (\<lambda>st e. case st of AtQuery \<Rightarrow> ErrWrap ''list history'' e | AtScan \<Rightarrow> ErrWrap ''scan history'' e | AtIter \<Rightarrow> e)
       (\<lambda>d. Inr (history_rows (\<lambda>r. True) limit offset d))"

definition ListHistoryByTask :: "string \<Rightarrow> int \<Rightarrow> int \<Rightarrow> execution list io" where
  "ListHistoryByTask name limit offset =
     sql_rows (\<lambda>st e. case st of AtQuery \<Rightarrow> ErrWrap (''list history for '' @ name) e
         | AtScan \<Rightarrow> ErrWrap ''scan history'' e | AtIter \<Rightarrow> e)
       (\<lambda>d. Inr (history_rows (\<lambda>r. ex_TaskName r = name) limit offset d))"

definition GetLatestHistory :: "string \<Rightarrow> execution option io" where
  "GetLatestHistory name =
     sql_row (ErrWrap (''get latest history '' @ name))
       (\<lambda>d. case history_rows (\<lambda>r. ex_TaskName r = name) 1 0 d of [] \<Rightarrow> None | r # _ \<Rightarrow> Some r)"

definition CleanOldHistory :: "int \<Rightarrow> unit io" where
  "CleanOldHistory maxAge =
     andthen clock (\<lambda>now. wrap ''clean old history'' (sql_exec (\<lambda>d.
       Inr ((), d\<lparr>t_task_history := delete_where (\<lambda>r. ex_StartedAt r < unix (now - maxAge)) (t_task_history d)\<rparr>))))"

subsection \<open>The scheduler\<close>

text \<open>\<open>sd_cron\<close> and \<open>sd_next\<close> are the jobs of the library: id, schedule and task.\<close>

record scheduler =
  sd_cron :: "(nat \<times> string \<times> task) list"
  sd_next :: nat
  sd_entries :: "(string \<times> nat) list"
  sd_taskDefs :: "(string \<times> task) list"
  sd_defaults :: "task list"
  sd_history :: bool

definition Scheduler_New :: scheduler where
  "Scheduler_New = \<lparr>sd_cron = [], sd_next = 1, sd_entries = [], sd_taskDefs = [], sd_defaults = [], sd_history = False\<rparr>"

text \<open>
  How \<^verbatim>\<open>cron\<close> reads a schedule: the error, if it cannot. The scheduler's parser also reads
  descriptors like \<^verbatim>\<open>@daily\<close>; the service checks with one that does not.
\<close>

record cron_lib =
  cron_add_error :: "string \<Rightarrow> string option"
  cron_parse_error :: "string \<Rightarrow> string option"

definition addTaskToCron :: "cron_lib \<Rightarrow> task \<Rightarrow> string \<Rightarrow> scheduler \<Rightarrow> error option \<times> scheduler" where
  "addTaskToCron cl t schedule s =
     (case cron_add_error cl schedule of
        Some m \<Rightarrow> (Some (ErrMsg m), s)
      | None \<Rightarrow>
          (None, s\<lparr>sd_cron := sd_cron s @ [(sd_next s, schedule, t)], sd_next := sd_next s + 1,
             sd_entries := put (tk_Name t) (sd_next s) (sd_entries s)\<rparr>))"

definition RemoveTask :: "string \<Rightarrow> scheduler \<Rightarrow> scheduler" where
  "RemoveTask name s =
     (case map_of (sd_entries s) name of
        None \<Rightarrow> s
      | Some i \<Rightarrow>
          s\<lparr>sd_cron := delete_where (\<lambda>j. fst j = i) (sd_cron s), sd_entries := delete_where (\<lambda>e. fst e = name) (sd_entries s)\<rparr>)"

definition AddOrUpdateTask :: "cron_lib \<Rightarrow> task \<Rightarrow> scheduler \<Rightarrow> error option \<times> scheduler" where
  "AddOrUpdateTask cl t s =
     (if tk_Fn t = None then (Some (ErrMsg (''task '' @ tk_Name t @ '' has no function'')), s)
      else
        let s = RemoveTask (tk_Name t) (s\<lparr>sd_taskDefs := put (tk_Name t) t (sd_taskDefs s)\<rparr>)
        in if tk_Schedule t \<noteq> [] then addTaskToCron cl t (tk_Schedule t) s else (None, s))"

text \<open>The schedule that \<^verbatim>\<open>StartWith\<close> gives a task, if it does.\<close>

definition start_schedule :: "task \<Rightarrow> task_override option \<Rightarrow> string option" where
  "start_schedule t ovr =
     (case ovr of
        Some r \<Rightarrow>
          if \<not> ov_Enabled r then None
          else Some (if ov_CustomSchedule r \<noteq> [] then ov_CustomSchedule r else tk_Schedule t)
      | None \<Rightarrow> if tk_Disabled t then None else Some (tk_Schedule t))"

fun start_tasks :: "cron_lib \<Rightarrow> (string \<times> task_override) list \<Rightarrow> task list \<Rightarrow> scheduler \<Rightarrow> scheduler" where
  "start_tasks cl overrides [] s = s"
| "start_tasks cl overrides (t # ts) s =
     start_tasks cl overrides ts
       (if tk_Fn t = None then s
        else
          let s = s\<lparr>sd_taskDefs := put (tk_Name t) t (sd_taskDefs s)\<rparr>
          in case start_schedule t (map_of overrides (tk_Name t)) of
               None \<Rightarrow> s
             | Some schedule \<Rightarrow> snd (addTaskToCron cl t schedule s))"

definition StartWith ::
    "cron_lib \<Rightarrow> task list \<Rightarrow> (string \<times> task_override) list \<Rightarrow> bool \<Rightarrow> scheduler \<Rightarrow> scheduler io" where
  "StartWith cl tasks overrides history s =
     andthen (if history then attempt (CleanOldHistory (7 * 24 * 3600 * second)) else ret (Inr ())) (\<lambda>_.
     ret (start_tasks cl overrides tasks (s\<lparr>sd_defaults := tasks, sd_history := history\<rparr>)))"

text \<open>\<^verbatim>\<open>startScheduler\<close> of \<^verbatim>\<open>cmd/popugate/server.go\<close>: the error of reading is dropped.\<close>

definition startScheduler :: "cron_lib \<Rightarrow> task list \<Rightarrow> scheduler \<Rightarrow> scheduler io" where
  "startScheduler cl tasks s =
     andthen (attempt GetOverrides) (\<lambda>r.
     StartWith cl tasks
       (fold (\<lambda>x m. put (ov_TaskName x) x m) (case r of Inl _ \<Rightarrow> [] | Inr rs \<Rightarrow> rs) []) True s)"

record task_status =
  ks_Name :: string
  ks_DefaultSchedule :: string
  ks_EffectiveSchedule :: string
  ks_Enabled :: bool
  ks_DefaultDisabled :: bool
  ks_IsOverridden :: bool
  ks_Timeout :: int
  ks_LastRun :: "execution option"

definition task_status_of :: "scheduler \<Rightarrow> task \<Rightarrow> task_status" where
  "task_status_of s t =
     (let effective = (case map_of (sd_taskDefs s) (tk_Name t) of Some td \<Rightarrow> tk_Schedule td | None \<Rightarrow> tk_Schedule t) in
      \<lparr>ks_Name = tk_Name t, ks_DefaultSchedule = tk_Schedule t, ks_EffectiveSchedule = effective,
       ks_Enabled = (map_of (sd_entries s) (tk_Name t) \<noteq> None), ks_DefaultDisabled = tk_Disabled t,
       ks_IsOverridden = (effective \<noteq> tk_Schedule t \<and> effective \<noteq> []),
       ks_Timeout = (if 0 < tk_Timeout t then tk_Timeout t else defaultTaskTimeout), ks_LastRun = None\<rparr>)"

definition GetTaskStatuses :: "scheduler \<Rightarrow> task_status list" where
  "GetTaskStatuses s = map (task_status_of s) (sd_defaults s)"

subsection \<open>Running a task\<close>

text \<open>Running the function and writing its record, whose error is only logged.\<close>

definition run_task :: "bool \<Rightarrow> string \<Rightarrow> unit io \<Rightarrow> (execution \<times> error option) io" where
  "run_task history name fn =
     andthen clock (\<lambda>start.
     andthen (attempt fn) (\<lambda>r.
     andthen clock (\<lambda>now.
     let rec = \<lparr>ex_ID = 0, ex_TaskName = name, ex_StartedAt = unix start, ex_FinishedAt = unix now,
           ex_DurationMs = quot (now - start) 1000000,
           ex_Status = (case r of Inl _ \<Rightarrow> ''error'' | Inr _ \<Rightarrow> ''success''),
           ex_Error = (case r of Inl e \<Rightarrow> err_text e | Inr _ \<Rightarrow> []), ex_Output = []\<rparr>
     in andthen (if history then attempt (InsertHistory rec) else ret (Inr ())) (\<lambda>_.
        ret (rec, case r of Inl e \<Rightarrow> Some e | Inr _ \<Rightarrow> None)))))"

definition RunTaskNow :: "string \<Rightarrow> scheduler \<Rightarrow> (execution \<times> error option) io" where
  "RunTaskNow name s =
     (case map_of (sd_taskDefs s) name of
        None \<Rightarrow> throw (ErrMsg (''task '' @ name @ '' not found''))
      | Some t \<Rightarrow> (case tk_Fn t of None \<Rightarrow> throw (ErrMsg ''panic: nil function'') | Some fn \<Rightarrow> run_task (sd_history s) name fn))"

text \<open>What the library does when a job is due.\<close>

definition wrapTask :: "task \<Rightarrow> scheduler \<Rightarrow> unit io" where
  "wrapTask t s =
     (case tk_Fn t of
        None \<Rightarrow> ret ()
      | Some fn \<Rightarrow> andthen (run_task (sd_history s) (tk_Name t) fn) (\<lambda>_. ret ()))"

subsection \<open>The service\<close>

definition validateCronExpr :: "cron_lib \<Rightarrow> string \<Rightarrow> error option" where
  "validateCronExpr cl expr =
     (if expr = [] then None
      else case cron_parse_error cl expr of None \<Rightarrow> None | Some m \<Rightarrow> Some (ErrWrap ''invalid cron expression'' (ErrMsg m)))"

definition applyTaskRuntime :: "cron_lib \<Rightarrow> string \<Rightarrow> task_override \<Rightarrow> scheduler \<Rightarrow> error option \<times> scheduler" where
  "applyTaskRuntime cl name ovr s =
     (case find (\<lambda>t. tk_Name t = name) (sd_defaults s) of
        None \<Rightarrow> (None, s)
      | Some dt \<Rightarrow>
          if \<not> ov_Enabled ovr then
            AddOrUpdateTask cl \<lparr>tk_Name = tk_Name dt, tk_Schedule = [], tk_Timeout = DefaultTimeoutFor (tk_Name dt),
              tk_Disabled = False, tk_Fn = tk_Fn dt\<rparr> (RemoveTask name s)
          else
            AddOrUpdateTask cl \<lparr>tk_Name = tk_Name dt,
              tk_Schedule = (if ov_CustomSchedule ovr \<noteq> [] then ov_CustomSchedule ovr else tk_Schedule dt),
              tk_Timeout = DefaultTimeoutFor (tk_Name dt), tk_Disabled = False, tk_Fn = tk_Fn dt\<rparr> s)"

text \<open>The override that a request asks for.\<close>

definition merged_override :: "string \<Rightarrow> task_override option \<Rightarrow> bool option \<Rightarrow> string option \<Rightarrow> task_override" where
  "merged_override name ovr enabled schedule =
     (let r = (case ovr of
            None \<Rightarrow> \<lparr>ov_TaskName = name, ov_Enabled = True, ov_CustomSchedule = [], ov_UpdatedAt = 0\<rparr>
          | Some r \<Rightarrow> r);
          r = (case enabled of None \<Rightarrow> r | Some b \<Rightarrow> r\<lparr>ov_Enabled := b\<rparr>)
      in case schedule of None \<Rightarrow> r | Some c \<Rightarrow> r\<lparr>ov_CustomSchedule := c\<rparr>)"

text \<open>The override is the default one, so its row is deleted.\<close>

definition is_default_override :: "string \<Rightarrow> task_override \<Rightarrow> bool" where
  "is_default_override name r \<longleftrightarrow>
     ov_Enabled r \<and> (ov_CustomSchedule r = [] \<or> ov_CustomSchedule r = DefaultScheduleFor name)"

definition UpdateTask ::
    "cron_lib \<Rightarrow> string \<Rightarrow> bool option \<Rightarrow> string option \<Rightarrow> scheduler \<Rightarrow> (error option \<times> scheduler) io" where
  "UpdateTask cl name enabled schedule s =
     (if name \<notin> set KnownTaskNames then ret (Some (ErrMsg (''unknown task: '' @ name)), s)
      else case (case schedule of None \<Rightarrow> None | Some c \<Rightarrow> validateCronExpr cl c) of
        Some e \<Rightarrow> ret (Some e, s)
      | None \<Rightarrow>
          andthen (attempt (GetOverride name)) (\<lambda>r.
          case r of
            Inl e \<Rightarrow> ret (Some (ErrWrap ''get override'' e), s)
          | Inr found \<Rightarrow>
              (let ovr = merged_override name found enabled schedule in
               andthen (attempt (if is_default_override name ovr
                   then wrap (''delete override for '' @ name) (DeleteOverride name)
                   else wrap ''save override'' (UpsertOverride ovr))) (\<lambda>r.
               ret (case r of Inl e \<Rightarrow> (Some e, s) | Inr _ \<Rightarrow> applyTaskRuntime cl name ovr s)))))"

definition SchedulerService_RunTaskNow :: "string \<Rightarrow> scheduler \<Rightarrow> (execution \<times> error option) io" where
  "SchedulerService_RunTaskNow name s =
     (if name \<notin> set KnownTaskNames then throw (ErrMsg (''unknown task: '' @ name)) else RunTaskNow name s)"

definition list_task :: "task_status \<Rightarrow> task_status list \<Rightarrow> task_status list io" where
  "list_task k ks =
     andthen (wrap (''get latest history for '' @ ks_Name k) (GetLatestHistory (ks_Name k))) (\<lambda>latest.
     andthen (wrap (''get override for '' @ ks_Name k) (GetOverride (ks_Name k))) (\<lambda>ovr.
     let k = (case latest of None \<Rightarrow> k | Some r \<Rightarrow> k\<lparr>ks_LastRun := Some r\<rparr>)
     in ret (ks @ [case ovr of None \<Rightarrow> k | Some _ \<Rightarrow> k\<lparr>ks_IsOverridden := True\<rparr>])))"

definition ListTasks :: "scheduler \<Rightarrow> task_status list io" where
  "ListTasks s = each list_task (GetTaskStatuses s) []"

end
