(* ===== verification/Scheduler_Properties.thy ===== *)
theory Scheduler_Properties
  imports Scheduler Upstream_Service_Laws
begin

text \<open>
  The scheduler's tables agree, each task has at most one job, and a restart of the panel brings
  back the jobs that run now; but for the tasks that are off by default, whose switching on is not
  stored.
\<close>

subsection \<open>The jobs of a task\<close>

definition job_name :: "nat \<times> string \<times> task \<Rightarrow> string" where
  "job_name j = tk_Name (snd (snd j))"

text \<open>The schedules under which the library runs the task with this name.\<close>

definition jobs :: "scheduler \<Rightarrow> string \<Rightarrow> string list" where
  "jobs s name = map (\<lambda>j. fst (snd j)) (filter (\<lambda>j. job_name j = name) (sd_cron s))"

text \<open>The entries are the ids of the jobs; ids and names are unique.\<close>

definition sched_ok :: "scheduler \<Rightarrow> bool" where
  "sched_ok s \<longleftrightarrow>
     distinct (map fst (sd_cron s)) \<and> distinct (map job_name (sd_cron s)) \<and>
     (\<forall>j \<in> set (sd_cron s). fst j < sd_next s) \<and>
     distinct (map fst (sd_entries s)) \<and> set (sd_entries s) = (\<lambda>j. (job_name j, fst j)) ` set (sd_cron s)"

lemma sched_ok_New: "sched_ok Scheduler_New"
  and jobs_New: "jobs Scheduler_New n = []"
  by (simp_all add: sched_ok_def Scheduler_New_def jobs_def)

lemma taskDefs_irrelevant [simp]:
  "sched_ok (s\<lparr>sd_taskDefs := x\<rparr>) = sched_ok s" "jobs (s\<lparr>sd_taskDefs := x\<rparr>) n = jobs s n"
  "jobs (s\<lparr>sd_defaults := y\<rparr>) n = jobs s n" "jobs (s\<lparr>sd_history := z\<rparr>) n = jobs s n"
  "sched_ok (s\<lparr>sd_defaults := y\<rparr>) = sched_ok s" "sched_ok (s\<lparr>sd_history := z\<rparr>) = sched_ok s"
  by (simp_all add: sched_ok_def jobs_def)

lemma entry_iff:
  assumes "sched_ok s"
  shows "map_of (sd_entries s) n = Some i \<longleftrightarrow> (\<exists>j \<in> set (sd_cron s). job_name j = n \<and> fst j = i)"
proof -
  have "map_of (sd_entries s) n = Some i \<longleftrightarrow> (n, i) \<in> set (sd_entries s)"
    using assms by (intro map_of_eq_Some_iff) (simp add: sched_ok_def)
  then show ?thesis using assms by (auto simp: sched_ok_def)
qed

lemma no_entry_iff:
  assumes "sched_ok s"
  shows "map_of (sd_entries s) n = None \<longleftrightarrow> jobs s n = []"
proof -
  have "map_of (sd_entries s) n = None \<longleftrightarrow> (\<forall>j \<in> set (sd_cron s). job_name j \<noteq> n)"
    using assms by (auto simp: sched_ok_def map_of_eq_None_iff image_iff)
  then show ?thesis by (auto simp: jobs_def filter_empty_conv)
qed

text \<open>What the operations do to the jobs.\<close>

lemma RemoveTask_ok:
  assumes "sched_ok s"
  shows "sched_ok (RemoveTask n s)" "jobs (RemoveTask n s) m = (if m = n then [] else jobs s m)"
proof -
  have "sched_ok (RemoveTask n s) \<and> jobs (RemoveTask n s) m = (if m = n then [] else jobs s m)"
  proof (cases "map_of (sd_entries s) n")
    case None
    then show ?thesis using assms no_entry_iff [OF assms, of n] by (auto simp: RemoveTask_def)
  next
    case (Some i)
    then obtain j where j: "j \<in> set (sd_cron s)" "job_name j = n" "fst j = i"
      using entry_iff [OF assms] by blast
    have same: "fst k = i \<longleftrightarrow> job_name k = n" if "k \<in> set (sd_cron s)" for k
    proof -
      have "inj_on fst (set (sd_cron s))" "inj_on job_name (set (sd_cron s))"
        using assms by (simp_all add: sched_ok_def distinct_map)
      then show ?thesis using j that by (auto dest: inj_onD)
    qed
    have "sched_ok (RemoveTask n s)"
      using assms same j Some
      by (auto simp: RemoveTask_def sched_ok_def distinct_map_delete_where)
    moreover have "filter (\<lambda>k. job_name k = m) (delete_where (\<lambda>k. fst k = i) (sd_cron s)) =
        (if m = n then [] else filter (\<lambda>k. job_name k = m) (sd_cron s))"
      using same by (auto simp: delete_where_def filter_empty_conv intro!: filter_cong)
    ultimately show ?thesis using Some by (auto simp: RemoveTask_def jobs_def)
  qed
  then show "sched_ok (RemoveTask n s)" "jobs (RemoveTask n s) m = (if m = n then [] else jobs s m)"
    by simp_all
qed

lemma addTaskToCron_ok:
  assumes "sched_ok s" "jobs s (tk_Name t) = []"
  shows "sched_ok (snd (addTaskToCron cl t c s))"
    "jobs (snd (addTaskToCron cl t c s)) n =
       (if n = tk_Name t \<and> cron_add_error cl c = None then [c] else jobs s n)"
proof -
  have none: "map_of (sd_entries s) (tk_Name t) = None" using assms no_entry_iff by blast
  have names: "tk_Name t \<notin> job_name ` set (sd_cron s)" "tk_Name t \<notin> fst ` set (sd_entries s)"
    using assms none by (auto simp: jobs_def filter_empty_conv map_of_eq_None_iff)
  have ids: "sd_next s \<notin> fst ` set (sd_cron s)" using assms(1) by (auto simp: sched_ok_def)
  show "sched_ok (snd (addTaskToCron cl t c s))"
  proof (cases "cron_add_error cl c")
    case None
    have "set (put (tk_Name t) (sd_next s) (sd_entries s)) = insert (tk_Name t, sd_next s) (set (sd_entries s))"
      using names by (force simp: put_def)
    then show ?thesis
      using None assms(1) names ids
      by (auto simp: sched_ok_def addTaskToCron_def job_name_def distinct_put less_Suc_eq)
  qed (use assms in \<open>simp add: addTaskToCron_def\<close>)
  show "jobs (snd (addTaskToCron cl t c s)) n =
       (if n = tk_Name t \<and> cron_add_error cl c = None then [c] else jobs s n)"
    using assms(2) by (auto simp: addTaskToCron_def jobs_def job_name_def split: option.split)
qed

lemma AddOrUpdateTask_ok:
  assumes "sched_ok s"
  shows "sched_ok (snd (AddOrUpdateTask cl t s))"
    "tk_Fn t \<noteq> None \<Longrightarrow> jobs (snd (AddOrUpdateTask cl t s)) n =
       (if n \<noteq> tk_Name t then jobs s n
        else if tk_Schedule t \<noteq> [] \<and> cron_add_error cl (tk_Schedule t) = None then [tk_Schedule t] else [])"
proof -
  let ?s = "RemoveTask (tk_Name t) (s\<lparr>sd_taskDefs := put (tk_Name t) t (sd_taskDefs s)\<rparr>)"
  have ok: "sched_ok ?s" "jobs ?s m = (if m = tk_Name t then [] else jobs s m)" for m
    using assms RemoveTask_ok [of "s\<lparr>sd_taskDefs := put (tk_Name t) t (sd_taskDefs s)\<rparr>" "tk_Name t"] by simp_all
  note add = addTaskToCron_ok [OF ok(1), of t cl "tk_Schedule t"]
  show "sched_ok (snd (AddOrUpdateTask cl t s))"
    using assms ok add by (simp add: AddOrUpdateTask_def Let_def)
  assume "tk_Fn t \<noteq> None"
  then show "jobs (snd (AddOrUpdateTask cl t s)) n =
       (if n \<noteq> tk_Name t then jobs s n
        else if tk_Schedule t \<noteq> [] \<and> cron_add_error cl (tk_Schedule t) = None then [tk_Schedule t] else [])"
    using ok add by (auto simp: AddOrUpdateTask_def Let_def)
qed

text \<open>The jobs that a start gives a task.\<close>

definition planned :: "cron_lib \<Rightarrow> task_override option \<Rightarrow> task \<Rightarrow> string list" where
  "planned cl r t =
     (case (if tk_Fn t = None then None else start_schedule t r) of
        None \<Rightarrow> [] | Some c \<Rightarrow> if cron_add_error cl c = None then [c] else [])"

lemma start_tasks_ok:
  assumes "sched_ok s" "distinct (map tk_Name ts)" "\<forall>t \<in> set ts. jobs s (tk_Name t) = []"
  shows "sched_ok (start_tasks cl os ts s) \<and>
    (\<forall>t \<in> set ts. jobs (start_tasks cl os ts s) (tk_Name t) = planned cl (map_of os (tk_Name t)) t) \<and>
    (\<forall>n. n \<notin> tk_Name ` set ts \<longrightarrow> jobs (start_tasks cl os ts s) n = jobs s n)"
  using assms
proof (induction ts arbitrary: s)
  case (Cons t ts)
  let ?s = "if tk_Fn t = None then s
        else let s = s\<lparr>sd_taskDefs := put (tk_Name t) t (sd_taskDefs s)\<rparr>
          in case start_schedule t (map_of os (tk_Name t)) of
               None \<Rightarrow> s | Some schedule \<Rightarrow> snd (addTaskToCron cl t schedule s)"
  have add: "sched_ok (snd (addTaskToCron cl t c (s\<lparr>sd_taskDefs := x\<rparr>)))"
    "jobs (snd (addTaskToCron cl t c (s\<lparr>sd_taskDefs := x\<rparr>))) n =
       (if n = tk_Name t \<and> cron_add_error cl c = None then [c] else jobs s n)" for c x n
    using addTaskToCron_ok [of "s\<lparr>sd_taskDefs := x\<rparr>" t cl c] Cons.prems by simp_all
  have ok: "sched_ok ?s" using Cons.prems add by (simp add: Let_def split: option.split)
  have here: "jobs ?s (tk_Name t) = planned cl (map_of os (tk_Name t)) t"
    using Cons.prems add by (simp add: Let_def planned_def split: option.split)
  have else': "jobs ?s n = jobs s n" if "n \<noteq> tk_Name t" for n
    using that add by (simp add: Let_def split: option.split)
  have "\<forall>u \<in> set ts. jobs ?s (tk_Name u) = []"
  proof
    fix u assume u: "u \<in> set ts"
    then have "tk_Name u \<noteq> tk_Name t" using Cons.prems(2) by (auto simp: image_iff)
    with u Cons.prems(3) else' show "jobs ?s (tk_Name u) = []" by simp
  qed
  then have IH: "sched_ok (start_tasks cl os ts ?s) \<and>
    (\<forall>t \<in> set ts. jobs (start_tasks cl os ts ?s) (tk_Name t) = planned cl (map_of os (tk_Name t)) t) \<and>
    (\<forall>n. n \<notin> tk_Name ` set ts \<longrightarrow> jobs (start_tasks cl os ts ?s) n = jobs ?s n)"
    using Cons.IH [OF ok] Cons.prems by simp
  have run: "start_tasks cl os (t # ts) s = start_tasks cl os ts ?s" by (rule start_tasks.simps)
  have new: "tk_Name t \<notin> tk_Name ` set ts" using Cons.prems by simp
  show ?case unfolding run
  proof (intro conjI ballI allI impI)
    fix u assume "u \<in> set (t # ts)"
    then show "jobs (start_tasks cl os ts ?s) (tk_Name u) = planned cl (map_of os (tk_Name u)) u"
      using IH here new by (metis set_ConsD)
  next
    fix n assume "n \<notin> tk_Name ` set (t # ts)"
    then show "jobs (start_tasks cl os ts ?s) n = jobs s n" using IH else' by simp
  qed (rule conjunct1 [OF IH])
qed simp


subsection \<open>Starting\<close>

lemma overrides_map:
  assumes "distinct (map ov_TaskName rs)"
  shows "map_of (fold (\<lambda>x m. put (ov_TaskName x) x m) rs m) n =
    (case find (\<lambda>r. ov_TaskName r = n) rs of None \<Rightarrow> map_of m n | Some r \<Rightarrow> Some r)"
  using assms
proof (induction rs arbitrary: m)
  case (Cons x rs)
  have "find (\<lambda>r. ov_TaskName r = n) rs = None" if "ov_TaskName x = n"
    using Cons.prems that by (auto simp: find_None_iff image_iff)
  then show ?case using Cons by (auto split: option.splits)
qed simp

text \<open>The jobs that a start gives, when it could read the overrides.\<close>

lemma startScheduler_jobs:
  assumes "GetOverrides w = (Inr rs, w1)" "distinct (map ov_TaskName (t_task_overrides (w_db w)))"
    and "startScheduler cl tasks Scheduler_New w = (Inr s, w')" "distinct (map tk_Name tasks)"
  shows "sched_ok s" "sd_defaults s = tasks" "t \<in> set tasks \<Longrightarrow> jobs s (tk_Name t) = planned cl (find_override (w_db w) (tk_Name t)) t"
    "n \<notin> tk_Name ` set tasks \<Longrightarrow> jobs s n = []" "t_task_overrides (w_db w') = t_task_overrides (w_db w)"
proof -
  have rs: "rs = t_task_overrides (w_db w)" and d1: "w_db w1 = w_db w"
    using assms(1) sql_rows_value readsD [OF sql_rows_reads] unfolding GetOverrides_def by (fastforce, blast)
  let ?os = "fold (\<lambda>x m. put (ov_TaskName x) x m) rs []"
  let ?s = "Scheduler_New\<lparr>sd_defaults := tasks, sd_history := True\<rparr>"
  have "StartWith cl tasks ?os True Scheduler_New w1 = (Inr s, w')"
    using assms(1,3) by (simp add: startScheduler_def andthen_def attempt_def)
  then obtain r w2 where clean: "attempt (CleanOldHistory (7 * 24 * 3600 * second)) w1 = (r, w2)"
    and s: "s = start_tasks cl ?os tasks ?s" "w' = w2"
    by (auto simp: StartWith_def elim!: andthen_InrE)
  have "sched_ok ?s" "\<forall>t \<in> set tasks. jobs ?s (tk_Name t) = []" using sched_ok_New jobs_New by simp_all
  note ok = start_tasks_ok [OF this(1) assms(4) this(2), of cl ?os, folded s(1)]
  have found: "map_of ?os n = find_override (w_db w) n" for n
    using overrides_map [of rs "[]" n] assms(2) by (simp add: rs find_override_def split: option.split)
  show "sched_ok s" using ok by blast
  show "t \<in> set tasks \<Longrightarrow> jobs s (tk_Name t) = planned cl (find_override (w_db w) (tk_Name t)) t"
    using ok found by metis
  show "n \<notin> tk_Name ` set tasks \<Longrightarrow> jobs s n = []" using ok jobs_New by simp
  have "keeps (\<lambda>d. t_task_overrides d = t_task_overrides (w_db w)) (attempt (CleanOldHistory (7 * 24 * 3600 * second)))"
    unfolding CleanOldHistory_def by (intro keeps_intros keeps_sql_exec) (auto simp: Let_def)
  from keepsD' [OF this clean] d1 s(2)
  show "t_task_overrides (w_db w') = t_task_overrides (w_db w)" by simp
  have "sd_defaults (start_tasks cl os ts s) = sd_defaults s" for os ts s
    by (induction ts arbitrary: s) (auto simp: Let_def addTaskToCron_def split: option.split)
  with s(1) show "sd_defaults s = tasks" by simp
qed

subsection \<open>Updating\<close>

text \<open>
  An update either changes nothing, or stores what it merged and applies it; with an error, if
  the library cannot read the schedule.
\<close>

lemma UpdateTask_cases:
  assumes "UpdateTask cl name enabled schedule s w = (Inr (e, s'), w')"
  obtains (none) "s' = s" "t_task_overrides (w_db w') = t_task_overrides (w_db w)" "e \<noteq> None"
  | (stored) r now where "name \<in> set KnownTaskNames"
      "r = merged_override name (find_override (w_db w) name) enabled schedule"
      "(e, s') = applyTaskRuntime cl name r s"
      "t_task_overrides (w_db w') =
         (if is_default_override name r then delete_where (\<lambda>r. ov_TaskName r = name) (t_task_overrides (w_db w))
          else put_override (r\<lparr>ov_UpdatedAt := now\<rparr>) (t_task_overrides (w_db w)))"
proof (cases "name \<notin> set KnownTaskNames \<or> (case schedule of None \<Rightarrow> None | Some c \<Rightarrow> validateCronExpr cl c) \<noteq> None")
  case True
  with assms show thesis by (intro none) (auto simp: UpdateTask_def split: option.splits if_splits dest: sym)
next
  case False
  obtain r0 w1 where r0: "GetOverride name w = (r0, w1)" by (rule prod.exhaust)
  have d1: "w_db w1 = w_db w" using r0 readsD [of "GetOverride name"] by (simp add: GetOverride_def)
  show thesis
  proof (cases r0)
    case (Inl x)
    with assms False r0 d1 show thesis
      by (intro none) (auto simp: UpdateTask_def andthen_def attempt_def)
  next
    case (Inr found)
    have f: "found = find_override (w_db w) name"
      using r0 Inr by (auto simp: GetOverride_def sql_row_def split: prod.splits option.splits dest!: pop_fault_same)
    define r where "r = merged_override name found enabled schedule"
    let ?m = "if is_default_override name r then wrap (''delete override for '' @ name) (DeleteOverride name)
      else wrap ''save override'' (UpsertOverride r)"
    obtain x w2 where m: "?m w1 = (x, w2)" by (rule prod.exhaust)
    have run: "(e, s') = (case x of Inl e \<Rightarrow> (Some e, s) | Inr _ \<Rightarrow> applyTaskRuntime cl name r s)" "w' = w2"
      using assms False r0 Inr m [unfolded r_def]
      by (auto simp: UpdateTask_def andthen_def attempt_def Let_def r_def split: sum.split)
    show thesis
    proof (cases x)
      case (Inl y)
      have "atomic (wrap p (DeleteOverride n))" for p n
        using sql_exec_atomic by (auto simp: DeleteOverride_def atomic_def wrap_def split: prod.splits sum.splits)
      moreover have "atomic (wrap p (UpsertOverride n))" for p n
        using sql_exec_atomic by (auto simp: UpsertOverride_def andthen_def atomic_def wrap_def split: prod.splits sum.splits)
      ultimately have "w_db w2 = w_db w1" using m Inl by (auto simp: atomic_def split: if_splits)
      with run Inl d1 show thesis by (intro none) auto
    next
      case (Inr u)
      have "t_task_overrides (w_db w2) =
         (if is_default_override name r then delete_where (\<lambda>r. ov_TaskName r = name) (t_task_overrides (w_db w1))
          else put_override (r\<lparr>ov_UpdatedAt := unix (w_now w1)\<rparr>) (t_task_overrides (w_db w1)))"
        using m Inr
        by (auto simp: DeleteOverride_def UpsertOverride_def wrap_Inr andthen_def sql_exec_def Let_def
            split: if_splits prod.splits option.splits dest!: pop_fault_same)
      with False run Inr d1 f show thesis by (intro stored [of r "unix (w_now w1)"]) (auto simp: r_def)
    qed
  qed
qed


lemma applyTaskRuntime_jobs:
  assumes "sched_ok s" "distinct (map tk_Name (sd_defaults s))" "(e, s') = applyTaskRuntime cl name r s"
  shows "sched_ok s'" "sd_defaults s' = sd_defaults s" "n \<noteq> name \<Longrightarrow> jobs s' n = jobs s n"
    "t \<in> set (sd_defaults s) \<Longrightarrow> tk_Name t = name \<Longrightarrow> tk_Fn t \<noteq> None \<Longrightarrow>
     jobs s' name =
       (let c = (if ov_CustomSchedule r \<noteq> [] then ov_CustomSchedule r else tk_Schedule t)
        in if ov_Enabled r \<and> c \<noteq> [] \<and> cron_add_error cl c = None then [c] else [])"
    "t \<in> set (sd_defaults s) \<Longrightarrow> tk_Name t = name \<Longrightarrow> tk_Fn t = None \<Longrightarrow> jobs s name = [] \<Longrightarrow> jobs s' name = []"
proof -
  have one: "find (\<lambda>t. tk_Name t = name) (sd_defaults s) = Some t"
    if "t \<in> set (sd_defaults s)" "tk_Name t = name" for t
    using assms(2) that by (rule find_key_unique)
  have defs: "sd_defaults (RemoveTask n s) = sd_defaults s" "sd_defaults (snd (AddOrUpdateTask cl t s)) = sd_defaults s"
    for n t s
    by (auto simp: RemoveTask_def AddOrUpdateTask_def addTaskToCron_def Let_def split: option.split)
  note rules = RemoveTask_ok [OF assms(1), of name] AddOrUpdateTask_ok [OF assms(1)]
    AddOrUpdateTask_ok [OF RemoveTask_ok(1) [OF assms(1)]]
  have s': "s' = snd (applyTaskRuntime cl name r s)" using assms(3) by (metis snd_conv)
  have fn: "tk_Fn t = None \<Longrightarrow> snd (AddOrUpdateTask cl t s) = s" for t s by (simp add: AddOrUpdateTask_def)
  show "sched_ok s'" "sd_defaults s' = sd_defaults s"
    using assms(1) rules unfolding s' by (simp_all add: applyTaskRuntime_def defs split: option.split)
  show "jobs s' n = jobs s n" if n: "n \<noteq> name"
  proof (cases "find (\<lambda>t. tk_Name t = name) (sd_defaults s)")
    case (Some t)
    have "tk_Name t = name" using find_SomeD [OF Some] by simp
    with n Some rules fn show ?thesis unfolding s'
      by (cases "tk_Fn t = None") (simp_all add: applyTaskRuntime_def)
  qed (simp add: s' applyTaskRuntime_def)
  show "jobs s' name =
       (let c = (if ov_CustomSchedule r \<noteq> [] then ov_CustomSchedule r else tk_Schedule t)
        in if ov_Enabled r \<and> c \<noteq> [] \<and> cron_add_error cl c = None then [c] else [])"
    if "t \<in> set (sd_defaults s)" "tk_Name t = name" "tk_Fn t \<noteq> None"
    using one [OF that(1,2)] that rules unfolding s' by (simp add: applyTaskRuntime_def Let_def)
  show "jobs s' name = []"
    if "t \<in> set (sd_defaults s)" "tk_Name t = name" "tk_Fn t = None" "jobs s name = []"
    using one [OF that(1,2)] that rules fn unfolding s' by (simp add: applyTaskRuntime_def)
qed

text \<open>What the store holds of an override that was put.\<close>

lemma find_put_override:
  "find (\<lambda>x. ov_TaskName x = n) (put_override r rs) =
     (if n = ov_TaskName r then Some r else find (\<lambda>x. ov_TaskName x = n) rs)"
proof (cases "list_ex (\<lambda>x. ov_TaskName x = ov_TaskName r) rs")
  case True
  have "list_ex (\<lambda>x. ov_TaskName x = ov_TaskName r) rs \<Longrightarrow>
    find (\<lambda>x. ov_TaskName x = n) (update_where (\<lambda>x. ov_TaskName x = ov_TaskName r) (\<lambda>_. r) rs) =
     (if n = ov_TaskName r then Some r else find (\<lambda>x. ov_TaskName x = n) rs)" for rs
    by (induction rs) (auto simp: find_update_where_other)
  with True show ?thesis by (simp add: put_override_def)
next
  case False
  then have "\<forall>x \<in> set rs. ov_TaskName x \<noteq> ov_TaskName r" by (simp add: list_ex_iff)
  moreover have "find p (rs @ [r]) = (case find p rs of None \<Rightarrow> if p r then Some r else None | Some y \<Rightarrow> Some y)" for p
    by (induction rs) auto
  ultimately show ?thesis using False
    by (cases "find (\<lambda>x. ov_TaskName x = n) rs") (auto simp: put_override_def dest: find_SomeD)
qed

lemma distinct_put_override:
  "distinct (map ov_TaskName rs) \<Longrightarrow> distinct (map ov_TaskName (put_override r rs))"
  by (auto simp: put_override_def list_ex_iff map_update_where_same)

lemma find_delete_other:
  "n \<noteq> name \<Longrightarrow> find (\<lambda>x. ov_TaskName x = n) (delete_where (\<lambda>x. ov_TaskName x = name) rs) = find (\<lambda>x. ov_TaskName x = n) rs"
  "find (\<lambda>x. ov_TaskName x = name) (delete_where (\<lambda>x. ov_TaskName x = name) rs) = None"
  by (induction rs) auto

subsection \<open>The life of the panel\<close>

text \<open>
  The panel starts, with overrides it can read; requests change tasks, whatever fails; and other
  operations do what they do, but for the overrides.
\<close>

inductive sched_run :: "cron_lib \<Rightarrow> task list \<Rightarrow> scheduler \<Rightarrow> world \<Rightarrow> bool" for cl tasks where
  start: "GetOverrides w = (Inr rs, w1) \<Longrightarrow> distinct (map ov_TaskName (t_task_overrides (w_db w))) \<Longrightarrow>
    startScheduler cl tasks Scheduler_New w = (Inr s, w') \<Longrightarrow> sched_run cl tasks s w'"
| update: "sched_run cl tasks s w \<Longrightarrow> UpdateTask cl name enabled schedule s w = (Inr (e, s'), w') \<Longrightarrow>
    sched_run cl tasks s' w'"
| other: "sched_run cl tasks s w \<Longrightarrow> t_task_overrides (w_db w') = t_task_overrides (w_db w) \<Longrightarrow>
    sched_run cl tasks s w'"

text \<open>The tasks are those of \<^verbatim>\<open>DefaultTasks\<close>, some of them with a function.\<close>

definition standard_tasks :: "task list \<Rightarrow> bool" where
  "standard_tasks tasks \<longleftrightarrow>
     map (\<lambda>t. (tk_Name t, tk_Schedule t, tk_Disabled t)) tasks = map (\<lambda>t. (tk_Name t, tk_Schedule t, tk_Disabled t)) DefaultTasks"

lemma standard_names:
  assumes "standard_tasks tasks"
  shows "map tk_Name tasks = KnownTaskNames" "distinct (map tk_Name tasks)"
proof -
  have "map fst (map (\<lambda>t. (tk_Name t, tk_Schedule t, tk_Disabled t)) tasks) =
      map fst (map (\<lambda>t. (tk_Name t, tk_Schedule t, tk_Disabled t)) DefaultTasks)"
    using assms by (simp only: standard_tasks_def)
  then show n: "map tk_Name tasks = KnownTaskNames" by (simp add: KnownTaskNames_def comp_def)
  have "distinct KnownTaskNames" by code_simp
  with n show "distinct (map tk_Name tasks)" by simp
qed

lemma standard_schedule:
  assumes "standard_tasks tasks" "t \<in> set tasks"
  shows "tk_Schedule t = DefaultScheduleFor (tk_Name t)" "tk_Schedule t \<noteq> []"
proof -
  let ?f = "\<lambda>t. (tk_Name t, tk_Schedule t, tk_Disabled t)"
  have "?f t \<in> set (map ?f tasks)" using assms(2) by simp
  also have "map ?f tasks = map ?f DefaultTasks" using assms(1) by (simp add: standard_tasks_def)
  finally obtain u where u: "u \<in> set DefaultTasks" "?f u = ?f t" by auto
  have "list_all (\<lambda>u. tk_Schedule u = DefaultScheduleFor (tk_Name u) \<and> tk_Schedule u \<noteq> []) DefaultTasks" by code_simp
  with u show "tk_Schedule t = DefaultScheduleFor (tk_Name t)" "tk_Schedule t \<noteq> []"
    by (auto simp: list_all_iff)
qed

text \<open>A task runs as a start would have it, unless it is off by default and has no override.\<close>

definition as_stored :: "cron_lib \<Rightarrow> task list \<Rightarrow> scheduler \<Rightarrow> db \<Rightarrow> bool" where
  "as_stored cl tasks s d \<longleftrightarrow>
     (\<forall>t \<in> set tasks. tk_Fn t = None \<or> \<not> tk_Disabled t \<or> find_override d (tk_Name t) \<noteq> None \<longrightarrow>
        jobs s (tk_Name t) = planned cl (find_override d (tk_Name t)) t)"

definition sched_inv :: "cron_lib \<Rightarrow> task list \<Rightarrow> scheduler \<Rightarrow> db \<Rightarrow> bool" where
  "sched_inv cl tasks s d \<longleftrightarrow>
     sched_ok s \<and> sd_defaults s = tasks \<and> distinct (map ov_TaskName (t_task_overrides d)) \<and>
     as_stored cl tasks s d"

lemma UpdateTask_inv:
  assumes std: "standard_tasks tasks" and inv: "sched_inv cl tasks s (w_db w)"
    and run: "UpdateTask cl name enabled schedule s w = (Inr (e, s'), w')"
  shows "sched_inv cl tasks s' (w_db w')"
  using run
proof (cases rule: UpdateTask_cases)
  case none
  with inv show ?thesis by (simp add: sched_inv_def as_stored_def find_override_def)
next
  case (stored r now)
  have inv': "sched_ok s" "sd_defaults s = tasks" "distinct (map ov_TaskName (t_task_overrides (w_db w)))"
    "as_stored cl tasks s (w_db w)"
    using inv by (simp_all add: sched_inv_def)
  note names = standard_names [OF std]
  have dist: "distinct (map tk_Name (sd_defaults s))" using names inv'(2) by simp
  note app = applyTaskRuntime_jobs [OF inv'(1) dist stored(3), unfolded inv'(2)]
  have rn: "ov_TaskName r = name"
    using stored(2) by (auto simp: merged_override_def find_override_def Let_def split: option.split dest!: find_SomeD)
  let ?d = "w_db w'"
  have found: "find_override ?d n = (if n \<noteq> name then find_override (w_db w) n
      else if is_default_override name r then None else Some (r\<lparr>ov_UpdatedAt := now\<rparr>))" for n
    unfolding find_override_def stored(4) by (simp add: rn find_put_override find_delete_other)
  have "distinct (map ov_TaskName (t_task_overrides ?d))"
    using inv'(3) unfolding stored(4) by (simp add: distinct_put_override distinct_map_delete_where)
  moreover have "as_stored cl tasks s' ?d"
    unfolding as_stored_def
  proof (intro ballI impI)
    fix t assume t: "t \<in> set tasks" and c: "tk_Fn t = None \<or> \<not> tk_Disabled t \<or> find_override ?d (tk_Name t) \<noteq> None"
    note sch = standard_schedule [OF std t]
    show "jobs s' (tk_Name t) = planned cl (find_override ?d (tk_Name t)) t"
    proof (cases "tk_Name t = name")
      case False
      with t c inv'(4) found app(3) show ?thesis by (simp add: as_stored_def)
    next
      case True
      show ?thesis
      proof (cases "tk_Fn t = None")
        case fn: True
        then have "jobs s name = []" using inv'(4) t True by (auto simp: as_stored_def planned_def)
        with app(5) t True fn show ?thesis by (simp add: planned_def)
      next
        case False
        with app(4) t True found c sch show ?thesis
          by (auto simp: planned_def start_schedule_def is_default_override_def Let_def)
      qed
    qed
  qed
  ultimately show ?thesis using app(1,2) inv' by (simp add: sched_inv_def)
qed

lemma sched_run_inv:
  assumes "sched_run cl tasks s w" "standard_tasks tasks"
  shows "sched_inv cl tasks s (w_db w)"
  using assms
proof (induction rule: sched_run.induct)
  case (start w rs w1 s w')
  note j = startScheduler_jobs [OF start(1-3) standard_names(2) [OF start(4)]]
  then show ?case using start(2) by (auto simp: sched_inv_def as_stored_def find_override_def)
next
  case (update s w name enabled schedule e s' w')
  then show ?case using UpdateTask_inv by blast
next
  case (other s w w')
  then show ?case by (simp add: sched_inv_def as_stored_def find_override_def)
qed


subsection \<open>The properties\<close>

lemma jobs_at_most_one: "sched_ok s \<Longrightarrow> length (jobs s n) \<le> 1"
  using count_where_key_le_1 [of job_name "sd_cron s" n] by (simp add: sched_ok_def jobs_def count_where_def)

text \<open>
  C34: in every state that starts, updates of tasks (whatever fails, whatever the library can read)
  and other operations lead to, the scheduler's entries are exactly the ids of the library's jobs,
  with unique ids and names: no task has two jobs, and no job is lost to \<^verbatim>\<open>RemoveTask\<close>.
\<close>

theorem each_task_has_one_job:
  assumes "sched_run cl tasks s w" "standard_tasks tasks"
  shows "sched_ok s \<and> length (jobs s name) \<le> 1"
  using sched_run_inv [OF assms] jobs_at_most_one by (simp add: sched_inv_def)

text \<open>
  C33: a panel that is started anew on the tables of a running one gives each task the job it has
  there, after any updates, failed ones included; save a task that is off by default and has no
  override.
\<close>

theorem restart_keeps_the_jobs:
  assumes "sched_run cl tasks s w" "standard_tasks tasks"
    and "GetOverrides w = (Inr rs, w1)" "startScheduler cl tasks Scheduler_New w = (Inr s', w')"
    and "t \<in> set tasks" "\<not> tk_Disabled t \<or> find_override (w_db w) (tk_Name t) \<noteq> None"
  shows "jobs s' (tk_Name t) = jobs s (tk_Name t)"
proof -
  have inv: "sched_inv cl tasks s (w_db w)" by (rule sched_run_inv [OF assms(1,2)])
  then have "jobs s (tk_Name t) = planned cl (find_override (w_db w) (tk_Name t)) t"
    using assms(5,6) by (simp add: sched_inv_def as_stored_def)
  moreover have "distinct (map ov_TaskName (t_task_overrides (w_db w)))" using inv by (simp add: sched_inv_def)
  then have "jobs s' (tk_Name t) = planned cl (find_override (w_db w) (tk_Name t)) t"
    using startScheduler_jobs(3) [OF assms(3) _ assms(4) standard_names(2) [OF assms(2)] assms(5)] by blast
  ultimately show ?thesis by simp
qed

lemma startScheduler_ok:
  assumes "w_faults w = []"
  obtains s w' where "startScheduler cl tasks s0 w = (Inr s, w')"
proof -
  have "GetOverrides w = (Inr (t_task_overrides (w_db w)), w)" using assms by (simp add: GetOverrides_def sql_rows_ok)
  then have "startScheduler cl tasks s0 w = StartWith cl tasks
      (fold (\<lambda>x m. put (ov_TaskName x) x m) (t_task_overrides (w_db w)) []) True s0 w"
    by (simp add: startScheduler_def andthen_def attempt_def)
  then show thesis by (intro that) (simp add: StartWith_def andthen_def attempt_run)
qed

lemma UpdateTask_enable:
  assumes "w_faults w = []" "name \<in> set KnownTaskNames"
    and "\<forall>r. find_override (w_db w) name = Some r \<longrightarrow> ov_CustomSchedule r = []"
  obtains r where "UpdateTask cl name (Some True) None s w =
      (Inr (applyTaskRuntime cl name r s),
       w\<lparr>w_db := (w_db w)\<lparr>t_task_overrides := delete_where (\<lambda>r. ov_TaskName r = name) (t_task_overrides (w_db w))\<rparr>\<rparr>)"
    "ov_Enabled r" "ov_CustomSchedule r = []"
proof -
  let ?r = "merged_override name (find_override (w_db w) name) (Some True) None"
  have r: "ov_Enabled ?r" "ov_CustomSchedule ?r = []" "is_default_override name ?r"
    using assms(3) by (auto simp: merged_override_def is_default_override_def Let_def split: option.split)
  have "GetOverride name w = (Inr (find_override (w_db w) name), w)"
    using assms(1) by (simp add: GetOverride_def sql_row_ok)
  then have "UpdateTask cl name (Some True) None s w =
      (Inr (applyTaskRuntime cl name ?r s),
       w\<lparr>w_db := (w_db w)\<lparr>t_task_overrides := delete_where (\<lambda>r. ov_TaskName r = name) (t_task_overrides (w_db w))\<rparr>\<rparr>)"
    using assms(1,2) r(3)
    by (simp add: UpdateTask_def andthen_def attempt_def wrap_def DeleteOverride_def sql_exec_ok Let_def)
  with r show thesis by (intro that)
qed

text \<open>
  C35: when an administrator switches on a task that is off by default, like \<^verbatim>\<open>auto-update\<close>
  or \<^verbatim>\<open>auto-rotate\<close>, the task runs from then on, but no override is stored: after the next
  start of the panel it does not run.
\<close>

theorem switching_on_is_forgotten:
  assumes "sched_run cl tasks s w" "standard_tasks tasks" "w_faults w = []"
    and "t \<in> set tasks" "tk_Disabled t" "tk_Fn t \<noteq> None" "cron_add_error cl (tk_Schedule t) = None"
    and "\<forall>r. find_override (w_db w) (tk_Name t) = Some r \<longrightarrow> ov_CustomSchedule r = []"
  shows "\<exists>s' w' s'' w''.
    UpdateTask cl (tk_Name t) (Some True) None s w = (Inr (None, s'), w') \<and>
    jobs s' (tk_Name t) = [tk_Schedule t] \<and>
    startScheduler cl tasks Scheduler_New w' = (Inr s'', w'') \<and> jobs s'' (tk_Name t) = []"
proof -
  note names = standard_names [OF assms(2)]
  have inv: "sched_ok s" "sd_defaults s = tasks" "distinct (map ov_TaskName (t_task_overrides (w_db w)))"
    using sched_run_inv [OF assms(1,2)] by (simp_all add: sched_inv_def)
  have known: "tk_Name t \<in> set KnownTaskNames" unfolding names(1) [symmetric] using assms(4) by simp
  let ?w = "w\<lparr>w_db := (w_db w)\<lparr>t_task_overrides := delete_where (\<lambda>r. ov_TaskName r = tk_Name t) (t_task_overrides (w_db w))\<rparr>\<rparr>"
  obtain r where up: "UpdateTask cl (tk_Name t) (Some True) None s w = (Inr (applyTaskRuntime cl (tk_Name t) r s), ?w)"
    and r: "ov_Enabled r" "ov_CustomSchedule r = []"
    by (rule UpdateTask_enable [OF assms(3) known assms(8)])
  obtain e s' where e: "applyTaskRuntime cl (tk_Name t) r s = (e, s')" by (rule prod.exhaust)
  have "find (\<lambda>u. tk_Name u = tk_Name t) tasks = Some t" by (rule find_key_unique [OF names(2) assms(4)]) simp
  then have "applyTaskRuntime cl (tk_Name t) r s = AddOrUpdateTask cl
      \<lparr>tk_Name = tk_Name t, tk_Schedule = tk_Schedule t, tk_Timeout = DefaultTimeoutFor (tk_Name t),
        tk_Disabled = False, tk_Fn = tk_Fn t\<rparr> s"
    using r inv(2) by (simp add: applyTaskRuntime_def)
  then have "e = None"
    using e assms(6,7) standard_schedule(2) [OF assms(2,4)]
    by (simp add: AddOrUpdateTask_def addTaskToCron_def Let_def)
  moreover have "jobs s' (tk_Name t) = [tk_Schedule t]"
    using applyTaskRuntime_jobs(4) [OF inv(1) _ e [symmetric], of t] inv(2) names(2) assms(4,6,7) r
      standard_schedule(2) [OF assms(2,4)]
    by (simp add: Let_def)
  moreover obtain s'' w'' where st: "startScheduler cl tasks Scheduler_New ?w = (Inr s'', w'')"
    by (rule startScheduler_ok [of ?w]) (simp add: assms(3))
  have "GetOverrides ?w = (Inr (t_task_overrides (w_db ?w)), ?w)"
    using assms(3) by (simp add: GetOverrides_def sql_rows_ok)
  from startScheduler_jobs(3) [OF this _ st names(2) assms(4)]
  have "jobs s'' (tk_Name t) = []"
    using inv(3) assms(5)
    by (simp add: distinct_map_delete_where find_override_def find_delete_other planned_def start_schedule_def)
  ultimately show ?thesis using up e st by auto
qed

end
