(* ===== verification/Scheduler_Witnesses.thy ===== *)
theory Scheduler_Witnesses
  imports Scheduler_Properties Witnesses
begin

text \<open>The scheduler's properties at a panel with all its tasks and a library that reads every schedule.\<close>

definition sample_tasks :: "task list" where
  "sample_tasks = map (\<lambda>t. t\<lparr>tk_Fn := Some (ret ())\<rparr>) DefaultTasks"

definition sample_cron :: cron_lib where
  "sample_cron = \<lparr>cron_add_error = (\<lambda>_. None), cron_parse_error = (\<lambda>_. None)\<rparr>"

lemma sample_standard: "standard_tasks sample_tasks"
  by (simp add: standard_tasks_def sample_tasks_def comp_def)

lemma sample_task:
  "task_def ''auto-rotate'' ''0 0 4 * * *'' 0 True\<lparr>tk_Fn := Some (ret ())\<rparr> \<in> set sample_tasks"
  "task_def ''traffic-flush'' ''0 */1 * * * *'' 0 False\<lparr>tk_Fn := Some (ret ())\<rparr> \<in> set sample_tasks"
  by (simp_all add: sample_tasks_def DefaultTasks_def)

lemma sample_overrides: "GetOverrides sample_world = (Inr [], sample_world)" "t_task_overrides (w_db sample_world) = []"
  by (simp_all add: GetOverrides_def sql_rows_def pop_fault_def sample_world_def sample_db_def empty_db_def)

lemma sample_faults: "w_faults sample_world = []"
  by (simp add: sample_world_def)

definition sample_sched :: scheduler where
  "sample_sched = start_tasks sample_cron [] sample_tasks (Scheduler_New\<lparr>sd_defaults := sample_tasks, sd_history := True\<rparr>)"

lemma sample_start: "\<exists>w. startScheduler sample_cron sample_tasks Scheduler_New sample_world = (Inr sample_sched, w)"
  by (simp add: startScheduler_def StartWith_def andthen_def attempt_run sample_overrides sample_sched_def)

lemma sample_run: "sched_run sample_cron sample_tasks sample_sched sample_world"
proof -
  obtain w where st: "startScheduler sample_cron sample_tasks Scheduler_New sample_world = (Inr sample_sched, w)"
    using sample_start by blast
  have run: "sched_run sample_cron sample_tasks sample_sched w"
    by (rule sched_run.start [OF sample_overrides(1) _ st]) (simp add: sample_overrides)
  have "t_task_overrides (w_db w) = t_task_overrides (w_db sample_world)"
    by (rule startScheduler_jobs(5) [OF sample_overrides(1) _ st standard_names(2) [OF sample_standard]])
      (simp add: sample_overrides)
  then show ?thesis using run by (intro sched_run.other [OF run]) simp
qed

lemma each_task_has_one_job_witness:
  "sched_ok sample_sched \<and> length (jobs sample_sched ''auto-rotate'') \<le> 1"
  by (rule each_task_has_one_job [OF sample_run sample_standard])

lemma restart_keeps_the_jobs_witness:
  "\<exists>s w. startScheduler sample_cron sample_tasks Scheduler_New sample_world = (Inr s, w) \<and>
    jobs s ''traffic-flush'' = jobs sample_sched ''traffic-flush''"
proof -
  obtain w where st: "startScheduler sample_cron sample_tasks Scheduler_New sample_world = (Inr sample_sched, w)"
    using sample_start by blast
  from restart_keeps_the_jobs [OF sample_run sample_standard sample_overrides(1) st sample_task(2)] st
  show ?thesis by (simp add: task_def_def)
qed

lemma switching_on_is_forgotten_witness:
  "\<exists>s' w' s'' w''.
    UpdateTask sample_cron ''auto-rotate'' (Some True) None sample_sched sample_world = (Inr (None, s'), w') \<and>
    jobs s' ''auto-rotate'' = [''0 0 4 * * *''] \<and>
    startScheduler sample_cron sample_tasks Scheduler_New w' = (Inr s'', w'') \<and> jobs s'' ''auto-rotate'' = []"
  using switching_on_is_forgotten [OF sample_run sample_standard sample_faults sample_task(1)]
  by (simp add: task_def_def sample_cron_def find_override_def sample_overrides)

end
