(* ===== verification/Spec2Isabelle.thy ===== *)
theory Spec2Isabelle
  imports Witnesses Upstream_Witnesses Instance_Witnesses Auth_Witnesses Scheduler_Witnesses
begin

text \<open>
  \<^bold>\<open>PopuGate.\<close> A panel (Go) that manages Telegram proxy engines (telemt) in Docker containers on
  one host. Administrators keep a registry of \<^emph>\<open>secrets\<close> (the users of the proxy, with limits,
  expiry and tags), \<^emph>\<open>instances\<close> (an engine on a port of the host), \<^emph>\<open>upstreams\<close> (the
  ways out of an engine) and \<^emph>\<open>settings\<close>. The panel writes a configuration file for each
  instance, starts its container, redirects ports and blocks addresses with the packet filter, reads
  the engine's counters, enforces quotas and expiry, and checks upstreams. All of that goes through
  stores over one SQLite database; services use the stores, HTTP handlers and a scheduler use the
  services.

  \<^bold>\<open>How the code is translated.\<close> \<open>Database\<close>: a \<open>world\<close> is what an operation can see: the tables
  (\<open>db\<close>, one list of records per table of \<^verbatim>\<open>internal/database/migrations\<close>), the
  clock, the entropy, which of the coming statements fail (\<open>w_faults\<close>), the answers to HTTP
  requests, the host (\<open>Host\<close>: containers, packet filter, files), the drains that are pending, and a
  log of events. An operation of the code is a function \<open>'a io\<close> from a world to an error or a
  value and the next world; \<open>andthen\<close> is the early return on \<^verbatim>\<open>err != nil\<close>, \<open>attempt\<close> a
  call whose error is looked at or dropped, \<open>wrap\<close> is \<^verbatim>\<open>fmt.Errorf("...: %w", err)\<close>,
  \<open>transaction\<close> a transaction whose deferred rollback undoes what an error leaves. Since the faults
  are part of the world, a theorem about all worlds is about every schedule of failing statements.
  The daemon of Docker, the programs \<^verbatim>\<open>iptables\<close> and \<^verbatim>\<open>ipset\<close>, the file system's
  errors and the network are outside the repository; they are parameters (the record \<open>daemon\<close> and
  others), and \<open>docker_ok\<close>, \<open>netfilter_ok\<close> state the documented behaviour some theorems rely on.
  Goroutines that a function starts and awaits run one after the other; the goroutine that
  outlives a reload is an element of \<open>w_drains\<close> with two operations that end it. Mutexes only
  serialise operations and are not modelled.

  \<^bold>\<open>Go.\<close> \<open>Prelude\<close> (\<^verbatim>\<open>int64\<close>, rows of a table), \<open>Go_Strings\<close>, \<open>Go_Net\<close>, \<open>Go_Time\<close>,
  \<open>Go_Json\<close>, \<open>Go_Float\<close>, \<open>Go_Quote\<close>: what the code uses of the standard library. Strings are
  lists of bytes, \<^verbatim>\<open>int\<close> and \<^verbatim>\<open>int64\<close> are \<open>int\<close> with \<open>int64\<close> written where a
  computation can leave the range, instants are nanoseconds since the epoch, doubles are rounded
  rationals.

  \<^bold>\<open>Secrets.\<close> \<open>Secret_Model\<close>, \<open>Secret_Store\<close>, \<open>Secret_Service\<close>, \<open>Telemt_Secret\<close>,
  \<open>Engine_API\<close> translate \<^verbatim>\<open>internal/model/secret.go\<close>, \<^verbatim>\<open>internal/store/secret_store.go\<close>,
  \<^verbatim>\<open>internal/service/secret_service.go\<close>, \<^verbatim>\<open>pkg/telemt/secret.go\<close> and
  \<^verbatim>\<open>internal/service/engine_api.go\<close>. \<open>Secret_Store_Laws\<close> and
  \<open>Secret_Service_Laws\<close> show what each operation keeps (the registry is well formed, some secret
  stays enabled), that errors write nothing, and what a success returns; \<open>Panel_System\<close> puts the
  operations together as a step relation and shows the invariants of every reachable state.

  \<^bold>\<open>Traffic.\<close> \<open>Promutil\<close>, \<open>Traffic_Store\<close>, \<open>Traffic_Service\<close>:
  \<^verbatim>\<open>pkg/promutil/parser.go\<close>, \<^verbatim>\<open>internal/store/traffic_store.go\<close>,
  \<^verbatim>\<open>internal/store/alert_store.go\<close>, \<^verbatim>\<open>internal/service/traffic_service.go\<close>. The laws relate a
  run of flushes to the counters of the engines, with restarts, and the quota check to what it
  disables.

  \<^bold>\<open>Instances and settings.\<close> \<open>Instance_Model\<close>, \<open>Instance_Store\<close>, \<open>Settings_Model\<close>,
  \<open>Settings_Store\<close>, \<open>Config_Handler\<close>: \<^verbatim>\<open>internal/model/instance.go\<close>,
  \<^verbatim>\<open>internal/model/settings.go\<close>, their stores, and
  \<^verbatim>\<open>internal/api/handler/config_handler.go\<close>.

  \<^bold>\<open>Upstreams.\<close> \<open>Upstream_Model\<close>, \<open>Upstream_Store\<close>, \<open>Upstream_Names\<close>, \<open>Upstream_Service\<close>:
  \<^verbatim>\<open>internal/model/upstream.go\<close>, \<^verbatim>\<open>internal/store/upstream_store.go\<close>,
  \<^verbatim>\<open>internal/service/upstream_service.go\<close>. \<open>Upstream_System\<close> is the step relation of everything
  that changes an upstream or the Middle-Proxy mode, with the rule ADR-001 as its invariant.

  \<^bold>\<open>Configuration files.\<close> \<open>Telemt_Config\<close> and \<open>Container_Config\<close>: \<^verbatim>\<open>pkg/telemt/config.go\<close>
  and the parts of \<^verbatim>\<open>internal/service/container_service.go\<close> that write a file. \<open>Telemt_Toml\<close> is a
  reader of the subset of TOML that is written; \<open>Telemt_Toml_Laws\<close> and \<open>Telemt_Tables\<close> show that
  it reads back exactly the tables, whatever strings they hold, and \<open>Config_Properties\<close> what an
  engine gets to know of the database.

  \<^bold>\<open>Containers.\<close> \<open>Dockerutil\<close>, \<open>Netutil\<close>, \<open>Container_Service\<close>: \<^verbatim>\<open>pkg/dockerutil/client.go\<close>,
  \<^verbatim>\<open>pkg/netutil/iptables.go\<close>, \<^verbatim>\<open>internal/service/container_service.go\<close>. \<open>Container_Laws\<close> is a
  calculus of what an operation leaves alone (\<open>leaves\<close>); \<open>Container_Properties\<close> shows what a reload
  without downtime, a start and a stop achieve, and where they fall short.

  \<^bold>\<open>Witnesses.\<close> The theories whose names end in \<open>Witnesses\<close> apply the properties at concrete worlds; a sample daemon and
  packet filter that satisfy their hypotheses are in \<open>Container_Witnesses\<close>.

  \<^bold>\<open>Bounds.\<close> No definition uses fuel: every loop of the modelled code runs over a list or a range,
  and the ones that do not are defined with a termination proof.

  \<^bold>\<open>Not modelled.\<close> Log output, the texts of notifications, the encoding of HTTP requests and responses, and
  read-only reports that only collect values (status pages, QR images). The updates of the panel,
  of the engine and of Docker, replication over SSH, the probes of the operating system, the Telegram
  bot, the command line, the wiring of the server and the generated API documentation: they are
  downloads, process control, message texts and glue around libraries. \<^verbatim>\<open>docs/docs.go\<close> is
  generated.
\<close>

end
